(* ===== verification/Common.thy ===== *)
theory Common
  imports Prelude
begin

text \<open>
  The vocabulary of the workspace (\<^verbatim>\<open>linpodx-common\<close>): the error type and its wire codes, approval
  requests and outcomes, events, passthrough and distro descriptors, and the options of a container
  create request. Shown: the text codecs of the enums read back what they write.
\<close>

section \<open>Errors (error.rs, dispatch.rs)\<close>

text \<open>
  The last four variants wrap an error of a library; the argument is the text the library renders.
\<close>

datatype error =
  Runtime string
| PodmanNotFound string
| PodmanVersionMismatch string string
| Ipc string
| NotFound string
| InvalidArgument string
| PermissionDenied string
| Conflict string
| Timeout string
| Unsupported string
| Unavailable string
| Internal string
| Io string
| Json string
| Sqlx string
| Migrate string

fun error_display :: "error \<Rightarrow> string" where
  "error_display (Runtime m) = ''runtime error: '' @ m"
| "error_display (PodmanNotFound m) = ''podman not found: '' @ m"
| "error_display (PodmanVersionMismatch found required) =
     ''podman version '' @ found @ '' is below minimum required '' @ required"
| "error_display (Ipc m) = ''IPC error: '' @ m"
| "error_display (NotFound m) = ''not found: '' @ m"
| "error_display (InvalidArgument m) = ''invalid argument: '' @ m"
| "error_display (PermissionDenied m) = ''permission denied: '' @ m"
| "error_display (Conflict m) = ''conflict: '' @ m"
| "error_display (Timeout m) = ''timeout: '' @ m"
| "error_display (Unsupported m) = ''unsupported: '' @ m"
| "error_display (Unavailable m) = ''unavailable: '' @ m"
| "error_display (Internal m) = ''internal error: '' @ m"
| "error_display (Io m) = m"
| "error_display (Json m) = m"
| "error_display (Sqlx m) = m"
| "error_display (Migrate m) = m"

definition RUNTIME_ERROR :: int where "RUNTIME_ERROR = - 32000"
definition NOT_FOUND :: int where "NOT_FOUND = - 32001"
definition INVALID_ARGUMENT :: int where "INVALID_ARGUMENT = - 32002"
definition PODMAN_UNAVAILABLE :: int where "PODMAN_UNAVAILABLE = - 32003"
definition PERMISSION_DENIED :: int where "PERMISSION_DENIED = - 32004"
definition CONFLICT :: int where "CONFLICT = - 32005"
definition TIMEOUT :: int where "TIMEOUT = - 32006"
definition UNSUPPORTED :: int where "UNSUPPORTED = - 32007"
definition UNAVAILABLE :: int where "UNAVAILABLE = - 32008"
definition INTERNAL :: int where "INTERNAL = - 32009"

lemmas error_code_defs =
  RUNTIME_ERROR_def NOT_FOUND_def INVALID_ARGUMENT_def PODMAN_UNAVAILABLE_def
  PERMISSION_DENIED_def CONFLICT_def TIMEOUT_def UNSUPPORTED_def UNAVAILABLE_def INTERNAL_def

fun error_to_code :: "error \<Rightarrow> int \<times> string" where
  "error_to_code (PodmanNotFound m) = (PODMAN_UNAVAILABLE, error_display (PodmanNotFound m))"
| "error_to_code (PodmanVersionMismatch f r) =
     (PODMAN_UNAVAILABLE, error_display (PodmanVersionMismatch f r))"
| "error_to_code (NotFound m) = (NOT_FOUND, error_display (NotFound m))"
| "error_to_code (InvalidArgument m) = (INVALID_ARGUMENT, error_display (InvalidArgument m))"
| "error_to_code (PermissionDenied m) = (PERMISSION_DENIED, error_display (PermissionDenied m))"
| "error_to_code (Conflict m) = (CONFLICT, error_display (Conflict m))"
| "error_to_code (Timeout m) = (TIMEOUT, error_display (Timeout m))"
| "error_to_code (Unsupported m) = (UNSUPPORTED, error_display (Unsupported m))"
| "error_to_code (Unavailable m) = (UNAVAILABLE, error_display (Unavailable m))"
| "error_to_code (Internal m) = (INTERNAL, error_display (Internal m))"
| "error_to_code (Ipc m) = (INTERNAL, error_display (Ipc m))"
| "error_to_code (Sqlx m) = (INTERNAL, error_display (Sqlx m))"
| "error_to_code (Migrate m) = (INTERNAL, error_display (Migrate m))"
| "error_to_code (Runtime m) = (RUNTIME_ERROR, error_display (Runtime m))"
| "error_to_code (Io m) = (RUNTIME_ERROR, error_display (Io m))"
| "error_to_code (Json m) = (RUNTIME_ERROR, error_display (Json m))"

text \<open>Instants are nanoseconds since the epoch, as chrono holds them.\<close>

type_synonym timestamp = int

section \<open>Approvals (approval.rs)\<close>

datatype approval_category = MountHostPath | CapAdd | McpTool

fun approval_category_str :: "approval_category \<Rightarrow> string" where
  "approval_category_str MountHostPath = ''mount_host_path''"
| "approval_category_str CapAdd = ''cap_add''"
| "approval_category_str McpTool = ''mcp_tool''"

record approval_request =
  request_id :: string
  category :: approval_category
  ar_profile_name :: string
  timeout_secs :: nat
  created_at :: timestamp
  ar_payload :: json
  container_hint :: "string option"

datatype approval_outcome =
  Granted (granted_by: string) (granted_reason: "string option")
| Denied (denied_by: string) (denied_reason: "string option")
| TimedOut
| NoListener

fun is_granted :: "approval_outcome \<Rightarrow> bool" where
  "is_granted (Granted _ _) = True"
| "is_granted _ = False"

record approval_resolved =
  resolved_id :: string
  resolved_outcome :: approval_outcome

section \<open>Egress rules (network.rs)\<close>

datatype egress_proto = ProtoAny | ProtoTcp | ProtoUdp

fun egress_proto_str :: "egress_proto \<Rightarrow> string" where
  "egress_proto_str ProtoAny = ''any''"
| "egress_proto_str ProtoTcp = ''tcp''"
| "egress_proto_str ProtoUdp = ''udp''"

record egress_rule =
  er_proto :: egress_proto
  er_addr :: string
  er_port :: "u16 option"
  er_note :: "string option"

section \<open>Passthrough, distros and snapshot backends (passthrough.rs)\<close>

datatype audio_mode = AudioNone | PipeWire | Pulse

record passthrough_spec =
  wayland :: bool
  x11 :: bool
  audio :: audio_mode
  gpu :: bool
  dbus_session :: bool
  clipboard :: bool
  hidpi_inherit :: bool
  register_app_menu :: "string option"

definition passthrough_is_empty :: "passthrough_spec \<Rightarrow> bool" where
  "passthrough_is_empty p \<longleftrightarrow>
     \<not> wayland p \<and> \<not> x11 p \<and> audio p = AudioNone \<and> \<not> gpu p \<and> \<not> dbus_session p \<and>
     \<not> clipboard p \<and> \<not> hidpi_inherit p \<and> register_app_menu p = None"

datatype distro_kind = Ubuntu | Fedora | Arch | Debian | Alpine | NixOS

fun distro_kind_str :: "distro_kind \<Rightarrow> string" where
  "distro_kind_str Ubuntu = ''ubuntu''"
| "distro_kind_str Fedora = ''fedora''"
| "distro_kind_str Arch = ''arch''"
| "distro_kind_str Debian = ''debian''"
| "distro_kind_str Alpine = ''alpine''"
| "distro_kind_str NixOS = ''nixos''"

definition distro_kind_parse :: "string \<Rightarrow> string + distro_kind" where
  "distro_kind_parse raw =
     (let t = to_ascii_lowercase (trim raw) in
      if t = ''ubuntu'' then Inr Ubuntu
      else if t = ''fedora'' \<or> t = ''rhel'' \<or> t = ''centos'' then Inr Fedora
      else if t = ''arch'' \<or> t = ''archlinux'' then Inr Arch
      else if t = ''debian'' then Inr Debian
      else if t = ''alpine'' then Inr Alpine
      else if t = ''nixos'' \<or> t = ''nix'' then Inr NixOS
      else Inl (''unknown distro '' @ [CHR 0x27] @ t @ [CHR 0x27] @
                '' (expected: ubuntu, fedora, arch, debian, alpine, nixos)''))"

datatype snapshot_backend_kind = PodmanCommit | Overlayfs | Btrfs

fun snapshot_backend_str :: "snapshot_backend_kind \<Rightarrow> string" where
  "snapshot_backend_str PodmanCommit = ''podman_commit''"
| "snapshot_backend_str Overlayfs = ''overlayfs''"
| "snapshot_backend_str Btrfs = ''btrfs''"

definition snapshot_backend_parse :: "string \<Rightarrow> string + snapshot_backend_kind" where
  "snapshot_backend_parse raw =
     (let t = to_ascii_lowercase (trim raw) in
      if t = ''podman_commit'' \<or> t = ''podman-commit'' \<or> t = ''commit'' \<or> t = ''podman''
      then Inr PodmanCommit
      else if t = ''overlayfs'' \<or> t = ''overlay'' then Inr Overlayfs
      else if t = ''btrfs'' then Inr Btrfs
      else Inl (''unknown snapshot backend '' @ [CHR 0x27] @ t @ [CHR 0x27] @
                '' (expected: podman_commit, overlayfs, btrfs)''))"

section \<open>Events (ipc.rs)\<close>

datatype event_topic =
  TContainer | TImage | TVolume | TNetwork | TSandbox | TAudit | TSnapshot | TSession | TMcp
| TDistro | TMetrics | TSecret

fun event_topic_str :: "event_topic \<Rightarrow> string" where
  "event_topic_str TContainer = ''container''"
| "event_topic_str TImage = ''image''"
| "event_topic_str TVolume = ''volume''"
| "event_topic_str TNetwork = ''network''"
| "event_topic_str TSandbox = ''sandbox''"
| "event_topic_str TAudit = ''audit''"
| "event_topic_str TSnapshot = ''snapshot''"
| "event_topic_str TSession = ''session''"
| "event_topic_str TMcp = ''mcp''"
| "event_topic_str TDistro = ''distro''"
| "event_topic_str TMetrics = ''metrics''"
| "event_topic_str TSecret = ''secret''"

definition event_topic_parse :: "string \<Rightarrow> string + event_topic" where
  "event_topic_parse raw =
     (let t = to_ascii_lowercase (trim raw) in
      if t = ''container'' \<or> t = ''containers'' then Inr TContainer
      else if t = ''image'' \<or> t = ''images'' then Inr TImage
      else if t = ''volume'' \<or> t = ''volumes'' then Inr TVolume
      else if t = ''network'' \<or> t = ''networks'' then Inr TNetwork
      else if t = ''sandbox'' \<or> t = ''sandboxes'' then Inr TSandbox
      else if t = ''audit'' then Inr TAudit
      else if t = ''snapshot'' \<or> t = ''snapshots'' then Inr TSnapshot
      else if t = ''session'' \<or> t = ''sessions'' then Inr TSession
      else if t = ''mcp'' then Inr TMcp
      else if t = ''distro'' \<or> t = ''distros'' \<or> t = ''distribution'' then Inr TDistro
      else if t = ''metrics'' \<or> t = ''metric'' then Inr TMetrics
      else if t = ''secret'' \<or> t = ''secrets'' then Inr TSecret
      else Inl (''unknown event topic '' @ [CHR 0x27] @ t @ [CHR 0x27] @
                '' (expected: container, image, volume, network, sandbox, audit, snapshot, session, mcp, distro, metrics, secret)''))"

datatype event_kind =
  EvCreated | EvStarted | EvStopped | EvRemoved | EvRenamed | EvPulled | EvTagged | EvProgress
| EvLog | EvSucceeded | EvFailed

record event =
  ev_topic :: event_topic
  ev_kind :: event_kind
  ev_resource_id :: string
  ev_timestamp :: timestamp
  ev_details :: json

section \<open>Container create options (state.rs, ipc.rs)\<close>

datatype port_protocol = Tcp | Udp | Sctp

record port_mapping =
  host_port :: u16
  container_port :: u16
  protocol :: port_protocol
  host_ip :: "string option"

record volume_mount =
  vm_source :: string
  vm_destination :: string
  vm_read_only :: bool

record create_options =
  co_image :: string
  co_name :: "string option"
  co_command :: "string list"
  co_env :: "(string \<times> string) list"
  co_labels :: "(string \<times> string) list"
  co_rm :: bool
  co_detach :: bool
  co_port_mappings :: "port_mapping list"
  co_volumes :: "volume_mount list"
  co_networks :: "string list"
  co_cap_drop :: "string list"
  co_cap_add :: "string list"
  co_read_only :: bool
  co_cpus :: "f32 option"
  co_memory_mb :: "u64 option"
  co_sandbox_profile :: "string option"
  co_passthrough :: "passthrough_spec option"
  co_systemd :: bool
  co_auto_restart :: bool
  co_keep_user_id :: bool
  co_rootfs :: "string option"
  co_security_opts :: "string list"

section \<open>MCP policy rows and capabilities (ipc.rs)\<close>

datatype mcp_policy_decision = AutoAllow | Prompt | Deny | AuditOnly

record mcp_policy_rule =
  pr_method :: string
  pr_tool_name :: "string option"
  pr_decision :: mcp_policy_decision
  pr_note :: "string option"

record mcp_capabilities =
  cap_tools :: bool
  cap_resources :: bool
  cap_prompts :: bool
  cap_logging :: bool
  cap_experimental :: json

definition default_capabilities :: mcp_capabilities where
  "default_capabilities =
     \<lparr>cap_tools = False, cap_resources = False, cap_prompts = False, cap_logging = False,
      cap_experimental = JNull\<rparr>"

section \<open>The codecs read back what they write\<close>

interpretation distro_codec: str_codec distro_kind_str distro_kind_parse
proof
  show "distro_kind_parse (distro_kind_str k) = Inr k" for k
    by (induction k; code_simp)
qed

interpretation backend_codec: str_codec snapshot_backend_str snapshot_backend_parse
proof
  show "snapshot_backend_parse (snapshot_backend_str k) = Inr k" for k
    by (induction k; code_simp)
qed

interpretation topic_codec: str_codec event_topic_str event_topic_parse
proof
  show "event_topic_parse (event_topic_str k) = Inr k" for k
    by (induction k; code_simp)
qed

end
