(* ===== verification/Text_Split.thy ===== *)
theory Text_Split
  imports Prelude
begin

text \<open>
  Splitting and number parsing of the standard library (\<^verbatim>\<open>split_once\<close>, \<^verbatim>\<open>rsplit_once\<close>, \<^verbatim>\<open>splitn\<close>,
  \<^verbatim>\<open>rsplitn\<close>, \<^verbatim>\<open>str::split\<close>, \<^verbatim>\<open>u16::from_str\<close>) at a separator character, with the laws the text codecs
  need.
\<close>

definition split_once :: "char \<Rightarrow> string \<Rightarrow> (string \<times> string) option" where
  "split_once c s =
     (if c \<in> set s then Some (takeWhile (\<lambda>x. x \<noteq> c) s, tl (dropWhile (\<lambda>x. x \<noteq> c) s)) else None)"

definition rsplit_once :: "char \<Rightarrow> string \<Rightarrow> (string \<times> string) option" where
  "rsplit_once c s =
     (case split_once c (rev s) of None \<Rightarrow> None | Some (b, a) \<Rightarrow> Some (rev a, rev b))"

fun splitn :: "nat \<Rightarrow> char \<Rightarrow> string \<Rightarrow> string list" where
  "splitn 0 c s = []"
| "splitn (Suc n) c s =
     (if n = 0 then [s]
      else case split_once c s of None \<Rightarrow> [s] | Some (a, b) \<Rightarrow> a # splitn n c b)"

fun rsplitn :: "nat \<Rightarrow> char \<Rightarrow> string \<Rightarrow> string list" where
  "rsplitn 0 c s = []"
| "rsplitn (Suc n) c s =
     (if n = 0 then [s]
      else case rsplit_once c s of None \<Rightarrow> [s] | Some (a, b) \<Rightarrow> b # rsplitn n c a)"

definition split_char :: "char \<Rightarrow> string \<Rightarrow> string list" where
  "split_char c s = splitn (Suc (length s)) c s"

lemma split_once_append [simp]:
  "c \<notin> set a \<Longrightarrow> split_once c (a @ c # b) = Some (a, b)"
  by (induction a) (auto simp: split_once_def)

lemma split_once_none [simp]: "c \<notin> set s \<Longrightarrow> split_once c s = None"
  by (simp add: split_once_def)

lemma rsplit_once_append [simp]:
  "c \<notin> set b \<Longrightarrow> rsplit_once c (a @ c # b) = Some (a, b)"
  by (simp add: rsplit_once_def)

lemma rsplit_once_none [simp]: "c \<notin> set s \<Longrightarrow> rsplit_once c s = None"
  by (simp add: rsplit_once_def)

lemma rsplit_once_cons [simp]: "c \<notin> set b \<Longrightarrow> rsplit_once c (c # b) = Some ([], b)"
  using rsplit_once_append [of c b "[]"] by simp

subsection \<open>Decimal numbers\<close>

definition is_digit :: "char \<Rightarrow> bool" where
  "is_digit c \<longleftrightarrow> 48 \<le> (of_char c :: nat) \<and> (of_char c :: nat) \<le> 57"

definition digits_val :: "string \<Rightarrow> nat" where
  "digits_val s = foldl (\<lambda>n c. 10 * n + (of_char c - 48)) 0 s"

text \<open>
  \<^verbatim>\<open>from_str\<close> of the unsigned integers: an optional \<^verbatim>\<open>+\<close>, at least one digit, nothing else, and a value
  below the bound; an overflow is an error as well.
\<close>

definition parse_unsigned :: "nat \<Rightarrow> string \<Rightarrow> nat option" where
  "parse_unsigned bound s =
     (let d = (case s of [] \<Rightarrow> s | c # r \<Rightarrow> if c = CHR ''+'' then r else s) in
      if d \<noteq> [] \<and> list_all is_digit d \<and> digits_val d < bound then Some (digits_val d) else None)"

definition parse_u16 :: "string \<Rightarrow> u16 option" where
  "parse_u16 s = map_option of_nat (parse_unsigned (2 ^ 16) s)"

lemma of_char_char_of_small: "n < 256 \<Longrightarrow> of_char (char_of n :: char) = (n :: nat)"
  by (simp add: of_char_of)

lemma show_nat_nonempty: "show_nat n \<noteq> []"
  by (subst show_nat.simps) simp

lemma digits_val_snoc: "digits_val (s @ [c]) = 10 * digits_val s + (of_char c - 48)"
  by (simp add: digits_val_def)

lemma digits_val_show_nat [simp]: "digits_val (show_nat n) = n"
proof (induction n rule: show_nat.induct)
  case (1 n)
  show ?case
  proof (cases "n < 10")
    case True
    then show ?thesis
      by (subst show_nat.simps) (simp add: digits_val_def of_char_char_of_small)
  next
    case False
    have "n mod 10 < 10"
      by simp
    then have "48 + n mod 10 < 256"
      by linarith
    with False 1 show ?thesis
      by (subst show_nat.simps) (simp add: digits_val_snoc of_char_char_of_small)
  qed
qed

lemma list_all_digit_show_nat: "list_all is_digit (show_nat n)"
proof (induction n rule: show_nat.induct)
  case (1 n)
  have "n mod 10 < 10"
    by simp
  then have "is_digit (char_of (48 + n mod 10))"
    by (simp add: is_digit_def of_char_char_of_small)
  moreover have "n < 10 \<Longrightarrow> is_digit (char_of (48 + n))"
    by (simp add: is_digit_def of_char_char_of_small)
  ultimately show ?case
    using 1 by (subst show_nat.simps) auto
qed

lemma is_digit_not:
  "\<not> is_digit (CHR ''+'')" "\<not> is_digit (CHR '':'')" "\<not> is_digit (CHR ''/'')" "\<not> is_digit (CHR ''-'')"
  by (simp_all add: is_digit_def)

lemma digit_show_nat: "c \<in> set (show_nat n) \<Longrightarrow> is_digit c"
  using list_all_digit_show_nat [of n] by (simp add: list_all_iff)

lemma nondigit_show_nat [simp]: "\<not> is_digit c \<Longrightarrow> c \<notin> set (show_nat n)"
  using digit_show_nat by blast

lemma show_nat_inject [simp]: "show_nat m = show_nat n \<longleftrightarrow> m = n"
  by (metis digits_val_show_nat)

lemma parse_unsigned_show_nat [simp]:
  assumes "n < bound"
  shows "parse_unsigned bound (show_nat n) = Some n"
proof (cases "show_nat n")
  case Nil
  then show ?thesis
    using show_nat_nonempty by blast
next
  case (Cons c r)
  then have "c \<noteq> CHR ''+''"
    using digit_show_nat [of c n] is_digit_not(1) by auto
  with Cons have "(case show_nat n of [] \<Rightarrow> show_nat n | c # r \<Rightarrow> if c = CHR ''+'' then r else show_nat n)
      = show_nat n"
    by simp
  then show ?thesis
    using assms by (simp add: parse_unsigned_def show_nat_nonempty list_all_digit_show_nat)
qed

lemma parse_u16_show_nat [simp]: "parse_u16 (show_nat (unat p)) = Some p"
proof -
  have "unat p < 2 ^ 16"
    using unsigned_less [of p, where 'a = nat] by simp
  then have "parse_unsigned (2 ^ 16) (show_nat (unat p)) = Some (unat p)"
    by (rule parse_unsigned_show_nat)
  then show ?thesis
    by (simp only: parse_u16_def option.map of_nat_unat) simp
qed

lemma parse_unsigned_bound: "parse_unsigned bound s = Some n \<Longrightarrow> n < bound"
  by (auto simp: parse_unsigned_def Let_def split: if_splits)

end
