(* ===== verification/Mount_Args.thy ===== *)
theory Mount_Args
  imports Common Text_Split
begin

text \<open>
  The command-line forms of port mappings and volume mounts (\<^verbatim>\<open>state.rs\<close>): what is handed to podman's
  \<^verbatim>\<open>--publish\<close> and \<^verbatim>\<open>--volume\<close>, and the parsers of the same forms.
\<close>

fun port_protocol_display :: "port_protocol \<Rightarrow> string" where
  "port_protocol_display Tcp = ''tcp''"
| "port_protocol_display Udp = ''udp''"
| "port_protocol_display Sctp = ''sctp''"

definition quoted :: "string \<Rightarrow> string" where
  "quoted s = [CHR 0x27] @ s @ [CHR 0x27]"

definition port_protocol_from_str :: "string \<Rightarrow> string + port_protocol" where
  "port_protocol_from_str s =
     (let t = to_ascii_lowercase (trim s) in
      if t = ''tcp'' then Inr Tcp
      else if t = ''udp'' then Inr Udp
      else if t = ''sctp'' then Inr Sctp
      else Inl (''unknown protocol '' @ quoted t))"

definition to_publish_arg :: "port_mapping \<Rightarrow> string" where
  "to_publish_arg m =
     (let suffix = show_nat (unat (host_port m)) @ '':'' @ show_nat (unat (container_port m)) @ ''/'' @
                   port_protocol_display (protocol m) in
      case host_ip m of Some ip \<Rightarrow> ip @ '':'' @ suffix | None \<Rightarrow> suffix)"

text \<open>
  \<^verbatim>\<open>rsplitn(3, ':')\<close> yields one to three pieces, from the right. It never yields none, so the branch
  for a missing container port is there only because the iterator could end.
\<close>

definition port_mapping_ports ::
  "string \<Rightarrow> string \<Rightarrow> port_protocol \<Rightarrow> string + port_mapping" where
  "port_mapping_ports raw head_part proto =
     (case rsplitn 3 (CHR '':'') head_part of
        [] \<Rightarrow> Inl (''missing container port in '' @ quoted raw)
      | [c] \<Rightarrow> Inl (''missing host port in '' @ quoted raw)
      | c # h # rest \<Rightarrow>
          (case parse_u16 c of
             None \<Rightarrow> Inl (''invalid container port '' @ quoted c @ '' in '' @ quoted raw)
           | Some cp \<Rightarrow>
               (case parse_u16 h of
                  None \<Rightarrow> Inl (''invalid host port '' @ quoted h @ '' in '' @ quoted raw)
                | Some hp \<Rightarrow>
                    Inr \<lparr>host_port = hp, container_port = cp, protocol = proto,
                         host_ip = (case rest of [] \<Rightarrow> None | ip # _ \<Rightarrow> Some ip)\<rparr>)))"

definition port_mapping_parse :: "string \<Rightarrow> string + port_mapping" where
  "port_mapping_parse raw =
     (case rsplit_once (CHR ''/'') raw of
        Some (h, p) \<Rightarrow>
          (case port_protocol_from_str p of
             Inl e \<Rightarrow> Inl e
           | Inr proto \<Rightarrow> port_mapping_ports raw h proto)
      | None \<Rightarrow> port_mapping_ports raw raw Tcp)"

definition to_volume_arg :: "volume_mount \<Rightarrow> string" where
  "to_volume_arg v =
     (if vm_read_only v then vm_source v @ '':'' @ vm_destination v @ '':ro''
      else vm_source v @ '':'' @ vm_destination v)"

definition volume_mount_parse :: "string \<Rightarrow> string + volume_mount" where
  "volume_mount_parse raw =
     (case splitn 3 (CHR '':'') raw of
        [src, dst] \<Rightarrow> Inr \<lparr>vm_source = src, vm_destination = dst, vm_read_only = False\<rparr>
      | [src, dst, mode] \<Rightarrow>
          (let m = to_ascii_lowercase mode in
           if m = ''ro'' then Inr \<lparr>vm_source = src, vm_destination = dst, vm_read_only = True\<rparr>
           else if m = ''rw'' \<or> m = '''' then
             Inr \<lparr>vm_source = src, vm_destination = dst, vm_read_only = False\<rparr>
           else Inl (''invalid volume mode '' @ quoted m @ '' (expected ro or rw)''))
      | _ \<Rightarrow> Inl (''expected SRC:DST[:ro|rw], got '' @ quoted raw))"

interpretation protocol_codec: str_codec port_protocol_display port_protocol_from_str
proof
  show "port_protocol_from_str (port_protocol_display k) = Inr k" for k
    by (induction k; code_simp)
qed

lemma slash_free_protocol: "CHR ''/'' \<notin> set (port_protocol_display p)"
  by (cases p) simp_all

lemma port_mapping_ports_render:
  "port_mapping_ports raw (show_nat (unat hp) @ CHR '':'' # show_nat (unat cp)) proto =
     Inr \<lparr>host_port = hp, container_port = cp, protocol = proto, host_ip = None\<rparr>"
  "port_mapping_ports raw (ip @ CHR '':'' # show_nat (unat hp) @ CHR '':'' # show_nat (unat cp)) proto =
     Inr \<lparr>host_port = hp, container_port = cp, protocol = proto, host_ip = Some ip\<rparr>"
proof -
  let ?h = "show_nat (unat hp)" and ?c = "show_nat (unat cp)"
  have two: "rsplit_once (CHR '':'') (ip @ CHR '':'' # ?h @ CHR '':'' # ?c) =
      Some (ip @ CHR '':'' # ?h, ?c)"
    using rsplit_once_append [of "CHR '':''" ?c "ip @ CHR '':'' # ?h"] by (simp add: is_digit_not)
  show "port_mapping_ports raw (?h @ CHR '':'' # ?c) proto =
     Inr \<lparr>host_port = hp, container_port = cp, protocol = proto, host_ip = None\<rparr>"
    by (simp add: port_mapping_ports_def numeral_3_eq_3 is_digit_not)
  show "port_mapping_ports raw (ip @ CHR '':'' # ?h @ CHR '':'' # ?c) proto =
     Inr \<lparr>host_port = hp, container_port = cp, protocol = proto, host_ip = Some ip\<rparr>"
    by (simp add: port_mapping_ports_def numeral_3_eq_3 two is_digit_not)
qed

lemma rsplit_publish_arg:
  "rsplit_once (CHR ''/'') (a @ CHR ''/'' # port_protocol_display p) = Some (a, port_protocol_display p)"
  by (simp add: slash_free_protocol)

text \<open>
  C37. Every port mapping survives the trip through its podman argument: parsing what
  \<^verbatim>\<open>to_publish_arg\<close> prints gives the mapping back, whatever the bind address contains (IPv6 colons
  and slashes included).
\<close>

theorem publish_arg_roundtrip: "port_mapping_parse (to_publish_arg m) = Inr m"
proof (cases m)
  case (fields hp cp proto ip)
  show ?thesis
  proof (cases ip)
    case None
    let ?a = "show_nat (unat hp) @ CHR '':'' # show_nat (unat cp)"
    have "to_publish_arg m = ?a @ CHR ''/'' # port_protocol_display proto"
      by (simp add: fields None to_publish_arg_def)
    then show ?thesis
      by (simp only: port_mapping_parse_def rsplit_publish_arg)
        (simp add: protocol_codec.dec_enc port_mapping_ports_render fields None)
  next
    case (Some i)
    let ?a = "i @ CHR '':'' # show_nat (unat hp) @ CHR '':'' # show_nat (unat cp)"
    have "to_publish_arg m = ?a @ CHR ''/'' # port_protocol_display proto"
      by (simp add: fields Some to_publish_arg_def)
    then show ?thesis
      by (simp only: port_mapping_parse_def rsplit_publish_arg)
        (simp add: protocol_codec.dec_enc port_mapping_ports_render fields Some)
  qed
qed

text \<open>
  C38. A volume mount whose source and destination contain no colon survives the trip through its
  podman argument.
\<close>

theorem volume_arg_roundtrip:
  assumes "CHR '':'' \<notin> set (vm_source v)" and "CHR '':'' \<notin> set (vm_destination v)"
  shows "volume_mount_parse (to_volume_arg v) = Inr v"
  using assms
  by (cases v) (auto simp: to_volume_arg_def volume_mount_parse_def numeral_3_eq_3
      to_ascii_lowercase_def ascii_lower_def Let_def)

theorem volume_arg_roundtrip_witness:
  "volume_mount_parse ''/srv/data:/data:ro'' =
     Inr \<lparr>vm_source = ''/srv/data'', vm_destination = ''/data'', vm_read_only = True\<rparr>"
  using volume_arg_roundtrip
    [of "\<lparr>vm_source = ''/srv/data'', vm_destination = ''/data'', vm_read_only = True\<rparr>"]
  by (simp add: to_volume_arg_def)

end
