(* ===== verification/Mcp_Protocol.thy ===== *)
theory Mcp_Protocol
  imports Common
begin

text \<open>
  MCP message recognition and the per-method policy engine (\<^verbatim>\<open>linpodx-mcp/src/protocol.rs\<close>,
  \<^verbatim>\<open>policy.rs\<close>). The JSON parser is a parameter. Shown: the method the policy decides on is the one in
  the message, and which rule decides.
\<close>

section \<open>Messages (protocol.rs)\<close>

datatype mcp_message =
  Initialize json
| ToolsList
| ToolsCall string json
| ResourcesList
| ResourcesRead string
| ResourcesSubscribe string
| ResourcesUnsubscribe string
| PromptsList
| Initialized
| ToolsListChanged
| ResourcesListChanged
| PromptsListChanged
| ResourcesUpdated string
| Notification string json
| Other string json

type_synonym json_parser = "string \<Rightarrow> string + json"

definition json_text :: "json \<Rightarrow> string \<Rightarrow> string" where
  "json_text v key = (case Option.bind (json_get v key) as_str of Some s \<Rightarrow> s | None \<Rightarrow> '''')"

definition json_or_null :: "json \<Rightarrow> string \<Rightarrow> json" where
  "json_or_null v key = (case json_get v key of Some x \<Rightarrow> x | None \<Rightarrow> JNull)"

definition message_of :: "string \<Rightarrow> json \<Rightarrow> bool \<Rightarrow> mcp_message" where
  "message_of method params is_notification =
     (if method = ''initialize'' then Initialize params
      else if method = ''tools/list'' then ToolsList
      else if method = ''tools/call'' then
        ToolsCall (json_text params ''name'') (json_or_null params ''arguments'')
      else if method = ''resources/list'' then ResourcesList
      else if method = ''resources/read'' then ResourcesRead (json_text params ''uri'')
      else if method = ''resources/subscribe'' then ResourcesSubscribe (json_text params ''uri'')
      else if method = ''resources/unsubscribe'' then ResourcesUnsubscribe (json_text params ''uri'')
      else if method = ''prompts/list'' then PromptsList
      else if method = ''notifications/initialized'' then Initialized
      else if method = ''notifications/tools/list_changed'' then ToolsListChanged
      else if method = ''notifications/resources/list_changed'' then ResourcesListChanged
      else if method = ''notifications/prompts/list_changed'' then PromptsListChanged
      else if method = ''notifications/resources/updated'' then ResourcesUpdated (json_text params ''uri'')
      else if is_notification then Notification method params
      else Other method params)"

definition mcp_parse :: "json_parser \<Rightarrow> string \<Rightarrow> mcp_message option" where
  "mcp_parse from_str line =
     (case from_str (trim line) of
        Inl _ \<Rightarrow> None
      | Inr value \<Rightarrow>
          (case Option.bind (json_get value ''method'') as_str of
             None \<Rightarrow> None
           | Some method \<Rightarrow>
               Some (message_of method (json_or_null value ''params'') (json_get value ''id'' = None))))"

fun method_str :: "mcp_message \<Rightarrow> string" where
  "method_str (Initialize _) = ''initialize''"
| "method_str ToolsList = ''tools/list''"
| "method_str (ToolsCall _ _) = ''tools/call''"
| "method_str ResourcesList = ''resources/list''"
| "method_str (ResourcesRead _) = ''resources/read''"
| "method_str (ResourcesSubscribe _) = ''resources/subscribe''"
| "method_str (ResourcesUnsubscribe _) = ''resources/unsubscribe''"
| "method_str PromptsList = ''prompts/list''"
| "method_str Initialized = ''notifications/initialized''"
| "method_str ToolsListChanged = ''notifications/tools/list_changed''"
| "method_str ResourcesListChanged = ''notifications/resources/list_changed''"
| "method_str PromptsListChanged = ''notifications/prompts/list_changed''"
| "method_str (ResourcesUpdated _) = ''notifications/resources/updated''"
| "method_str (Notification m _) = m"
| "method_str (Other m _) = m"

fun tool_name :: "mcp_message \<Rightarrow> string option" where
  "tool_name (ToolsCall n _) = (if n \<noteq> [] then Some n else None)"
| "tool_name _ = None"

definition parse_capabilities_object :: "json \<Rightarrow> mcp_capabilities" where
  "parse_capabilities_object caps =
     \<lparr>cap_tools = (json_get caps ''tools'' \<noteq> None), cap_resources = (json_get caps ''resources'' \<noteq> None),
      cap_prompts = (json_get caps ''prompts'' \<noteq> None), cap_logging = (json_get caps ''logging'' \<noteq> None),
      cap_experimental = json_or_null caps ''experimental''\<rparr>"

definition parse_initialize_response :: "json_parser \<Rightarrow> string \<Rightarrow> int \<Rightarrow> mcp_capabilities option" where
  "parse_initialize_response from_str line expected_id =
     (case from_str (trim line) of
        Inl _ \<Rightarrow> None
      | Inr value \<Rightarrow>
          if json_get value ''method'' \<noteq> None then None
          else (case Option.bind (json_get value ''id'') as_i64 of
                  None \<Rightarrow> None
                | Some i \<Rightarrow>
                    if i \<noteq> expected_id then None
                    else map_option parse_capabilities_object
                           (Option.bind (json_get value ''result'') (\<lambda>r. json_get r ''capabilities''))))"

section \<open>Policy engine (policy.rs)\<close>

definition default_action :: "mcp_policy_rule list \<Rightarrow> mcp_policy_decision" where
  "default_action rules = (if list_ex (\<lambda>r. pr_decision r = Deny) rules then Deny else AuditOnly)"

definition evaluate_policy :: "mcp_policy_rule list \<Rightarrow> mcp_message \<Rightarrow> mcp_policy_decision" where
  "evaluate_policy rules msg =
     (let method = method_str msg;
          specific =
            (if method = ''tools/call'' then
               (case tool_name msg of
                  Some tool \<Rightarrow> find (\<lambda>r. pr_method r = method \<and> pr_tool_name r = Some tool) rules
                | None \<Rightarrow> None)
             else None) in
      case specific of
        Some r \<Rightarrow> pr_decision r
      | None \<Rightarrow>
          (case find (\<lambda>r. pr_method r = method \<and> pr_tool_name r = None) rules of
             Some r \<Rightarrow> pr_decision r
           | None \<Rightarrow> default_action rules))"

section \<open>Properties\<close>

lemma method_str_message_of [simp]: "method_str (message_of m p n) = m"
  by (simp add: message_of_def)

lemma tool_name_call: "tool_name msg \<noteq> None \<Longrightarrow> method_str msg = ''tools/call''"
  by (cases msg) auto

text \<open>
  The bridge's policy sees the method that is in the message: a line that parses carries a
  \<^verbatim>\<open>method\<close> string in its JSON, and the parsed message reports exactly that string, whatever the
  other fields are. A tool name is only reported for a tool call, and is its \<^verbatim>\<open>name\<close> argument.
\<close>

theorem parsed_method_is_the_json_method:
  assumes "mcp_parse from_str line = Some msg"
  shows "\<exists>value. from_str (trim line) = Inr value \<and>
    json_get value ''method'' = Some (JString (method_str msg)) \<and>
    (\<forall>tool. tool_name msg = Some tool \<longrightarrow>
       method_str msg = ''tools/call'' \<and> json_text (json_or_null value ''params'') ''name'' = tool)"
proof -
  obtain v mth where v: "from_str (trim line) = Inr v"
    and m: "Option.bind (json_get v ''method'') as_str = Some mth"
    and msg: "msg = message_of mth (json_or_null v ''params'') (json_get v ''id'' = None)"
    using assms by (auto simp: mcp_parse_def split: sum.splits option.splits)
  obtain j where j: "json_get v ''method'' = Some j" "as_str j = Some mth"
    using m by (cases "json_get v ''method''") auto
  then have "j = JString mth"
    by (cases j) auto
  moreover have "tool_name msg = Some tool \<Longrightarrow>
      mth = ''tools/call'' \<and> json_text (json_or_null v ''params'') ''name'' = tool" for tool
    by (auto simp: msg message_of_def split: if_splits)
  ultimately show ?thesis
    using v j msg by simp
qed

definition demo_call :: json where
  "demo_call = JObject [(''method'', JString ''tools/call''), (''id'', JInt 1),
     (''params'', JObject [(''name'', JString ''read_file'')])]"

lemma trim_x: "trim ''x'' = ''x''"
  by code_simp

theorem parsed_method_is_the_json_method_witness:
  "mcp_parse (\<lambda>_. Inr demo_call) ''x'' = Some (ToolsCall ''read_file'' JNull) \<and>
   json_get demo_call ''method'' = Some (JString ''tools/call'')"
proof -
  have p: "mcp_parse (\<lambda>_. Inr demo_call) ''x'' = Some (ToolsCall ''read_file'' JNull)"
    by (simp add: mcp_parse_def demo_call_def message_of_def json_text_def json_or_null_def)
  with parsed_method_is_the_json_method [OF p] show ?thesis
    by auto
qed

text \<open>The rules that apply to a message, the ones that name its tool first.\<close>

definition applicable :: "mcp_policy_rule list \<Rightarrow> mcp_message \<Rightarrow> mcp_policy_rule list" where
  "applicable rules msg =
     filter (\<lambda>r. pr_method r = method_str msg \<and> pr_tool_name r \<noteq> None \<and> pr_tool_name r = tool_name msg) rules @
     filter (\<lambda>r. pr_method r = method_str msg \<and> pr_tool_name r = None) rules"

lemma find_filter: "find P xs = (case filter P xs of [] \<Rightarrow> None | x # _ \<Rightarrow> Some x)"
  by (induction xs) auto

lemma default_action_set: "default_action rules = (if Deny \<in> pr_decision ` set rules then Deny else AuditOnly)"
  by (force simp: default_action_def list_ex_iff)

text \<open>
  C30. Which rule decides: the first rule that names the called tool, else the first rule for the
  method as a whole, else \<^verbatim>\<open>Deny\<close> if the policy denies anything at all and \<^verbatim>\<open>AuditOnly\<close> otherwise. Rules
  for other methods or other tools never decide.
\<close>

theorem policy_most_specific_first:
  "evaluate_policy rules msg =
     (case applicable rules msg of
        r # _ \<Rightarrow> pr_decision r
      | [] \<Rightarrow> if Deny \<in> pr_decision ` set rules then Deny else AuditOnly)"
proof (cases "tool_name msg")
  case None
  then have "filter (\<lambda>r. pr_method r = method_str msg \<and> pr_tool_name r \<noteq> None \<and> pr_tool_name r = tool_name msg) rules = []"
    by (auto simp: filter_empty_conv)
  with None show ?thesis
    by (simp add: evaluate_policy_def applicable_def default_action_set find_filter Let_def split: list.split)
next
  case (Some tool)
  then have "method_str msg = ''tools/call''"
    using tool_name_call by blast
  moreover have "filter (\<lambda>r. pr_method r = method_str msg \<and> pr_tool_name r \<noteq> None \<and> pr_tool_name r = tool_name msg) rules =
      filter (\<lambda>r. pr_method r = method_str msg \<and> pr_tool_name r = Some tool) rules"
    using Some by (intro filter_cong) auto
  ultimately show ?thesis
    using Some by (simp add: evaluate_policy_def applicable_def default_action_set find_filter Let_def split: list.split)
qed

end
