(* ===== verification/Audit_Kind.thy ===== *)
theory Audit_Kind
  imports Prelude
begin

text \<open>
  The kinds of audit entries (\<^verbatim>\<open>AuditKind\<close> of \<^verbatim>\<open>linpodx-sandbox/src/audit.rs\<close>) and the text each is
  stored as. Shown: two kinds never share a name, so the \<^verbatim>\<open>kind\<close> column identifies the kind.
\<close>

datatype (plugins only:) audit_kind =
  ProfileLoaded | ProfileApplied | ProfileDenied | ProfilesReloaded | ChainVerified
| ApprovalRequested | ApprovalGranted | ApprovalDenied | ApprovalTimedOut | ApprovalNoListener
| SnapshotCreated | SnapshotRolledBack | SnapshotRemoved | SessionStarted | SessionEnded
| McpBridgeStarted | McpBridgeStopped | McpToolCalled | McpToolDenied | DistroCreated
| DistroBuilt | DistroEntered | DistroRemoved | PassthroughGranted | SnapshotJobStarted
| SnapshotJobFinished | McpPolicyChanged | NetworkEgressApplied | NetworkEgressFailed
| McpResourceSubscribed | McpResourceUnsubscribed | McpResourceUpdated | McpListChanged
| SnapshotBranched | PluginInstalled | PluginEnabled | PluginDisabled | PluginRemoved
| PluginInvoked | MetricsCollectorStarted | MetricsCollectorStopped | SnapshotBackendUsed
| RemoteSessionStarted | RemoteAuthFailed | AuditFiltered | ProfileValidatorRejected
| WebUiSessionStarted | WebUiAccessDenied | RemoteMtlsAccepted | RemoteMtlsRejected
| ClusterPeerJoined | ClusterPeerLeft | ClusterViewServed | SnapshotMounted | SnapshotUnmounted
| K8sQueryServed | SeccompCompiled | ApparmorCompiled | SeccompApplied | ApparmorApplied
| ContainerExecCalled | ContainerLogsStreamed | ImagePullStarted | ImagePushed
| ImageManifestCreated | SelinuxCompiled | SelinuxApplied | ContainerExecPtyOpened
| ContainerExecPtyClosed | K8sPodCreated | K8sPodDeleted | K8sNamespaceCreated
| K8sDeploymentScaled | PluginNetworkTraceCalled | PluginRuntimeInjectorCalled
| EgressDenyEnforced | SelinuxStaticLabelApplied | WsAuthSubprotocol | ImagePushTls
| ClusterLeaderElected | ClusterLeaderLost | ClusterRaftPromoted | ClusterRaftDemoted
| PluginSignatureVerified | PluginSignatureRejected | WsClientCertPinned
| SelinuxLabelRuntimeFallback | ClusterStateApplied | ClusterStateProposeFailed
| SnapshotEncrypted | SnapshotDecryptFailed | PluginKeyRevoked | WsClientCertTofuEnrolled
| SnapshotKeyRotated | SnapshotReEncryptCompleted | SandboxSnapshotAutoTriggered | TofuExpired
| PluginKeyRevokePropagated | SecretCreated | SecretRemoved | ContainerUpdated

primrec audit_kind_str :: "audit_kind \<Rightarrow> string" where
  "audit_kind_str ProfileLoaded = ''profile_loaded''"
| "audit_kind_str ProfileApplied = ''profile_applied''"
| "audit_kind_str ProfileDenied = ''profile_denied''"
| "audit_kind_str ProfilesReloaded = ''profiles_reloaded''"
| "audit_kind_str ChainVerified = ''chain_verified''"
| "audit_kind_str ApprovalRequested = ''approval_requested''"
| "audit_kind_str ApprovalGranted = ''approval_granted''"
| "audit_kind_str ApprovalDenied = ''approval_denied''"
| "audit_kind_str ApprovalTimedOut = ''approval_timed_out''"
| "audit_kind_str ApprovalNoListener = ''approval_no_listener''"
| "audit_kind_str SnapshotCreated = ''snapshot_created''"
| "audit_kind_str SnapshotRolledBack = ''snapshot_rolled_back''"
| "audit_kind_str SnapshotRemoved = ''snapshot_removed''"
| "audit_kind_str SessionStarted = ''session_started''"
| "audit_kind_str SessionEnded = ''session_ended''"
| "audit_kind_str McpBridgeStarted = ''mcp_bridge_started''"
| "audit_kind_str McpBridgeStopped = ''mcp_bridge_stopped''"
| "audit_kind_str McpToolCalled = ''mcp_tool_called''"
| "audit_kind_str McpToolDenied = ''mcp_tool_denied''"
| "audit_kind_str DistroCreated = ''distro_created''"
| "audit_kind_str DistroBuilt = ''distro_built''"
| "audit_kind_str DistroEntered = ''distro_entered''"
| "audit_kind_str DistroRemoved = ''distro_removed''"
| "audit_kind_str PassthroughGranted = ''passthrough_granted''"
| "audit_kind_str SnapshotJobStarted = ''snapshot_job_started''"
| "audit_kind_str SnapshotJobFinished = ''snapshot_job_finished''"
| "audit_kind_str McpPolicyChanged = ''mcp_policy_changed''"
| "audit_kind_str NetworkEgressApplied = ''network_egress_applied''"
| "audit_kind_str NetworkEgressFailed = ''network_egress_failed''"
| "audit_kind_str McpResourceSubscribed = ''mcp_resource_subscribed''"
| "audit_kind_str McpResourceUnsubscribed = ''mcp_resource_unsubscribed''"
| "audit_kind_str McpResourceUpdated = ''mcp_resource_updated''"
| "audit_kind_str McpListChanged = ''mcp_list_changed''"
| "audit_kind_str SnapshotBranched = ''snapshot_branched''"
| "audit_kind_str PluginInstalled = ''plugin_installed''"
| "audit_kind_str PluginEnabled = ''plugin_enabled''"
| "audit_kind_str PluginDisabled = ''plugin_disabled''"
| "audit_kind_str PluginRemoved = ''plugin_removed''"
| "audit_kind_str PluginInvoked = ''plugin_invoked''"
| "audit_kind_str MetricsCollectorStarted = ''metrics_collector_started''"
| "audit_kind_str MetricsCollectorStopped = ''metrics_collector_stopped''"
| "audit_kind_str SnapshotBackendUsed = ''snapshot_backend_used''"
| "audit_kind_str RemoteSessionStarted = ''remote_session_started''"
| "audit_kind_str RemoteAuthFailed = ''remote_auth_failed''"
| "audit_kind_str AuditFiltered = ''audit_filtered''"
| "audit_kind_str ProfileValidatorRejected = ''profile_validator_rejected''"
| "audit_kind_str WebUiSessionStarted = ''web_ui_session_started''"
| "audit_kind_str WebUiAccessDenied = ''web_ui_access_denied''"
| "audit_kind_str RemoteMtlsAccepted = ''remote_mtls_accepted''"
| "audit_kind_str RemoteMtlsRejected = ''remote_mtls_rejected''"
| "audit_kind_str ClusterPeerJoined = ''cluster_peer_joined''"
| "audit_kind_str ClusterPeerLeft = ''cluster_peer_left''"
| "audit_kind_str ClusterViewServed = ''cluster_view_served''"
| "audit_kind_str SnapshotMounted = ''snapshot_mounted''"
| "audit_kind_str SnapshotUnmounted = ''snapshot_unmounted''"
| "audit_kind_str K8sQueryServed = ''k8s_query_served''"
| "audit_kind_str SeccompCompiled = ''seccomp_compiled''"
| "audit_kind_str ApparmorCompiled = ''apparmor_compiled''"
| "audit_kind_str SeccompApplied = ''seccomp_applied''"
| "audit_kind_str ApparmorApplied = ''apparmor_applied''"
| "audit_kind_str ContainerExecCalled = ''container_exec_called''"
| "audit_kind_str ContainerLogsStreamed = ''container_logs_streamed''"
| "audit_kind_str ImagePullStarted = ''image_pull_started''"
| "audit_kind_str ImagePushed = ''image_pushed''"
| "audit_kind_str ImageManifestCreated = ''image_manifest_created''"
| "audit_kind_str SelinuxCompiled = ''selinux_compiled''"
| "audit_kind_str SelinuxApplied = ''selinux_applied''"
| "audit_kind_str ContainerExecPtyOpened = ''container_exec_pty_opened''"
| "audit_kind_str ContainerExecPtyClosed = ''container_exec_pty_closed''"
| "audit_kind_str K8sPodCreated = ''k8s_pod_created''"
| "audit_kind_str K8sPodDeleted = ''k8s_pod_deleted''"
| "audit_kind_str K8sNamespaceCreated = ''k8s_namespace_created''"
| "audit_kind_str K8sDeploymentScaled = ''k8s_deployment_scaled''"
| "audit_kind_str PluginNetworkTraceCalled = ''plugin_network_trace_called''"
| "audit_kind_str PluginRuntimeInjectorCalled = ''plugin_runtime_injector_called''"
| "audit_kind_str EgressDenyEnforced = ''egress_deny_enforced''"
| "audit_kind_str SelinuxStaticLabelApplied = ''selinux_static_label_applied''"
| "audit_kind_str WsAuthSubprotocol = ''ws_auth_subprotocol''"
| "audit_kind_str ImagePushTls = ''image_push_tls''"
| "audit_kind_str ClusterLeaderElected = ''cluster_leader_elected''"
| "audit_kind_str ClusterLeaderLost = ''cluster_leader_lost''"
| "audit_kind_str ClusterRaftPromoted = ''cluster_raft_promoted''"
| "audit_kind_str ClusterRaftDemoted = ''cluster_raft_demoted''"
| "audit_kind_str PluginSignatureVerified = ''plugin_signature_verified''"
| "audit_kind_str PluginSignatureRejected = ''plugin_signature_rejected''"
| "audit_kind_str WsClientCertPinned = ''ws_client_cert_pinned''"
| "audit_kind_str SelinuxLabelRuntimeFallback = ''selinux_label_runtime_fallback''"
| "audit_kind_str ClusterStateApplied = ''cluster_state_applied''"
| "audit_kind_str ClusterStateProposeFailed = ''cluster_state_propose_failed''"
| "audit_kind_str SnapshotEncrypted = ''snapshot_encrypted''"
| "audit_kind_str SnapshotDecryptFailed = ''snapshot_decrypt_failed''"
| "audit_kind_str PluginKeyRevoked = ''plugin_key_revoked''"
| "audit_kind_str WsClientCertTofuEnrolled = ''ws_client_cert_tofu_enrolled''"
| "audit_kind_str SnapshotKeyRotated = ''snapshot_key_rotated''"
| "audit_kind_str SnapshotReEncryptCompleted = ''snapshot_re_encrypt_completed''"
| "audit_kind_str SandboxSnapshotAutoTriggered = ''sandbox_snapshot_auto_triggered''"
| "audit_kind_str TofuExpired = ''tofu_expired''"
| "audit_kind_str PluginKeyRevokePropagated = ''plugin_key_revoke_propagated''"
| "audit_kind_str SecretCreated = ''secret_created''"
| "audit_kind_str SecretRemoved = ''secret_removed''"
| "audit_kind_str ContainerUpdated = ''container_updated''"

text \<open>The kinds in the order of their names, so that one pass over neighbours shows them distinct.\<close>

definition audit_kind_by_name :: "audit_kind list" where
  "audit_kind_by_name =
     [ApparmorApplied, ApparmorCompiled, ApprovalDenied, ApprovalGranted, ApprovalNoListener,
      ApprovalRequested, ApprovalTimedOut, AuditFiltered, ChainVerified, ClusterLeaderElected,
      ClusterLeaderLost, ClusterPeerJoined, ClusterPeerLeft, ClusterRaftDemoted,
      ClusterRaftPromoted, ClusterStateApplied, ClusterStateProposeFailed, ClusterViewServed,
      ContainerExecCalled, ContainerExecPtyClosed, ContainerExecPtyOpened,
      ContainerLogsStreamed, ContainerUpdated, DistroBuilt, DistroCreated, DistroEntered,
      DistroRemoved, EgressDenyEnforced, ImageManifestCreated, ImagePullStarted, ImagePushTls,
      ImagePushed, K8sDeploymentScaled, K8sNamespaceCreated, K8sPodCreated, K8sPodDeleted,
      K8sQueryServed, McpBridgeStarted, McpBridgeStopped, McpListChanged, McpPolicyChanged,
      McpResourceSubscribed, McpResourceUnsubscribed, McpResourceUpdated, McpToolCalled,
      McpToolDenied, MetricsCollectorStarted, MetricsCollectorStopped, NetworkEgressApplied,
      NetworkEgressFailed, PassthroughGranted, PluginDisabled, PluginEnabled, PluginInstalled,
      PluginInvoked, PluginKeyRevokePropagated, PluginKeyRevoked, PluginNetworkTraceCalled,
      PluginRemoved, PluginRuntimeInjectorCalled, PluginSignatureRejected,
      PluginSignatureVerified, ProfileApplied, ProfileDenied, ProfileLoaded,
      ProfileValidatorRejected, ProfilesReloaded, RemoteAuthFailed, RemoteMtlsAccepted,
      RemoteMtlsRejected, RemoteSessionStarted, SandboxSnapshotAutoTriggered, SeccompApplied,
      SeccompCompiled, SecretCreated, SecretRemoved, SelinuxApplied, SelinuxCompiled,
      SelinuxLabelRuntimeFallback, SelinuxStaticLabelApplied, SessionEnded, SessionStarted,
      SnapshotBackendUsed, SnapshotBranched, SnapshotCreated, SnapshotDecryptFailed,
      SnapshotEncrypted, SnapshotJobFinished, SnapshotJobStarted, SnapshotKeyRotated,
      SnapshotMounted, SnapshotReEncryptCompleted, SnapshotRemoved, SnapshotRolledBack,
      SnapshotUnmounted, TofuExpired, WebUiAccessDenied, WebUiSessionStarted,
      WsAuthSubprotocol, WsClientCertPinned, WsClientCertTofuEnrolled]"

lemma audit_kind_by_name_all: "k \<in> set audit_kind_by_name"
  by (cases k) (simp_all add: audit_kind_by_name_def)

lemma audit_kind_names_increasing: "successively (<) (map audit_kind_str audit_kind_by_name)"
  by (simp add: audit_kind_by_name_def)

lemma audit_kind_str_inject: "audit_kind_str k = audit_kind_str k' \<longleftrightarrow> k = k'"
  by (rule increasing_names_inject [OF audit_kind_names_increasing audit_kind_by_name_all])

end
