(* ===== verification/Database.thy ===== *)
theory Database
  imports Common
begin

text \<open>
  The SQLite database behind the daemon (\<^verbatim>\<open>db.rs\<close> and the migrations): one list of rows per table, an
  AUTOINCREMENT counter where the schema has one, and the wall clock. Any statement may fail: a fault
  plan says at which statement and with which message, so a fact proved for every plan covers every
  pattern of I/O errors, lock contention and lost connections. A failed transaction leaves the tables
  as they were.
\<close>

section \<open>Tables\<close>

record 'r table =
  rows :: "'r list"
  autoinc :: int

definition empty_table :: "'r table" where
  "empty_table = \<lparr>rows = [], autoinc = 0\<rparr>"

text \<open>
  An AUTOINCREMENT key is one more than the largest key ever used, and an insert fails once the keys
  of 64 bits are used up. The hash version of an audit row is absent when the column does not decode
  as an integer.
\<close>

definition max_rowid :: int where
  "max_rowid = 2 ^ 63 - 1"

definition next_id :: "('r \<Rightarrow> int) \<Rightarrow> 'r table \<Rightarrow> int option" where
  "next_id key t =
     (let m = fold max (map key (rows t)) (autoinc t) in
      if m < max_rowid then Some (m + 1) else None)"

record audit_row =
  a_seq :: int
  a_ts :: string
  a_kind :: string
  a_profile_name :: "string option"
  a_container_id :: "string option"
  a_payload :: string
  a_prev_hash :: string
  a_this_hash :: string
  a_hash_version :: "int option"

record profile_row =
  sp_id :: int
  sp_name :: string
  sp_yaml_content :: string
  sp_yaml_hash :: string

record mcp_policy_row =
  mp_id :: int
  mp_method :: string
  mp_tool_name :: "string option"
  mp_decision :: string
  mp_note :: "string option"

record mcp_session_row =
  ms_id :: int
  ms_container_id :: string
  ms_container_name :: string
  ms_profile_name :: "string option"
  ms_started_at :: string
  ms_ended_at :: "string option"
  ms_status :: string

record mcp_event_row =
  me_id :: int
  me_session_id :: int
  me_ts :: string
  me_direction :: string
  me_tool_name :: "string option"
  me_payload :: string
  me_decision :: "string option"

record pinned_row =
  pc_fingerprint :: string
  pc_label :: string
  pc_enrolled_at :: string
  pc_tofu_expires_at :: "int option"

record cluster_peer_row =
  cp_id :: int
  cp_node_id :: string
  cp_addr :: string
  cp_status :: string
  cp_last_seen :: string
  cp_joined_at :: string

record plugin_row =
  pl_id :: int
  pl_name :: string
  pl_version :: string
  pl_manifest_path :: string
  pl_wasm_path :: string
  pl_hooks :: string
  pl_enabled :: int
  pl_installed_at :: string

record revocation_row =
  rv_publisher :: string
  rv_fingerprint :: string
  rv_reason :: "string option"
  rv_revoked_at :: int
  rv_propagated_to :: string

record snapshot_row =
  sn_id :: int
  sn_container_id :: string
  sn_label :: "string option"
  sn_image_ref :: string
  sn_parent_id :: "int option"
  sn_created_at :: string
  sn_size_bytes :: "int option"
  sn_backend :: string
  sn_encrypted :: int
  sn_algorithm :: "string option"
  sn_key_source :: "string option"
  sn_ciphertext_sha256 :: "string option"
  sn_kdf_algorithm :: "string option"
  sn_kdf_params :: "string option"
  sn_rotated_from :: "int option"
  sn_rotated_at :: "int option"

record snapshot_job_row =
  sj_id :: int
  sj_job_id :: string
  sj_container_id :: string
  sj_label :: "string option"
  sj_status :: string
  sj_snapshot_id :: "int option"
  sj_image_ref :: "string option"
  sj_last_progress :: "string option"
  sj_error_message :: "string option"
  sj_started_at :: string
  sj_ended_at :: "string option"

record db =
  fault :: "nat \<Rightarrow> string option"
  ops :: nat
  clock :: "nat \<Rightarrow> timestamp"
  ticks :: nat
  audit_log :: "audit_row table"
  sandbox_profile :: "profile_row table"
  mcp_policies :: "mcp_policy_row table"
  mcp_sessions :: "mcp_session_row table"
  mcp_events :: "mcp_event_row table"
  pinned_clients :: "pinned_row list"
  cluster_peers :: "cluster_peer_row table"
  plugins :: "plugin_row table"
  snapshots :: "snapshot_row table"
  snapshot_jobs :: "snapshot_job_row table"
  plugin_key_revocations :: "revocation_row list"
  raft_state :: "(string \<times> string) list"

type_synonym 'a dbact = "(db, error, 'a) act"

text \<open>The database after the migrations ran on a new file.\<close>

definition fresh_db :: "(nat \<Rightarrow> string option) \<Rightarrow> (nat \<Rightarrow> timestamp) \<Rightarrow> db" where
  "fresh_db f c =
     \<lparr>fault = f, ops = 0, clock = c, ticks = 0, audit_log = empty_table,
      sandbox_profile = empty_table, mcp_policies = empty_table, mcp_sessions = empty_table,
      mcp_events = empty_table, pinned_clients = [], cluster_peers = empty_table,
      plugins = empty_table, snapshots = empty_table, snapshot_jobs = empty_table,
      plugin_key_revocations = [], raft_state = []\<rparr>"

section \<open>Statements and transactions\<close>

definition sql :: "'a dbact \<Rightarrow> 'a dbact" where
  "sql m d =
     (let d' = d\<lparr>ops := Suc (ops d)\<rparr> in
      case fault d (ops d) of Some e \<Rightarrow> (Inl (Sqlx e), d') | None \<Rightarrow> m d')"

definition utc_now :: "(db, 'e, timestamp) act" where
  "utc_now d = (Inr (clock d (ticks d)), d\<lparr>ticks := Suc (ticks d)\<rparr>)"

definition rollback :: "db \<Rightarrow> db \<Rightarrow> db" where
  "rollback d d' = d\<lparr>ops := ops d', ticks := ticks d'\<rparr>"

definition transaction :: "'a dbact \<Rightarrow> 'a dbact" where
  "transaction m =
     bindE (sql (ret ())) (\<lambda>_ d.
       case bindE m (\<lambda>x. bindE (sql (ret ())) (\<lambda>_. ret x)) d of
         (Inl e, d') \<Rightarrow> (Inl e, rollback d d')
       | (Inr x, d') \<Rightarrow> (Inr x, d'))"

text \<open>A property of the tables alone: it does not see the statement counter and the clock reads.\<close>

definition of_tables :: "(db \<Rightarrow> bool) \<Rightarrow> bool" where
  "of_tables P \<longleftrightarrow> (\<forall>d n k. P (d\<lparr>ops := n, ticks := k\<rparr>) = P d)"

lemma of_tablesI [intro]: "(\<And>d n k. P (d\<lparr>ops := n, ticks := k\<rparr>) = P d) \<Longrightarrow> of_tables P"
  by (simp add: of_tables_def)

lemma of_tables_ops: "of_tables P \<Longrightarrow> P (d\<lparr>ops := n\<rparr>) = P d"
  unfolding of_tables_def by (metis db.surjective db.update_convs(2) db.update_convs(4))

lemma of_tables_ticks: "of_tables P \<Longrightarrow> P (d\<lparr>ticks := k\<rparr>) = P d"
  unfolding of_tables_def by (metis db.surjective db.update_convs(2) db.update_convs(4))

lemma preserves_sql [preserves_intros]:
  "of_tables P \<Longrightarrow> preserves P m \<Longrightarrow> preserves P (sql m)"
  by (auto simp: preserves_def sql_def Let_def of_tables_ops split: option.splits)

lemma preserves_utc_now [preserves_intros]: "of_tables P \<Longrightarrow> preserves P utc_now"
  by (auto simp: preserves_def utc_now_def of_tables_ticks)

lemma rollback_tables: "of_tables P \<Longrightarrow> P (rollback d d') = P d"
  by (simp add: of_tables_def rollback_def)

lemma preserves_transaction [preserves_intros]:
  assumes P: "of_tables P" and m: "preserves P m"
  shows "preserves P (transaction m)"
proof -
  let ?body = "bindE m (\<lambda>x. bindE (sql (ret ())) (\<lambda>_. ret x))"
  have "preserves P ?body"
    by (intro preserves_intros P m)
  then have "preserves P (\<lambda>d. case ?body d of
      (Inl e, d') \<Rightarrow> (Inl e, rollback d d') | (Inr x, d') \<Rightarrow> (Inr x, d'))"
    by (auto simp: preserves_def rollback_tables [OF P] split: prod.splits sum.splits)
  then show ?thesis
    unfolding transaction_def by (intro preserves_intros P)
qed

text \<open>
  What a statement does when it is reached and when it is not, and what a transaction leaves behind.
\<close>

lemma sql_cases:
  "sql m d = (r, d') \<Longrightarrow>
     (\<exists>e. r = Inl (Sqlx e) \<and> d' = d\<lparr>ops := Suc (ops d)\<rparr>) \<or> m (d\<lparr>ops := Suc (ops d)\<rparr>) = (r, d')"
  by (auto simp: sql_def Let_def split: option.splits)

lemma sql_Inr: "sql m d = (Inr x, d') \<Longrightarrow> m (d\<lparr>ops := Suc (ops d)\<rparr>) = (Inr x, d')"
  by (auto simp: sql_def Let_def split: option.splits)

lemma sql_no_fault [simp]: "fault d = Map.empty \<Longrightarrow> sql m d = m (d\<lparr>ops := Suc (ops d)\<rparr>)"
  by (simp add: sql_def)

lemma transaction_cases:
  assumes "transaction m d = (r, d')"
  shows "(\<exists>e n k. r = Inl e \<and> d' = d\<lparr>ops := n, ticks := k\<rparr>) \<or>
    (\<exists>x d1 n. r = Inr x \<and> m (d\<lparr>ops := Suc (ops d)\<rparr>) = (Inr x, d1) \<and> d' = d1\<lparr>ops := n\<rparr>)"
proof (cases "fault d (ops d)")
  case None
  let ?d = "d\<lparr>ops := Suc (ops d)\<rparr>"
  obtain r1 d1 where m: "m ?d = (r1, d1)"
    by (cases "m ?d")
  show ?thesis
  proof (cases r1)
    case (Inl e)
    with assms None m have "r = Inl e \<and> d' = d\<lparr>ops := ops d1, ticks := ticks d1\<rparr>"
      by (auto simp: transaction_def bindE_apply sql_def Let_def rollback_def)
    then show ?thesis
      by blast
  next
    case (Inr x)
    with assms None m have
      "(r = Inr x \<and> d' = d1\<lparr>ops := Suc (ops d1)\<rparr>) \<or>
       (\<exists>e. r = Inl (Sqlx e) \<and> d' = d\<lparr>ops := Suc (ops d1), ticks := ticks d1\<rparr>)"
      by (auto simp: transaction_def bindE_apply sql_def Let_def rollback_def split: option.splits)
    with m Inr show ?thesis
      by blast
  qed
next
  case (Some e)
  with assms have "r = Inl (Sqlx e)" "d' = d\<lparr>ops := Suc (ops d), ticks := ticks d\<rparr>"
    by (auto simp: transaction_def bindE_apply sql_def Let_def)
  then show ?thesis
    by blast
qed

lemma transaction_no_fault:
  assumes "fault d = Map.empty" and "m (d\<lparr>ops := Suc (ops d)\<rparr>) = (Inr x, d1)"
    and "fault d1 = Map.empty"
  shows "transaction m d = (Inr x, d1\<lparr>ops := Suc (ops d1)\<rparr>)"
  using assms by (simp add: transaction_def bindE_apply)

section \<open>Keys\<close>

lemma fold_max_ge: "x \<le> fold max xs x" for x :: int
  by (induction xs arbitrary: x) (auto intro: order.trans [OF max.cobounded2])

lemma fold_max_mem: "y \<in> set xs \<Longrightarrow> y \<le> fold max xs x" for x y :: int
proof (induction xs arbitrary: x)
  case (Cons a xs)
  then show ?case
    using fold_max_ge [of "max a x" xs] by auto
qed simp

lemma next_id_fresh: "next_id key t = Some i \<Longrightarrow> r \<in> set (rows t) \<Longrightarrow> key r < i"
  using fold_max_mem [of "key r" "map key (rows t)" "autoinc t"]
  by (auto simp: next_id_def Let_def split: if_splits)

lemma next_id_autoinc: "next_id key t = Some i \<Longrightarrow> autoinc t < i"
  using fold_max_ge [of "autoinc t" "map key (rows t)"]
  by (auto simp: next_id_def Let_def split: if_splits)

lemma fold_max_below: "\<forall>y\<in>set xs. y \<le> x \<Longrightarrow> fold max xs x = x" for x :: int
  by (induction xs) (auto simp: max_absorb2)

text \<open>\<^verbatim>\<open>ORDER BY\<close> on rows that are in key order already, and on a suffix selected by key.\<close>

lemma sort_key_sorted: "sorted (map f xs) \<Longrightarrow> sort_key f xs = xs"
  by (induction xs) (auto simp: insort_is_Cons)

lemma map_key_nth: "map f xs = map g [a ..< a + length xs] \<Longrightarrow> i < length xs \<Longrightarrow> f (xs ! i) = g (a + i)"
proof -
  assume m: "map f xs = map g [a ..< a + length xs]" and i: "i < length xs"
  have "map f xs ! i = map g [a ..< a + length xs] ! i"
    by (simp only: m)
  with i show ?thesis
    by simp
qed

end
