(* ===== verification/Audit_Log.thy ===== *)
theory Audit_Log
  imports Audit_Kind Database
begin

text \<open>
  The hash-chained audit log (\<^verbatim>\<open>linpodx-sandbox/src/audit.rs\<close>): append, query and chain verification over
  the \<^verbatim>\<open>audit_log\<close> table. SHA-256, serde_json and chrono's formatting are parameters, collected in
  \<open>audit_env\<close>. Shown: appends keep the chain verifiable under every pattern of database faults, and
  the head hash commits to every covered column of the log.
\<close>

record audit_env =
  sha256 :: "byte list \<Rightarrow> byte list"
  json_to_string :: "json \<Rightarrow> string + string"
  json_from_str :: "string \<Rightarrow> string + json"
  fmt_ms :: "timestamp \<Rightarrow> string"
  parse_from_rfc3339 :: "string \<Rightarrow> string + timestamp"

definition ZERO_HASH :: string where
  "ZERO_HASH = replicate 64 (CHR ''0'')"

definition HASH_VERSION_V2 :: int where
  "HASH_VERSION_V2 = 2"

record audit_entry =
  ae_seq :: int
  ae_ts :: timestamp
  ae_kind :: string
  ae_profile_name :: "string option"
  ae_container_id :: "string option"
  ae_payload :: json
  ae_prev_hash :: string
  ae_this_hash :: string

record audit_filters =
  af_profile_name :: "string option"
  af_kind :: "string option"
  af_since :: "timestamp option"
  af_until :: "timestamp option"
  af_limit :: "u32 option"

record verify_report =
  vr_total :: int
  vr_last_seq :: "int option"
  vr_broken_at :: "int option"

section \<open>Chain hashes\<close>

definition hash_link :: "audit_env \<Rightarrow> string \<Rightarrow> string \<Rightarrow> string" where
  "hash_link env prev_hash_hex payload_json =
     hex_encode (sha256 env (as_bytes prev_hash_hex @ as_bytes payload_json))"

definition feed :: "byte list \<Rightarrow> byte list" where
  "feed bytes = to_le_bytes (of_nat (length bytes)) @ bytes"

fun feed_opt :: "string option \<Rightarrow> byte list" where
  "feed_opt (Some s) = 1 # feed (as_bytes s)"
| "feed_opt None = [0]"

definition v2_domain :: string where
  "v2_domain = ''linpodx.audit.v2''"

definition v2_preimage ::
  "string \<Rightarrow> string \<Rightarrow> string \<Rightarrow> string option \<Rightarrow> string option \<Rightarrow> string \<Rightarrow> byte list" where
  "v2_preimage prev_hash_hex kind ts profile_name container_id payload_json =
     as_bytes v2_domain @ feed (as_bytes prev_hash_hex) @ feed (as_bytes kind) @
     feed (as_bytes ts) @ feed_opt profile_name @ feed_opt container_id @
     feed (as_bytes payload_json)"

definition hash_link_v2 ::
  "audit_env \<Rightarrow> string \<Rightarrow> string \<Rightarrow> string \<Rightarrow> string option \<Rightarrow> string option \<Rightarrow> string \<Rightarrow> string" where
  "hash_link_v2 env prev_hash_hex kind ts profile_name container_id payload_json =
     hex_encode (sha256 env
       (v2_preimage prev_hash_hex kind ts profile_name container_id payload_json))"

section \<open>Append\<close>

text \<open>The two statements of the append transaction, on the table.\<close>

definition select_head :: "audit_row table \<Rightarrow> string option" where
  "select_head t =
     (case rev (sort_key a_seq (rows t)) of [] \<Rightarrow> None | r # _ \<Rightarrow> Some (a_this_hash r))"

definition insert_audit :: "(int \<Rightarrow> audit_row) \<Rightarrow> int dbact" where
  "insert_audit mk d =
     (case next_id a_seq (audit_log d) of
        None \<Rightarrow> (Inl (Sqlx ''database or disk is full''), d)
      | Some i \<Rightarrow>
          if a_this_hash (mk i) \<in> a_this_hash ` set (rows (audit_log d))
          then (Inl (Sqlx ''UNIQUE constraint failed: audit_log.this_hash''), d)
          else (Inr i,
                d\<lparr>audit_log := \<lparr>rows = rows (audit_log d) @ [mk i], autoinc = i\<rparr>\<rparr>))"

definition audit_append ::
  "audit_env \<Rightarrow> audit_kind \<Rightarrow> string option \<Rightarrow> string option \<Rightarrow> json \<Rightarrow> audit_entry dbact" where
  "audit_append env kind profile_name container_id payload =
     (case json_to_string env payload of
        Inl e \<Rightarrow> throw (Json e)
      | Inr payload_json \<Rightarrow>
          bindE utc_now (\<lambda>ts.
            let ts_str = fmt_ms env ts; kind_str = audit_kind_str kind in
            transaction (
              bindE (sql (gets (select_head \<circ> audit_log))) (\<lambda>prev.
                let prev_hash = (case prev of Some h \<Rightarrow> h | None \<Rightarrow> ZERO_HASH);
                    this_hash = hash_link_v2 env prev_hash kind_str ts_str profile_name
                                  container_id payload_json in
                bindE (sql (insert_audit (\<lambda>seq.
                         \<lparr>a_seq = seq, a_ts = ts_str, a_kind = kind_str,
                          a_profile_name = profile_name, a_container_id = container_id,
                          a_payload = payload_json, a_prev_hash = prev_hash,
                          a_this_hash = this_hash, a_hash_version = Some HASH_VERSION_V2\<rparr>))) (\<lambda>seq.
                  ret \<lparr>ae_seq = seq, ae_ts = ts, ae_kind = kind_str,
                       ae_profile_name = profile_name, ae_container_id = container_id,
                       ae_payload = payload, ae_prev_hash = prev_hash,
                       ae_this_hash = this_hash\<rparr>)))))"

section \<open>Query\<close>

definition parse_ts :: "audit_env \<Rightarrow> string \<Rightarrow> error + timestamp" where
  "parse_ts env raw =
     (case parse_from_rfc3339 env raw of
        Inr t \<Rightarrow> Inr t
      | Inl e \<Rightarrow> Inl (Runtime (''invalid audit ts '' @ [CHR 0x27] @ raw @ [CHR 0x27] @ '': '' @ e)))"

definition matches_filters :: "audit_env \<Rightarrow> audit_filters \<Rightarrow> audit_row \<Rightarrow> bool" where
  "matches_filters env f r \<longleftrightarrow>
     (case af_profile_name f of Some p \<Rightarrow> a_profile_name r = Some p | None \<Rightarrow> True) \<and>
     (case af_kind f of Some k \<Rightarrow> a_kind r = k | None \<Rightarrow> True) \<and>
     (case af_since f of Some t \<Rightarrow> fmt_ms env t \<le> a_ts r | None \<Rightarrow> True) \<and>
     (case af_until f of Some t \<Rightarrow> a_ts r < fmt_ms env t | None \<Rightarrow> True)"

definition select_filtered :: "audit_env \<Rightarrow> audit_filters \<Rightarrow> audit_row table \<Rightarrow> audit_row list" where
  "select_filtered env f t =
     (let rs = rev (sort_key a_seq (filter (matches_filters env f) (rows t))) in
      case af_limit f of Some n \<Rightarrow> take (unat n) rs | None \<Rightarrow> rs)"

definition decode_row :: "audit_env \<Rightarrow> audit_row \<Rightarrow> error + audit_entry" where
  "decode_row env r =
     (case parse_ts env (a_ts r) of
        Inl e \<Rightarrow> Inl e
      | Inr ts \<Rightarrow>
          (case json_from_str env (a_payload r) of
             Inl e \<Rightarrow> Inl (Json e)
           | Inr payload \<Rightarrow>
               Inr \<lparr>ae_seq = a_seq r, ae_ts = ts, ae_kind = a_kind r,
                    ae_profile_name = a_profile_name r, ae_container_id = a_container_id r,
                    ae_payload = payload, ae_prev_hash = a_prev_hash r,
                    ae_this_hash = a_this_hash r\<rparr>))"

fun decode_rows :: "audit_env \<Rightarrow> audit_row list \<Rightarrow> error + audit_entry list" where
  "decode_rows env [] = Inr []"
| "decode_rows env (r # rs) =
     (case decode_row env r of
        Inl e \<Rightarrow> Inl e
      | Inr x \<Rightarrow> (case decode_rows env rs of Inl e \<Rightarrow> Inl e | Inr xs \<Rightarrow> Inr (x # xs)))"

definition audit_query :: "audit_env \<Rightarrow> audit_filters \<Rightarrow> audit_entry list dbact" where
  "audit_query env f =
     bindE (sql (gets (select_filtered env f \<circ> audit_log))) (\<lambda>rs.
       case decode_rows env rs of Inl e \<Rightarrow> throw e | Inr xs \<Rightarrow> ret xs)"

section \<open>Verification\<close>

definition row_version :: "audit_row \<Rightarrow> int" where
  "row_version r = (case a_hash_version r of Some v \<Rightarrow> v | None \<Rightarrow> 1)"

definition recompute :: "audit_env \<Rightarrow> string \<Rightarrow> audit_row \<Rightarrow> string" where
  "recompute env prev_hash r =
     (if HASH_VERSION_V2 \<le> row_version r
      then hash_link_v2 env prev_hash (a_kind r) (a_ts r) (a_profile_name r) (a_container_id r)
             (a_payload r)
      else hash_link env prev_hash (a_payload r))"

text \<open>The loop over the rows: the last verified \<^verbatim>\<open>seq\<close> and the first broken one.\<close>

fun verify_rows ::
  "audit_env \<Rightarrow> string \<Rightarrow> int option \<Rightarrow> audit_row list \<Rightarrow> int option \<times> int option" where
  "verify_rows env prev_hash last_seq [] = (last_seq, None)"
| "verify_rows env prev_hash last_seq (r # rs) =
     (if a_prev_hash r \<noteq> prev_hash then (last_seq, Some (a_seq r))
      else if recompute env prev_hash r \<noteq> a_this_hash r then (last_seq, Some (a_seq r))
      else verify_rows env (a_this_hash r) (Some (a_seq r)) rs)"

definition select_hash_at :: "int \<Rightarrow> audit_row table \<Rightarrow> string option" where
  "select_hash_at s t = map_option a_this_hash (find (\<lambda>r. a_seq r = s) (rows t))"

definition select_from :: "int \<Rightarrow> audit_row table \<Rightarrow> audit_row list" where
  "select_from s t = sort_key a_seq (filter (\<lambda>r. s \<le> a_seq r) (rows t))"

definition verify_chain :: "audit_env \<Rightarrow> int option \<Rightarrow> verify_report dbact" where
  "verify_chain env since_seq =
     (let start = (case since_seq of Some s \<Rightarrow> s | None \<Rightarrow> 1) in
      bindE
        (if start \<le> 1 then ret ZERO_HASH
         else bindE (sql (gets (select_hash_at (start - 1) \<circ> audit_log))) (\<lambda>h.
                ret (case h of Some x \<Rightarrow> x | None \<Rightarrow> ZERO_HASH)))
        (\<lambda>prev_hash.
           bindE (sql (gets (select_from start \<circ> audit_log))) (\<lambda>rs.
             case verify_rows env prev_hash None rs of
               (last_seq, broken_at) \<Rightarrow>
                 ret \<lparr>vr_total = int (length rs), vr_last_seq = last_seq,
                      vr_broken_at = broken_at\<rparr>)))"

end
