(* ===== verification/Audit_Chain.thy ===== *)
theory Audit_Chain
  imports Audit_Log
begin

text \<open>
  Correctness of the audit chain: the invariant \<open>chain_inv\<close> that every append keeps, what
  \<^verbatim>\<open>verify_chain\<close> reports of it, the injectivity of the hashed encodings, and tamper evidence.
\<close>

section \<open>Linked rows\<close>

definition link_ok :: "audit_env \<Rightarrow> string \<Rightarrow> audit_row \<Rightarrow> bool" where
  "link_ok env prev r \<longleftrightarrow> a_prev_hash r = prev \<and> recompute env prev r = a_this_hash r"

fun linked :: "audit_env \<Rightarrow> string \<Rightarrow> audit_row list \<Rightarrow> bool" where
  "linked env prev [] = True"
| "linked env prev (r # rs) = (link_ok env prev r \<and> linked env (a_this_hash r) rs)"

definition head_from :: "string \<Rightarrow> audit_row list \<Rightarrow> string" where
  "head_from prev rs = (if rs = [] then prev else a_this_hash (last rs))"

lemma head_from_simps [simp]:
  "head_from prev [] = prev"
  "head_from prev (rs @ [r]) = a_this_hash r"
  "head_from prev (r # rs) = head_from (a_this_hash r) rs"
  by (simp_all add: head_from_def)

lemma linked_append:
  "linked env prev (rs @ ss) \<longleftrightarrow> linked env prev rs \<and> linked env (head_from prev rs) ss"
  by (induction rs arbitrary: prev) (auto simp: head_from_def)

lemma verify_rows_linked:
  "snd (verify_rows env prev last_seq rs) = None \<longleftrightarrow> linked env prev rs"
  by (induction rs arbitrary: prev last_seq) (auto simp: link_ok_def)

lemma verify_rows_last:
  "linked env prev rs \<Longrightarrow>
     fst (verify_rows env prev last_seq rs) = (if rs = [] then last_seq else Some (a_seq (last rs)))"
  by (induction rs arbitrary: prev last_seq) (auto simp: link_ok_def)

lemma verify_rows_broken:
  "snd (verify_rows env prev last_seq rs) = Some s \<longleftrightarrow>
     (\<exists>xs r ys. rs = xs @ r # ys \<and> linked env prev xs \<and> \<not> link_ok env (head_from prev xs) r \<and>
        a_seq r = s)"
proof (induction rs arbitrary: prev last_seq)
  case (Cons a rs)
  show ?case
  proof (cases "link_ok env prev a")
    case True
    have "(\<exists>xs r ys. a # rs = xs @ r # ys \<and> linked env prev xs \<and>
            \<not> link_ok env (head_from prev xs) r \<and> a_seq r = s) \<longleftrightarrow>
          (\<exists>xs r ys. rs = xs @ r # ys \<and> linked env (a_this_hash a) xs \<and>
            \<not> link_ok env (head_from (a_this_hash a) xs) r \<and> a_seq r = s)"
      (is "?L \<longleftrightarrow> ?R")
    proof
      assume ?L
      then obtain xs r ys where *: "a # rs = xs @ r # ys" "linked env prev xs"
        "\<not> link_ok env (head_from prev xs) r" "a_seq r = s"
        by blast
      with True obtain xs' where "xs = a # xs'"
        by (cases xs) auto
      with * show ?R
        by auto
    next
      assume ?R
      then obtain xs r ys where "rs = xs @ r # ys" "linked env (a_this_hash a) xs"
        "\<not> link_ok env (head_from (a_this_hash a) xs) r" "a_seq r = s"
        by blast
      with True have "a # rs = (a # xs) @ r # ys \<and> linked env prev (a # xs) \<and>
          \<not> link_ok env (head_from prev (a # xs)) r \<and> a_seq r = s"
        by simp
      then show ?L
        by blast
    qed
    with True Cons show ?thesis
      by (auto simp: link_ok_def)
  next
    case False
    have "(\<exists>xs r ys. a # rs = xs @ r # ys \<and> linked env prev xs \<and>
            \<not> link_ok env (head_from prev xs) r \<and> a_seq r = s) \<longleftrightarrow> a_seq a = s"
      (is "?L \<longleftrightarrow> _")
    proof
      assume ?L
      then obtain xs r ys where *: "a # rs = xs @ r # ys" "linked env prev xs" "a_seq r = s"
        by blast
      with False have "xs = []"
        by (cases xs) auto
      with * show "a_seq a = s"
        by simp
    next
      assume "a_seq a = s"
      with False have "a # rs = [] @ a # rs \<and> linked env prev [] \<and>
          \<not> link_ok env (head_from prev []) a \<and> a_seq a = s"
        by simp
      then show ?L
        by blast
    qed
    with False show ?thesis
      by (auto simp: link_ok_def)
  qed
qed simp

section \<open>The invariant of the log\<close>

definition chain_table :: "audit_env \<Rightarrow> audit_row table \<Rightarrow> bool" where
  "chain_table env t \<longleftrightarrow>
     map a_seq (rows t) = map int [1 ..< Suc (length (rows t))] \<and>
     autoinc t = int (length (rows t)) \<and> linked env ZERO_HASH (rows t)"

definition chain_inv :: "audit_env \<Rightarrow> db \<Rightarrow> bool" where
  "chain_inv env d \<longleftrightarrow> chain_table env (audit_log d)"

lemma of_tables_chain_inv [simp, intro]: "of_tables (chain_inv env)"
  by (auto simp: chain_inv_def)

lemma chain_inv_fresh [simp]: "chain_inv env (fresh_db f c)"
  by (simp add: chain_inv_def chain_table_def fresh_db_def empty_table_def)

lemma seq_nth:
  "map a_seq rs = map int [1 ..< Suc (length rs)] \<Longrightarrow> i < length rs \<Longrightarrow> a_seq (rs ! i) = int (Suc i)"
  using map_key_nth [of a_seq rs int 1 i] by simp

lemma seq_bounds:
  assumes "map a_seq rs = map int [1 ..< Suc (length rs)]" and "r \<in> set rs"
  shows "1 \<le> a_seq r" and "a_seq r \<le> int (length rs)"
proof -
  obtain i where "i < length rs" "r = rs ! i"
    using assms(2) by (auto simp: in_set_conv_nth)
  with seq_nth [OF assms(1)] show "1 \<le> a_seq r" and "a_seq r \<le> int (length rs)"
    by simp_all
qed

lemma chain_table_nth: "chain_table env t \<Longrightarrow> i < length (rows t) \<Longrightarrow> a_seq (rows t ! i) = int (Suc i)"
  unfolding chain_table_def by (blast intro: seq_nth)

lemma chain_table_sorted:
  assumes "chain_table env t"
  shows "sort_key a_seq (rows t) = rows t"
proof -
  have "sorted (map int [1 ..< Suc (length (rows t))])"
    by (rule sorted_map_mono) (auto simp: mono_on_def simp del: upt_Suc)
  with assms have "sorted (map a_seq (rows t))"
    by (simp only: chain_table_def)
  then show ?thesis
    by (rule sort_key_sorted)
qed

lemma select_head_chain:
  "chain_table env t \<Longrightarrow>
     (case select_head t of Some h \<Rightarrow> h | None \<Rightarrow> ZERO_HASH) = head_from ZERO_HASH (rows t)"
  unfolding select_head_def by (simp only: chain_table_sorted) (cases "rows t" rule: rev_cases; simp)

lemma next_id_chain:
  assumes "chain_table env t" and "next_id a_seq t = Some i"
  shows "i = int (Suc (length (rows t)))"
proof -
  have "\<forall>y\<in>set (map a_seq (rows t)). y \<le> autoinc t"
    using assms(1) seq_bounds(2) by (auto simp: chain_table_def)
  then show ?thesis
    using assms by (auto simp: next_id_def Let_def fold_max_below chain_table_def split: if_splits)
qed

lemma chain_table_append:
  assumes "chain_table env t" and "next_id a_seq t = Some i"
    and "link_ok env (head_from ZERO_HASH (rows t)) r" and "a_seq r = i"
  shows "chain_table env \<lparr>rows = rows t @ [r], autoinc = i\<rparr>"
  using assms(1,3,4) next_id_chain [OF assms(1,2)]
  by (simp add: chain_table_def linked_append)

section \<open>Append\<close>

text \<open>
  What an append does: it fails and the tables are as they were, or it adds exactly one row, linked
  to the head it read, and returns that row's entry.
\<close>

definition new_row ::
  "audit_env \<Rightarrow> audit_kind \<Rightarrow> string option \<Rightarrow> string option \<Rightarrow> string \<Rightarrow> timestamp \<Rightarrow> string \<Rightarrow> int \<Rightarrow> audit_row" where
  "new_row env kind pn ci payload_json ts prev i =
     \<lparr>a_seq = i, a_ts = fmt_ms env ts, a_kind = audit_kind_str kind, a_profile_name = pn,
      a_container_id = ci, a_payload = payload_json, a_prev_hash = prev,
      a_this_hash = hash_link_v2 env prev (audit_kind_str kind) (fmt_ms env ts) pn ci payload_json,
      a_hash_version = Some HASH_VERSION_V2\<rparr>"

lemma link_ok_new_row [simp]: "link_ok env prev (new_row env kind pn ci pj ts prev i)"
  by (simp add: link_ok_def recompute_def row_version_def new_row_def)

definition appended ::
  "audit_env \<Rightarrow> audit_kind \<Rightarrow> string option \<Rightarrow> string option \<Rightarrow> json \<Rightarrow> db \<Rightarrow> audit_entry \<Rightarrow> db \<Rightarrow> bool" where
  "appended env kind pn ci payload d e d' \<longleftrightarrow>
     (\<exists>pj i.
        json_to_string env payload = Inr pj \<and> next_id a_seq (audit_log d) = Some i \<and>
        (let prev = (case select_head (audit_log d) of Some h \<Rightarrow> h | None \<Rightarrow> ZERO_HASH);
             r = new_row env kind pn ci pj (clock d (ticks d)) prev i in
         a_this_hash r \<notin> a_this_hash ` set (rows (audit_log d)) \<and>
         d' = d\<lparr>audit_log := \<lparr>rows = rows (audit_log d) @ [r], autoinc = i\<rparr>,
                  ops := ops d', ticks := ticks d'\<rparr> \<and>
         e = \<lparr>ae_seq = i, ae_ts = clock d (ticks d), ae_kind = a_kind r, ae_profile_name = pn,
              ae_container_id = ci, ae_payload = payload, ae_prev_hash = prev,
              ae_this_hash = a_this_hash r\<rparr>))"

lemma insert_audit_Inr:
  "insert_audit mk d = (Inr i, d') \<Longrightarrow>
     next_id a_seq (audit_log d) = Some i \<and>
     a_this_hash (mk i) \<notin> a_this_hash ` set (rows (audit_log d)) \<and>
     d' = d\<lparr>audit_log := \<lparr>rows = rows (audit_log d) @ [mk i], autoinc = i\<rparr>\<rparr>"
  by (auto simp: insert_audit_def split: option.splits if_splits)

lemma audit_append_cases:
  assumes "audit_append env kind pn ci payload d = (r, d')"
  shows "(\<exists>e n k. r = Inl e \<and> d' = d\<lparr>ops := n, ticks := k\<rparr>) \<or>
    (\<exists>e. r = Inr e \<and> appended env kind pn ci payload d e d')"
proof (cases "json_to_string env payload")
  case (Inl e)
  with assms have "r = Inl (Json e)" "d' = d\<lparr>ops := ops d, ticks := ticks d\<rparr>"
    by (simp_all add: audit_append_def)
  then show ?thesis
    by blast
next
  case (Inr pj)
  let ?ts = "clock d (ticks d)" and ?d = "d\<lparr>ticks := Suc (ticks d)\<rparr>"
  obtain m where m: "transaction m ?d = (r, d')"
    and m_def: "m = bindE (sql (gets (select_head \<circ> audit_log))) (\<lambda>prev.
      let prev_hash = (case prev of Some h \<Rightarrow> h | None \<Rightarrow> ZERO_HASH) in
      bindE (sql (insert_audit (new_row env kind pn ci pj ?ts prev_hash))) (\<lambda>seq.
        ret \<lparr>ae_seq = seq, ae_ts = ?ts, ae_kind = audit_kind_str kind, ae_profile_name = pn,
             ae_container_id = ci, ae_payload = payload, ae_prev_hash = prev_hash,
             ae_this_hash = hash_link_v2 env prev_hash (audit_kind_str kind) (fmt_ms env ?ts) pn ci pj\<rparr>))"
    using assms Inr
    by (simp add: audit_append_def bindE_apply utc_now_def new_row_def [abs_def] Let_def cong: if_cong)
  from transaction_cases [OF m] show ?thesis
  proof (elim disjE exE conjE)
    fix e n k
    assume "r = Inl e" "d' = ?d\<lparr>ops := n, ticks := k\<rparr>"
    then show ?thesis
      by auto
  next
    fix x d1 n
    assume r: "r = Inr x" and x: "m (?d\<lparr>ops := Suc (ops ?d)\<rparr>) = (Inr x, d1)"
      and d': "d' = d1\<lparr>ops := n\<rparr>"
    have "appended env kind pn ci payload d x d'"
      using x Inr unfolding m_def d'
      by (cases d) (auto simp: Let_def appended_def new_row_def
          elim!: bindE_Inr_E dest!: sql_Inr insert_audit_Inr)
    with r show ?thesis
      by blast
  qed
qed

lemma appended_chain:
  "appended env kind pn ci payload d e d' \<Longrightarrow> chain_inv env d \<Longrightarrow> chain_inv env d'"
proof (unfold appended_def Let_def, elim exE conjE)
  fix pj i
  let ?t = "audit_log d"
  let ?p = "case select_head ?t of Some h \<Rightarrow> h | None \<Rightarrow> ZERO_HASH"
  let ?r = "new_row env kind pn ci pj (clock d (ticks d)) ?p i"
  assume inv: "chain_inv env d" and i: "next_id a_seq ?t = Some i"
    and d': "d' = d\<lparr>audit_log := \<lparr>rows = rows ?t @ [?r], autoinc = i\<rparr>,
      ops := ops d', ticks := ticks d'\<rparr>"
  have t: "chain_table env ?t"
    using inv by (simp add: chain_inv_def)
  have "link_ok env (head_from ZERO_HASH (rows ?t)) ?r"
    by (simp add: select_head_chain [OF t])
  then have "chain_table env \<lparr>rows = rows ?t @ [?r], autoinc = i\<rparr>"
    by (rule chain_table_append [OF t i]) (simp add: new_row_def)
  then show "chain_inv env d'"
    by (subst d') (simp add: chain_inv_def)
qed

lemma preserves_audit_append [preserves_intros]:
  "preserves (chain_inv env) (audit_append env kind pn ci payload)"
proof (rule preservesI)
  fix d
  assume inv: "chain_inv env d"
  obtain r d' where a: "audit_append env kind pn ci payload d = (r, d')"
    by (cases "audit_append env kind pn ci payload d")
  from audit_append_cases [OF a] show "chain_inv env (snd (audit_append env kind pn ci payload d))"
  proof (elim disjE exE conjE)
    fix e n k
    assume "d' = d\<lparr>ops := n, ticks := k\<rparr>"
    then show ?thesis
      using inv a by (simp add: chain_inv_def)
  next
    fix e
    assume "appended env kind pn ci payload d e d'"
    then show ?thesis
      using inv a appended_chain by simp
  qed
qed

section \<open>Verification of an untouched log\<close>

lemma select_from_chain:
  assumes t: "chain_table env t"
  shows "select_from s t = drop (nat (s - 1)) (rows t)"
proof -
  let ?k = "nat (s - 1)" and ?rs = "rows t"
  have seq: "map a_seq ?rs = map int [1 ..< Suc (length ?rs)]"
    using t by (simp add: chain_table_def)
  have "filter (\<lambda>r. s \<le> a_seq r) (take ?k ?rs) = []"
    using seq_nth [OF seq] by (auto simp: filter_empty_conv in_set_conv_nth)
  moreover have "filter (\<lambda>r. s \<le> a_seq r) (drop ?k ?rs) = drop ?k ?rs"
    using seq_nth [OF seq] by (auto simp: filter_id_conv in_set_conv_nth)
  ultimately have "filter (\<lambda>r. s \<le> a_seq r) ?rs = drop ?k ?rs"
    by (metis append_take_drop_id filter_append append_Nil)
  moreover have "sorted (map a_seq (drop ?k ?rs))"
    unfolding drop_map [symmetric] seq
    by (intro sorted_wrt_drop sorted_map_mono) (auto simp: mono_on_def simp del: upt_Suc)
  ultimately show ?thesis
    by (simp add: select_from_def sort_key_sorted)
qed

lemma select_hash_at_chain:
  assumes t: "chain_table env t" and s: "1 \<le> s" "s \<le> int (length (rows t))"
  shows "select_hash_at s t = Some (head_from ZERO_HASH (take (nat s) (rows t)))"
proof -
  let ?rs = "rows t" and ?i = "nat s - 1"
  have i: "?i < length ?rs" "Suc ?i = nat s"
    using s by auto
  have seq: "\<And>j. j < length ?rs \<Longrightarrow> a_seq (?rs ! j) = int (Suc j)"
    using t by (rule chain_table_nth)
  have "find (\<lambda>r. a_seq r = s) ?rs = Some (?rs ! ?i)"
    unfolding find_Some_iff using i s by (intro exI [of _ ?i]) (auto simp: seq)
  moreover have "take (nat s) ?rs = take ?i ?rs @ [?rs ! ?i]"
    using i by (metis take_Suc_conv_app_nth)
  ultimately show ?thesis
    by (simp add: select_hash_at_def)
qed

definition verify_start :: "int option \<Rightarrow> int" where
  "verify_start since = (case since of Some s \<Rightarrow> s | None \<Rightarrow> 1)"

lemma verify_chain_no_fault:
  assumes "\<forall>n\<ge>ops d. fault d n = None"
  shows "\<exists>d'. verify_chain env since d =
    (let s = verify_start since;
         prev = (if s \<le> 1 then ZERO_HASH
                 else case select_hash_at (s - 1) (audit_log d) of Some x \<Rightarrow> x | None \<Rightarrow> ZERO_HASH);
         rs = select_from s (audit_log d) in
     (Inr \<lparr>vr_total = int (length rs), vr_last_seq = fst (verify_rows env prev None rs),
           vr_broken_at = snd (verify_rows env prev None rs)\<rparr>, d'))"
  using assms
  by (auto simp: verify_chain_def verify_start_def bindE_apply sql_def Let_def
      split: option.splits prod.splits)

lemma verify_chain_intact:
  assumes t: "chain_table env t"
    and prev: "prev = (if s \<le> 1 then ZERO_HASH
                 else case select_hash_at (s - 1) t of Some x \<Rightarrow> x | None \<Rightarrow> ZERO_HASH)"
  shows "linked env prev (select_from s t)"
proof (cases "s \<le> int (length (rows t))")
  case True
  let ?k = "nat (s - 1)"
  have lnk: "linked env ZERO_HASH (take ?k (rows t) @ drop ?k (rows t))"
    using t by (simp add: chain_table_def)
  have "prev = head_from ZERO_HASH (take ?k (rows t))"
    using True by (auto simp: prev select_hash_at_chain [OF t] intro!: arg_cong [of _ _ "head_from ZERO_HASH"])
  with lnk show ?thesis
    by (simp only: select_from_chain [OF t] linked_append)
next
  case False
  then have "drop (nat (s - 1)) (rows t) = []"
    by simp
  then show ?thesis
    by (simp add: select_from_chain [OF t])
qed

definition audit_initial :: "db \<Rightarrow> bool" where
  "audit_initial d \<longleftrightarrow> (\<exists>f c. d = fresh_db f c)"

inductive audit_step :: "audit_env \<Rightarrow> db \<Rightarrow> db \<Rightarrow> bool" for env where
  audit_step: "audit_step env d (snd (audit_append env kind pn ci payload d))"

inductive_cases audit_stepE: "audit_step env d d'"

interpretation audit_machine: invariant_machine audit_initial "audit_step env" "chain_inv env" for env
proof
  show "audit_initial d \<Longrightarrow> chain_inv env d" for d
    by (auto simp: audit_initial_def)
  show "chain_inv env d \<Longrightarrow> audit_step env d d' \<Longrightarrow> chain_inv env d'" for d d'
    by (auto elim!: audit_stepE intro: preserves_snd [OF preserves_audit_append])
qed

text \<open>
  C1. An audit log written only by \<^verbatim>\<open>append\<close>, by any number of calls of which any may have failed at
  any statement, verifies: \<^verbatim>\<open>verify_chain\<close> from any start reports no broken row, counts exactly the rows
  from the start on, and reports the newest row as the last one verified.
\<close>

theorem appended_log_verifies:
  assumes "reachable audit_initial (audit_step env) d"
    and "\<forall>n\<ge>ops d. fault d n = None"
  shows "\<exists>rep d'. verify_chain env since d = (Inr rep, d') \<and> vr_broken_at rep = None \<and>
    (let n = int (length (rows (audit_log d))); s = max 1 (verify_start since) in
     vr_total rep = max 0 (n - (s - 1)) \<and> vr_last_seq rep = (if s \<le> n then Some n else None))"
proof -
  let ?t = "audit_log d" and ?s = "verify_start since"
  let ?rs = "select_from ?s ?t"
  define prev where "prev = (if ?s \<le> 1 then ZERO_HASH
    else case select_hash_at (?s - 1) ?t of Some x \<Rightarrow> x | None \<Rightarrow> ZERO_HASH)"
  have t: "chain_table env ?t"
    using audit_machine.inv_reachable [OF assms(1)] by (simp add: chain_inv_def)
  have lnk: "linked env prev ?rs"
    by (rule verify_chain_intact [OF t prev_def])
  obtain d' where v: "verify_chain env since d =
      (Inr \<lparr>vr_total = int (length ?rs), vr_last_seq = fst (verify_rows env prev None ?rs),
            vr_broken_at = snd (verify_rows env prev None ?rs)\<rparr>, d')"
    using verify_chain_no_fault [OF assms(2), of env since] by (auto simp: Let_def prev_def)
  have rs: "?rs = drop (nat (?s - 1)) (rows ?t)"
    by (rule select_from_chain [OF t])
  have last_seq: "rows ?t \<noteq> [] \<Longrightarrow> a_seq (last (rows ?t)) = int (length (rows ?t))"
    using chain_table_nth [OF t, of "length (rows ?t) - 1"] by (simp add: last_conv_nth)
  show ?thesis
    using v verify_rows_last [OF lnk, of None] verify_rows_linked [of env prev None ?rs] lnk last_seq
    by (cases "rows ?t = []") (auto simp: Let_def rs last_drop)
qed

text \<open>
  A concrete environment for the witnesses: a 32-byte digest of the last bytes, and payloads that are
  plain strings.
\<close>

definition demo_env :: audit_env where
  "demo_env =
     \<lparr>sha256 = (\<lambda>bs. take 32 (rev bs @ replicate 32 0)),
      json_to_string = (\<lambda>j. case as_str j of Some s \<Rightarrow> Inr s | None \<Rightarrow> Inl ''not a string''),
      json_from_str = (\<lambda>s. Inr (JString s)), fmt_ms = show_int, parse_from_rfc3339 = (\<lambda>_. Inr 0)\<rparr>"

definition demo_db :: db where
  "demo_db = fresh_db Map.empty (\<lambda>n. int n)"

definition demo_log :: db where
  "demo_log = snd (audit_append demo_env audit_kind.ProfileLoaded (Some ''web'') None (JString ''x'') demo_db)"

lemma demo_log_rows [simp]:
  "rows (audit_log demo_log) = [new_row demo_env audit_kind.ProfileLoaded (Some ''web'') None ''x'' 0 ZERO_HASH 1]"
  "autoinc (audit_log demo_log) = 1" "fault demo_log = Map.empty"
  by (simp_all add: demo_log_def demo_db_def fresh_db_def empty_table_def audit_append_def bindE_apply
      utc_now_def transaction_def demo_env_def insert_audit_def next_id_def max_rowid_def
      select_head_def new_row_def Let_def)

lemma demo_log_reachable: "reachable audit_initial (audit_step demo_env) demo_log"
proof -
  have "reachable audit_initial (audit_step demo_env) demo_db"
    by (rule reachable.intros(1)) (auto simp: audit_initial_def demo_db_def)
  then show ?thesis
    unfolding demo_log_def by (rule reachable.intros(2)) (rule audit_step)
qed

theorem appended_log_verifies_witness:
  "\<exists>rep d'. verify_chain demo_env None demo_log = (Inr rep, d') \<and> vr_broken_at rep = None \<and>
     vr_total rep = 1 \<and> vr_last_seq rep = Some 1"
  using appended_log_verifies [of demo_env demo_log None] demo_log_reachable
  by (auto simp: verify_start_def)

section \<open>The hashed encodings are injective\<close>

lemma of_nat_u64_inject: "m < 2 ^ 64 \<Longrightarrow> n < 2 ^ 64 \<Longrightarrow> (of_nat m :: u64) = of_nat n \<longleftrightarrow> m = n"
  by (simp add: word_of_nat_eq_iff take_bit_nat_eq_self)

lemma feed_append_eq:
  assumes "length a < 2 ^ 64" and "length b < 2 ^ 64"
  shows "feed a @ x = feed b @ y \<longleftrightarrow> a = b \<and> x = y"
proof -
  have "feed a @ x = feed b @ y \<longleftrightarrow> length a = length b \<and> a @ x = b @ y"
    unfolding feed_def append_assoc
    by (subst append_eq_append_conv) (simp_all add: of_nat_u64_inject [OF assms])
  then show ?thesis
    by auto
qed

lemma feed_opt_append_eq:
  assumes "case_option True (\<lambda>s. length s < 2 ^ 64) a" and "case_option True (\<lambda>s. length s < 2 ^ 64) b"
  shows "feed_opt a @ x = feed_opt b @ y \<longleftrightarrow> a = b \<and> x = y"
  using assms by (cases a; cases b) (simp_all add: feed_append_eq)

lemma feed_eq: "length a < 2 ^ 64 \<Longrightarrow> length b < 2 ^ 64 \<Longrightarrow> feed a = feed b \<longleftrightarrow> a = b"
  using feed_append_eq [of a b "[]" "[]"] by simp

definition row_fits :: "audit_row \<Rightarrow> bool" where
  "row_fits r \<longleftrightarrow>
     list_all (\<lambda>s. length s < 2 ^ 64) [a_prev_hash r, a_kind r, a_ts r, a_payload r] \<and>
     case_option True (\<lambda>s. length s < 2 ^ 64) (a_profile_name r) \<and>
     case_option True (\<lambda>s. length s < 2 ^ 64) (a_container_id r)"

definition row_v2_preimage :: "audit_row \<Rightarrow> byte list" where
  "row_v2_preimage r =
     v2_preimage (a_prev_hash r) (a_kind r) (a_ts r) (a_profile_name r) (a_container_id r) (a_payload r)"

lemma row_v2_preimage_eq:
  assumes "row_fits r" and "row_fits r'"
  shows "row_v2_preimage r = row_v2_preimage r' \<longleftrightarrow>
    a_prev_hash r = a_prev_hash r' \<and> a_kind r = a_kind r' \<and> a_ts r = a_ts r' \<and>
    a_profile_name r = a_profile_name r' \<and> a_container_id r = a_container_id r' \<and>
    a_payload r = a_payload r'"
  using assms
  by (simp add: row_fits_def row_v2_preimage_def v2_preimage_def feed_append_eq feed_opt_append_eq feed_eq)

text \<open>
  C31. The byte string hashed for a version-2 row determines all six covered columns: two rows whose
  strings fit in memory (length below two to the 64) and that are hashed from the same bytes agree on
  previous hash, kind, timestamp, profile, container and payload.
\<close>

theorem v2_preimage_injective:
  assumes "row_fits r" and "row_fits r'" and "row_v2_preimage r = row_v2_preimage r'"
  shows "a_prev_hash r = a_prev_hash r' \<and> a_kind r = a_kind r' \<and> a_ts r = a_ts r' \<and>
    a_profile_name r = a_profile_name r' \<and> a_container_id r = a_container_id r' \<and>
    a_payload r = a_payload r'"
  using assms by (simp add: row_v2_preimage_eq)

definition demo_row :: audit_row where
  "demo_row =
     \<lparr>a_seq = 1, a_ts = ''t'', a_kind = ''profile_loaded'', a_profile_name = Some ''web'',
      a_container_id = None, a_payload = ''x'', a_prev_hash = ZERO_HASH, a_this_hash = ''h'',
      a_hash_version = Some 2\<rparr>"

theorem v2_preimage_injective_witness:
  "a_kind demo_row = a_kind (demo_row\<lparr>a_seq := 9\<rparr>)"
  using v2_preimage_injective [of demo_row "demo_row\<lparr>a_seq := 9\<rparr>"]
  by (simp add: row_fits_def demo_row_def ZERO_HASH_def row_v2_preimage_def)

section \<open>Tamper evidence\<close>

text \<open>
  The bytes that the verifier hashes for a row, and the columns they cover: a version-1 row covers
  the previous hash and the payload only.
\<close>

definition row_preimage :: "audit_row \<Rightarrow> byte list" where
  "row_preimage r =
     (if HASH_VERSION_V2 \<le> row_version r then row_v2_preimage r
      else as_bytes (a_prev_hash r) @ as_bytes (a_payload r))"

definition covered ::
  "audit_row \<Rightarrow> string \<times> string \<times> (string \<times> string \<times> string option \<times> string option) option" where
  "covered r =
     (a_prev_hash r, a_payload r,
      if HASH_VERSION_V2 \<le> row_version r
      then Some (a_kind r, a_ts r, a_profile_name r, a_container_id r) else None)"

definition is_hex64 :: "string \<Rightarrow> bool" where
  "is_hex64 s \<longleftrightarrow> length s = 64 \<and> set s \<subseteq> set hex_alphabet"

lemma recompute_preimage:
  "recompute env (a_prev_hash r) r = hex_encode (sha256 env (row_preimage r))"
  by (simp add: recompute_def row_preimage_def row_v2_preimage_def hash_link_v2_def hash_link_def)

lemma link_ok_preimage:
  "link_ok env prev r \<longleftrightarrow> a_prev_hash r = prev \<and> a_this_hash r = hex_encode (sha256 env (row_preimage r))"
  using recompute_preimage [of env r] by (auto simp: link_ok_def)

lemma zero_hash_hex64: "is_hex64 ZERO_HASH"
proof -
  have "hex_digit 0 \<in> set hex_alphabet"
    by (rule hex_digit_mem) simp
  moreover have "hex_digit 0 = CHR ''0''"
    by (simp add: hex_digit_def hex_alphabet_def)
  ultimately show ?thesis
    by (simp add: is_hex64_def ZERO_HASH_def)
qed

lemma hex_encode_hex64: "length bs = 32 \<Longrightarrow> is_hex64 (hex_encode bs)"
  using set_hex_encode [of bs] by (simp add: is_hex64_def)

lemma domain_not_hex: "is_hex64 p \<Longrightarrow> as_bytes p @ x \<noteq> as_bytes v2_domain @ y"
proof
  assume p: "is_hex64 p" and eq: "as_bytes p @ x = as_bytes v2_domain @ y"
  obtain c q where pc: "p = c # q"
    using p by (cases p) (auto simp: is_hex64_def)
  have "as_bytes [c] = as_bytes ''l''"
    using eq by (simp add: pc v2_domain_def as_bytes_def)
  then have "c = CHR ''l''"
    by (simp only: as_bytes_inject) simp
  with p pc show False
    by (simp add: is_hex64_def hex_alphabet_def)
qed

lemma row_preimage_inject:
  assumes "row_fits r" "row_fits r'" "is_hex64 (a_prev_hash r)" "is_hex64 (a_prev_hash r')"
    and "row_preimage r = row_preimage r'"
  shows "covered r = covered r'"
proof -
  have v1: "as_bytes (a_prev_hash r) @ as_bytes (a_payload r) =
      as_bytes (a_prev_hash r') @ as_bytes (a_payload r') \<Longrightarrow>
      a_prev_hash r = a_prev_hash r' \<and> a_payload r = a_payload r'"
    using assms(3,4) by (simp add: is_hex64_def)
  have mixed: "as_bytes (a_prev_hash r) @ x \<noteq> row_v2_preimage r'"
    "as_bytes (a_prev_hash r') @ x \<noteq> row_v2_preimage r" for x
    using domain_not_hex assms(3,4) by (simp_all add: row_v2_preimage_def v2_preimage_def)
  show ?thesis
    using assms(5) v1 mixed mixed [symmetric] row_v2_preimage_eq [OF assms(1,2)]
    by (auto simp: row_preimage_def covered_def split: if_splits)
qed

lemma head_hex64:
  assumes "\<And>bs. length (sha256 env bs) = 32" and "linked env ZERO_HASH rs"
  shows "is_hex64 (head_from ZERO_HASH rs)"
  using assms(2) by (cases rs rule: rev_cases)
    (auto simp: zero_hash_hex64 linked_append link_ok_preimage intro: hex_encode_hex64 assms(1))

text \<open>A pair of rows that is a collision of the digest, and a row whose hash is the genesis value.\<close>

definition row_collision :: "audit_env \<Rightarrow> audit_row list \<Rightarrow> audit_row list \<Rightarrow> bool" where
  "row_collision env rs ss \<longleftrightarrow>
     list_ex (\<lambda>r. list_ex (\<lambda>s. row_preimage r \<noteq> row_preimage s \<and>
       sha256 env (row_preimage r) = sha256 env (row_preimage s)) ss) rs"

definition row_zero :: "audit_row list \<Rightarrow> bool" where
  "row_zero rs \<longleftrightarrow> list_ex (\<lambda>r. a_this_hash r = ZERO_HASH) rs"

lemma linked_commit:
  assumes len: "\<And>bs. length (sha256 env bs) = 32"
  shows "linked env ZERO_HASH rs \<Longrightarrow> linked env ZERO_HASH ss \<Longrightarrow>
    list_all row_fits rs \<Longrightarrow> list_all row_fits ss \<Longrightarrow>
    head_from ZERO_HASH rs = head_from ZERO_HASH ss \<Longrightarrow>
    map covered rs = map covered ss \<or> row_collision env rs ss \<or> row_zero (rs @ ss)"
proof (induction rs arbitrary: ss rule: rev_induct)
  case Nil
  then show ?case
    by (cases ss rule: rev_cases) (auto simp: row_zero_def)
next
  case (snoc r rs)
  show ?case
  proof (cases ss rule: rev_cases)
    case Nil
    with snoc.prems show ?thesis
      by (auto simp: row_zero_def)
  next
    case (snoc ss' s)
    have lr: "linked env ZERO_HASH rs" "link_ok env (head_from ZERO_HASH rs) r"
      and ls: "linked env ZERO_HASH ss'" "link_ok env (head_from ZERO_HASH ss') s"
      using snoc.prems(1,2) snoc by (simp_all add: linked_append)
    have h: "sha256 env (row_preimage r) = sha256 env (row_preimage s)"
      using snoc.prems(5) lr(2) ls(2) snoc by (simp add: link_ok_preimage)
    show ?thesis
    proof (cases "row_preimage r = row_preimage s")
      case False
      with h show ?thesis
        by (simp add: row_collision_def list_ex_iff snoc)
    next
      case True
      have hx: "is_hex64 (a_prev_hash r)" "is_hex64 (a_prev_hash s)"
        using head_hex64 [OF len lr(1)] head_hex64 [OF len ls(1)] lr(2) ls(2)
        by (simp_all add: link_ok_def)
      have c: "covered r = covered s"
        using row_preimage_inject [OF _ _ hx True] snoc.prems(3,4) snoc by simp
      then have "head_from ZERO_HASH rs = head_from ZERO_HASH ss'"
        using lr(2) ls(2) by (simp add: covered_def link_ok_def)
      then have "map covered rs = map covered ss' \<or> row_collision env rs ss' \<or> row_zero (rs @ ss')"
        using snoc.IH [OF lr(1) ls(1)] snoc.prems(3,4) snoc by simp
      with c snoc show ?thesis
        by (auto simp: row_collision_def row_zero_def list_ex_iff)
    qed
  qed
qed

lemma verify_chain_Inr:
  assumes "verify_chain env since d = (Inr rep, d')"
  shows "let s = verify_start since;
      prev = (if s \<le> 1 then ZERO_HASH
              else case select_hash_at (s - 1) (audit_log d) of Some x \<Rightarrow> x | None \<Rightarrow> ZERO_HASH) in
    vr_broken_at rep = snd (verify_rows env prev None (select_from s (audit_log d)))"
  using assms
  by (auto simp: verify_chain_def verify_start_def bindE_apply sql_def Let_def
      split: option.splits prod.splits if_splits)

lemma verify_chain_None_linked:
  "verify_chain env None d = (Inr rep, d') \<Longrightarrow>
     vr_broken_at rep = None \<longleftrightarrow> linked env ZERO_HASH (select_from 1 (audit_log d))"
  using verify_chain_Inr [of env None d rep d'] by (simp add: verify_start_def verify_rows_linked)

text \<open>
  C7. The head hash commits to the whole log. If two databases both pass a full \<^verbatim>\<open>verify_chain\<close> and have
  the same newest hash, then they hold the same number of rows with the same covered columns in the
  same order, or two of their rows are an explicit collision of the digest, or some row hashes to the
  all-zero genesis value. The digest is only assumed to be 32 bytes long.
\<close>

theorem head_hash_commits_to_log:
  assumes "\<forall>bs. length (sha256 env bs) = 32"
    and "verify_chain env None d1 = (Inr rep1, d1')" and "vr_broken_at rep1 = None"
    and "verify_chain env None d2 = (Inr rep2, d2')" and "vr_broken_at rep2 = None"
    and "list_all row_fits (rows (audit_log d1))" and "list_all row_fits (rows (audit_log d2))"
    and "head_from ZERO_HASH (select_from 1 (audit_log d1)) =
         head_from ZERO_HASH (select_from 1 (audit_log d2))"
  shows "(let rs = select_from 1 (audit_log d1); ss = select_from 1 (audit_log d2) in
    map covered rs = map covered ss \<or> row_collision env rs ss \<or> row_zero (rs @ ss))"
proof -
  have "list_all row_fits (select_from 1 (audit_log d1))" "list_all row_fits (select_from 1 (audit_log d2))"
    using assms(6,7) by (simp_all add: select_from_def list_all_iff)
  then show ?thesis
    using linked_commit [of env "select_from 1 (audit_log d1)" "select_from 1 (audit_log d2)"] assms
      verify_chain_None_linked by (simp add: Let_def)
qed

lemma demo_env_digest: "length (sha256 demo_env bs) = 32"
  by (simp add: demo_env_def)

lemma demo_log_fits: "list_all row_fits (rows (audit_log demo_log))"
  by (simp add: row_fits_def new_row_def ZERO_HASH_def demo_env_def show_int_def)
    (simp add: show_nat.simps)

lemma demo_log_reports: "\<exists>rep d'. verify_chain demo_env None demo_log = (Inr rep, d') \<and> vr_broken_at rep = None"
proof -
  have t: "chain_table demo_env (audit_log demo_log)"
    using audit_machine.inv_reachable [OF demo_log_reachable] by (simp add: chain_inv_def)
  obtain rep d' where v: "verify_chain demo_env None demo_log = (Inr rep, d')"
    using verify_chain_no_fault [of demo_log demo_env None] by (auto simp: Let_def)
  have "linked demo_env ZERO_HASH (select_from 1 (audit_log demo_log))"
    by (rule verify_chain_intact [OF t]) simp
  with v verify_chain_None_linked [OF v] show ?thesis
    by blast
qed

theorem head_hash_commits_to_log_witness:
  "let rs = select_from 1 (audit_log demo_log) in
   map covered rs = map covered rs \<or> row_collision demo_env rs rs \<or> row_zero (rs @ rs)"
proof -
  obtain rep d' where "verify_chain demo_env None demo_log = (Inr rep, d')" "vr_broken_at rep = None"
    using demo_log_reports by blast
  with head_hash_commits_to_log [of demo_env demo_log rep d' demo_log rep d'] demo_env_digest demo_log_fits
  show ?thesis
    by (simp add: Let_def del: demo_log_rows)
qed


definition demo_tampered :: db where
  "demo_tampered =
     demo_db\<lparr>audit_log := \<lparr>rows = [demo_row\<lparr>a_prev_hash := ''ff''\<rparr>], autoinc = 1\<rparr>\<rparr>"


end
