(* ===== verification/Plugin_Host.thy ===== *)
theory Plugin_Host
  imports Prelude
begin

text \<open>
  The plugin SDK types and the host functions a WebAssembly plugin can call
  (\<^verbatim>\<open>linpodx-plugin/src/lib.rs\<close>, \<^verbatim>\<open>host_api.rs\<close>). The guest is a parameter elsewhere; here is what each
  call it makes does to the host state, with the guest's linear memory as a byte list and \<^verbatim>\<open>i32\<close>
  pointers at their width. Shown: guest memory accesses never leave the memory, for any pointer and
  length.
\<close>

section \<open>Types (lib.rs)\<close>

datatype plugin_error =
  NotImplemented string
| PIo string
| Manifest string
| WasmLoad string
| HostRejected string
| PNotFound string
| Duplicate string

fun plugin_error_display :: "plugin_error \<Rightarrow> string" where
  "plugin_error_display (NotImplemented m) = ''not yet implemented (Stage 2-A): '' @ m"
| "plugin_error_display (PIo m) = ''io error: '' @ m"
| "plugin_error_display (Manifest m) = ''manifest parse error: '' @ m"
| "plugin_error_display (WasmLoad m) = ''wasm load error: '' @ m"
| "plugin_error_display (HostRejected m) = ''host call rejected: '' @ m"
| "plugin_error_display (PNotFound m) = ''plugin '' @ [CHR 0x27] @ m @ [CHR 0x27] @ '' not found''"
| "plugin_error_display (Duplicate m) = ''plugin '' @ [CHR 0x27] @ m @ [CHR 0x27] @ '' already installed''"

datatype plugin_decision = PAllow | PDeny | PDefer

fun plugin_decision_as_u8 :: "plugin_decision \<Rightarrow> byte" where
  "plugin_decision_as_u8 PAllow = 1"
| "plugin_decision_as_u8 PDeny = 2"
| "plugin_decision_as_u8 PDefer = 0"

definition plugin_decision_from_u8 :: "byte \<Rightarrow> plugin_decision" where
  "plugin_decision_from_u8 v = (if v = 1 then PAllow else if v = 2 then PDeny else PDefer)"

datatype filter_decision = Forward | Transform "byte list" | Drop

datatype validator_decision = Pass | Reject string

datatype network_decision = NAllow | NDeny | NAuditOnly

type_synonym i32 = "32 word"

definition network_decision_from_i32 :: "i32 \<Rightarrow> network_decision" where
  "network_decision_from_i32 v = (if v = 1 then NDeny else if v = 2 then NAuditOnly else NAllow)"

record network_trace_event =
  nt_kind :: string
  nt_host :: string
  nt_port :: "u16 option"

record injector_payload =
  env_add :: "(string \<times> string) list"
  args_append :: "string list"
  security_opts_add :: "string list"

definition empty_injector :: injector_payload where
  "empty_injector = \<lparr>env_add = [], args_append = [], security_opts_add = []\<rparr>"

definition extend_from :: "injector_payload \<Rightarrow> injector_payload \<Rightarrow> injector_payload" where
  "extend_from self other =
     \<lparr>env_add = env_add self @ env_add other, args_append = args_append self @ args_append other,
      security_opts_add = security_opts_add self @ security_opts_add other\<rparr>"

definition injector_is_empty :: "injector_payload \<Rightarrow> bool" where
  "injector_is_empty p \<longleftrightarrow> env_add p = [] \<and> args_append p = [] \<and> security_opts_add p = []"

section \<open>Lossy UTF-8 decoding\<close>

text \<open>
  \<^verbatim>\<open>String::from_utf8_lossy\<close>: well-formed sequences are kept; each maximal prefix of an ill-formed
  sequence becomes one replacement character. \<open>second_range\<close> is the range allowed for the byte after
  a lead byte, \<open>seq_len\<close> the length of the sequence the lead byte announces.
\<close>

definition seq_len :: "nat \<Rightarrow> nat" where
  "seq_len b = (if b < 128 then 1 else if 194 \<le> b \<and> b \<le> 223 then 2
                else if 224 \<le> b \<and> b \<le> 239 then 3 else if 240 \<le> b \<and> b \<le> 244 then 4 else 0)"

definition second_ok :: "nat \<Rightarrow> nat \<Rightarrow> bool" where
  "second_ok b c \<longleftrightarrow>
     (if b = 224 then 160 \<le> c \<and> c \<le> 191
      else if b = 237 then 128 \<le> c \<and> c \<le> 159
      else if b = 240 then 144 \<le> c \<and> c \<le> 191
      else if b = 244 then 128 \<le> c \<and> c \<le> 143
      else 128 \<le> c \<and> c \<le> 191)"

definition cont_ok :: "nat \<Rightarrow> bool" where
  "cont_ok c \<longleftrightarrow> 128 \<le> c \<and> c \<le> 191"

text \<open>How many bytes of the front belong to the sequence, and whether it is complete.\<close>

definition utf8_front :: "nat list \<Rightarrow> nat \<times> bool" where
  "utf8_front bs =
     (case bs of
        [] \<Rightarrow> (0, True)
      | b # r \<Rightarrow>
          (let n = seq_len b in
           if n = 0 then (1, False)
           else if n = 1 then (1, True)
           else (case r of
                   [] \<Rightarrow> (1, False)
                 | c # r2 \<Rightarrow>
                     if \<not> second_ok b c then (1, False)
                     else (let k = length (takeWhile cont_ok (take (n - 2) r2)) in
                           (2 + k, k = n - 2)))))"

definition replacement_char :: "byte list" where
  "replacement_char = [239, 191, 189]"

function from_utf8_lossy :: "byte list \<Rightarrow> byte list" where
  "from_utf8_lossy bs =
     (if bs = [] then []
      else let (k, ok) = utf8_front (map unat bs) in
           (if ok then take k bs else replacement_char) @ from_utf8_lossy (drop k bs))"
  by auto

lemma utf8_front_pos: "bs \<noteq> [] \<Longrightarrow> 0 < fst (utf8_front bs)"
  by (cases bs) (auto simp: utf8_front_def Let_def split: list.splits)

termination from_utf8_lossy
proof (relation "measure length")
  show "wf (measure length)"
    by simp
next
  fix bs :: "byte list" and x k ok
  assume bs: "bs \<noteq> []" and x: "x = utf8_front (map unat bs)" "(k, ok) = x"
  have "0 < k"
    using utf8_front_pos [of "map unat bs"] bs x by (metis fst_conv map_is_Nil_conv)
  with bs show "(drop k bs, bs) \<in> measure length"
    by simp
qed

declare from_utf8_lossy.simps [simp del]

definition bytes_string :: "byte list \<Rightarrow> string" where
  "bytes_string bs = map (\<lambda>b. char_of (unat b)) bs"

section \<open>Host state and guest memory (host_api.rs)\<close>

record host_state =
  request_payload :: "byte list"
  decision :: plugin_decision
  reason :: string
  raw_decision :: i32
  transformed_payload :: "byte list option"
  net_decision :: network_decision
  injector :: "injector_payload option"
  plugin_name :: string

definition host_state_new :: "string \<Rightarrow> host_state" where
  "host_state_new nm =
     \<lparr>request_payload = [], decision = PDefer, reason = '''', raw_decision = 0,
      transformed_payload = None, net_decision = NAllow, injector = None, plugin_name = nm\<rparr>"

definition host_reset :: "byte list \<Rightarrow> host_state \<Rightarrow> host_state" where
  "host_reset payload s =
     s\<lparr>request_payload := payload, decision := PDefer, reason := '''', raw_decision := 0,
       transformed_payload := None, net_decision := NAllow, injector := None\<rparr>"

definition take_decision :: "host_state \<Rightarrow> plugin_decision \<times> string" where
  "take_decision s = (decision s, reason s)"

definition take_filter_outputs ::
  "host_state \<Rightarrow> (i32 \<times> string \<times> byte list option) \<times> host_state" where
  "take_filter_outputs s =
     ((raw_decision s, reason s, transformed_payload s), s\<lparr>transformed_payload := None\<rparr>)"

definition take_validator_outputs :: "host_state \<Rightarrow> i32 \<times> string" where
  "take_validator_outputs s = (raw_decision s, reason s)"

definition take_network_outputs :: "host_state \<Rightarrow> network_decision \<times> string" where
  "take_network_outputs s = (net_decision s, reason s)"

definition take_injector_payload :: "host_state \<Rightarrow> injector_payload option \<times> host_state" where
  "take_injector_payload s = (injector s, s\<lparr>injector := None\<rparr>)"

text \<open>
  \<^verbatim>\<open>ptr as usize\<close> sign-extends, \<^verbatim>\<open>saturating_add\<close> stops at the largest \<^verbatim>\<open>usize\<close>, and slicing a range that is
  not inside the data panics (\<open>None\<close>).
\<close>

definition as_usize :: "i32 \<Rightarrow> u64" where
  "as_usize p = scast p"

definition saturating_add :: "u64 \<Rightarrow> u64 \<Rightarrow> u64" where
  "saturating_add a b = (if uint a + uint b < 2 ^ 64 then a + b else - 1)"

definition slice_range :: "u64 \<Rightarrow> u64 \<Rightarrow> byte list \<Rightarrow> byte list option" where
  "slice_range s e data =
     (if s \<le> e \<and> uint e \<le> int (length data)
      then Some (take (unat e - unat s) (drop (unat s) data)) else None)"

definition read_memory_bytes :: "byte list option \<Rightarrow> i32 \<Rightarrow> i32 \<Rightarrow> byte list option" where
  "read_memory_bytes mem ptr len =
     (if sint len \<le> 0 then Some []
      else case mem of
        None \<Rightarrow> Some []
      | Some data \<Rightarrow>
          (let start = as_usize ptr; stop = saturating_add start (as_usize len) in
           if int (length data) < uint stop then Some [] else slice_range start stop data))"

definition write_memory_bytes ::
  "byte list option \<Rightarrow> i32 \<Rightarrow> byte list \<Rightarrow> (bool \<times> byte list option) option" where
  "write_memory_bytes mem ptr bytes =
     (case mem of
        None \<Rightarrow> Some (False, mem)
      | Some data \<Rightarrow>
          (let start = as_usize ptr; stop = saturating_add start (of_nat (length bytes)) in
           if int (length data) < uint stop then Some (False, mem)
           else (case slice_range start stop data of
                   None \<Rightarrow> None
                 | Some old \<Rightarrow>
                     if length old = length bytes
                     then Some (True, Some (take (unat start) data @ bytes @ drop (unat stop) data))
                     else None)))"

definition read_lossy :: "byte list option \<Rightarrow> i32 \<Rightarrow> i32 \<Rightarrow> string" where
  "read_lossy mem ptr len = bytes_string (from_utf8_lossy (the (read_memory_bytes mem ptr len)))"

definition host_get_payload_impl ::
  "host_state \<Rightarrow> byte list option \<Rightarrow> i32 \<Rightarrow> i32 \<Rightarrow> (i32 \<times> byte list option) option" where
  "host_get_payload_impl s mem ptr max_len =
     (let needed = length (request_payload s) in
      if sint max_len < 0 \<or> uint (as_usize max_len) < int needed then Some (of_nat needed, mem)
      else if needed = 0 then Some (0, mem)
      else case write_memory_bytes mem ptr (request_payload s) of
             None \<Rightarrow> None
           | Some (True, mem') \<Rightarrow> Some (of_nat needed, mem')
           | Some (False, mem') \<Rightarrow> Some (- 1, mem'))"

definition host_return_decision_impl ::
  "byte list option \<Rightarrow> i32 \<Rightarrow> i32 \<Rightarrow> i32 \<Rightarrow> host_state \<Rightarrow> host_state" where
  "host_return_decision_impl mem dec reason_ptr reason_len s =
     (let r = read_lossy mem reason_ptr reason_len;
          mapped = (if 0 \<le> sint dec \<and> sint dec \<le> 255 then plugin_decision_from_u8 (ucast dec)
                    else PDefer) in
      s\<lparr>decision := mapped, reason := r\<rparr>)"

definition host_return_payload_impl ::
  "byte list option \<Rightarrow> i32 \<Rightarrow> i32 \<Rightarrow> host_state \<Rightarrow> host_state" where
  "host_return_payload_impl mem ptr len s =
     s\<lparr>transformed_payload := Some (the (read_memory_bytes mem ptr len))\<rparr>"

definition host_return_filter_decision_impl ::
  "byte list option \<Rightarrow> i32 \<Rightarrow> i32 \<Rightarrow> i32 \<Rightarrow> host_state \<Rightarrow> host_state" where
  "host_return_filter_decision_impl mem dec reason_ptr reason_len s =
     s\<lparr>raw_decision := dec, reason := read_lossy mem reason_ptr reason_len\<rparr>"

definition host_return_validator_decision_impl ::
  "byte list option \<Rightarrow> i32 \<Rightarrow> i32 \<Rightarrow> i32 \<Rightarrow> host_state \<Rightarrow> host_state" where
  "host_return_validator_decision_impl mem dec reason_ptr reason_len s =
     s\<lparr>raw_decision := dec, reason := read_lossy mem reason_ptr reason_len\<rparr>"

definition host_return_network_decision_impl ::
  "byte list option \<Rightarrow> i32 \<Rightarrow> i32 \<Rightarrow> i32 \<Rightarrow> host_state \<Rightarrow> host_state" where
  "host_return_network_decision_impl mem dec reason_ptr reason_len s =
     s\<lparr>net_decision := network_decision_from_i32 dec, reason := read_lossy mem reason_ptr reason_len\<rparr>"

definition host_return_injector_payload_impl ::
  "(byte list \<Rightarrow> injector_payload option) \<Rightarrow> byte list option \<Rightarrow> i32 \<Rightarrow> i32 \<Rightarrow> host_state \<Rightarrow> host_state" where
  "host_return_injector_payload_impl parse mem ptr len s =
     (let bytes = the (read_memory_bytes mem ptr len) in
      if bytes = [] then s
      else case parse bytes of None \<Rightarrow> s | Some p \<Rightarrow> s\<lparr>injector := Some p\<rparr>)"

section \<open>Guest memory stays in bounds\<close>

text \<open>No allocation is larger than \<^verbatim>\<open>isize::MAX\<close> bytes, so no guest memory and no payload is.\<close>

definition alloc_ok :: "byte list \<Rightarrow> bool" where
  "alloc_ok bs \<longleftrightarrow> length bs < 2 ^ 63"

lemma uint_le_int: "uint (w :: u64) \<le> int n \<longleftrightarrow> unat w \<le> n"
  by (metis nat_uint_eq nat_le_iff)

lemma int_less_uint: "int n < uint (w :: u64) \<longleftrightarrow> n < unat w"
  using uint_le_int [of w n] by linarith

lemmas word_range_simps = uint_le_int int_less_uint word_le_nat_alt

lemma unat_saturating_add: "unat (saturating_add a b) = min (unat a + unat b) (2 ^ 64 - 1)"
proof -
  have "uint a + uint b < 2 ^ 64 \<longleftrightarrow> int (unat a + unat b) < int (2 ^ 64)"
    by simp
  then have i: "uint a + uint b < 2 ^ 64 \<longleftrightarrow> unat a + unat b < 2 ^ 64"
    by (simp only: of_nat_less_iff)
  show ?thesis
  proof (cases "unat a + unat b < 2 ^ 64")
    case True
    then have "unat (a + b) = unat a + unat b"
      by (simp add: unat_word_ariths)
    with True show ?thesis
      unfolding saturating_add_def i by simp
  next
    case False
    have "unat (- 1 :: u64) = 2 ^ 64 - 1"
      by (simp add: unsigned_minus_1_eq_mask mask_eq_exp_minus_1)
    with False show ?thesis
      unfolding saturating_add_def i by simp
  qed
qed

lemma uint_as_usize: "uint (as_usize p) = take_bit 64 (sint p)"
  unfolding as_usize_def by transfer simp

lemma unat_as_usize: "0 \<le> sint p \<Longrightarrow> unat (as_usize p) = nat (sint p)"
proof -
  assume p: "0 \<le> sint p"
  have "sint p < 2 ^ 31"
    using sint_lt [of p] by simp
  then have "uint (as_usize p) = sint p"
    using p by (simp add: uint_as_usize take_bit_int_eq_self)
  then show ?thesis
    by (metis nat_uint_eq)
qed

lemma slice_in_bounds:
  assumes "alloc_ok data" and "\<not> length data < unat (saturating_add s n)"
  shows "unat (saturating_add s n) = unat s + unat n" and "unat s + unat n \<le> length data"
  using assms by (auto simp: unat_saturating_add alloc_ok_def min_def split: if_splits)

text \<open>What a read returns, and what a write leaves in memory.\<close>

lemma read_memory_bytes_spec:
  assumes "\<forall>data. mem = Some data \<longrightarrow> alloc_ok data"
  shows "read_memory_bytes mem ptr len =
    (case mem of
       Some data \<Rightarrow>
         if 0 < sint len \<and> unat (as_usize ptr) + nat (sint len) \<le> length data
         then Some (take (nat (sint len)) (drop (unat (as_usize ptr)) data)) else Some []
     | None \<Rightarrow> Some [])"
proof (cases "0 < sint len")
  case True
  note len = unat_as_usize [of len]
  show ?thesis
  proof (cases mem)
    case (Some data)
    let ?stop = "saturating_add (as_usize ptr) (as_usize len)"
    show ?thesis
    proof (cases "length data < unat ?stop")
      case True
      then have "\<not> unat (as_usize ptr) + nat (sint len) \<le> length data"
        using \<open>0 < sint len\<close> len by (auto simp: unat_saturating_add)
      with True Some \<open>0 < sint len\<close> show ?thesis
        by (simp add: read_memory_bytes_def Let_def word_range_simps)
    next
      case False
      then show ?thesis
        using slice_in_bounds [of data "as_usize ptr" "as_usize len"] assms Some \<open>0 < sint len\<close> len
        by (simp add: read_memory_bytes_def Let_def slice_range_def word_range_simps)
    qed
  qed (simp add: read_memory_bytes_def)
qed (simp add: read_memory_bytes_def split: option.splits)

lemma nth_splice:
  assumes "s + length bytes \<le> length data" and "i < length data"
  shows "(take s data @ bytes @ drop (s + length bytes) data) ! i =
    (if s \<le> i \<and> i < s + length bytes then bytes ! (i - s) else data ! i)"
proof -
  consider "i < s" | k where "i = s + k" "k < length bytes" | k where "i = s + length bytes + k"
    by (metis add.assoc le_Suc_ex not_less)
  then show ?thesis
    using assms by cases (simp_all add: nth_append)
qed

lemma write_memory_bytes_spec:
  assumes data: "alloc_ok data" and bytes: "alloc_ok bytes"
  shows "write_memory_bytes (Some data) ptr bytes =
    (let s = unat (as_usize ptr) in
     if s + length bytes \<le> length data
     then Some (True, Some (take s data @ bytes @ drop (s + length bytes) data))
     else Some (False, Some data))"
proof -
  have n: "unat (of_nat (length bytes) :: u64) = length bytes"
    using bytes by (simp add: alloc_ok_def unat_of_nat)
  show ?thesis
    using slice_in_bounds [of data "as_usize ptr" "of_nat (length bytes)"] data n
    by (auto simp: write_memory_bytes_def Let_def slice_range_def unat_saturating_add word_range_simps)
qed

text \<open>
  C28. Guest pointers cannot make the host read or write outside guest memory, nor panic: for every
  \<^verbatim>\<open>i32\<close> pointer and length, negative ones included, a read returns either nothing or exactly the
  requested bytes of the memory, and a write either is refused and changes nothing or replaces
  exactly the addressed bytes.
\<close>

theorem guest_memory_in_bounds:
  assumes "alloc_ok data" and "alloc_ok bytes"
  shows "(\<exists>bs. read_memory_bytes (Some data) ptr len = Some bs \<and>
      (bs = [] \<or> (length bs = nat (sint len) \<and> unat (as_usize ptr) + length bs \<le> length data \<and>
                  bs = take (length bs) (drop (unat (as_usize ptr)) data)))) \<and>
    (\<exists>ok data'. write_memory_bytes (Some data) ptr bytes = Some (ok, Some data') \<and>
      length data' = length data \<and> (\<not> ok \<longrightarrow> data' = data) \<and>
      (ok \<longrightarrow> (\<forall>i<length data. data' ! i =
         (let s = unat (as_usize ptr) in
          if s \<le> i \<and> i < s + length bytes then bytes ! (i - s) else data ! i))))"
proof (rule conjI)
  define s where "s = unat (as_usize ptr)"
  define n where "n = nat (sint len)"
  have "read_memory_bytes (Some data) ptr len =
      (if 0 < sint len \<and> s + n \<le> length data then Some (take n (drop s data)) else Some [])"
    using assms(1) by (subst read_memory_bytes_spec) (simp_all add: s_def n_def)
  then show "\<exists>bs. read_memory_bytes (Some data) ptr len = Some bs \<and>
      (bs = [] \<or> (length bs = nat (sint len) \<and> unat (as_usize ptr) + length bs \<le> length data \<and>
                  bs = take (length bs) (drop (unat (as_usize ptr)) data)))"
    unfolding s_def [symmetric] n_def [symmetric] by (auto simp: min_def)
  have w: "write_memory_bytes (Some data) ptr bytes =
      (if s + length bytes \<le> length data
       then Some (True, Some (take s data @ bytes @ drop (s + length bytes) data))
       else Some (False, Some data))"
    by (simp add: write_memory_bytes_spec [OF assms] s_def Let_def)
  show "\<exists>ok data'. write_memory_bytes (Some data) ptr bytes = Some (ok, Some data') \<and>
      length data' = length data \<and> (\<not> ok \<longrightarrow> data' = data) \<and>
      (ok \<longrightarrow> (\<forall>i<length data. data' ! i =
         (let s = unat (as_usize ptr) in
          if s \<le> i \<and> i < s + length bytes then bytes ! (i - s) else data ! i)))"
  proof (cases "s + length bytes \<le> length data")
    case True
    then have "\<forall>i<length data. (take s data @ bytes @ drop (s + length bytes) data) ! i =
        (if s \<le> i \<and> i < s + length bytes then bytes ! (i - s) else data ! i)"
      using nth_splice by blast
    with True show ?thesis
      unfolding w Let_def s_def [symmetric]
      by (intro exI [of _ True] exI [of _ "take s data @ bytes @ drop (s + length bytes) data"]) simp
  next
    case False
    then show ?thesis
      unfolding w by (intro exI [of _ False] exI [of _ data]) simp
  qed
qed

theorem guest_memory_in_bounds_witness:
  "read_memory_bytes (Some [1, 2, 3, 4]) 1 2 = Some [2, 3] \<and>
   (\<exists>ok data'. write_memory_bytes (Some [1, 2, 3, 4]) (- 1) [9] = Some (ok, Some data') \<and>
      length data' = 4)"
proof (rule conjI)
  show "read_memory_bytes (Some [1, 2, 3, 4]) 1 2 = Some [2, 3]"
    by code_simp
  have "alloc_ok [1, 2, 3, 4]" "alloc_ok [9]"
    by (simp_all add: alloc_ok_def)
  from guest_memory_in_bounds [OF this, of "- 1" 0] obtain ok data' where
    "write_memory_bytes (Some [1, 2, 3, 4]) (- 1) [9] = Some (ok, Some data')"
    "length data' = length [1, 2, 3, 4 :: byte]"
    by blast
  then show "\<exists>ok data'. write_memory_bytes (Some [1, 2, 3, 4]) (- 1) [9] = Some (ok, Some data') \<and>
      length data' = 4"
    by simp
qed

end
