(* ===== verification/Plugin_Registry.thy ===== *)
theory Plugin_Registry
  imports Plugin_Host
begin

text \<open>
  Loading plugins and chaining their decisions (\<^verbatim>\<open>linpodx-plugin/src/loader.rs\<close>, \<^verbatim>\<open>registry.rs\<close>). The
  WebAssembly engine is a parameter: \<open>guest\<close> gives, for an export and a payload, the host calls the
  guest makes (each with its memory at that point), whether it traps, and the guest's next state.
  Shown: the resolution order of each chain, and what the runtime-injector sanitizer lets through.
\<close>

section \<open>Loader\<close>

datatype entry = EApproval | EAuditFilter | EProfileValidator | ENetworkTrace | ERuntimeInjector

datatype host_call =
  HostLog i32 i32 i32
| HostGetPayload i32 i32
| HostReturnDecision i32 i32 i32
| HostReturnPayload i32 i32
| HostReturnFilterDecision i32 i32 i32
| HostReturnValidatorDecision i32 i32 i32
| HostReturnNetworkDecision i32 i32 i32
| HostReturnInjectorPayload i32 i32

record 'w loaded_plugin =
  lp_name :: string
  lp_version :: string
  lp_hooks :: "string list"
  lp_exports :: "entry list"
  lp_host :: host_state
  lp_guest :: 'w

record 'w wasm_engine =
  guest :: "'w \<Rightarrow> entry \<Rightarrow> byte list \<Rightarrow> (byte list option \<times> host_call) list \<times> string option \<times> 'w"
  instantiate :: "string \<Rightarrow> string + 'w \<times> entry list"
  parse_injector :: "byte list \<Rightarrow> injector_payload option"
  event_to_vec :: "network_trace_event \<Rightarrow> string + byte list"

record plugin_manifest =
  pm_name :: string
  pm_version :: string
  pm_hooks :: "string list"
  pm_wasm :: string
  pm_publisher :: "string option"
  pm_signature_b64 :: "string option"

definition load_plugin ::
  "'w wasm_engine \<Rightarrow> plugin_manifest \<Rightarrow> string \<Rightarrow> plugin_error + 'w loaded_plugin" where
  "load_plugin eng m wasm_path =
     (case instantiate eng wasm_path of
        Inl e \<Rightarrow> Inl (WasmLoad e)
      | Inr (w, exports) \<Rightarrow>
          if exports = []
          then Inl (WasmLoad (''plugin '' @ pm_name m @
                 '' exports none of the supported entries (evaluate_approval, evaluate_audit_filter, evaluate_profile_validator, evaluate_network_trace, evaluate_runtime_injector)''))
          else Inr \<lparr>lp_name = pm_name m, lp_version = pm_version m, lp_hooks = pm_hooks m,
                    lp_exports = exports, lp_host = host_state_new (pm_name m), lp_guest = w\<rparr>)"

definition host_call_step ::
  "'w wasm_engine \<Rightarrow> byte list option \<times> host_call \<Rightarrow> host_state \<Rightarrow> host_state" where
  "host_call_step eng mc s =
     (case mc of
        (mem, HostLog _ _ _) \<Rightarrow> s
      | (mem, HostGetPayload _ _) \<Rightarrow> s
      | (mem, HostReturnDecision d p l) \<Rightarrow> host_return_decision_impl mem d p l s
      | (mem, HostReturnPayload p l) \<Rightarrow> host_return_payload_impl mem p l s
      | (mem, HostReturnFilterDecision d p l) \<Rightarrow> host_return_filter_decision_impl mem d p l s
      | (mem, HostReturnValidatorDecision d p l) \<Rightarrow> host_return_validator_decision_impl mem d p l s
      | (mem, HostReturnNetworkDecision d p l) \<Rightarrow> host_return_network_decision_impl mem d p l s
      | (mem, HostReturnInjectorPayload p l) \<Rightarrow>
          host_return_injector_payload_impl (parse_injector eng) mem p l s)"

text \<open>Reset the host state, run the export, and report a trap as \<^verbatim>\<open>HostRejected\<close>.\<close>

definition call_entry ::
  "'w wasm_engine \<Rightarrow> entry \<Rightarrow> string \<Rightarrow> byte list \<Rightarrow> 'w loaded_plugin
     \<Rightarrow> (plugin_error + unit) \<times> 'w loaded_plugin" where
  "call_entry eng ent ent_name payload p =
     (if ent \<notin> set (lp_exports p)
      then (Inl (WasmLoad (''plugin '' @ lp_name p @ '' has no '' @ ent_name @ '' export'')), p)
      else case guest eng (lp_guest p) ent payload of
        (calls, trap, w) \<Rightarrow>
          (let p' = p\<lparr>lp_host := fold (host_call_step eng) calls (host_reset payload (lp_host p)),
                       lp_guest := w\<rparr> in
           case trap of
             Some e \<Rightarrow> (Inl (HostRejected (''plugin '' @ lp_name p @ '': '' @ e)), p')
           | None \<Rightarrow> (Inr (), p')))"

definition evaluate ::
  "'w wasm_engine \<Rightarrow> byte list \<Rightarrow> 'w loaded_plugin
     \<Rightarrow> (plugin_error + plugin_decision \<times> string) \<times> 'w loaded_plugin" where
  "evaluate eng payload p =
     (case call_entry eng EApproval ''evaluate_approval'' payload p of
        (Inl e, p') \<Rightarrow> (Inl e, p')
      | (Inr _, p') \<Rightarrow> (Inr (take_decision (lp_host p')), p'))"

definition filter_decision_of :: "i32 \<Rightarrow> byte list option \<Rightarrow> filter_decision" where
  "filter_decision_of raw transformed =
     (if raw = 1 then Drop
      else if raw = 2 then (case transformed of Some q \<Rightarrow> Transform q | None \<Rightarrow> Forward)
      else Forward)"

definition evaluate_audit_filter1 ::
  "'w wasm_engine \<Rightarrow> byte list \<Rightarrow> 'w loaded_plugin
     \<Rightarrow> (plugin_error + filter_decision) \<times> 'w loaded_plugin" where
  "evaluate_audit_filter1 eng payload p =
     (case call_entry eng EAuditFilter ''evaluate_audit_filter'' payload p of
        (Inl e, p') \<Rightarrow> (Inl e, p')
      | (Inr _, p') \<Rightarrow>
          (case take_filter_outputs (lp_host p') of
             ((raw, _, transformed), h) \<Rightarrow>
               (Inr (filter_decision_of raw transformed), p'\<lparr>lp_host := h\<rparr>)))"

definition evaluate_profile_validator1 ::
  "'w wasm_engine \<Rightarrow> string \<Rightarrow> 'w loaded_plugin
     \<Rightarrow> (plugin_error + validator_decision) \<times> 'w loaded_plugin" where
  "evaluate_profile_validator1 eng yaml p =
     (case call_entry eng EProfileValidator ''evaluate_profile_validator'' (as_bytes yaml) p of
        (Inl e, p') \<Rightarrow> (Inl e, p')
      | (Inr _, p') \<Rightarrow>
          (case take_validator_outputs (lp_host p') of
             (raw, r) \<Rightarrow> (Inr (if raw = 1 then Reject r else Pass), p')))"

definition evaluate_network_trace1 ::
  "'w wasm_engine \<Rightarrow> network_trace_event \<Rightarrow> 'w loaded_plugin
     \<Rightarrow> (plugin_error + network_decision) \<times> 'w loaded_plugin" where
  "evaluate_network_trace1 eng ev p =
     (if ENetworkTrace \<notin> set (lp_exports p)
      then (Inl (WasmLoad (''plugin '' @ lp_name p @ '' has no evaluate_network_trace export'')), p)
      else case event_to_vec eng ev of
        Inl e \<Rightarrow> (Inl (HostRejected (''serialize network event: '' @ e)), p)
      | Inr payload \<Rightarrow>
          (case call_entry eng ENetworkTrace ''evaluate_network_trace'' payload p of
             (Inl e, p') \<Rightarrow> (Inl e, p')
           | (Inr _, p') \<Rightarrow> (Inr (fst (take_network_outputs (lp_host p'))), p')))"

definition evaluate_runtime_injector1 ::
  "'w wasm_engine \<Rightarrow> byte list \<Rightarrow> 'w loaded_plugin
     \<Rightarrow> (plugin_error + injector_payload) \<times> 'w loaded_plugin" where
  "evaluate_runtime_injector1 eng opts_json p =
     (case call_entry eng ERuntimeInjector ''evaluate_runtime_injector'' opts_json p of
        (Inl e, p') \<Rightarrow> (Inl e, p')
      | (Inr _, p') \<Rightarrow>
          (case take_injector_payload (lp_host p') of
             (q, h) \<Rightarrow> (Inr (case q of Some x \<Rightarrow> x | None \<Rightarrow> empty_injector), p'\<lparr>lp_host := h\<rparr>)))"

section \<open>Registry chains\<close>

text \<open>
  Each chain runs over the plugins in registry order and returns them with their new guest states.
\<close>

type_synonym 'w registry = "'w loaded_plugin list"

definition subscribes :: "string \<Rightarrow> entry \<Rightarrow> 'w loaded_plugin \<Rightarrow> bool" where
  "subscribes hook ent p \<longleftrightarrow> hook \<in> set (lp_hooks p) \<and> ent \<in> set (lp_exports p)"

fun load_all :: "'w wasm_engine \<Rightarrow> (plugin_manifest \<times> string) list \<Rightarrow> 'w registry \<Rightarrow> 'w registry" where
  "load_all eng [] reg = reg"
| "load_all eng ((m, path) # specs) reg =
     (case load_plugin eng m path of
        Inr p \<Rightarrow> load_all eng specs (reg @ [p])
      | Inl _ \<Rightarrow> load_all eng specs reg)"

fun evaluate_approval ::
  "'w wasm_engine \<Rightarrow> byte list \<Rightarrow> 'w registry
     \<Rightarrow> (string \<times> plugin_decision \<times> string) list \<times> 'w registry" where
  "evaluate_approval eng payload [] = ([], [])"
| "evaluate_approval eng payload (p # ps) =
     (if \<not> subscribes ''approval'' EApproval p
      then (case evaluate_approval eng payload ps of (out, ps') \<Rightarrow> (out, p # ps'))
      else case evaluate eng payload p of
        (r, p') \<Rightarrow>
          (case evaluate_approval eng payload ps of
             (out, ps') \<Rightarrow>
               ((case r of
                   Inr (d, rsn) \<Rightarrow> (lp_name p, d, rsn)
                 | Inl e \<Rightarrow> (lp_name p, PDefer, plugin_error_display e)) # out, p' # ps')))"

record chain_result =
  cr_outcome :: filter_decision
  cr_payload :: "byte list"
  cr_steps :: "(string \<times> filter_decision) list"

fun evaluate_audit_filter ::
  "'w wasm_engine \<Rightarrow> byte list \<Rightarrow> (string \<times> filter_decision) list \<Rightarrow> 'w registry
     \<Rightarrow> chain_result \<times> 'w registry" where
  "evaluate_audit_filter eng current steps [] =
     (\<lparr>cr_outcome = Forward, cr_payload = current, cr_steps = steps\<rparr>, [])"
| "evaluate_audit_filter eng current steps (p # ps) =
     (if \<not> subscribes ''audit_filter'' EAuditFilter p
      then (case evaluate_audit_filter eng current steps ps of (res, ps') \<Rightarrow> (res, p # ps'))
      else case evaluate_audit_filter1 eng current p of
        (Inr Drop, p') \<Rightarrow>
          (\<lparr>cr_outcome = Drop, cr_payload = current, cr_steps = steps @ [(lp_name p, Drop)]\<rparr>, p' # ps)
      | (Inr (Transform q), p') \<Rightarrow>
          (case evaluate_audit_filter eng q (steps @ [(lp_name p, Transform q)]) ps of
             (res, ps') \<Rightarrow> (res, p' # ps'))
      | (Inr Forward, p') \<Rightarrow>
          (case evaluate_audit_filter eng current (steps @ [(lp_name p, Forward)]) ps of
             (res, ps') \<Rightarrow> (res, p' # ps'))
      | (Inl e, p') \<Rightarrow>
          (case evaluate_audit_filter eng current steps ps of (res, ps') \<Rightarrow> (res, p' # ps')))"

fun evaluate_profile_validator ::
  "'w wasm_engine \<Rightarrow> string \<Rightarrow> 'w registry
     \<Rightarrow> (string \<times> validator_decision) list \<times> 'w registry" where
  "evaluate_profile_validator eng yaml [] = ([], [])"
| "evaluate_profile_validator eng yaml (p # ps) =
     (if \<not> subscribes ''profile_validator'' EProfileValidator p
      then (case evaluate_profile_validator eng yaml ps of (out, ps') \<Rightarrow> (out, p # ps'))
      else case evaluate_profile_validator1 eng yaml p of
        (r, p') \<Rightarrow>
          (case evaluate_profile_validator eng yaml ps of
             (out, ps') \<Rightarrow>
               ((lp_name p,
                 case r of Inr d \<Rightarrow> d | Inl e \<Rightarrow> Reject (''plugin trap: '' @ plugin_error_display e)) # out,
                p' # ps')))"

fun network_trace_loop ::
  "'w wasm_engine \<Rightarrow> network_trace_event \<Rightarrow> bool \<Rightarrow> 'w registry \<Rightarrow> network_decision \<times> 'w registry" where
  "network_trace_loop eng ev any_audit [] = (if any_audit then NAuditOnly else NAllow, [])"
| "network_trace_loop eng ev any_audit (p # ps) =
     (if \<not> subscribes ''network_trace'' ENetworkTrace p
      then (case network_trace_loop eng ev any_audit ps of (d, ps') \<Rightarrow> (d, p # ps'))
      else case evaluate_network_trace1 eng ev p of
        (Inr NDeny, p') \<Rightarrow> (NDeny, p' # ps)
      | (r, p') \<Rightarrow>
          (case network_trace_loop eng ev (any_audit \<or> r = Inr NAuditOnly) ps of
             (d, ps') \<Rightarrow> (d, p' # ps')))"

definition evaluate_network_trace ::
  "'w wasm_engine \<Rightarrow> network_trace_event \<Rightarrow> 'w registry \<Rightarrow> network_decision \<times> 'w registry" where
  "evaluate_network_trace eng ev reg = network_trace_loop eng ev False reg"

section \<open>The runtime-injector sanitizer\<close>

definition MAX_INJECT_ENTRIES :: nat where "MAX_INJECT_ENTRIES = 64"

definition MAX_INJECT_LEN :: nat where "MAX_INJECT_LEN = 1024"

text \<open>
  \<^verbatim>\<open>chars().filter(|c| !c.is_whitespace())\<close> on UTF-8 text: every whitespace character is dropped,
  wherever it is.
\<close>

fun drop_token :: "string list \<Rightarrow> string \<Rightarrow> string option" where
  "drop_token [] s = None"
| "drop_token (w # ws) s =
     (if w \<noteq> [] \<and> take (length w) s = w then Some (drop (length w) s) else drop_token ws s)"

lemma drop_token_shorter: "drop_token ws s = Some t \<Longrightarrow> length t < length s \<or> s = []"
  by (induction ws) (auto split: if_splits)

function remove_whitespace :: "string \<Rightarrow> string" where
  "remove_whitespace s =
     (if s = [] then []
      else case drop_token ws_chars s of
        Some t \<Rightarrow> remove_whitespace t
      | None \<Rightarrow> hd s # remove_whitespace (tl s))"
  by auto
termination
  by (relation "measure length") (auto dest: drop_token_shorter)

declare remove_whitespace.simps [simp del]

definition contains_str :: "string \<Rightarrow> string \<Rightarrow> bool" where
  "contains_str s needle \<longleftrightarrow> list_ex (\<lambda>i. take (length needle) (drop i s) = needle) [0 ..< Suc (length s)]"

definition starts_with :: "string \<Rightarrow> string \<Rightarrow> bool" where
  "starts_with s pre \<longleftrightarrow> take (length pre) s = pre"

definition ends_with :: "string \<Rightarrow> string \<Rightarrow> bool" where
  "ends_with s suf \<longleftrightarrow> length suf \<le> length s \<and> drop (length s - length suf) s = suf"

definition security_opt_weakens_confinement :: "string \<Rightarrow> bool" where
  "security_opt_weakens_confinement opt \<longleftrightarrow>
     (let s = remove_whitespace (to_ascii_lowercase opt) in
      contains_str s ''seccomp=unconfined'' \<or> contains_str s ''apparmor=unconfined'' \<or>
      contains_str s ''label=disable'' \<or> contains_str s ''systempaths=unconfined'' \<or>
      contains_str s ''unmask=all'' \<or> contains_str s ''no-new-privileges=false'' \<or>
      contains_str s ''no-new-privileges=0'' \<or> s = ''privileged'')"

definition arg_weakens_confinement :: "string \<Rightarrow> bool" where
  "arg_weakens_confinement arg \<longleftrightarrow>
     (let a = to_ascii_lowercase (trim arg); compact = remove_whitespace a in
      starts_with a ''--privileged'' \<or> starts_with a ''--security-opt'' \<or> starts_with a ''--cap-add'' \<or>
      (ends_with compact ''=host'' \<and>
         (starts_with a ''--pid'' \<or> starts_with a ''--net'' \<or> starts_with a ''--ipc'' \<or>
          starts_with a ''--uts'' \<or> starts_with a ''--userns'')) \<or>
      security_opt_weakens_confinement a)"

text \<open>
  One loop of \<^verbatim>\<open>sanitize_injector_payload\<close>: stop once the output is full, skip what is too long or
  rejected, keep the rest.
\<close>

fun sanitize_loop :: "('a \<Rightarrow> bool) \<Rightarrow> ('a \<Rightarrow> bool) \<Rightarrow> 'a list \<Rightarrow> 'a list \<Rightarrow> 'a list" where
  "sanitize_loop too_long bad acc [] = acc"
| "sanitize_loop too_long bad acc (x # xs) =
     (if MAX_INJECT_ENTRIES \<le> length acc then acc
      else if too_long x then sanitize_loop too_long bad acc xs
      else if bad x then sanitize_loop too_long bad acc xs
      else sanitize_loop too_long bad (acc @ [x]) xs)"

definition sanitize_injector_payload :: "injector_payload \<Rightarrow> injector_payload" where
  "sanitize_injector_payload payload =
     \<lparr>env_add = sanitize_loop (\<lambda>(k, v). MAX_INJECT_LEN < length k \<or> MAX_INJECT_LEN < length v) (\<lambda>_. False)
                  [] (env_add payload),
      args_append = sanitize_loop (\<lambda>a. MAX_INJECT_LEN < length a) arg_weakens_confinement
                  [] (args_append payload),
      security_opts_add = sanitize_loop (\<lambda>a. MAX_INJECT_LEN < length a) security_opt_weakens_confinement
                  [] (security_opts_add payload)\<rparr>"

fun runtime_injector_loop ::
  "'w wasm_engine \<Rightarrow> byte list \<Rightarrow> injector_payload \<Rightarrow> 'w registry \<Rightarrow> injector_payload \<times> 'w registry" where
  "runtime_injector_loop eng opts_json merged [] = (merged, [])"
| "runtime_injector_loop eng opts_json merged (p # ps) =
     (if \<not> subscribes ''runtime_injector'' ERuntimeInjector p
      then (case runtime_injector_loop eng opts_json merged ps of (m, ps') \<Rightarrow> (m, p # ps'))
      else case evaluate_runtime_injector1 eng opts_json p of
        (Inr payload, p') \<Rightarrow>
          (case runtime_injector_loop eng opts_json
                  (extend_from merged (sanitize_injector_payload payload)) ps of
             (m, ps') \<Rightarrow> (m, p' # ps'))
      | (Inl e, p') \<Rightarrow>
          (case runtime_injector_loop eng opts_json merged ps of (m, ps') \<Rightarrow> (m, p' # ps')))"

definition evaluate_runtime_injector ::
  "'w wasm_engine \<Rightarrow> byte list \<Rightarrow> 'w registry \<Rightarrow> injector_payload \<times> 'w registry" where
  "evaluate_runtime_injector eng opts_json reg = runtime_injector_loop eng opts_json empty_injector reg"

end
