(* ===== verification/Plugin_Chains.thy ===== *)
theory Plugin_Chains
  imports Plugin_Registry
begin

text \<open>
  What the plugin chains compute: network decisions are ordered by strictness and the chain returns
  the strictest one, the audit-filter chain is a fold over the payload, and everything the
  runtime-injector chain returns has passed the sanitizer whatever the guests do.
\<close>

lemma fst_case_pair [simp]: "fst (case x of (a, b) \<Rightarrow> (a, f a b)) = fst x"
  by (cases x) simp

section \<open>Network decisions by strictness\<close>

fun network_rank :: "network_decision \<Rightarrow> nat" where
  "network_rank NAllow = 0"
| "network_rank NAuditOnly = 1"
| "network_rank NDeny = 2"

instantiation network_decision :: linorder
begin

definition less_eq_network_decision :: "network_decision \<Rightarrow> network_decision \<Rightarrow> bool" where
  "d \<le> e \<longleftrightarrow> network_rank d \<le> network_rank e"

definition less_network_decision :: "network_decision \<Rightarrow> network_decision \<Rightarrow> bool" where
  "d < e \<longleftrightarrow> network_rank d < network_rank e"

instance
proof
  fix d e :: network_decision
  show "d \<le> e \<Longrightarrow> e \<le> d \<Longrightarrow> d = e"
    by (cases d; cases e) (simp_all add: less_eq_network_decision_def)
qed (auto simp: less_eq_network_decision_def less_network_decision_def)

end

lemmas network_order = less_eq_network_decision_def less_network_decision_def

lemma network_bounds [simp]: "NAllow \<le> d" "d \<le> NDeny"
  by (cases d; simp add: network_order)+

lemma max_network [simp]: "max NAllow d = d" "max d NAllow = d" "max NDeny d = NDeny" "max d NDeny = NDeny"
  by (simp_all add: max_def antisym)

text \<open>What one plugin contributes: a trap counts as \<^verbatim>\<open>Allow\<close>, a plugin that is not subscribed has no say.\<close>

definition network_vote :: "'w wasm_engine \<Rightarrow> network_trace_event \<Rightarrow> 'w loaded_plugin \<Rightarrow> network_decision" where
  "network_vote eng ev p =
     (if subscribes ''network_trace'' ENetworkTrace p
      then (case fst (evaluate_network_trace1 eng ev p) of Inr d \<Rightarrow> d | Inl _ \<Rightarrow> NAllow)
      else NAllow)"

lemma network_trace_loop_max:
  "fst (network_trace_loop eng ev b reg) =
     fold (\<lambda>p. max (network_vote eng ev p)) reg (if b then NAuditOnly else NAllow)"
proof (induction reg arbitrary: b)
  case (Cons p ps)
  have deny: "fold (\<lambda>p. max (network_vote eng ev p)) ps NDeny = NDeny"
    by (induction ps) simp_all
  obtain r p' where e: "evaluate_network_trace1 eng ev p = (r, p')"
    by (cases "evaluate_network_trace1 eng ev p")
  show ?case
  proof (cases "subscribes ''network_trace'' ENetworkTrace p")
    case False
    then show ?thesis
      by (simp add: network_vote_def Cons)
  next
    case True
    have IH: "fst (network_trace_loop eng ev c ps) =
        fold (\<lambda>p. max (network_vote eng ev p)) ps (if c then NAuditOnly else NAllow)" for c
      by (rule Cons)
    show ?thesis
    proof (cases r)
      case (Inl a)
      with True e IH [of b] show ?thesis
        by (simp add: network_vote_def)
    next
      case (Inr d)
      with True e have "network_vote eng ev p = d"
        by (simp add: network_vote_def)
      with True e Inr IH deny show ?thesis
        by (cases d; cases b) simp_all
    qed
  qed
qed simp

text \<open>
  The network-trace chain returns the strictest vote of its plugins, in whatever order they are
  registered: \<^verbatim>\<open>Deny\<close> if any denies, else \<^verbatim>\<open>AuditOnly\<close> if any asks for auditing, else \<^verbatim>\<open>Allow\<close>; a
  trapping plugin votes \<^verbatim>\<open>Allow\<close>.
\<close>

theorem network_trace_strictest:
  "fst (evaluate_network_trace eng ev reg) =
     Max (insert NAllow (network_vote eng ev ` set reg))"
proof -
  have "fold (\<lambda>p. max (network_vote eng ev p)) reg x = Max (insert x (network_vote eng ev ` set reg))" for x
  proof (induction reg arbitrary: x)
    case (Cons p ps)
    show ?case
      by (simp add: Cons) (cases "ps = []"; simp add: max.left_commute max.commute max.assoc)
  qed simp
  then show ?thesis
    by (simp add: evaluate_network_trace_def network_trace_loop_max)
qed

section \<open>The audit-filter chain\<close>

text \<open>
  The chain without its bookkeeping: the payload after the plugins, or nothing once one drops it.
\<close>

fun filter_spec :: "'w wasm_engine \<Rightarrow> 'w registry \<Rightarrow> byte list \<Rightarrow> byte list option" where
  "filter_spec eng [] payload = Some payload"
| "filter_spec eng (p # ps) payload =
     (if subscribes ''audit_filter'' EAuditFilter p
      then (case fst (evaluate_audit_filter1 eng payload p) of
              Inr Drop \<Rightarrow> None
            | Inr (Transform q) \<Rightarrow> filter_spec eng ps q
            | _ \<Rightarrow> filter_spec eng ps payload)
      else filter_spec eng ps payload)"

definition persisted :: "chain_result \<Rightarrow> byte list option" where
  "persisted res = (if cr_outcome res = Drop then None else Some (cr_payload res))"

text \<open>
  The audit-filter chain is that fold: the entry is dropped exactly when some plugin reached with
  the payload rewritten so far drops it, and otherwise the payload to persist is the composition of
  the transforms. A trapping plugin neither drops nor rewrites.
\<close>

theorem audit_filter_refines_fold:
  "persisted (fst (evaluate_audit_filter eng payload steps reg)) = filter_spec eng reg payload"
proof (induction reg arbitrary: payload steps)
  case Nil
  show ?case
    by (simp add: persisted_def)
next
  case (Cons p ps)
  obtain r p' where e: "evaluate_audit_filter1 eng payload p = (r, p')"
    by (cases "evaluate_audit_filter1 eng payload p")
  have "persisted \<lparr>cr_outcome = Drop, cr_payload = payload, cr_steps = st\<rparr> = None" for st
    by (simp add: persisted_def)
  with Cons e show ?case
    by (simp split: sum.split filter_decision.split)
qed

section \<open>The sanitizer\<close>

lemma sanitize_loop_subset:
  "set (sanitize_loop long bad acc xs) \<subseteq> set acc \<union> {x \<in> set xs. \<not> long x \<and> \<not> bad x}"
  by (induction long bad acc xs rule: sanitize_loop.induct) auto

lemma sanitize_loop_length:
  "length acc \<le> MAX_INJECT_ENTRIES \<Longrightarrow> length (sanitize_loop long bad acc xs) \<le> MAX_INJECT_ENTRIES"
  by (induction long bad acc xs rule: sanitize_loop.induct) auto

definition clean_payload :: "nat \<Rightarrow> injector_payload \<Rightarrow> bool" where
  "clean_payload n m \<longleftrightarrow>
     list_all (\<lambda>a. length a \<le> MAX_INJECT_LEN \<and> \<not> arg_weakens_confinement a) (args_append m) \<and>
     list_all (\<lambda>a. length a \<le> MAX_INJECT_LEN \<and> \<not> security_opt_weakens_confinement a) (security_opts_add m) \<and>
     list_all (\<lambda>(k, v). length k \<le> MAX_INJECT_LEN \<and> length v \<le> MAX_INJECT_LEN) (env_add m) \<and>
     length (args_append m) \<le> n * MAX_INJECT_ENTRIES \<and>
     length (security_opts_add m) \<le> n * MAX_INJECT_ENTRIES \<and>
     length (env_add m) \<le> n * MAX_INJECT_ENTRIES"

lemma clean_sanitize: "clean_payload 1 (sanitize_injector_payload q)"
proof -
  note sub = sanitize_loop_subset [where acc = "[]", simplified]
  show ?thesis
    unfolding clean_payload_def sanitize_injector_payload_def
    by (intro conjI) (use sub in \<open>force simp: list_all_iff not_less sanitize_loop_length\<close>)+
qed

lemma clean_empty [simp]: "clean_payload 0 empty_injector"
  by (simp add: clean_payload_def empty_injector_def)

lemma clean_extend:
  "clean_payload n a \<Longrightarrow> clean_payload 1 b \<Longrightarrow> clean_payload (Suc n) (extend_from a b)"
  by (auto simp: clean_payload_def extend_from_def)

lemma clean_mono: "clean_payload n a \<Longrightarrow> n \<le> m \<Longrightarrow> clean_payload m a"
  by (auto simp: clean_payload_def intro: order.trans mult_le_mono1)

lemma runtime_injector_loop_clean:
  "clean_payload n m \<Longrightarrow> clean_payload (n + length reg) (fst (runtime_injector_loop eng opts m reg))"
proof (induction reg arbitrary: n m)
  case (Cons p ps)
  obtain r p' where e: "evaluate_runtime_injector1 eng opts p = (r, p')"
    by (cases "evaluate_runtime_injector1 eng opts p")
  have skip: "clean_payload (n + length (p # ps)) (fst (runtime_injector_loop eng opts m ps))"
    using Cons.IH [OF Cons.prems] by (rule clean_mono) simp
  show ?case
  proof (cases "subscribes ''runtime_injector'' ERuntimeInjector p")
    case False
    with skip show ?thesis
      by simp
  next
    case True
    show ?thesis
    proof (cases r)
      case (Inl a)
      with True e skip show ?thesis
        by simp
    next
      case (Inr q)
      have "clean_payload (Suc n + length ps)
          (fst (runtime_injector_loop eng opts (extend_from m (sanitize_injector_payload q)) ps))"
        by (rule Cons.IH [OF clean_extend [OF Cons.prems clean_sanitize]])
      with True e Inr show ?thesis
        by simp
    qed
  qed
qed simp

text \<open>
  C27. Whatever the guests return, the merged injection contains no argument and no security option
  that the confinement checks recognise as weakening, no string above 1024 bytes, and at most 64
  entries per field and registered plugin.
\<close>

theorem injector_result_sanitized:
  "clean_payload (length reg) (fst (evaluate_runtime_injector eng opts reg))"
  using runtime_injector_loop_clean [OF clean_empty, of reg eng opts]
  by (simp add: evaluate_runtime_injector_def)

text \<open>
  The checks look at each argument alone. Podman also takes an option and its value as two
  arguments, and that form of host-namespace sharing passes the sanitizer.
\<close>

lemma host_namespace_in_two_args_passes:
  "args_append (sanitize_injector_payload (empty_injector\<lparr>args_append := [''--pid'', ''host'']\<rparr>)) =
     [''--pid'', ''host'']"
  "args_append (sanitize_injector_payload (empty_injector\<lparr>args_append := [''--pid=host'']\<rparr>)) = []"
  by code_simp+

end
