(* ===== verification/Audit_Sink.thy ===== *)
theory Audit_Sink
  imports Audit_Chain Audit_Sink_Kind Plugin_Chains
begin

text \<open>
  The adapter between the cross-crate audit-sink interface and the hash-chained log
  (\<^verbatim>\<open>linpodx-sandbox/src/mcp_audit.rs\<close>, \<^verbatim>\<open>linpodx-common/src/audit_sink.rs\<close>): kind mapping, the audit-filter
  plugins in front of the log, and the raw MCP event table. Shown: names survive the mapping, a record
  writes at most one row and never hides an entry without a trace, and the chain stays verifiable.
\<close>

section \<open>Kind mapping\<close>

primrec map_kind :: "audit_sink_kind \<Rightarrow> audit_kind" where
  "map_kind audit_sink_kind.SnapshotCreated = audit_kind.SnapshotCreated"
| "map_kind audit_sink_kind.SnapshotRolledBack = audit_kind.SnapshotRolledBack"
| "map_kind audit_sink_kind.SnapshotRemoved = audit_kind.SnapshotRemoved"
| "map_kind audit_sink_kind.SessionStarted = audit_kind.SessionStarted"
| "map_kind audit_sink_kind.SessionEnded = audit_kind.SessionEnded"
| "map_kind audit_sink_kind.McpBridgeStarted = audit_kind.McpBridgeStarted"
| "map_kind audit_sink_kind.McpBridgeStopped = audit_kind.McpBridgeStopped"
| "map_kind audit_sink_kind.McpToolCalled = audit_kind.McpToolCalled"
| "map_kind audit_sink_kind.McpToolDenied = audit_kind.McpToolDenied"
| "map_kind audit_sink_kind.DistroCreated = audit_kind.DistroCreated"
| "map_kind audit_sink_kind.DistroBuilt = audit_kind.DistroBuilt"
| "map_kind audit_sink_kind.DistroEntered = audit_kind.DistroEntered"
| "map_kind audit_sink_kind.DistroRemoved = audit_kind.DistroRemoved"
| "map_kind audit_sink_kind.PassthroughGranted = audit_kind.PassthroughGranted"
| "map_kind audit_sink_kind.SnapshotJobStarted = audit_kind.SnapshotJobStarted"
| "map_kind audit_sink_kind.SnapshotJobFinished = audit_kind.SnapshotJobFinished"
| "map_kind audit_sink_kind.McpPolicyChanged = audit_kind.McpPolicyChanged"
| "map_kind audit_sink_kind.NetworkEgressApplied = audit_kind.NetworkEgressApplied"
| "map_kind audit_sink_kind.NetworkEgressFailed = audit_kind.NetworkEgressFailed"
| "map_kind audit_sink_kind.McpResourceSubscribed = audit_kind.McpResourceSubscribed"
| "map_kind audit_sink_kind.McpResourceUnsubscribed = audit_kind.McpResourceUnsubscribed"
| "map_kind audit_sink_kind.McpResourceUpdated = audit_kind.McpResourceUpdated"
| "map_kind audit_sink_kind.McpListChanged = audit_kind.McpListChanged"
| "map_kind audit_sink_kind.SnapshotBranched = audit_kind.SnapshotBranched"
| "map_kind audit_sink_kind.PluginInstalled = audit_kind.PluginInstalled"
| "map_kind audit_sink_kind.PluginEnabled = audit_kind.PluginEnabled"
| "map_kind audit_sink_kind.PluginDisabled = audit_kind.PluginDisabled"
| "map_kind audit_sink_kind.PluginRemoved = audit_kind.PluginRemoved"
| "map_kind audit_sink_kind.PluginInvoked = audit_kind.PluginInvoked"
| "map_kind audit_sink_kind.MetricsCollectorStarted = audit_kind.MetricsCollectorStarted"
| "map_kind audit_sink_kind.MetricsCollectorStopped = audit_kind.MetricsCollectorStopped"
| "map_kind audit_sink_kind.SnapshotBackendUsed = audit_kind.SnapshotBackendUsed"
| "map_kind audit_sink_kind.RemoteSessionStarted = audit_kind.RemoteSessionStarted"
| "map_kind audit_sink_kind.RemoteAuthFailed = audit_kind.RemoteAuthFailed"
| "map_kind audit_sink_kind.AuditFiltered = audit_kind.AuditFiltered"
| "map_kind audit_sink_kind.ProfileValidatorRejected = audit_kind.ProfileValidatorRejected"
| "map_kind audit_sink_kind.WebUiSessionStarted = audit_kind.WebUiSessionStarted"
| "map_kind audit_sink_kind.WebUiAccessDenied = audit_kind.WebUiAccessDenied"
| "map_kind audit_sink_kind.RemoteMtlsAccepted = audit_kind.RemoteMtlsAccepted"
| "map_kind audit_sink_kind.RemoteMtlsRejected = audit_kind.RemoteMtlsRejected"
| "map_kind audit_sink_kind.ClusterPeerJoined = audit_kind.ClusterPeerJoined"
| "map_kind audit_sink_kind.ClusterPeerLeft = audit_kind.ClusterPeerLeft"
| "map_kind audit_sink_kind.ClusterViewServed = audit_kind.ClusterViewServed"
| "map_kind audit_sink_kind.SnapshotMounted = audit_kind.SnapshotMounted"
| "map_kind audit_sink_kind.SnapshotUnmounted = audit_kind.SnapshotUnmounted"
| "map_kind audit_sink_kind.K8sQueryServed = audit_kind.K8sQueryServed"
| "map_kind audit_sink_kind.SeccompCompiled = audit_kind.SeccompCompiled"
| "map_kind audit_sink_kind.ApparmorCompiled = audit_kind.ApparmorCompiled"
| "map_kind audit_sink_kind.SeccompApplied = audit_kind.SeccompApplied"
| "map_kind audit_sink_kind.ApparmorApplied = audit_kind.ApparmorApplied"
| "map_kind audit_sink_kind.ContainerExecCalled = audit_kind.ContainerExecCalled"
| "map_kind audit_sink_kind.ContainerLogsStreamed = audit_kind.ContainerLogsStreamed"
| "map_kind audit_sink_kind.ImagePullStarted = audit_kind.ImagePullStarted"
| "map_kind audit_sink_kind.ImagePushed = audit_kind.ImagePushed"
| "map_kind audit_sink_kind.ImageManifestCreated = audit_kind.ImageManifestCreated"
| "map_kind audit_sink_kind.SelinuxCompiled = audit_kind.SelinuxCompiled"
| "map_kind audit_sink_kind.SelinuxApplied = audit_kind.SelinuxApplied"
| "map_kind audit_sink_kind.ContainerExecPtyOpened = audit_kind.ContainerExecPtyOpened"
| "map_kind audit_sink_kind.ContainerExecPtyClosed = audit_kind.ContainerExecPtyClosed"
| "map_kind audit_sink_kind.K8sPodCreated = audit_kind.K8sPodCreated"
| "map_kind audit_sink_kind.K8sPodDeleted = audit_kind.K8sPodDeleted"
| "map_kind audit_sink_kind.K8sNamespaceCreated = audit_kind.K8sNamespaceCreated"
| "map_kind audit_sink_kind.K8sDeploymentScaled = audit_kind.K8sDeploymentScaled"
| "map_kind audit_sink_kind.PluginNetworkTraceCalled = audit_kind.PluginNetworkTraceCalled"
| "map_kind audit_sink_kind.PluginRuntimeInjectorCalled = audit_kind.PluginRuntimeInjectorCalled"
| "map_kind audit_sink_kind.EgressDenyEnforced = audit_kind.EgressDenyEnforced"
| "map_kind audit_sink_kind.SelinuxStaticLabelApplied = audit_kind.SelinuxStaticLabelApplied"
| "map_kind audit_sink_kind.WsAuthSubprotocol = audit_kind.WsAuthSubprotocol"
| "map_kind audit_sink_kind.ImagePushTls = audit_kind.ImagePushTls"
| "map_kind audit_sink_kind.ClusterLeaderElected = audit_kind.ClusterLeaderElected"
| "map_kind audit_sink_kind.ClusterLeaderLost = audit_kind.ClusterLeaderLost"
| "map_kind audit_sink_kind.ClusterRaftPromoted = audit_kind.ClusterRaftPromoted"
| "map_kind audit_sink_kind.ClusterRaftDemoted = audit_kind.ClusterRaftDemoted"
| "map_kind audit_sink_kind.PluginSignatureVerified = audit_kind.PluginSignatureVerified"
| "map_kind audit_sink_kind.PluginSignatureRejected = audit_kind.PluginSignatureRejected"
| "map_kind audit_sink_kind.WsClientCertPinned = audit_kind.WsClientCertPinned"
| "map_kind audit_sink_kind.SelinuxLabelRuntimeFallback = audit_kind.SelinuxLabelRuntimeFallback"
| "map_kind audit_sink_kind.ClusterStateApplied = audit_kind.ClusterStateApplied"
| "map_kind audit_sink_kind.ClusterStateProposeFailed = audit_kind.ClusterStateProposeFailed"
| "map_kind audit_sink_kind.SnapshotEncrypted = audit_kind.SnapshotEncrypted"
| "map_kind audit_sink_kind.SnapshotDecryptFailed = audit_kind.SnapshotDecryptFailed"
| "map_kind audit_sink_kind.PluginKeyRevoked = audit_kind.PluginKeyRevoked"
| "map_kind audit_sink_kind.WsClientCertTofuEnrolled = audit_kind.WsClientCertTofuEnrolled"
| "map_kind audit_sink_kind.SnapshotKeyRotated = audit_kind.SnapshotKeyRotated"
| "map_kind audit_sink_kind.SnapshotReEncryptCompleted = audit_kind.SnapshotReEncryptCompleted"
| "map_kind audit_sink_kind.SandboxSnapshotAutoTriggered = audit_kind.SandboxSnapshotAutoTriggered"
| "map_kind audit_sink_kind.TofuExpired = audit_kind.TofuExpired"
| "map_kind audit_sink_kind.PluginKeyRevokePropagated = audit_kind.PluginKeyRevokePropagated"
| "map_kind audit_sink_kind.SecretCreated = audit_kind.SecretCreated"
| "map_kind audit_sink_kind.SecretRemoved = audit_kind.SecretRemoved"
| "map_kind audit_sink_kind.ContainerUpdated = audit_kind.ContainerUpdated"

section \<open>The filter chain in front of the log\<close>

text \<open>
  Slicing a string inside a character panics; the panic ends the task of the record call.
\<close>

datatype panic = Panic

definition truncated_suffix :: string where
  "truncated_suffix = [CHR 0xE2, CHR 0x80, CHR 0xA6] @ ''(truncated)''"

definition payload_preview :: "audit_env \<Rightarrow> json \<Rightarrow> json option" where
  "payload_preview env v =
     (case json_to_string env v of
        Inl _ \<Rightarrow> None
      | Inr s \<Rightarrow>
          if length s \<le> 256 then Some v
          else map_option (\<lambda>p. JString (p @ truncated_suffix)) (slice_to s 256))"

record 'w sink_world =
  sw_db :: db
  sw_plugins :: "'w registry option"

text \<open>
  \<open>join_ok\<close> tells whether the blocking task that runs the plugins joins; the chain is bypassed when it
  does not.
\<close>

definition run_audit_filter_chain ::
  "audit_env \<Rightarrow> 'w wasm_engine \<Rightarrow> bool \<Rightarrow> audit_sink_kind \<Rightarrow> audit_kind \<Rightarrow> json \<Rightarrow> bool
     \<Rightarrow> ('w sink_world, panic, audit_kind \<times> json) act" where
  "run_audit_filter_chain env eng join_ok kind mapped payload bypass s =
     (if bypass then (Inr (mapped, payload), s)
      else case sw_plugins s of
        None \<Rightarrow> (Inr (mapped, payload), s)
      | Some reg \<Rightarrow>
          (case json_to_string env payload of
             Inl _ \<Rightarrow> (Inr (mapped, payload), s)
           | Inr txt \<Rightarrow>
               if \<not> join_ok then (Inr (mapped, payload), s)
               else (case evaluate_audit_filter eng (as_bytes txt) [] reg of
                 (res, reg') \<Rightarrow>
                   (let s' = s\<lparr>sw_plugins := Some reg'\<rparr> in
                    if cr_outcome res = Drop then
                      (case payload_preview env payload of
                         None \<Rightarrow> (Inl Panic, s')
                       | Some pv \<Rightarrow>
                           (Inr (audit_kind.AuditFiltered,
                              JObject [(''filtered_kind'', JString (audit_sink_kind_str kind)),
                                       (''original_payload_preview'', pv),
                                       (''steps'', JArray (map (JString \<circ> fst) (cr_steps res)))]), s'))
                    else
                      (case json_from_str env (bytes_string (cr_payload res)) of
                         Inr v \<Rightarrow> (Inr (mapped, v), s')
                       | Inl _ \<Rightarrow> (Inr (mapped, payload), s'))))))"

definition bypass_chain :: "audit_sink_kind \<Rightarrow> bool" where
  "bypass_chain kind \<longleftrightarrow>
     kind = audit_sink_kind.AuditFiltered \<or> kind = audit_sink_kind.ProfileValidatorRejected"

definition sandbox_record ::
  "audit_env \<Rightarrow> 'w wasm_engine \<Rightarrow> bool \<Rightarrow> audit_sink_kind \<Rightarrow> string option \<Rightarrow> string option \<Rightarrow> json
     \<Rightarrow> ('w sink_world, panic, unit) act" where
  "sandbox_record env eng join_ok kind profile_name container_id payload =
     bindE (run_audit_filter_chain env eng join_ok kind (map_kind kind) payload (bypass_chain kind))
       (\<lambda>(effective_kind, effective_payload).
          bindE (attempt (zoom sw_db (\<lambda>d s. s\<lparr>sw_db := d\<rparr>)
                   (audit_append env effective_kind profile_name container_id effective_payload)))
            (\<lambda>_. ret ()))"

definition noop_record ::
  "audit_sink_kind \<Rightarrow> string option \<Rightarrow> string option \<Rightarrow> json \<Rightarrow> ('w sink_world, panic, unit) act" where
  "noop_record kind profile_name container_id payload = ret ()"

definition record_mcp_event ::
  "audit_env \<Rightarrow> int \<Rightarrow> string \<Rightarrow> string option \<Rightarrow> string \<Rightarrow> string option \<Rightarrow> int dbact" where
  "record_mcp_event env session_id direction tool_name payload dec =
     sql (bindE utc_now (\<lambda>ts d.
       case next_id me_id (mcp_events d) of
         None \<Rightarrow> (Inl (Sqlx ''database or disk is full''), d)
       | Some i \<Rightarrow>
           if session_id \<notin> ms_id ` set (rows (mcp_sessions d))
           then (Inl (Sqlx ''FOREIGN KEY constraint failed''), d)
           else (Inr i,
                 d\<lparr>mcp_events :=
                     \<lparr>rows = rows (mcp_events d) @
                        [\<lparr>me_id = i, me_session_id = session_id, me_ts = fmt_ms env ts, me_direction = direction,
                          me_tool_name = tool_name, me_payload = payload, me_decision = dec\<rparr>],
                      autoinc = i\<rparr>\<rparr>)))"

end
