(* ===== verification/Audit_Sink_Contract.thy ===== *)
theory Audit_Sink_Contract
  imports Audit_Sink
begin

text \<open>
  The contract of an audit sink, as a locale that its clients can rely on, with the sandbox sink and
  the no-op sink as its two implementations, and what the sandbox sink guarantees on top of it.
\<close>

section \<open>Contract\<close>

locale audit_sink =
  fixes record_entry :: "audit_sink_kind \<Rightarrow> string option \<Rightarrow> string option \<Rightarrow> json \<Rightarrow> ('s, panic, unit) act"
    and inv :: "'s \<Rightarrow> bool"
  assumes record_inv: "preserves inv (record_entry kind pn ci payload)"
begin

definition record_all :: "(audit_sink_kind \<times> string option \<times> string option \<times> json) list \<Rightarrow> ('s, panic, unit) act" where
  "record_all es = for_each (\<lambda>(k, p, c, j). record_entry k p c j) es"

lemma record_all_inv: "preserves inv (record_all es)"
  unfolding record_all_def by (intro preserves_for_each) (auto split: prod.splits intro: record_inv)

lemma record_all_state: "inv s \<Longrightarrow> inv (snd (record_all es s))"
  by (rule preserves_snd [OF record_all_inv])

end

section \<open>What the sandbox sink does\<close>

lemma appended_rows:
  assumes "appended env kind pn ci payload d e d'"
  shows "\<exists>pj ts prev i. audit_log d' =
    \<lparr>rows = rows (audit_log d) @ [new_row env kind pn ci pj ts prev i], autoinc = i\<rparr>"
proof -
  obtain pj i where d': "d' = d\<lparr>audit_log := \<lparr>rows = rows (audit_log d) @
      [new_row env kind pn ci pj (clock d (ticks d))
         (case select_head (audit_log d) of Some h \<Rightarrow> h | None \<Rightarrow> ZERO_HASH) i], autoinc = i\<rparr>,
      ops := ops d', ticks := ticks d'\<rparr>"
    using assms unfolding appended_def Let_def by blast
  show ?thesis
    by (subst d') auto
qed

lemma run_chain_db: "sw_db (snd (run_audit_filter_chain env eng j kind mapped payload b s)) = sw_db s"
  by (simp add: run_audit_filter_chain_def Let_def split: option.split sum.split prod.split)

lemma run_chain_kind:
  "run_audit_filter_chain env eng j kind mapped payload b s = (Inr (k, v), s') \<Longrightarrow>
     k = mapped \<or> k = audit_kind.AuditFiltered"
  by (auto simp: run_audit_filter_chain_def Let_def split: option.splits sum.splits prod.splits if_splits)

lemma sandbox_record_cases:
  assumes "sandbox_record env eng j kind pn ci payload s = (r, s')"
  shows "(r = Inl Panic \<and> sw_db s' = sw_db s) \<or>
    (\<exists>k v. r = Inr () \<and> (k = map_kind kind \<or> k = audit_kind.AuditFiltered) \<and>
       sw_db s' = snd (audit_append env k pn ci v (sw_db s)))"
proof -
  obtain q s1 where q: "run_audit_filter_chain env eng j kind (map_kind kind) payload (bypass_chain kind) s = (q, s1)"
    by (cases "run_audit_filter_chain env eng j kind (map_kind kind) payload (bypass_chain kind) s")
  have db: "sw_db s1 = sw_db s"
    using run_chain_db [of env eng j kind "map_kind kind" payload "bypass_chain kind" s] q by simp
  show ?thesis
  proof (cases q)
    case (Inl e)
    then show ?thesis
      using assms q db by (cases e) (simp add: sandbox_record_def bindE_apply)
  next
    case (Inr kv)
    then obtain k v where kv: "q = Inr (k, v)"
      by (cases kv) simp
    then have "r = Inr ()" "sw_db s' = snd (audit_append env k pn ci v (sw_db s))"
      using assms q db by (auto simp: sandbox_record_def bindE_apply attempt_apply zoom_apply)
    moreover have "k = map_kind kind \<or> k = audit_kind.AuditFiltered"
      using run_chain_kind q kv by blast
    ultimately show ?thesis
      by blast
  qed
qed

definition sink_inv :: "audit_env \<Rightarrow> 'w sink_world \<Rightarrow> bool" where
  "sink_inv env s \<longleftrightarrow> chain_inv env (sw_db s)"

interpretation sandbox_sink: audit_sink "sandbox_record env eng j" "sink_inv env" for env eng j
proof
  show "preserves (sink_inv env) (sandbox_record env eng j kind pn ci payload)" for kind pn ci payload
  proof (rule preservesI)
    fix s :: "'a sink_world"
    assume inv: "sink_inv env s"
    obtain r s' where r: "sandbox_record env eng j kind pn ci payload s = (r, s')"
      by (cases "sandbox_record env eng j kind pn ci payload s")
    from sandbox_record_cases [OF r] inv
    show "sink_inv env (snd (sandbox_record env eng j kind pn ci payload s))"
      by (auto simp: r sink_inv_def intro: preserves_snd [OF preserves_audit_append])
  qed
qed

text \<open>A record touches the log and nothing else of the database.\<close>

definition log_only :: "db \<Rightarrow> db \<Rightarrow> bool" where
  "log_only d d' \<longleftrightarrow> (\<exists>t n k. d' = d\<lparr>audit_log := t, ops := n, ticks := k\<rparr>)"

lemma log_only_refl [simp]: "log_only d d"
proof -
  have "d = d\<lparr>audit_log := audit_log d, ops := ops d, ticks := ticks d\<rparr>"
    by simp
  then show ?thesis
    unfolding log_only_def by blast
qed

lemma log_only_trans: "log_only d d' \<Longrightarrow> log_only d' d'' \<Longrightarrow> log_only d d''"
  by (unfold log_only_def, elim exE, simp, blast)

lemma log_only_tables:
  assumes "log_only d d'"
  shows "fault d' = fault d" "mcp_policies d' = mcp_policies d" "plugins d' = plugins d" "snapshots d' = snapshots d"
    "pinned_clients d' = pinned_clients d" "cluster_peers d' = cluster_peers d" "raft_state d' = raft_state d"
  using assms by (auto simp: log_only_def)

lemma audit_append_log_only: "log_only d (snd (audit_append env kind pn ci payload d))"
proof -
  obtain r d' where a: "audit_append env kind pn ci payload d = (r, d')"
    by (cases "audit_append env kind pn ci payload d")
  from audit_append_cases [OF a] have "log_only d d'"
  proof (elim disjE exE conjE)
    fix e n k
    assume "d' = d\<lparr>ops := n, ticks := k\<rparr>"
    then have "d' = d\<lparr>audit_log := audit_log d, ops := n, ticks := k\<rparr>"
      by simp
    then show ?thesis
      unfolding log_only_def by blast
  next
    fix e
    assume "appended env kind pn ci payload d e d'"
    then show ?thesis
      unfolding appended_def Let_def log_only_def by blast
  qed
  with a show ?thesis
    by simp
qed

interpretation log_sink: audit_sink "sandbox_record env eng j" "\<lambda>w. log_only d (sw_db w)" for env eng j d
proof
  show "preserves (\<lambda>w. log_only d (sw_db w)) (sandbox_record env eng j kind pn ci payload)" for kind pn ci payload
  proof (rule preservesI)
    fix s :: "'a sink_world"
    assume d: "log_only d (sw_db s)"
    obtain r s' where r: "sandbox_record env eng j kind pn ci payload s = (r, s')"
      by (cases "sandbox_record env eng j kind pn ci payload s")
    from sandbox_record_cases [OF r] d show "log_only d (sw_db (snd (sandbox_record env eng j kind pn ci payload s)))"
      by (elim disjE exE conjE) (simp_all add: r log_only_trans [OF _ audit_append_log_only])
  qed
qed

lemma sandbox_record_log_only: "log_only (sw_db s) (sw_db (snd (sandbox_record env eng j kind pn ci payload s)))"
  using preserves_snd [OF log_sink.record_inv, of "sw_db s" s] by simp

interpretation noop_sink: audit_sink noop_record inv for inv
  by unfold_locales (simp add: noop_record_def preserves_ret)

text \<open>
  Mapping a sink kind to the sandbox's audit kind keeps its wire name, for all 91 kinds.
\<close>

theorem map_kind_keeps_name: "audit_kind_str (map_kind k) = audit_sink_kind_str k"
  by (cases k) simp_all

text \<open>
  Recording through the sandbox sink any sequence of entries, with any plugins in front of the
  log and any database faults, leaves an audit log that is still a verifiable chain.
\<close>

theorem sink_keeps_chain:
  assumes "chain_inv env (sw_db s)"
  shows "chain_inv env (sw_db (snd (for_each
    (\<lambda>(k, p, c, payload). sandbox_record env eng j k p c payload) es s)))"
  using sandbox_sink.record_all_state [of env s eng j es] assms
  by (simp add: sink_inv_def sandbox_sink.record_all_def)

definition demo_world :: "unit sink_world" where
  "demo_world = \<lparr>sw_db = demo_db, sw_plugins = None\<rparr>"

definition demo_engine :: "unit wasm_engine" where
  "demo_engine =
     \<lparr>guest = (\<lambda>w e p. ([], None, w)), instantiate = (\<lambda>_. Inl ''none''),
      parse_injector = (\<lambda>_. None), event_to_vec = (\<lambda>_. Inr [])\<rparr>"

theorem sink_keeps_chain_witness:
  "chain_inv demo_env (sw_db (snd (for_each
     (\<lambda>(k, p, c, payload). sandbox_record demo_env demo_engine True k p c payload)
     [(audit_sink_kind.McpBridgeStarted, None, Some ''c1'', JString ''x'')] demo_world)))"
  using sink_keeps_chain [of demo_env demo_world demo_engine True
      "[(audit_sink_kind.McpBridgeStarted, None, Some ''c1'', JString ''x'')]"]
  by (simp add: demo_world_def demo_db_def)

text \<open>
  No plugin can hide an audit entry without a trace. A record call that completes either failed
  to write (the tables are untouched and the failure is logged), or it added exactly one row, for the
  same profile and container, whose kind is the entry's own name or \<^verbatim>\<open>audit_filtered\<close>.
\<close>

theorem record_leaves_a_trace:
  assumes "sandbox_record env eng j kind pn ci payload s = (Inr (), s')"
  shows "audit_log (sw_db s') = audit_log (sw_db s) \<or>
    (\<exists>r. rows (audit_log (sw_db s')) = rows (audit_log (sw_db s)) @ [r] \<and>
       (a_kind r = audit_sink_kind_str kind \<or> a_kind r = ''audit_filtered'') \<and>
       a_profile_name r = pn \<and> a_container_id r = ci)"
proof -
  obtain k v where k: "k = map_kind kind \<or> k = audit_kind.AuditFiltered"
    and db: "sw_db s' = snd (audit_append env k pn ci v (sw_db s))"
    using sandbox_record_cases [OF assms] by auto
  have name: "audit_kind_str (map_kind kind) = audit_sink_kind_str kind"
    by (cases kind) simp_all
  obtain q d' where q: "audit_append env k pn ci v (sw_db s) = (q, d')"
    by (cases "audit_append env k pn ci v (sw_db s)")
  show ?thesis
    using audit_append_cases [OF q]
  proof (elim disjE exE conjE)
    fix e n m
    assume "d' = sw_db s\<lparr>ops := n, ticks := m\<rparr>"
    then show ?thesis
      using db q by simp
  next
    fix e
    assume "appended env k pn ci v (sw_db s) e d'"
    then obtain pj ts prev i where "audit_log d' =
        \<lparr>rows = rows (audit_log (sw_db s)) @ [new_row env k pn ci pj ts prev i], autoinc = i\<rparr>"
      using appended_rows by blast
    then show ?thesis
      using db q k name by (auto simp: new_row_def)
  qed
qed

theorem record_leaves_a_trace_witness:
  "\<exists>s'. sandbox_record demo_env demo_engine True audit_sink_kind.McpBridgeStarted None (Some ''c1'')
     (JString ''x'') demo_world = (Inr (), s') \<and>
   (audit_log (sw_db s') = audit_log (sw_db demo_world) \<or>
    (\<exists>r. rows (audit_log (sw_db s')) = rows (audit_log (sw_db demo_world)) @ [r] \<and>
       (a_kind r = ''mcp_bridge_started'' \<or> a_kind r = ''audit_filtered'')))"
proof -
  let ?run = "sandbox_record demo_env demo_engine True audit_sink_kind.McpBridgeStarted None (Some ''c1'')
    (JString ''x'') demo_world"
  have "fst ?run = Inr ()"
    by (simp add: sandbox_record_def run_audit_filter_chain_def demo_world_def bindE_apply attempt_apply)
  then have "?run = (Inr (), snd ?run)"
    by (metis prod.collapse)
  from record_leaves_a_trace [OF this] this show ?thesis
    by auto
qed

text \<open>
  The preview of a dropped entry is cut at byte 256. When that byte is inside a character the slice
  panics, and the dropped entry leaves neither its own row nor an \<^verbatim>\<open>audit_filtered\<close> row.
\<close>

lemma preview_cut_inside_character_panics:
  assumes "json_to_string env payload = Inr s" and "256 < length s" and "\<not> is_char_boundary s 256"
  shows "payload_preview env payload = None"
  using assms by (simp add: payload_preview_def slice_to_def)

lemma dropped_entry_lost_on_panic:
  assumes "payload_preview env payload = None" and "json_to_string env payload = Inr txt"
    and "sw_plugins w = Some reg" and "\<not> bypass_chain kind"
    and "cr_outcome (fst (evaluate_audit_filter eng (as_bytes txt) [] reg)) = Drop"
  shows "\<exists>w'. sandbox_record env eng True kind pn ci payload w = (Inl Panic, w') \<and> sw_db w' = sw_db w"
  using assms
  by (cases "evaluate_audit_filter eng (as_bytes txt) [] reg")
    (simp add: sandbox_record_def run_audit_filter_chain_def bindE_apply Let_def)

end
