(* ===== verification/Mcp_Store.thy ===== *)
theory Mcp_Store
  imports Mcp_Protocol Audit_Sink_Contract
begin

text \<open>
  The MCP policy table (\<^verbatim>\<open>linpodx-sandbox/src/mcp_policy.rs\<close>) and the handler that replaces it and
  refreshes the bridges' copy (\<^verbatim>\<open>dispatch/mcp.rs\<close>). The table's uniqueness constraint is on method and
  tool name, and SQLite takes two NULL tool names for different. Shown: what a rule set reads back as,
  and where an update does not take effect.
\<close>

section \<open>The store\<close>

fun decision_str :: "mcp_policy_decision \<Rightarrow> string" where
  "decision_str AutoAllow = ''auto_allow''"
| "decision_str Prompt = ''prompt''"
| "decision_str Deny = ''deny''"
| "decision_str AuditOnly = ''audit_only''"

definition parse_decision :: "string \<Rightarrow> error + mcp_policy_decision" where
  "parse_decision raw =
     (if raw = ''auto_allow'' then Inr AutoAllow
      else if raw = ''prompt'' then Inr Prompt
      else if raw = ''deny'' then Inr Deny
      else if raw = ''audit_only'' then Inr AuditOnly
      else Inl (Runtime (''invalid mcp policy decision in DB: '' @ [CHR 0x27] @ raw @ [CHR 0x27])))"

interpretation decision_codec: str_codec decision_str parse_decision
proof
  show "parse_decision (decision_str d) = Inr d" for d
    by (cases d) (simp_all add: parse_decision_def)
qed

definition into_rule :: "mcp_policy_row \<Rightarrow> error + mcp_policy_rule" where
  "into_rule row =
     (case parse_decision (mp_decision row) of
        Inl e \<Rightarrow> Inl e
      | Inr d \<Rightarrow> Inr \<lparr>pr_method = mp_method row, pr_tool_name = mp_tool_name row, pr_decision = d,
                      pr_note = mp_note row\<rparr>)"

fun into_rules :: "mcp_policy_row list \<Rightarrow> error + mcp_policy_rule list" where
  "into_rules [] = Inr []"
| "into_rules (row # rs) =
     (case into_rule row of
        Inl e \<Rightarrow> Inl e
      | Inr x \<Rightarrow> (case into_rules rs of Inl e \<Rightarrow> Inl e | Inr xs \<Rightarrow> Inr (x # xs)))"

definition policy_load_all :: "mcp_policy_rule list dbact" where
  "policy_load_all =
     bindE (sql (gets (\<lambda>d. sort_key mp_id (rows (mcp_policies d))))) (\<lambda>rs.
       case into_rules rs of Inl e \<Rightarrow> throw e | Inr xs \<Rightarrow> ret xs)"

text \<open>
  \<^verbatim>\<open>INSERT ... ON CONFLICT(method, tool_name) DO UPDATE\<close>: a row conflicts when both columns are equal
  and neither is NULL.
\<close>

definition conflicts :: "mcp_policy_rule \<Rightarrow> mcp_policy_row \<Rightarrow> bool" where
  "conflicts r row \<longleftrightarrow>
     mp_method row = pr_method r \<and> pr_tool_name r \<noteq> None \<and> mp_tool_name row = pr_tool_name r"

definition upsert_row :: "mcp_policy_rule \<Rightarrow> mcp_policy_row table \<Rightarrow> mcp_policy_row table option" where
  "upsert_row r t =
     (if list_ex (conflicts r) (rows t)
      then Some (t\<lparr>rows := map (\<lambda>row.
             if conflicts r row then row\<lparr>mp_decision := decision_str (pr_decision r), mp_note := pr_note r\<rparr>
             else row) (rows t)\<rparr>)
      else map_option (\<lambda>i. \<lparr>rows = rows t @
             [\<lparr>mp_id = i, mp_method = pr_method r, mp_tool_name = pr_tool_name r,
               mp_decision = decision_str (pr_decision r), mp_note = pr_note r\<rparr>], autoinc = i\<rparr>)
             (next_id mp_id t))"

definition upsert_rule :: "mcp_policy_rule \<Rightarrow> unit dbact" where
  "upsert_rule r =
     sql (\<lambda>d. case upsert_row r (mcp_policies d) of
                None \<Rightarrow> (Inl (Sqlx ''database or disk is full''), d)
              | Some t \<Rightarrow> (Inr (), d\<lparr>mcp_policies := t\<rparr>))"

text \<open>The failures of a store operation: a database error, or a panic of the audit sink.\<close>

definition with_db :: "'a dbact \<Rightarrow> ('w sink_world, error + panic, 'a) act" where
  "with_db m = map_err Inl (zoom sw_db (\<lambda>d s. s\<lparr>sw_db := d\<rparr>) m)"

type_synonym 's sink_fn =
  "audit_sink_kind \<Rightarrow> string option \<Rightarrow> string option \<Rightarrow> json \<Rightarrow> ('s, panic, unit) act"

definition rule_json :: "mcp_policy_rule \<Rightarrow> json" where
  "rule_json r =
     JObject ([(''method'', JString (pr_method r))] @
       (case pr_tool_name r of Some t \<Rightarrow> [(''tool_name'', JString t)] | None \<Rightarrow> []) @
       [(''decision'', JString (decision_str (pr_decision r)))] @
       (case pr_note r of Some n \<Rightarrow> [(''note'', JString n)] | None \<Rightarrow> []))"

definition policy_upsert ::
  "'w sink_world sink_fn \<Rightarrow> mcp_policy_rule list \<Rightarrow> ('w sink_world, error + panic, nat) act" where
  "policy_upsert sink rules =
     bindE (with_db (for_each upsert_rule rules)) (\<lambda>_.
       bindE (map_err Inr (sink audit_sink_kind.McpPolicyChanged None None
                (JObject [(''op'', JString ''upsert''), (''count'', JInt (int (length rules))),
                          (''rules'', JArray (map rule_json rules))]))) (\<lambda>_.
         ret (length rules)))"

definition policy_delete_all :: "nat dbact" where
  "policy_delete_all =
     sql (\<lambda>d. (Inr (length (rows (mcp_policies d))), d\<lparr>mcp_policies := (mcp_policies d)\<lparr>rows := []\<rparr>\<rparr>))"

definition apply_set ::
  "audit_env \<Rightarrow> 'w sink_world sink_fn \<Rightarrow> mcp_policy_rule list \<Rightarrow> bool
     \<Rightarrow> ('w sink_world, error + panic, nat \<times> nat) act" where
  "apply_set env sink rules replace_all =
     bindE (if replace_all then with_db policy_delete_all else ret 0) (\<lambda>deleted.
       bindE (policy_upsert sink rules) (\<lambda>upserted.
         if replace_all then
           bindE (with_db (audit_append env audit_kind.McpPolicyChanged None None
                    (JObject [(''op'', JString ''delete_all''), (''count'', JInt (int deleted))]))) (\<lambda>_.
             ret (upserted, deleted))
         else ret (upserted, deleted)))"

text \<open>
  The \<^verbatim>\<open>mcp_policy_set\<close> handler: the sink it builds has no plugins, and the rules the bridges use
  are replaced only after everything else succeeded.
\<close>

record 'w policy_world =
  pw_world :: "'w sink_world"
  pw_rules :: "mcp_policy_rule list"

definition mcp_policy_set ::
  "audit_env \<Rightarrow> 'w wasm_engine \<Rightarrow> mcp_policy_rule list \<Rightarrow> bool
     \<Rightarrow> ('w policy_world, error + panic, nat \<times> nat) act" where
  "mcp_policy_set env eng rules replace_all =
     bindE (zoom pw_world (\<lambda>w s. s\<lparr>pw_world := w\<rparr>)
              (apply_set env (sandbox_record env eng True) rules replace_all)) (\<lambda>r.
       bindE (zoom pw_world (\<lambda>w s. s\<lparr>pw_world := w\<rparr>) (with_db policy_load_all)) (\<lambda>new_rules.
         bindE (modify (\<lambda>s. s\<lparr>pw_rules := new_rules\<rparr>)) (\<lambda>_. ret r)))"

section \<open>What the table reads back as\<close>

definition row_rule :: "mcp_policy_row \<Rightarrow> mcp_policy_rule \<Rightarrow> bool" where
  "row_rule row r \<longleftrightarrow>
     mp_method row = pr_method r \<and> mp_tool_name row = pr_tool_name r \<and>
     mp_decision row = decision_str (pr_decision r) \<and> mp_note row = pr_note r"

lemma into_rule_row: "row_rule row r \<Longrightarrow> into_rule row = Inr r"
  by (cases r) (simp add: row_rule_def into_rule_def decision_codec.dec_enc)

lemma into_rules_rows: "list_all2 row_rule rs rules \<Longrightarrow> into_rules rs = Inr rules"
  by (induction rule: list_all2_induct) (simp_all add: into_rule_row)

text \<open>
  The table holds a rule list: one row per rule, ids increasing, below the AUTOINCREMENT counter.
\<close>

definition holds_rules :: "mcp_policy_row table \<Rightarrow> mcp_policy_rule list \<Rightarrow> bool" where
  "holds_rules t rules \<longleftrightarrow>
     list_all2 row_rule (rows t) rules \<and> sorted_wrt (<) (map mp_id (rows t)) \<and>
     list_all (\<lambda>row. mp_id row \<le> autoinc t) (rows t)"

lemma load_holds:
  assumes "holds_rules (mcp_policies d) rules"
  shows "policy_load_all d = (Inr rules, d\<lparr>ops := Suc (ops d)\<rparr>) \<or> (\<exists>e. fst (policy_load_all d) = Inl (Sqlx e))"
proof -
  have "sort_key mp_id (rows (mcp_policies d)) = rows (mcp_policies d)"
    using assms by (intro sort_key_sorted) (simp add: holds_rules_def strict_sorted_imp_sorted)
  moreover have "into_rules (rows (mcp_policies d)) = Inr rules"
    using assms by (simp add: holds_rules_def into_rules_rows)
  ultimately show ?thesis
    by (cases "fault d (ops d)") (simp_all add: policy_load_all_def bindE_apply sql_def Let_def)
qed

lemma holds_rules_append:
  assumes "holds_rules t rules" and "next_id mp_id t = Some i" and "row_rule row r" and "mp_id row = i"
  shows "holds_rules \<lparr>rows = rows t @ [row], autoinc = i\<rparr> (rules @ [r])"
proof -
  have "\<forall>x\<in>set (rows t). mp_id x < i"
    using next_id_fresh [OF assms(2)] by blast
  then show ?thesis
    using assms by (auto simp: holds_rules_def sorted_wrt_append list_all_iff less_imp_le intro: list_all2_appendI)
qed

text \<open>The abstract effect of writing one rule.\<close>

definition same_key :: "mcp_policy_rule \<Rightarrow> mcp_policy_rule \<Rightarrow> bool" where
  "same_key r q \<longleftrightarrow> pr_method q = pr_method r \<and> pr_tool_name r \<noteq> None \<and> pr_tool_name q = pr_tool_name r"

definition rules_upsert :: "mcp_policy_rule \<Rightarrow> mcp_policy_rule list \<Rightarrow> mcp_policy_rule list" where
  "rules_upsert r rules =
     (if list_ex (same_key r) rules then map (\<lambda>q. if same_key r q then r else q) rules else rules @ [r])"

lemma conflicts_same_key: "row_rule row q \<Longrightarrow> conflicts r row = same_key r q"
  by (auto simp: row_rule_def conflicts_def same_key_def)

lemma conflicts_list_ex: "list_all2 row_rule rs rules \<Longrightarrow> list_ex (conflicts r) rs = list_ex (same_key r) rules"
  by (induction rule: list_all2_induct) (simp_all add: conflicts_same_key)

lemma update_rows:
  "list_all2 row_rule rs rules \<Longrightarrow>
     list_all2 row_rule
       (map (\<lambda>row. if conflicts r row then row\<lparr>mp_decision := decision_str (pr_decision r), mp_note := pr_note r\<rparr>
                   else row) rs)
       (map (\<lambda>q. if same_key r q then r else q) rules)"
proof (induction rule: list_all2_induct)
  case (Cons row rs q rules)
  then show ?case
    using conflicts_same_key [of row q r] by (auto simp: row_rule_def same_key_def)
qed simp

lemma upsert_row_holds:
  assumes h: "holds_rules t rules" and u: "upsert_row r t = Some t'"
  shows "holds_rules t' (rules_upsert r rules)"
proof (cases "list_ex (conflicts r) (rows t)")
  case True
  let ?f = "\<lambda>row. if conflicts r row then row\<lparr>mp_decision := decision_str (pr_decision r), mp_note := pr_note r\<rparr> else row"
  have id: "mp_id (?f row) = mp_id row" for row
    by simp
  have "map mp_id (map ?f (rows t)) = map mp_id (rows t)"
    by (simp add: id comp_def)
  moreover have "t' = t\<lparr>rows := map ?f (rows t)\<rparr>"
    using u True by (simp add: upsert_row_def)
  ultimately show ?thesis
    using h True update_rows [of "rows t" rules r] conflicts_list_ex [of "rows t" rules r]
    by (auto simp: holds_rules_def rules_upsert_def list_all_iff id simp del: map_map)
next
  case False
  then obtain i where i: "next_id mp_id t = Some i"
    and t': "t' = \<lparr>rows = rows t @ [\<lparr>mp_id = i, mp_method = pr_method r, mp_tool_name = pr_tool_name r,
      mp_decision = decision_str (pr_decision r), mp_note = pr_note r\<rparr>], autoinc = i\<rparr>"
    using u by (auto simp: upsert_row_def)
  have "\<not> list_ex (same_key r) rules"
    using False h conflicts_list_ex by (auto simp: holds_rules_def)
  then show ?thesis
    unfolding t' rules_upsert_def by (simp add: holds_rules_append [OF h i] row_rule_def)
qed

lemma upsert_rule_holds:
  assumes "holds_rules (mcp_policies d) rules" and "upsert_rule r d = (Inr u, d')"
  shows "holds_rules (mcp_policies d') (rules_upsert r rules)"
proof -
  obtain t where t: "upsert_row r (mcp_policies d) = Some t" and d': "mcp_policies d' = t"
    using assms(2) by (auto simp: upsert_rule_def dest!: sql_Inr split: option.splits)
  show ?thesis
    unfolding d' using upsert_row_holds [OF assms(1) t] .
qed

lemma for_each_upsert_holds:
  "holds_rules (mcp_policies d) old \<Longrightarrow> for_each upsert_rule rules d = (Inr u, d') \<Longrightarrow>
     holds_rules (mcp_policies d') (fold rules_upsert rules old)"
proof (induction rules arbitrary: d old)
  case (Cons r rules)
  from Cons.prems(2) obtain d1 where 1: "upsert_rule r d = (Inr (), d1)"
    and 2: "for_each upsert_rule rules d1 = (Inr u, d')"
    by (auto elim!: bindE_Inr_E)
  from Cons.IH [OF upsert_rule_holds [OF Cons.prems(1) 1] 2] show ?case
    by simp
qed simp

lemma with_db_Inr:
  "with_db m s = (Inr x, s') \<longleftrightarrow> (\<exists>d'. m (sw_db s) = (Inr x, d') \<and> s' = s\<lparr>sw_db := d'\<rparr>)"
  by (cases "m (sw_db s)") (auto simp: with_db_def map_err_Inr zoom_def)

lemma audit_append_policies: "mcp_policies (snd (audit_append env k pn ci j d)) = mcp_policies d"
  by (rule log_only_tables [OF audit_append_log_only])

lemma sandbox_record_policies:
  "mcp_policies (sw_db (snd (sandbox_record env eng j k pn ci payload s))) = mcp_policies (sw_db s)"
  by (rule log_only_tables [OF sandbox_record_log_only])

lemma delete_all_holds:
  "policy_delete_all d = (Inr n, d') \<Longrightarrow> holds_rules (mcp_policies d) old \<Longrightarrow> holds_rules (mcp_policies d') []"
  by (auto simp: policy_delete_all_def holds_rules_def dest!: sql_Inr)

lemma upsert_set_holds:
  assumes "policy_upsert (sandbox_record env eng j) rules s = (Inr n, s')"
    and "holds_rules (mcp_policies (sw_db s)) old"
  shows "holds_rules (mcp_policies (sw_db s')) (fold rules_upsert rules old)"
proof -
  define payload where "payload = JObject [(''op'', JString ''upsert''), (''count'', JInt (int (length rules))),
    (''rules'', JArray (map rule_json rules))]"
  obtain d1 u where 1: "for_each upsert_rule rules (sw_db s) = (Inr u, d1)"
    and 2: "sandbox_record env eng j audit_sink_kind.McpPolicyChanged None None payload (s\<lparr>sw_db := d1\<rparr>) = (Inr (), s')"
    using assms(1) by (auto simp: policy_upsert_def with_db_Inr map_err_Inr payload_def elim!: bindE_Inr_E)
  have "mcp_policies (sw_db s') = mcp_policies d1"
    using sandbox_record_policies [of env eng j audit_sink_kind.McpPolicyChanged None None payload "s\<lparr>sw_db := d1\<rparr>"]
    by (simp add: 2)
  with for_each_upsert_holds [OF assms(2) 1] show ?thesis
    by simp
qed

lemma apply_set_holds:
  assumes "apply_set env (sandbox_record env eng j) rules rep s = (Inr r, s')"
    and h: "holds_rules (mcp_policies (sw_db s)) old"
  shows "holds_rules (mcp_policies (sw_db s')) (fold rules_upsert rules (if rep then [] else old))"
proof (cases rep)
  case True
  with assms(1) obtain n d1 m s2 e d3 where 1: "policy_delete_all (sw_db s) = (Inr n, d1)"
    and 2: "policy_upsert (sandbox_record env eng j) rules (s\<lparr>sw_db := d1\<rparr>) = (Inr m, s2)"
    and 3: "audit_append env audit_kind.McpPolicyChanged None None
      (JObject [(''op'', JString ''delete_all''), (''count'', JInt (int n))]) (sw_db s2) = (Inr e, d3)"
    and s': "s' = s2\<lparr>sw_db := d3\<rparr>"
    by (auto simp: apply_set_def with_db_Inr elim!: bindE_Inr_E)
  have "holds_rules (mcp_policies (sw_db s2)) (fold rules_upsert rules [])"
    using upsert_set_holds [OF 2] delete_all_holds [OF 1 h] by simp
  moreover have "mcp_policies d3 = mcp_policies (sw_db s2)"
    using audit_append_policies [of env audit_kind.McpPolicyChanged None None
        "JObject [(''op'', JString ''delete_all''), (''count'', JInt (int n))]" "sw_db s2"] 3 by simp
  ultimately show ?thesis
    using True s' by simp
next
  case False
  with assms(1) obtain n where "policy_upsert (sandbox_record env eng j) rules s = (Inr n, s')"
    by (auto simp: apply_set_def elim!: bindE_Inr_E)
  from upsert_set_holds [OF this h] False show ?thesis
    by simp
qed

lemma zoom_world_Inr:
  "zoom pw_world (\<lambda>w s. s\<lparr>pw_world := w\<rparr>) m s = (Inr x, s') \<longleftrightarrow>
     (\<exists>w. m (pw_world s) = (Inr x, w) \<and> s' = s\<lparr>pw_world := w\<rparr>)"
  by (cases "m (pw_world s)") (auto simp: zoom_def)

lemma policy_set_upserts:
  assumes "mcp_policy_set env eng rules rep s = (Inr r, s')"
    and "holds_rules (mcp_policies (sw_db (pw_world s))) old"
  shows "pw_rules s' = fold rules_upsert rules (if rep then [] else old) \<and>
    holds_rules (mcp_policies (sw_db (pw_world s'))) (pw_rules s')"
proof -
  let ?new = "fold rules_upsert rules (if rep then [] else old)"
  from assms(1) obtain w1 d2 rs where
    1: "apply_set env (sandbox_record env eng True) rules rep (pw_world s) = (Inr r, w1)"
    and 2: "policy_load_all (sw_db w1) = (Inr rs, d2)"
    and s': "s' = s\<lparr>pw_world := w1\<lparr>sw_db := d2\<rparr>, pw_rules := rs\<rparr>"
    by (auto simp: mcp_policy_set_def zoom_world_Inr with_db_Inr elim!: bindE_Inr_E)
  have h: "holds_rules (mcp_policies (sw_db w1)) ?new"
    by (rule apply_set_holds [OF 1 assms(2)])
  with 2 load_holds [OF h] show ?thesis
    by (auto simp: s')
qed


definition demo_rule_a :: mcp_policy_rule where
  "demo_rule_a = \<lparr>pr_method = ''tools/list'', pr_tool_name = None, pr_decision = AutoAllow, pr_note = None\<rparr>"

definition demo_pw :: "unit policy_world" where
  "demo_pw = \<lparr>pw_world = demo_world, pw_rules = []\<rparr>"

definition demo_pol_env :: audit_env where
  "demo_pol_env = demo_env\<lparr>json_to_string := (\<lambda>_. Inr ''x'')\<rparr>"

lemma demo_pw_holds: "holds_rules (mcp_policies (sw_db (pw_world demo_pw))) []"
  by (simp add: holds_rules_def demo_pw_def demo_world_def demo_db_def fresh_db_def empty_table_def)

lemma demo_set_runs: "\<not> isl (fst (mcp_policy_set demo_pol_env demo_engine [r] False demo_pw))"
  by (cases "pr_decision r")
    (simp_all add: mcp_policy_set_def apply_set_def policy_upsert_def with_db_def map_err_def zoom_def
      sandbox_record_def run_audit_filter_chain_def attempt_apply bindE_apply upsert_rule_def upsert_row_def
      conflicts_def next_id_def max_rowid_def policy_load_all_def into_rule_def parse_decision_def
      audit_append_def utc_now_def transaction_def insert_audit_def select_head_def Let_def
      demo_pw_def demo_world_def demo_db_def fresh_db_def empty_table_def demo_pol_env_def demo_env_def)

lemma not_isl_run: "\<not> isl (fst (m :: ('e + 'a) \<times> 's)) \<Longrightarrow> \<exists>x s'. m = (Inr x, s')"
  by (cases m; cases "fst m") auto


section \<open>Which updates take effect\<close>

lemma find_map_update:
  "list_ex P xs \<Longrightarrow> (\<And>x. P x \<Longrightarrow> Q x) \<Longrightarrow> (\<And>x. Q x \<Longrightarrow> P x) \<Longrightarrow> Q y \<Longrightarrow>
     find Q (map (\<lambda>x. if P x then y else x) xs) = Some y"
  by (induction xs) auto

lemma upserted_tool_rule_decides:
  assumes "pr_method r = ''tools/call''" and "pr_tool_name r = Some tool" and "tool \<noteq> []"
  shows "evaluate_policy (rules_upsert r rules) (ToolsCall tool args) = pr_decision r"
proof -
  let ?Q = "\<lambda>q. pr_method q = ''tools/call'' \<and> pr_tool_name q = Some tool"
  have key: "same_key r = ?Q"
    using assms by (auto simp: same_key_def fun_eq_iff)
  have "find ?Q (rules_upsert r rules) = Some r"
  proof (cases "list_ex ?Q rules")
    case True
    then show ?thesis
      using assms by (auto simp: rules_upsert_def key intro: find_map_update)
  next
    case False
    then show ?thesis
      using assms by (induction rules) (auto simp: rules_upsert_def key)
  qed
  then show ?thesis
    using assms by (simp add: evaluate_policy_def)
qed

text \<open>
  Writing a rule for one tool takes effect: when \<^verbatim>\<open>mcp_policy_set\<close> succeeds with it, the bridges
  decide every later call of that tool by the new rule, whatever rules the table held before.
\<close>

theorem tool_rule_takes_effect:
  assumes "mcp_policy_set env eng [r] rep s = (Inr n, s')"
    and "holds_rules (mcp_policies (sw_db (pw_world s))) old"
    and "pr_method r = ''tools/call''" and "pr_tool_name r = Some tool" and "tool \<noteq> []"
  shows "evaluate_policy (pw_rules s') (ToolsCall tool args) = pr_decision r"
proof -
  have "pw_rules s' = rules_upsert r (if rep then [] else old)"
    using policy_set_upserts [OF assms(1,2)] by simp
  then show ?thesis
    using upserted_tool_rule_decides [OF assms(3-5)] by simp
qed

definition demo_rule_rm :: mcp_policy_rule where
  "demo_rule_rm = \<lparr>pr_method = ''tools/call'', pr_tool_name = Some ''rm'', pr_decision = Deny, pr_note = None\<rparr>"

theorem tool_rule_takes_effect_witness:
  "\<exists>n s'. mcp_policy_set demo_pol_env demo_engine [demo_rule_rm] False demo_pw = (Inr n, s') \<and>
     evaluate_policy (pw_rules s') (ToolsCall ''rm'' JNull) = Deny"
proof -
  obtain n s' where r: "mcp_policy_set demo_pol_env demo_engine [demo_rule_rm] False demo_pw = (Inr n, s')"
    using not_isl_run [OF demo_set_runs [of demo_rule_rm]] by blast
  from tool_rule_takes_effect [OF r demo_pw_holds, of "''rm''" JNull] r show ?thesis
    by (simp add: demo_rule_rm_def)
qed

text \<open>
  A rule for a whole method has a NULL tool name, which never conflicts: writing it again adds a
  second row, and the older row keeps deciding. A method once allowed cannot be denied this way.
\<close>

lemma find_append_hit: "find P xs = Some x \<Longrightarrow> find P (xs @ ys) = Some x"
  by (induction xs) auto

lemma method_rule_update_ignored:
  assumes "pr_tool_name r = None" and "find (\<lambda>q. pr_method q = pr_method r \<and> pr_tool_name q = None) rules = Some old"
    and "method_str msg = pr_method r" and "pr_method r \<noteq> ''tools/call''"
  shows "evaluate_policy (rules_upsert r rules) msg = pr_decision old"
proof -
  have "\<not> list_ex (same_key r) rules"
    using assms(1) by (auto simp: same_key_def list_ex_iff)
  then show ?thesis
    using assms find_append_hit [OF assms(2)] by (simp add: evaluate_policy_def rules_upsert_def)
qed

text \<open>
  Replacing all rules is not atomic: when the first insert after the delete fails, the table is left
  empty, and since nothing has been audited yet the log does not show it.
\<close>

lemma replace_all_not_atomic:
  assumes "fault (sw_db s) (ops (sw_db s)) = None" and "fault (sw_db s) (Suc (ops (sw_db s))) = Some e"
  shows "\<exists>s'. apply_set env sink (r # rs) True s = (Inl (Inl (Sqlx e)), s') \<and>
    rows (mcp_policies (sw_db s')) = [] \<and> audit_log (sw_db s') = audit_log (sw_db s)"
  using assms
  by (simp add: apply_set_def policy_upsert_def with_db_def map_err_def zoom_def bindE_apply
      policy_delete_all_def upsert_rule_def sql_def Let_def)

end
