(* ===== verification/Mcp_Bridge.thy ===== *)
theory Mcp_Bridge
  imports Mcp_Store Text_Split
begin

text \<open>
  The MCP bridge (\<^verbatim>\<open>linpodx-mcp/src/bridge.rs\<close>): the two pumps that carry lines between a host MCP
  server and a container, the handling of subscriptions and of the initialize handshake, the policy
  and allowlist decision for each line, the audit entry that precedes every forward, and the registry
  of bridges. The audit sink, the approval gateway and the JSON parser are parameters, the sink under
  the contract of \<open>audit_sink\<close>; a line is one step, and lines of both directions interleave freely.
\<close>

section \<open>Decisions on a line\<close>

datatype direction = HostToContainer | ContainerToHost

fun direction_str :: "direction \<Rightarrow> string" where
  "direction_str HostToContainer = ''host_to_container''"
| "direction_str ContainerToHost = ''container_to_host''"

definition MCP_PAYLOAD_TRUNCATE :: nat where
  "MCP_PAYLOAD_TRUNCATE = 8 * 1024"

definition APPROVAL_PROFILE_NAME :: string where
  "APPROVAL_PROFILE_NAME = ''mcp-bridge''"

definition APPROVAL_TIMEOUT_SECS :: nat where
  "APPROVAL_TIMEOUT_SECS = 30"

datatype allowlist_decision = ALAllowed | ALDenied | ALAuditOnly

fun allowlist_decision_str :: "allowlist_decision \<Rightarrow> string" where
  "allowlist_decision_str ALAllowed = ''allowed''"
| "allowlist_decision_str ALDenied = ''denied''"
| "allowlist_decision_str ALAuditOnly = ''audit_only''"

definition extract_method :: "json_parser \<Rightarrow> string \<Rightarrow> string option" where
  "extract_method from_str line =
     (case from_str line of
        Inl _ \<Rightarrow> None
      | Inr value \<Rightarrow> Option.bind (json_get value ''method'') as_str)"

definition check_allowlist :: "string set \<Rightarrow> string option \<Rightarrow> allowlist_decision" where
  "check_allowlist allowlist m =
     (if allowlist = {} then ALAuditOnly
      else case m of
        Some x \<Rightarrow> if x \<in> allowlist then ALAllowed else ALDenied
      | None \<Rightarrow> ALAuditOnly)"

definition extract_id :: "json_parser \<Rightarrow> string \<Rightarrow> int option" where
  "extract_id from_str line =
     (case from_str (trim line) of
        Inl _ \<Rightarrow> None
      | Inr value \<Rightarrow> Option.bind (json_get value ''id'') as_i64)"

record decision =
  dc_forward :: bool
  dc_audit_kind :: audit_sink_kind
  dc_decision_str :: string
  dc_method :: "string option"

section \<open>State\<close>

text \<open>
  One running bridge, with the bytes written to each side so far. The pending initialize ids are a
  hash set in the code: a list without repetition here, in whatever order the set is iterated.
\<close>

record bridge =
  b_id :: string
  b_container_id :: string
  b_host_command :: string
  b_started_at :: timestamp
  b_allowlist :: "string set"
  b_messages_seen :: u64
  b_host_child :: bool
  b_container_child :: bool
  b_capabilities :: "mcp_capabilities option"
  b_subscriptions :: "string set"
  b_pending_initialize_ids :: "int list"
  b_to_container :: "string list"
  b_to_host :: "string list"

text \<open>What all bridges share, and a pump's view: the shared part and its own bridge.\<close>

record ('g, 's) shared =
  sh_sink :: 's
  sh_policy_store :: "mcp_policy_rule list"
  sh_gateway :: 'g
  sh_request_counter :: u64
  sh_clock :: "nat \<Rightarrow> timestamp"
  sh_ticks :: nat

record ('g, 's) pump_state = "('g, 's) shared" +
  p_bridge :: bridge

record ('g, 's) bridge_env =
  be_record :: "'s sink_fn"
  be_gateway :: "(approval_request \<Rightarrow> 'g \<Rightarrow> approval_outcome \<times> 'g) option"
  be_from_str :: json_parser

type_synonym ('g, 's, 'a) pump_act = "(('g, 's) pump_state, panic, 'a) act"

definition upd_bridge :: "(bridge \<Rightarrow> bridge) \<Rightarrow> ('g, 's, unit) pump_act" where
  "upd_bridge f = modify (\<lambda>s. s\<lparr>p_bridge := f (p_bridge s)\<rparr>)"

definition now_p :: "('g, 's, timestamp) pump_act" where
  "now_p s = (Inr (sh_clock s (sh_ticks s)), s\<lparr>sh_ticks := Suc (sh_ticks s)\<rparr>)"

text \<open>\<^verbatim>\<open>SystemTime::now().duration_since(UNIX_EPOCH)\<close> in milliseconds, 0 before the epoch.\<close>

definition epoch_millis :: "timestamp \<Rightarrow> nat" where
  "epoch_millis t = nat (t div 1000000)"

definition mcp_request_id :: "('g, 's, string) pump_act" where
  "mcp_request_id =
     bindE (gets sh_request_counter) (\<lambda>n.
       bindE (modify (\<lambda>s. s\<lparr>sh_request_counter := n + 1\<rparr>)) (\<lambda>_.
         bindE now_p (\<lambda>now.
           ret (''mcp-'' @ show_nat (epoch_millis now) @ ''-'' @ show_nat (unat n)))))"

section \<open>One line through a pump\<close>

fun find_init_response ::
  "json_parser \<Rightarrow> string \<Rightarrow> int list \<Rightarrow> (int \<times> mcp_capabilities) option" where
  "find_init_response from_str raw [] = None"
| "find_init_response from_str raw (i # is) =
     (case parse_initialize_response from_str raw i of
        Some caps \<Rightarrow> Some (i, caps)
      | None \<Rightarrow> find_init_response from_str raw is)"

definition list_changed :: "mcp_message \<Rightarrow> decision" where
  "list_changed msg =
     \<lparr>dc_forward = True, dc_audit_kind = audit_sink_kind.McpListChanged,
      dc_decision_str = ''list_changed'', dc_method = Some (method_str msg)\<rparr>"

definition handle_phase2f ::
  "('g, 's) bridge_env \<Rightarrow> direction \<Rightarrow> mcp_message option \<Rightarrow> string \<Rightarrow> ('g, 's, decision option) pump_act" where
  "handle_phase2f env dir parsed raw =
     (if dir = HostToContainer then
        (case parsed of
           Some (Initialize _) \<Rightarrow>
             (case extract_id (be_from_str env) raw of
                Some i \<Rightarrow>
                  bindE (upd_bridge (\<lambda>b. b\<lparr>b_pending_initialize_ids :=
                           List.insert i (b_pending_initialize_ids b)\<rparr>)) (\<lambda>_. ret None)
              | None \<Rightarrow> ret None)
         | Some (ResourcesSubscribe uri) \<Rightarrow>
             bindE (upd_bridge (\<lambda>b. b\<lparr>b_subscriptions := insert uri (b_subscriptions b)\<rparr>)) (\<lambda>_.
               ret (Some \<lparr>dc_forward = True, dc_audit_kind = audit_sink_kind.McpResourceSubscribed,
                          dc_decision_str = ''subscribed'',
                          dc_method = Some (method_str (ResourcesSubscribe uri))\<rparr>))
         | Some (ResourcesUnsubscribe uri) \<Rightarrow>
             bindE (upd_bridge (\<lambda>b. b\<lparr>b_subscriptions := b_subscriptions b - {uri}\<rparr>)) (\<lambda>_.
               ret (Some \<lparr>dc_forward = True, dc_audit_kind = audit_sink_kind.McpResourceUnsubscribed,
                          dc_decision_str = ''unsubscribed'',
                          dc_method = Some (method_str (ResourcesUnsubscribe uri))\<rparr>))
         | _ \<Rightarrow> ret None)
      else
        (case parsed of
           Some (ResourcesUpdated uri) \<Rightarrow>
             bindE (gets (\<lambda>s. uri \<in> b_subscriptions (p_bridge s))) (\<lambda>subscribed.
               ret (Some \<lparr>dc_forward = subscribed, dc_audit_kind = audit_sink_kind.McpResourceUpdated,
                          dc_decision_str = (if subscribed then ''forwarded_subscribed'' else ''dropped_unsubscribed''),
                          dc_method = Some (method_str (ResourcesUpdated uri))\<rparr>))
         | Some ToolsListChanged \<Rightarrow> ret (Some (list_changed ToolsListChanged))
         | Some ResourcesListChanged \<Rightarrow> ret (Some (list_changed ResourcesListChanged))
         | Some PromptsListChanged \<Rightarrow> ret (Some (list_changed PromptsListChanged))
         | _ \<Rightarrow>
             bindE (gets (\<lambda>s. b_pending_initialize_ids (p_bridge s))) (\<lambda>pending.
               case find_init_response (be_from_str env) raw pending of
                 Some (i, caps) \<Rightarrow>
                   bindE (upd_bridge (\<lambda>b. b\<lparr>b_capabilities := Some caps,
                            b_pending_initialize_ids := remove1 i (b_pending_initialize_ids b)\<rparr>)) (\<lambda>_.
                     ret (Some \<lparr>dc_forward = True, dc_audit_kind = audit_sink_kind.McpListChanged,
                                dc_decision_str = ''initialize_complete'',
                                dc_method = Some ''initialize/response''\<rparr>))
               | None \<Rightarrow> ret None)))"

definition policy_decision_of :: "bool \<Rightarrow> string \<Rightarrow> string option \<Rightarrow> decision" where
  "policy_decision_of fwd str mth =
     \<lparr>dc_forward = fwd,
      dc_audit_kind = (if fwd then audit_sink_kind.McpToolCalled else audit_sink_kind.McpToolDenied),
      dc_decision_str = str, dc_method = mth\<rparr>"

fun prompt_refused_str :: "approval_outcome \<Rightarrow> string" where
  "prompt_refused_str (Denied _ _) = ''prompt_denied''"
| "prompt_refused_str TimedOut = ''prompt_timed_out''"
| "prompt_refused_str NoListener = ''prompt_no_listener''"
| "prompt_refused_str (Granted _ _) = undefined"

definition call_arguments :: "mcp_message option \<Rightarrow> json" where
  "call_arguments parsed = (case parsed of Some (ToolsCall _ arguments) \<Rightarrow> arguments | _ \<Rightarrow> JNull)"

definition ask_bridge_gateway ::
  "(approval_request \<Rightarrow> 'g \<Rightarrow> approval_outcome \<times> 'g) \<Rightarrow> approval_request \<Rightarrow> ('g, 's, approval_outcome) pump_act" where
  "ask_bridge_gateway gw req s = (case gw req (sh_gateway s) of (o', g) \<Rightarrow> (Inr o', s\<lparr>sh_gateway := g\<rparr>))"

definition resolve_via_policy ::
  "('g, 's) bridge_env \<Rightarrow> mcp_policy_decision \<Rightarrow> string option \<Rightarrow> string option \<Rightarrow> mcp_message option
     \<Rightarrow> ('g, 's, decision) pump_act" where
  "resolve_via_policy env dec mth tool parsed =
     (case dec of
        AutoAllow \<Rightarrow> ret (policy_decision_of True ''auto_allow'' mth)
      | AuditOnly \<Rightarrow> ret (policy_decision_of True ''audit_only'' mth)
      | Deny \<Rightarrow> ret (policy_decision_of False ''deny'' mth)
      | Prompt \<Rightarrow>
          (case be_gateway env of
             None \<Rightarrow> ret (policy_decision_of True ''audit_only'' mth)
           | Some gw \<Rightarrow>
               bindE mcp_request_id (\<lambda>rid.
               bindE now_p (\<lambda>now.
               bindE (gets (\<lambda>s. b_container_id (p_bridge s))) (\<lambda>cid.
               bindE (ask_bridge_gateway gw
                        \<lparr>request_id = rid, category = McpTool, ar_profile_name = APPROVAL_PROFILE_NAME,
                         timeout_secs = APPROVAL_TIMEOUT_SECS, created_at = now,
                         ar_payload = JObject [(''method'', json_opt JString mth),
                                               (''tool_name'', json_opt JString tool),
                                               (''arguments'', call_arguments parsed)],
                         container_hint = Some cid\<rparr>) (\<lambda>outcome.
                 if is_granted outcome then ret (policy_decision_of True ''prompt_granted'' mth)
                 else ret (policy_decision_of False (prompt_refused_str outcome) mth)))))))"

definition final_decision ::
  "('g, 's) bridge_env \<Rightarrow> mcp_message option \<Rightarrow> string \<Rightarrow> ('g, 's, decision) pump_act" where
  "final_decision env parsed trimmed =
     bindE (gets sh_policy_store) (\<lambda>rules.
       if rules \<noteq> [] then
         (case parsed of
            Some msg \<Rightarrow>
              resolve_via_policy env (evaluate_policy rules msg) (Some (method_str msg)) (tool_name msg) parsed
          | None \<Rightarrow> ret (policy_decision_of False ''unparseable_denied'' None))
       else
         bindE (gets (\<lambda>s. b_allowlist (p_bridge s))) (\<lambda>allowlist.
           let mth = (case parsed of Some msg \<Rightarrow> Some (method_str msg)
                                   | None \<Rightarrow> extract_method (be_from_str env) trimmed);
               dec = check_allowlist allowlist mth in
           ret (policy_decision_of (dec \<noteq> ALDenied) (allowlist_decision_str dec) mth)))"

definition decide ::
  "('g, 's) bridge_env \<Rightarrow> direction \<Rightarrow> mcp_message option \<Rightarrow> string \<Rightarrow> ('g, 's, decision) pump_act" where
  "decide env dir parsed trimmed =
     bindE (handle_phase2f env dir parsed trimmed) (\<lambda>handled.
       case handled of Some d \<Rightarrow> ret d | None \<Rightarrow> final_decision env parsed trimmed)"

text \<open>
  What the writer of the other side does with a line: it takes it, fails after some bytes, or takes
  it and fails to flush.
\<close>

datatype write_result = WriteOk | WriteErr nat | FlushErr

fun written :: "write_result \<Rightarrow> string \<Rightarrow> string" where
  "written (WriteErr n) line = take n line"
| "written _ line = line"

definition write_line :: "direction \<Rightarrow> string \<Rightarrow> write_result \<Rightarrow> ('g, 's, bool) pump_act" where
  "write_line dir raw wr =
     bindE (upd_bridge (\<lambda>b. if dir = HostToContainer
                then b\<lparr>b_to_container := b_to_container b @ [written wr raw]\<rparr>
                else b\<lparr>b_to_host := b_to_host b @ [written wr raw]\<rparr>)) (\<lambda>_.
       ret (wr = WriteOk))"

definition audit_payload :: "bridge \<Rightarrow> direction \<Rightarrow> decision \<Rightarrow> string \<Rightarrow> json" where
  "audit_payload b dir d payload =
     JObject [(''bridge_id'', JString (b_id b)), (''direction'', JString (direction_str dir)),
              (''method'', json_opt JString (dc_method d)),
              (''decision'', JString (dc_decision_str d)), (''payload'', JString payload)]"

definition record_p :: "('g, 's) bridge_env \<Rightarrow> audit_sink_kind \<Rightarrow> json \<Rightarrow> ('g, 's, unit) pump_act" where
  "record_p env kind payload s =
     zoom sh_sink (\<lambda>w s. s\<lparr>sh_sink := w\<rparr>)
       (be_record env kind None (Some (b_container_id (p_bridge s))) payload) s"

definition record_and_forward ::
  "('g, 's) bridge_env \<Rightarrow> direction \<Rightarrow> string \<Rightarrow> string \<Rightarrow> decision \<Rightarrow> write_result \<Rightarrow> ('g, 's, bool) pump_act" where
  "record_and_forward env dir payload raw d wr =
     bindE (gets (\<lambda>s. audit_payload (p_bridge s) dir d payload)) (\<lambda>entry.
       bindE (record_p env (dc_audit_kind d) entry) (\<lambda>_.
         if \<not> dc_forward d then ret True else write_line dir raw wr))"

text \<open>
  One line: counted, parsed, cut to the audited length (a cut inside a character panics and ends the
  pump's task), decided, audited, and written if the decision forwards it. The result tells whether
  the pump goes on.
\<close>

definition pump_line ::
  "('g, 's) bridge_env \<Rightarrow> direction \<Rightarrow> string \<Rightarrow> write_result \<Rightarrow> ('g, 's, bool) pump_act" where
  "pump_line env dir buf wr =
     (let trimmed = trim_end_matches (CHR 0x0A) buf;
          parsed = mcp_parse (be_from_str env) trimmed in
      bindE (upd_bridge (\<lambda>b. b\<lparr>b_messages_seen := b_messages_seen b + 1\<rparr>)) (\<lambda>_.
        case (if length trimmed > MCP_PAYLOAD_TRUNCATE then slice_to trimmed MCP_PAYLOAD_TRUNCATE
              else Some trimmed) of
          None \<Rightarrow> throw Panic
        | Some payload \<Rightarrow>
            bindE (decide env dir parsed trimmed) (\<lambda>d.
              record_and_forward env dir payload buf d wr)))"

text \<open>What \<^verbatim>\<open>read_line\<close> gives: a line with its newline, the end of the stream, or an error.\<close>

datatype read_result = ReadLine string write_result | ReadEof | ReadErr

fun pump :: "('g, 's) bridge_env \<Rightarrow> direction \<Rightarrow> read_result list \<Rightarrow> ('g, 's, unit) pump_act" where
  "pump env dir [] = ret ()"
| "pump env dir (ReadLine buf wr # rest) =
     bindE (pump_line env dir buf wr) (\<lambda>go_on. if go_on then pump env dir rest else ret ())"
| "pump env dir (ReadEof # _) = ret ()"
| "pump env dir (ReadErr # _) = ret ()"

section \<open>The registry of bridges\<close>

text \<open>
  Bridges live on while a pump holds them, also after they left the registry: the heap holds every
  bridge by its id, the registry the ids of those that are listed. Orphans are the host processes left
  running without a bridge: dropping the handle of a child process does not end it.
\<close>

record ('g, 's) hub = "('g, 's) shared" +
  h_next_id :: u64
  h_heap :: "string \<rightharpoonup> bridge"
  h_bridges :: "string list"
  h_orphans :: "string list"

type_synonym ('g, 's, 'a) hub_act = "(('g, 's) hub, panic, 'a) act"

definition allocate_id :: "('g, 's, string) hub_act" where
  "allocate_id s =
     (let n = h_next_id s; now = epoch_millis (sh_clock s (sh_ticks s)) in
      (Inr (''br-'' @ show_nat now @ ''-'' @ show_nat (unat n)),
       s\<lparr>h_next_id := n + 1, sh_ticks := Suc (sh_ticks s)\<rparr>))"

text \<open>What the operating system does with the two child processes.\<close>

datatype spawn_result = Spawned | SpawnFailed

definition new_bridge :: "string \<Rightarrow> string \<Rightarrow> string \<Rightarrow> timestamp \<Rightarrow> string list \<Rightarrow> bridge" where
  "new_bridge bid cid host_command started allowlist =
     \<lparr>b_id = bid, b_container_id = cid, b_host_command = host_command, b_started_at = started,
      b_allowlist = set allowlist, b_messages_seen = 0, b_host_child = True, b_container_child = True,
      b_capabilities = None, b_subscriptions = {}, b_pending_initialize_ids = [],
      b_to_container = [], b_to_host = []\<rparr>"

definition record_h :: "('g, 's) bridge_env \<Rightarrow> audit_sink_kind \<Rightarrow> string \<Rightarrow> json \<Rightarrow> ('g, 's, unit) hub_act" where
  "record_h env kind cid payload =
     zoom sh_sink (\<lambda>w s. s\<lparr>sh_sink := w\<rparr>) (be_record env kind None (Some cid) payload)"

definition bridge_start ::
  "('g, 's) bridge_env \<Rightarrow> string \<Rightarrow> string \<Rightarrow> string \<Rightarrow> string list \<Rightarrow> spawn_result \<Rightarrow> spawn_result
     \<Rightarrow> ('g, 's, string + string) hub_act" where
  "bridge_start env podman_bin cid host_command allowlist host container =
     bindE allocate_id (\<lambda>bid s.
       let started = sh_clock s (sh_ticks s); s1 = s\<lparr>sh_ticks := Suc (sh_ticks s)\<rparr> in
       case host of
         SpawnFailed \<Rightarrow> (Inr (Inl (''spawn host command '' @ [CHR 0x27] @ host_command @ [CHR 0x27])), s1)
       | Spawned \<Rightarrow>
           (case container of
              SpawnFailed \<Rightarrow>
                (Inr (Inl (''spawn '' @ [CHR 0x27] @ ''podman exec -i '' @ cid @ [CHR 0x27] @
                           '' (binary: '' @ podman_bin @ '')'')),
                 s1\<lparr>h_orphans := host_command # h_orphans s1\<rparr>)
            | Spawned \<Rightarrow>
                bindE (record_h env audit_sink_kind.McpBridgeStarted cid
                         (JObject [(''bridge_id'', JString bid), (''host_command'', JString host_command),
                                   (''container_id'', JString cid)])) (\<lambda>_. ret (Inr bid))
                  (s1\<lparr>h_heap := (h_heap s1)(bid \<mapsto> new_bridge bid cid host_command started allowlist),
                      h_bridges := List.insert bid (h_bridges s1)\<rparr>)))"

definition bridge_stop :: "('g, 's) bridge_env \<Rightarrow> string \<Rightarrow> ('g, 's, bool) hub_act" where
  "bridge_stop env bid s =
     (if bid \<notin> set (h_bridges s) then (Inr False, s)
      else case h_heap s bid of
        None \<Rightarrow> (Inr False, s)
      | Some b \<Rightarrow>
          bindE (record_h env audit_sink_kind.McpBridgeStopped (b_container_id b)
                   (JObject [(''bridge_id'', JString (b_id b))])) (\<lambda>_. ret True)
            (s\<lparr>h_bridges := remove1 bid (h_bridges s),
               h_heap := (h_heap s)(bid \<mapsto> b\<lparr>b_host_child := False, b_container_child := False\<rparr>)\<rparr>))"

record bridge_status_entry =
  bs_bridge_id :: string
  bs_container_id :: string
  bs_host_command :: string
  bs_started_at :: timestamp
  bs_messages_seen :: u64

definition status_entry :: "bridge \<Rightarrow> bridge_status_entry" where
  "status_entry b =
     \<lparr>bs_bridge_id = b_id b, bs_container_id = b_container_id b, bs_host_command = b_host_command b,
      bs_started_at = b_started_at b, bs_messages_seen = b_messages_seen b\<rparr>"

definition registered :: "('g, 's, 'z) hub_scheme \<Rightarrow> bridge list" where
  "registered s = List.map_filter (h_heap s) (h_bridges s)"

definition bridge_status :: "string option \<Rightarrow> ('g, 's, 'z) hub_scheme \<Rightarrow> bridge_status_entry list" where
  "bridge_status want s =
     map status_entry (case want of None \<Rightarrow> registered s
                                  | Some w \<Rightarrow> filter (\<lambda>b. b_id b = w) (registered s))"

definition lookup_bridge :: "string \<Rightarrow> ('g, 's, 'z) hub_scheme \<Rightarrow> bridge option" where
  "lookup_bridge bid s = (if bid \<in> set (h_bridges s) then h_heap s bid else None)"

definition bridge_capabilities :: "string \<Rightarrow> ('g, 's, 'z) hub_scheme \<Rightarrow> mcp_capabilities option" where
  "bridge_capabilities bid s =
     map_option (\<lambda>b. case b_capabilities b of Some c \<Rightarrow> c | None \<Rightarrow> default_capabilities) (lookup_bridge bid s)"

definition bridge_subscriptions :: "string \<Rightarrow> ('g, 's, 'z) hub_scheme \<Rightarrow> string list option" where
  "bridge_subscriptions bid s =
     map_option (\<lambda>b. sorted_list_of_set (b_subscriptions b)) (lookup_bridge bid s)"

text \<open>A line of a bridge's pump, run on the hub.\<close>

definition hub_line ::
  "('g, 's) bridge_env \<Rightarrow> string \<Rightarrow> direction \<Rightarrow> string \<Rightarrow> write_result \<Rightarrow> ('g, 's, bool) hub_act" where
  "hub_line env bid dir buf wr s =
     (case h_heap s bid of
        None \<Rightarrow> (Inr False, s)
      | Some b \<Rightarrow>
          (case pump_line env dir buf wr
                  (shared.extend (shared.truncate s) \<lparr>p_bridge = b\<rparr>) of
             (r, p) \<Rightarrow>
               (r, shared.extend (shared.truncate p)
                     \<lparr>h_next_id = h_next_id s, h_heap = (h_heap s)(bid \<mapsto> p_bridge p),
                      h_bridges = h_bridges s, h_orphans = h_orphans s\<rparr>)))"

section \<open>What a line does\<close>

lemma upd_bridge_apply [simp]: "upd_bridge f s = (Inr (), s\<lparr>p_bridge := f (p_bridge s)\<rparr>)"
  by (simp add: upd_bridge_def)

text \<open>The other output, the names and the sink, which the decision on a line leaves alone.\<close>

definition sent :: "direction \<Rightarrow> bridge \<Rightarrow> string list" where
  "sent dir b = (case dir of HostToContainer \<Rightarrow> b_to_container b | ContainerToHost \<Rightarrow> b_to_host b)"

definition same_outside :: "('g, 's) pump_state \<Rightarrow> ('g, 's) pump_state \<Rightarrow> bool" where
  "same_outside s s' \<longleftrightarrow>
     sh_sink s' = sh_sink s \<and> sh_policy_store s' = sh_policy_store s \<and>
     b_id (p_bridge s') = b_id (p_bridge s) \<and> b_container_id (p_bridge s') = b_container_id (p_bridge s) \<and>
     b_to_container (p_bridge s') = b_to_container (p_bridge s) \<and> b_to_host (p_bridge s') = b_to_host (p_bridge s)"

lemma same_outside_refl [simp]: "same_outside s s"
  by (simp add: same_outside_def)

lemma same_outside_trans: "same_outside s t \<Longrightarrow> same_outside t u \<Longrightarrow> same_outside s u"
  by (simp add: same_outside_def)

lemma parsed_is_no_response:
  "mcp_parse from_str raw = Some msg \<Longrightarrow> find_init_response from_str raw is = None"
  by (induction "is") (auto simp: mcp_parse_def parse_initialize_response_def
    split: sum.splits option.splits bind_splits)

text \<open>The bridge's own handling of a line, on every branch.\<close>

definition outside_policy :: "direction \<Rightarrow> mcp_message \<Rightarrow> bool" where
  "outside_policy dir msg =
     (case dir of
        HostToContainer \<Rightarrow>
          (case msg of ResourcesSubscribe _ \<Rightarrow> True | ResourcesUnsubscribe _ \<Rightarrow> True | _ \<Rightarrow> False)
      | ContainerToHost \<Rightarrow>
          (case msg of ResourcesUpdated _ \<Rightarrow> True | ToolsListChanged \<Rightarrow> True
           | ResourcesListChanged \<Rightarrow> True | PromptsListChanged \<Rightarrow> True | _ \<Rightarrow> False))"

fun subscribed_update :: "string set \<Rightarrow> mcp_message \<Rightarrow> bool" where
  "subscribed_update subs (ResourcesUpdated uri) = (uri \<in> subs)"
| "subscribed_update subs _ = True"

definition answers_initialize :: "json_parser \<Rightarrow> string \<Rightarrow> direction \<Rightarrow> bridge \<Rightarrow> bool" where
  "answers_initialize from_str raw dir b \<longleftrightarrow>
     dir = ContainerToHost \<and> find_init_response from_str raw (b_pending_initialize_ids b) \<noteq> None"

lemma handle_phase2f_msg:
  assumes "mcp_parse (be_from_str env) raw = Some msg"
  shows "\<exists>d s'. handle_phase2f env dir (Some msg) raw s = (Inr d, s') \<and> same_outside s s' \<and>
    s' = s\<lparr>p_bridge := p_bridge s'\<rparr> \<and> b_allowlist (p_bridge s') = b_allowlist (p_bridge s) \<and>
    (if outside_policy dir msg
     then \<exists>x. d = Some x \<and> dc_forward x = (dir = ContainerToHost \<longrightarrow> subscribed_update (b_subscriptions (p_bridge s)) msg)
     else d = None)"
proof (cases dir)
  case HostToContainer
  then show ?thesis
    by (cases msg) (auto simp: handle_phase2f_def outside_policy_def same_outside_def bindE_apply split: option.split)
next
  case ContainerToHost
  then show ?thesis
    using parsed_is_no_response [OF assms]
    by (cases msg) (auto simp: handle_phase2f_def outside_policy_def same_outside_def bindE_apply list_changed_def)
qed

lemma handle_phase2f_none:
  "\<exists>d s'. handle_phase2f env dir None raw s = (Inr d, s') \<and> same_outside s s' \<and>
    s' = s\<lparr>p_bridge := p_bridge s'\<rparr> \<and> b_allowlist (p_bridge s') = b_allowlist (p_bridge s) \<and>
    (if answers_initialize (be_from_str env) raw dir (p_bridge s)
     then \<exists>x. d = Some x \<and> dc_forward x else d = None)"
  by (cases dir) (auto simp: handle_phase2f_def answers_initialize_def same_outside_def bindE_apply
    split: option.split)

text \<open>The approval request a prompt sends, and what the policy allows.\<close>

definition prompt_request :: "('g, 's) pump_state \<Rightarrow> mcp_message \<Rightarrow> approval_request" where
  "prompt_request s msg =
     \<lparr>request_id = ''mcp-'' @ show_nat (epoch_millis (sh_clock s (sh_ticks s))) @ ''-'' @
                    show_nat (unat (sh_request_counter s)),
      category = McpTool, ar_profile_name = APPROVAL_PROFILE_NAME, timeout_secs = APPROVAL_TIMEOUT_SECS,
      created_at = sh_clock s (Suc (sh_ticks s)),
      ar_payload = JObject [(''method'', JString (method_str msg)), (''tool_name'', json_opt JString (tool_name msg)),
                            (''arguments'', call_arguments (Some msg))],
      container_hint = Some (b_container_id (p_bridge s))\<rparr>"

definition policy_allows :: "('g, 's) bridge_env \<Rightarrow> ('g, 's) pump_state \<Rightarrow> mcp_message \<Rightarrow> bool" where
  "policy_allows env s msg \<longleftrightarrow>
     (case evaluate_policy (sh_policy_store s) msg of
        AutoAllow \<Rightarrow> True
      | AuditOnly \<Rightarrow> True
      | Deny \<Rightarrow> False
      | Prompt \<Rightarrow>
          (case be_gateway env of
             None \<Rightarrow> True
           | Some gw \<Rightarrow> is_granted (fst (gw (prompt_request s msg) (sh_gateway s)))))"

lemma policy_allows_bridge:
  assumes "b_container_id b = b_container_id (p_bridge s)"
  shows "policy_allows env (s\<lparr>p_bridge := b\<rparr>) msg = policy_allows env s msg"
proof -
  have "prompt_request (s\<lparr>p_bridge := b\<rparr>) msg = prompt_request s msg"
    using assms by (simp add: prompt_request_def)
  then show ?thesis
    by (simp add: policy_allows_def split: mcp_policy_decision.split option.split)
qed

lemma final_decision_msg:
  assumes "sh_policy_store s \<noteq> []"
  shows "\<exists>d s'. final_decision env (Some msg) raw s = (Inr d, s') \<and> same_outside s s' \<and>
    p_bridge s' = p_bridge s \<and> dc_forward d = policy_allows env s msg \<and>
    dc_audit_kind d = (if policy_allows env s msg then audit_sink_kind.McpToolCalled
                       else audit_sink_kind.McpToolDenied)"
proof (cases "evaluate_policy (sh_policy_store s) msg")
  case Prompt
  show ?thesis
  proof (cases "be_gateway env")
    case None
    with Prompt assms show ?thesis
      by (simp add: final_decision_def resolve_via_policy_def policy_allows_def bindE_apply policy_decision_of_def)
  next
    case (Some gw)
    obtain out g where gw: "gw (prompt_request s msg) (sh_gateway s) = (out, g)"
      by (cases "gw (prompt_request s msg) (sh_gateway s)")
    with Prompt Some assms show ?thesis
      by (cases "is_granted out")
        (simp_all add: final_decision_def resolve_via_policy_def policy_allows_def bindE_apply
          policy_decision_of_def mcp_request_id_def now_p_def ask_bridge_gateway_def prompt_request_def
          same_outside_def)
  qed
qed (use assms in \<open>simp_all add: final_decision_def resolve_via_policy_def policy_allows_def bindE_apply policy_decision_of_def\<close>)

lemma final_decision_none:
  assumes "sh_policy_store s \<noteq> []"
  shows "final_decision env None raw s = (Inr (policy_decision_of False ''unparseable_denied'' None), s)"
  using assms by (simp add: final_decision_def bindE_apply)

lemma final_decision_open:
  assumes "sh_policy_store s = []"
  shows "\<exists>d. final_decision env parsed raw s = (Inr d, s)"
  using assms by (simp add: final_decision_def bindE_apply Let_def)

text \<open>
  The specification of the bridge as a gate: which lines an active policy lets through.
\<close>

definition permitted :: "('g, 's) bridge_env \<Rightarrow> ('g, 's) pump_state \<Rightarrow> direction \<Rightarrow> string \<Rightarrow> bool" where
  "permitted env s dir raw \<longleftrightarrow>
     (case mcp_parse (be_from_str env) raw of
        None \<Rightarrow> answers_initialize (be_from_str env) raw dir (p_bridge s)
      | Some msg \<Rightarrow>
          if outside_policy dir msg
          then dir = ContainerToHost \<longrightarrow> subscribed_update (b_subscriptions (p_bridge s)) msg
          else policy_allows env s msg)"

lemma decide_ok:
  "\<exists>d s'. decide env dir (mcp_parse (be_from_str env) raw) raw s = (Inr d, s') \<and> same_outside s s' \<and>
     (sh_policy_store s \<noteq> [] \<longrightarrow> dc_forward d = permitted env s dir raw)"
proof (cases "mcp_parse (be_from_str env) raw")
  case None
  obtain d s1 where h: "handle_phase2f env dir None raw s = (Inr d, s1)" "same_outside s s1"
    "s1 = s\<lparr>p_bridge := p_bridge s1\<rparr>"
    "if answers_initialize (be_from_str env) raw dir (p_bridge s) then \<exists>x. d = Some x \<and> dc_forward x else d = None"
    using handle_phase2f_none [of env dir raw s] by blast
  show ?thesis
  proof (cases "sh_policy_store s = []")
    case True
    with h(2) obtain d' where "final_decision env None raw s1 = (Inr d', s1)"
      using final_decision_open [of s1 env None raw] by (auto simp: same_outside_def)
    with None h True show ?thesis
      by (cases d) (auto simp: decide_def bindE_apply)
  next
    case False
    with h(2) have "final_decision env None raw s1 = (Inr (policy_decision_of False ''unparseable_denied'' None), s1)"
      by (intro final_decision_none) (simp add: same_outside_def)
    with None h show ?thesis
      by (cases d) (auto simp: decide_def bindE_apply permitted_def policy_decision_of_def split: if_splits)
  qed
next
  case (Some msg)
  obtain d s1 where h: "handle_phase2f env dir (Some msg) raw s = (Inr d, s1)" "same_outside s s1"
    "s1 = s\<lparr>p_bridge := p_bridge s1\<rparr>"
    "if outside_policy dir msg
     then \<exists>x. d = Some x \<and> dc_forward x = (dir = ContainerToHost \<longrightarrow> subscribed_update (b_subscriptions (p_bridge s)) msg)
     else d = None"
    using handle_phase2f_msg [OF Some, of dir s] by blast
  have "policy_allows env s1 msg = policy_allows env s msg"
    using policy_allows_bridge [of "p_bridge s1" s env msg] h(2,3) by (simp add: same_outside_def)
  then obtain d' s2 where "final_decision env (Some msg) raw s1 = (Inr d', s2)" "same_outside s1 s2"
    "sh_policy_store s \<noteq> [] \<longrightarrow> dc_forward d' = policy_allows env s msg"
    using final_decision_msg [of s1 env msg raw] final_decision_open [of s1 env "Some msg" raw] h(2)
    by (cases "sh_policy_store s = []") (auto simp: same_outside_def)
  with Some h show ?thesis
    by (cases d) (auto simp: decide_def bindE_apply permitted_def intro: same_outside_trans split: if_splits)
qed

definition counted :: "('g, 's) pump_state \<Rightarrow> ('g, 's) pump_state" where
  "counted s = s\<lparr>p_bridge := (p_bridge s)\<lparr>b_messages_seen := b_messages_seen (p_bridge s) + 1\<rparr>\<rparr>"

lemma counted_simps [simp]:
  "sh_policy_store (counted s) = sh_policy_store s" "sh_sink (counted s) = sh_sink s"
  "same_outside s (counted s)" "permitted env (counted s) dir raw = permitted env s dir raw"
  by (simp_all add: counted_def same_outside_def permitted_def policy_allows_bridge answers_initialize_def
      split: option.split)

definition audited_text :: "string \<Rightarrow> string option" where
  "audited_text trimmed =
     (if length trimmed > MCP_PAYLOAD_TRUNCATE then slice_to trimmed MCP_PAYLOAD_TRUNCATE else Some trimmed)"

definition append_sent :: "direction \<Rightarrow> string \<Rightarrow> bridge \<Rightarrow> bridge" where
  "append_sent dir chunk b =
     (if dir = HostToContainer then b\<lparr>b_to_container := b_to_container b @ [chunk]\<rparr>
      else b\<lparr>b_to_host := b_to_host b @ [chunk]\<rparr>)"

lemma sent_append_sent [simp]:
  "sent dir' (append_sent dir chunk b) = sent dir' b @ (if dir' = dir then [chunk] else [])"
  by (cases dir; cases dir') (simp_all add: sent_def append_sent_def)

lemma write_line_apply:
  "write_line dir raw wr s = (Inr (wr = WriteOk), s\<lparr>p_bridge := append_sent dir (written wr raw) (p_bridge s)\<rparr>)"
  by (simp add: write_line_def bindE_apply append_sent_def)

text \<open>
  Every line that is not cut inside a character is decided, then recorded once, then written if the
  decision forwards it; a panic of the sink ends the pump before the write.
\<close>

lemma pump_line_cases:
  assumes "pump_line env dir buf wr s = (r, s')"
  defines "raw \<equiv> trim_end_matches (CHR 0x0A) buf"
  shows "(audited_text raw = None \<and> r = Inl Panic \<and> s' = counted s) \<or>
    (\<exists>payload d s1 q w. audited_text raw = Some payload \<and>
       decide env dir (mcp_parse (be_from_str env) raw) raw (counted s) = (Inr d, s1) \<and> same_outside s s1 \<and>
       be_record env (dc_audit_kind d) None (Some (b_container_id (p_bridge s)))
         (audit_payload (p_bridge s) dir d payload) (sh_sink s) = (q, w) \<and>
       r = (case q of Inl e \<Rightarrow> Inl e | Inr _ \<Rightarrow> Inr (dc_forward d \<longrightarrow> wr = WriteOk)) \<and>
       s' = (if \<not> isl q \<and> dc_forward d
             then s1\<lparr>sh_sink := w, p_bridge := append_sent dir (written wr buf) (p_bridge s1)\<rparr>
             else s1\<lparr>sh_sink := w\<rparr>))"
proof (cases "audited_text raw")
  case None
  with assms show ?thesis
    by (simp add: pump_line_def audited_text_def Let_def bindE_apply counted_def)
next
  case (Some payload)
  obtain d s1 where d: "decide env dir (mcp_parse (be_from_str env) raw) raw (counted s) = (Inr d, s1)"
    "same_outside (counted s) s1"
    using decide_ok [of env dir raw "counted s"] by blast
  then have so: "same_outside s s1"
    using same_outside_trans counted_simps(3) by blast
  obtain q w where q: "be_record env (dc_audit_kind d) None (Some (b_container_id (p_bridge s)))
      (audit_payload (p_bridge s) dir d payload) (sh_sink s) = (q, w)"
    by (cases "be_record env (dc_audit_kind d) None (Some (b_container_id (p_bridge s)))
      (audit_payload (p_bridge s) dir d payload) (sh_sink s)")
  have ap: "audit_payload (p_bridge s1) dir d payload = audit_payload (p_bridge s) dir d payload"
    using so by (simp add: same_outside_def audit_payload_def)
  have "pump_line env dir buf wr s = record_and_forward env dir payload buf d wr s1"
    using Some d(1) by (simp add: pump_line_def audited_text_def Let_def bindE_apply counted_def raw_def)
  then have "record_and_forward env dir payload buf d wr s1 = (r, s')"
    using assms(1) by simp
  then have "r = (case q of Inl e \<Rightarrow> Inl e | Inr _ \<Rightarrow> Inr (dc_forward d \<longrightarrow> wr = WriteOk)) \<and>
       s' = (if \<not> isl q \<and> dc_forward d
             then s1\<lparr>sh_sink := w, p_bridge := append_sent dir (written wr buf) (p_bridge s1)\<rparr>
             else s1\<lparr>sh_sink := w\<rparr>)"
    using so q by (cases q) (auto simp: record_and_forward_def bindE_apply record_p_def zoom_apply ap
        write_line_apply same_outside_def)
  with Some d(1) so q show ?thesis
    by blast
qed

lemma pump_line_ok:
  assumes "pump_line env dir buf wr s = (Inr go_on, s')"
  defines "raw \<equiv> trim_end_matches (CHR 0x0A) buf"
  obtains payload d s1 w where
    "audited_text raw = Some payload"
    "decide env dir (mcp_parse (be_from_str env) raw) raw (counted s) = (Inr d, s1)" "same_outside s s1"
    "be_record env (dc_audit_kind d) None (Some (b_container_id (p_bridge s)))
       (audit_payload (p_bridge s) dir d payload) (sh_sink s) = (Inr (), w)"
    "s' = (if dc_forward d
           then s1\<lparr>sh_sink := w, p_bridge := append_sent dir (written wr buf) (p_bridge s1)\<rparr>
           else s1\<lparr>sh_sink := w\<rparr>)"
proof -
  from pump_line_cases [OF assms(1)] obtain payload d s1 q w where
    c: "audited_text raw = Some payload"
    "decide env dir (mcp_parse (be_from_str env) raw) raw (counted s) = (Inr d, s1)" "same_outside s s1"
    "be_record env (dc_audit_kind d) None (Some (b_container_id (p_bridge s)))
       (audit_payload (p_bridge s) dir d payload) (sh_sink s) = (q, w)"
    "Inr go_on = (case q of Inl e \<Rightarrow> Inl e | Inr _ \<Rightarrow> Inr (dc_forward d \<longrightarrow> wr = WriteOk))"
    "s' = (if \<not> isl q \<and> dc_forward d
           then s1\<lparr>sh_sink := w, p_bridge := append_sent dir (written wr buf) (p_bridge s1)\<rparr>
           else s1\<lparr>sh_sink := w\<rparr>)"
    unfolding raw_def by (elim disjE) (simp, blast)
  then have "q = Inr ()"
    by (cases q) auto
  with c that show ?thesis
    by simp
qed

lemma sent_same_outside: "same_outside s s' \<Longrightarrow> sent dir (p_bridge s') = sent dir (p_bridge s)"
  by (cases dir) (simp_all add: sent_def same_outside_def)

lemma decide_permitted:
  assumes "decide env dir (mcp_parse (be_from_str env) raw) raw s = (Inr d, s')" "sh_policy_store s \<noteq> []"
  shows "dc_forward d = permitted env s dir raw"
  using decide_ok [of env dir raw s] assms by auto

lemma pump_line_gate:
  assumes "pump_line env dir buf wr s = (Inr go_on, s')" and "sh_policy_store s \<noteq> []"
  shows "sent x (p_bridge s') = sent x (p_bridge s) @
    (if x = dir \<and> permitted env s dir (trim_end_matches (CHR 0x0A) buf) then [written wr buf] else [])"
  using assms(1)
proof (rule pump_line_ok)
  let ?raw = "trim_end_matches (CHR 0x0A) buf"
  fix payload d s1 w
  assume d: "decide env dir (mcp_parse (be_from_str env) ?raw) ?raw (counted s) = (Inr d, s1)" "same_outside s s1"
    and s': "s' = (if dc_forward d
           then s1\<lparr>sh_sink := w, p_bridge := append_sent dir (written wr buf) (p_bridge s1)\<rparr>
           else s1\<lparr>sh_sink := w\<rparr>)"
  have "dc_forward d = permitted env s dir ?raw"
    using decide_permitted [OF d(1)] assms(2) by simp
  then show ?thesis
    using sent_same_outside [OF d(2)] by (simp add: s')
qed


definition demo_bridge_env :: "(unit, unit sink_world) bridge_env" where
  "demo_bridge_env = \<lparr>be_record = noop_record, be_gateway = None, be_from_str = (\<lambda>_. Inr demo_call)\<rparr>"

definition demo_read_rule :: mcp_policy_rule where
  "demo_read_rule = \<lparr>pr_method = ''tools/call'', pr_tool_name = Some ''read_file'', pr_decision = Prompt, pr_note = None\<rparr>"

definition demo_pump :: "mcp_policy_rule list \<Rightarrow> (unit, unit sink_world) pump_state" where
  "demo_pump rules =
     \<lparr>sh_sink = demo_world, sh_policy_store = rules, sh_gateway = (), sh_request_counter = 0,
      sh_clock = (\<lambda>_. 0), sh_ticks = 0, p_bridge = new_bridge ''br-0-0'' ''c1'' ''server'' 0 []\<rparr>"

lemma demo_parse [simp]:
  "mcp_parse (\<lambda>_. Inr demo_call) raw = Some (ToolsCall ''read_file'' JNull)"
  by (simp add: mcp_parse_def demo_call_def message_of_def json_or_null_def json_text_def)

lemma trim_newline_x [simp]: "trim_end_matches (CHR 0x0A) [CHR ''x'', CHR 0x0A] = ''x''"
  by (simp add: trim_end_matches_def)

lemma demo_pump_line:
  "\<exists>s'. pump_line demo_bridge_env HostToContainer [CHR ''x'', CHR 0x0A] WriteOk (demo_pump rules) = (Inr True, s')"
proof -
  obtain r s' where r: "pump_line demo_bridge_env HostToContainer [CHR ''x'', CHR 0x0A] WriteOk (demo_pump rules) = (r, s')"
    by (cases "pump_line demo_bridge_env HostToContainer [CHR ''x'', CHR 0x0A] WriteOk (demo_pump rules)")
  from pump_line_cases [OF r] have "r = Inr True"
    by (auto simp: audited_text_def MCP_PAYLOAD_TRUNCATE_def demo_bridge_env_def noop_record_def)
  with r show ?thesis
    by blast
qed


end
