(* ===== verification/Mcp_Bridge_Safety.thy ===== *)
theory Mcp_Bridge_Safety
  imports Mcp_Bridge
begin

text \<open>
  What the bridge guarantees beyond the gate: every line leaves one audit entry that tells its outcome,
  a tool denied through the policy store is never forwarded, whatever else happens on the bridge, the
  audit chain survives every interleaving of bridge operations, and subscriptions and capabilities are
  those the handshake established.
\<close>

section \<open>Audit entries\<close>

text \<open>
  Whether a line was forwarded can be read off the decision text of its audit entry.
\<close>

definition refusals :: "string list" where
  "refusals = [''denied'', ''deny'', ''unparseable_denied'', ''dropped_unsubscribed'',
     ''prompt_denied'', ''prompt_timed_out'', ''prompt_no_listener'']"

definition truthful :: "decision \<Rightarrow> bool" where
  "truthful d \<longleftrightarrow> dc_forward d = (dc_decision_str d \<notin> set refusals)"

lemma handle_phase2f_truthful:
  assumes "handle_phase2f env dir parsed raw s = (Inr (Some d), s')"
  shows "truthful d"
proof (cases parsed)
  case None
  with assms show ?thesis
    by (cases dir) (auto simp: handle_phase2f_def bindE_apply truthful_def refusals_def split: option.splits)
next
  case (Some msg)
  with assms show ?thesis
    by (cases dir; cases msg) (auto simp: handle_phase2f_def bindE_apply truthful_def refusals_def list_changed_def
        split: option.splits if_splits)
qed

lemma granted_truthful: "truthful (policy_decision_of True ''prompt_granted'' mth)"
  by (simp add: policy_decision_of_def truthful_def refusals_def)

lemma refused_truthful: "\<not> is_granted out \<Longrightarrow> truthful (policy_decision_of False (prompt_refused_str out) mth)"
  by (cases out) (simp_all add: policy_decision_of_def truthful_def refusals_def)

lemma resolve_truthful: "resolve_via_policy env dec mth tool parsed s = (Inr d, s') \<Longrightarrow> truthful d"
proof (cases dec)
  case Prompt
  assume r: "resolve_via_policy env dec mth tool parsed s = (Inr d, s')"
  show ?thesis
  proof (cases "be_gateway env")
    case None
    with Prompt r show ?thesis
      by (auto simp: resolve_via_policy_def policy_decision_of_def truthful_def refusals_def)
  next
    case (Some gw)
    with Prompt r show ?thesis
      by (auto simp: resolve_via_policy_def elim!: bindE_Inr_E split: if_splits
          intro: granted_truthful refused_truthful)
  qed
qed (auto simp: resolve_via_policy_def policy_decision_of_def truthful_def refusals_def)

lemma allowlist_truthful:
  "truthful (policy_decision_of (dec \<noteq> ALDenied) (allowlist_decision_str dec) mth)"
  by (cases dec) (simp_all add: policy_decision_of_def truthful_def refusals_def)

lemma final_decision_truthful: "final_decision env parsed raw s = (Inr d, s') \<Longrightarrow> truthful d"
  by (auto simp: final_decision_def bindE_apply Let_def allowlist_truthful
      dest: resolve_truthful split: if_splits option.splits)
    (simp add: policy_decision_of_def truthful_def refusals_def)

lemma decide_truthful: "decide env dir parsed raw s = (Inr d, s') \<Longrightarrow> truthful d"
  by (auto simp: decide_def elim!: bindE_Inr_E dest: handle_phase2f_truthful final_decision_truthful
      split: option.splits)



section \<open>A denied tool stays denied\<close>

text \<open>The lines of both pumps, in any order.\<close>

inductive line_step :: "('g, 's) bridge_env \<Rightarrow> ('g, 's) pump_state \<Rightarrow> ('g, 's) pump_state \<Rightarrow> bool" for env where
  line: "pump_line env dir buf wr s = (r, s') \<Longrightarrow> line_step env s s'"

inductive_cases line_stepE: "line_step env s s'"

lemma line_step_policy: "line_step env s s' \<Longrightarrow> sh_policy_store s' = sh_policy_store s"
  by (elim line_stepE) (auto dest!: pump_line_cases simp: same_outside_def)

lemma lines_policy: "(line_step env)\<^sup>*\<^sup>* s s' \<Longrightarrow> sh_policy_store s' = sh_policy_store s"
  by (induction rule: rtranclp_induct) (simp_all add: line_step_policy)

lemma evaluate_policy_Nil: "evaluate_policy [] msg = AuditOnly"
  by (simp add: evaluate_policy_def default_action_def Let_def split: option.split)

lemma denied_not_permitted:
  assumes "mcp_parse (be_from_str env) raw = Some (ToolsCall tool args)"
    and "evaluate_policy (sh_policy_store s) (ToolsCall tool args) = Deny"
  shows "\<not> permitted env s HostToContainer raw"
  using assms by (simp add: permitted_def outside_policy_def policy_allows_def)

text \<open>
  The policy store as the bridges see it: the sink of the hub is the database the store writes to.
\<close>

definition hub_policy_set ::
  "audit_env \<Rightarrow> 'w wasm_engine \<Rightarrow> mcp_policy_rule list \<Rightarrow> bool
     \<Rightarrow> (('g, 'w sink_world) pump_state, error + panic, nat \<times> nat) act" where
  "hub_policy_set env eng rules rep s =
     (case mcp_policy_set env eng rules rep \<lparr>pw_world = sh_sink s, pw_rules = sh_policy_store s\<rparr> of
        (r, w) \<Rightarrow> (r, s\<lparr>sh_sink := pw_world w, sh_policy_store := pw_rules w\<rparr>))"



section \<open>Every interleaving keeps the audit chain\<close>

inductive hub_step :: "('g, 's) bridge_env \<Rightarrow> ('g, 's) hub \<Rightarrow> ('g, 's) hub \<Rightarrow> bool" for env where
  start: "bridge_start env podman cid cmd allow h c s = (r, s') \<Longrightarrow> hub_step env s s'"
| stop: "bridge_stop env bid s = (r, s') \<Longrightarrow> hub_step env s s'"
| pump: "hub_line env bid dir buf wr s = (r, s') \<Longrightarrow> hub_step env s s'"

inductive_cases hub_stepE: "hub_step env s s'"

text \<open>What the steps do to the registry: the ids listed are ids of live bridges, each once.\<close>

definition registry_ok :: "('g, 's) hub \<Rightarrow> bool" where
  "registry_ok s \<longleftrightarrow>
     (\<forall>bid b. h_heap s bid = Some b \<longrightarrow> b_id b = bid) \<and> set (h_bridges s) \<subseteq> dom (h_heap s) \<and>
     distinct (h_bridges s)"

lemma pump_line_id:
  "pump_line env dir buf wr s = (r, s') \<Longrightarrow> b_id (p_bridge s') = b_id (p_bridge s)"
  by (drule pump_line_cases) (auto simp: counted_def same_outside_def append_sent_def)

lemma record_h_frame:
  "record_h env kind cid payload s = (r, s') \<Longrightarrow> \<exists>w. s' = s\<lparr>sh_sink := w\<rparr>"
  by (auto simp: record_h_def zoom_apply)

lemma filter_single: "distinct xs \<Longrightarrow> x \<in> set xs \<Longrightarrow> filter (\<lambda>y. y = x) xs = [x]"
  by (induction xs) (auto simp: filter_empty_conv)

lemma registered_filter:
  assumes "registry_ok s" "bid \<in> set (h_bridges s)" "h_heap s bid = Some b"
  shows "filter (\<lambda>b. b_id b = bid) (registered s) = [b]"
proof -
  have "filter (\<lambda>b. b_id b = bid) (List.map_filter (h_heap s) xs) =
      List.map_filter (h_heap s) (filter (\<lambda>i. i = bid) xs)" if "set xs \<subseteq> dom (h_heap s)" for xs
    using that assms(1) by (induction xs) (auto simp: registry_ok_def List.map_filter_simps)
  with assms show ?thesis
    by (simp add: registered_def registry_ok_def filter_single List.map_filter_simps)
qed

lemma registry_ok_start:
  assumes "bridge_start env podman cid cmd allow h c s = (r, s')" "registry_ok s"
  shows "registry_ok s'"
  using assms
  by (cases h; cases c)
    (auto simp: bridge_start_def allocate_id_def bindE_apply Let_def registry_ok_def record_h_def zoom_apply
      new_bridge_def split: sum.splits prod.splits if_splits)

lemma registry_ok_stop:
  assumes "bridge_stop env bid s = (r, s')" "registry_ok s"
  shows "registry_ok s'"
  using assms
  by (auto simp: bridge_stop_def bindE_apply registry_ok_def record_h_def zoom_apply
      split: sum.splits prod.splits option.splits if_splits dest: notin_set_remove1)

lemma registry_ok_line:
  assumes "hub_line env bid dir buf wr s = (r, s')" "registry_ok s"
  shows "registry_ok s'"
  using assms
  by (auto simp: hub_line_def registry_ok_def shared.defs dest!: pump_line_id split: option.splits prod.splits if_splits)

lemma registry_ok_step: "hub_step env s s' \<Longrightarrow> registry_ok s \<Longrightarrow> registry_ok s'"
  by (elim hub_stepE) (auto intro: registry_ok_start registry_ok_stop registry_ok_line)

context audit_sink
begin

lemma pump_line_sink_inv:
  assumes "be_record env = record_entry" "pump_line env dir buf wr s = (r, s')" "inv (sh_sink s)"
  shows "inv (sh_sink s')"
proof -
  have rec: "inv w" if "be_record env k None c j (sh_sink s) = (q, w)" for k c j q w
    using preservesD [OF record_inv] assms(1,3) that by simp
  from pump_line_cases [OF assms(2)] rec assms(3) show ?thesis
    by (auto simp: same_outside_def split: if_splits)
qed

lemma record_h_inv:
  assumes "be_record env = record_entry" "record_h env kind cid payload s = (r, s')" "inv (sh_sink s)"
  shows "inv (sh_sink s')"
  using assms preserves_snd [OF record_inv] by (auto simp: record_h_def zoom_apply)

lemma hub_step_sink_inv:
  assumes rec: "be_record env = record_entry" and "hub_step env s s'" "inv (sh_sink s)"
  shows "inv (sh_sink s')"
  using assms(2)
proof (rule hub_stepE)
  fix podman cid cmd allow h c r
  assume "bridge_start env podman cid cmd allow h c s = (r, s')"
  with assms(3) show ?thesis
    by (cases h; cases c) (auto simp: bridge_start_def allocate_id_def bindE_apply Let_def
        dest!: record_h_inv [OF rec] split: sum.splits prod.splits)
next
  fix bid r
  assume "bridge_stop env bid s = (r, s')"
  with assms(3) show ?thesis
    by (auto simp: bridge_stop_def bindE_apply dest!: record_h_inv [OF rec]
        split: sum.splits prod.splits option.splits if_splits)
next
  fix bid dir buf wr r
  assume "hub_line env bid dir buf wr s = (r, s')"
  with assms(3) show ?thesis
    by (auto simp: hub_line_def shared.defs dest!: pump_line_sink_inv [OF rec] split: option.splits prod.splits)
qed

end

text \<open>The bridges of a daemon whose sink is the sandbox's audit log.\<close>

definition daemon_env ::
  "audit_env \<Rightarrow> 'w wasm_engine \<Rightarrow> (approval_request \<Rightarrow> 'g \<Rightarrow> approval_outcome \<times> 'g) option \<Rightarrow> json_parser
     \<Rightarrow> ('g, 'w sink_world) bridge_env" where
  "daemon_env env eng gw from_str =
     \<lparr>be_record = sandbox_record env eng True, be_gateway = gw, be_from_str = from_str\<rparr>"

definition hub_initial :: "('g, 'w sink_world) hub \<Rightarrow> bool" where
  "hub_initial s \<longleftrightarrow> (\<exists>f c. sw_db (sh_sink s) = fresh_db f c) \<and> h_heap s = Map.empty \<and> h_bridges s = []"

definition hub_inv :: "audit_env \<Rightarrow> ('g, 'w sink_world) hub \<Rightarrow> bool" where
  "hub_inv env s \<longleftrightarrow> sink_inv env (sh_sink s) \<and> registry_ok s"

interpretation hub_machine: invariant_machine hub_initial "hub_step (daemon_env env eng gw from_str)" "hub_inv env"
  for env eng gw from_str
proof
  show "hub_initial s \<Longrightarrow> hub_inv env s" for s :: "('a, 'b sink_world) hub"
    by (auto simp: hub_initial_def hub_inv_def registry_ok_def sink_inv_def)
  show "hub_inv env s \<Longrightarrow> hub_step (daemon_env env eng gw from_str) s s' \<Longrightarrow> hub_inv env s'"
    for s s' :: "('a, 'b sink_world) hub"
    using sandbox_sink.hub_step_sink_inv [of "daemon_env env eng gw from_str" env eng True s s']
    by (auto simp: hub_inv_def daemon_env_def intro: registry_ok_step)
qed

text \<open>
  C18. However bridges are started and stopped and however the lines of all their pumps interleave, with
  any database faults, the audit log stays a chain that \<^verbatim>\<open>verify_chain\<close> accepts, and the registry
  answers a status request for a listed bridge with exactly one entry, the one of that bridge.
\<close>

theorem bridges_keep_audit_chain:
  assumes "reachable hub_initial (hub_step (daemon_env env eng gw from_str)) s"
  shows "snd (verify_rows env ZERO_HASH None (rows (audit_log (sw_db (sh_sink s))))) = None \<and>
    (\<forall>bid \<in> set (h_bridges s). \<exists>b. h_heap s bid = Some b \<and> bridge_status (Some bid) s = [status_entry b] \<and>
       bs_bridge_id (status_entry b) = bid)"
proof -
  have inv: "hub_inv env s"
    by (rule hub_machine.inv_reachable [OF assms])
  have "\<exists>b. h_heap s bid = Some b \<and> bridge_status (Some bid) s = [status_entry b] \<and> bs_bridge_id (status_entry b) = bid"
    if "bid \<in> set (h_bridges s)" for bid
  proof -
    have ok: "registry_ok s"
      using inv by (simp add: hub_inv_def)
    with that obtain b where b: "h_heap s bid = Some b" "b_id b = bid"
      by (fastforce simp: registry_ok_def)
    with ok that show ?thesis
      by (simp add: bridge_status_def registered_filter status_entry_def)
  qed
  then show ?thesis
    using inv by (simp add: hub_inv_def sink_inv_def chain_inv_def chain_table_def verify_rows_linked)
qed

definition demo_hub :: "(unit, unit sink_world) hub" where
  "demo_hub =
     \<lparr>sh_sink = demo_world, sh_policy_store = [], sh_gateway = (), sh_request_counter = 0,
      sh_clock = (\<lambda>_. 0), sh_ticks = 0, h_next_id = 0, h_heap = Map.empty, h_bridges = [], h_orphans = []\<rparr>"

lemma show_nat_0: "show_nat 0 = ''0''"
  by code_simp

theorem bridges_keep_audit_chain_witness:
  "\<exists>r s. bridge_start (daemon_env demo_env demo_engine None (\<lambda>_. Inr demo_call)) ''podman'' ''c1'' ''server'' []
      Spawned Spawned demo_hub = (r, s) \<and> h_bridges s = [''br-0-0''] \<and>
    snd (verify_rows demo_env ZERO_HASH None (rows (audit_log (sw_db (sh_sink s))))) = None \<and>
    map bs_bridge_id (bridge_status (Some ''br-0-0'') s) = [''br-0-0'']"
proof -
  let ?env = "daemon_env demo_env demo_engine None (\<lambda>_. Inr demo_call)"
  obtain r s where r: "bridge_start ?env ''podman'' ''c1'' ''server'' [] Spawned Spawned demo_hub = (r, s)"
    by (cases "bridge_start ?env ''podman'' ''c1'' ''server'' [] Spawned Spawned demo_hub")
  have id: "''br-'' @ show_nat (epoch_millis 0) @ ''-'' @ show_nat (unat (0 :: u64)) = ''br-0-0''"
    by (simp add: epoch_millis_def show_nat_0)
  have b: "h_bridges s = [''br-0-0'']"
    using r id by (auto simp: bridge_start_def allocate_id_def demo_hub_def bindE_apply Let_def record_h_def zoom_apply
        split: sum.splits prod.splits)
  have "hub_initial demo_hub"
    by (auto simp: hub_initial_def demo_hub_def demo_world_def demo_db_def)
  then have "reachable hub_initial (hub_step ?env) s"
    using hub_step.start [OF r] by (blast intro: reachable_init reachable_step)
  from bridges_keep_audit_chain [OF this] r b show ?thesis
    by auto
qed

section \<open>Subscriptions and the initialize handshake\<close>

text \<open>The resources the host is subscribed to are those its own lines subscribed and did not drop since.\<close>

fun subscription_spec :: "mcp_message option \<Rightarrow> string set \<Rightarrow> string set" where
  "subscription_spec (Some (ResourcesSubscribe uri)) subs = insert uri subs"
| "subscription_spec (Some (ResourcesUnsubscribe uri)) subs = subs - {uri}"
| "subscription_spec _ subs = subs"

lemma final_decision_bridge: "final_decision env parsed raw s = (Inr d, s') \<Longrightarrow> p_bridge s' = p_bridge s"
proof -
  have "resolve_via_policy env dec mth tool p s = (Inr d, s') \<Longrightarrow> p_bridge s' = p_bridge s" for dec mth tool p
    by (cases dec) (auto simp: resolve_via_policy_def mcp_request_id_def now_p_def ask_bridge_gateway_def
        elim!: bindE_Inr_E split: option.splits prod.splits if_splits)
  then show "final_decision env parsed raw s = (Inr d, s') \<Longrightarrow> p_bridge s' = p_bridge s"
    by (auto simp: final_decision_def bindE_apply Let_def split: if_splits option.splits)
qed

lemma decide_subscriptions:
  assumes "decide env dir parsed raw s = (Inr d, s')"
  shows "b_subscriptions (p_bridge s') =
    (if dir = HostToContainer then subscription_spec parsed (b_subscriptions (p_bridge s))
     else b_subscriptions (p_bridge s))"
proof -
  obtain h s1 where h: "handle_phase2f env dir parsed raw s = (Inr h, s1)"
    and f: "(case h of Some d \<Rightarrow> ret d | None \<Rightarrow> final_decision env parsed raw) s1 = (Inr d, s')"
    using assms by (auto simp: decide_def elim!: bindE_Inr_E)
  have "p_bridge s' = p_bridge s1"
    using f by (cases h) (auto dest: final_decision_bridge)
  moreover have "b_subscriptions (p_bridge s1) =
    (if dir = HostToContainer then subscription_spec parsed (b_subscriptions (p_bridge s))
     else b_subscriptions (p_bridge s))"
  proof (cases parsed)
    case None
    with h show ?thesis
      by (cases dir) (auto simp: handle_phase2f_def bindE_apply split: option.splits)
  next
    case (Some msg)
    with h show ?thesis
      by (cases dir; cases msg) (auto simp: handle_phase2f_def bindE_apply split: option.splits)
  qed
  ultimately show ?thesis
    by simp
qed

text \<open>
  The host's lines alone determine its subscriptions, over whole runs: the other direction, the policy
  and the answers of the gateway do not change them.
\<close>

lemma line_subscriptions:
  assumes "pump_line env dir buf wr s = (Inr go_on, s')"
  shows "b_subscriptions (p_bridge s') =
    (if dir = HostToContainer
     then subscription_spec (mcp_parse (be_from_str env) (trim_end_matches (CHR 0x0A) buf)) (b_subscriptions (p_bridge s))
     else b_subscriptions (p_bridge s))"
  using assms
proof (rule pump_line_ok)
  let ?raw = "trim_end_matches (CHR 0x0A) buf"
  fix payload d s1 w
  assume d: "decide env dir (mcp_parse (be_from_str env) ?raw) ?raw (counted s) = (Inr d, s1)"
    and s': "s' = (if dc_forward d
           then s1\<lparr>sh_sink := w, p_bridge := append_sent dir (written wr buf) (p_bridge s1)\<rparr>
           else s1\<lparr>sh_sink := w\<rparr>)"
  show ?thesis
    using decide_subscriptions [OF d] by (simp add: s' append_sent_def counted_def)
qed

text \<open>
  The order in which the pending ids are tried does not matter: a line answers at most one of them.
\<close>

lemma find_init_response_id:
  "find_init_response from_str raw is = Some (i, caps) \<Longrightarrow>
     i \<in> set is \<and> parse_initialize_response from_str raw i = Some caps"
  by (induction "is") (auto split: option.splits)

lemma find_init_response_order:
  assumes "set is = set js"
  shows "find_init_response from_str raw is = find_init_response from_str raw js"
proof -
  have one: "parse_initialize_response from_str raw i = Some c \<Longrightarrow>
      parse_initialize_response from_str raw j = Some c' \<Longrightarrow> i = j" for i j c c'
    by (simp add: parse_initialize_response_def split: sum.splits option.splits if_splits)
  have none: "find_init_response from_str raw xs = None \<longleftrightarrow> (\<forall>i\<in>set xs. parse_initialize_response from_str raw i = None)" for xs
    by (induction xs) (auto split: option.splits)
  show ?thesis
  proof (cases "find_init_response from_str raw is")
    case None
    then have "find_init_response from_str raw js = None"
      using none [of "is"] none [of js] assms by simp
    with None show ?thesis
      by simp
  next
    case (Some ic)
    obtain i c where ic: "ic = (i, c)"
      by (cases ic)
    have "find_init_response from_str raw js \<noteq> None"
      using Some none [of "is"] none [of js] assms by simp
    then obtain j c' where j: "find_init_response from_str raw js = Some (j, c')"
      by auto
    from find_init_response_id [OF Some [unfolded ic]] find_init_response_id [OF j]
    have ij: "i = j" and "parse_initialize_response from_str raw i = Some c" "parse_initialize_response from_str raw j = Some c'"
      using one by auto
    then have "c = c'"
      by simp
    with ij Some ic j show ?thesis
      by simp
  qed
qed

section \<open>Where the gate is weaker than its description\<close>

text \<open>
  A subscription is forwarded whatever the policy says of \<^verbatim>\<open>resources/subscribe\<close>.
\<close>

lemma subscribe_bypasses_policy:
  assumes "mcp_parse (be_from_str env) raw = Some (ResourcesSubscribe uri)"
  shows "permitted env s HostToContainer raw"
  using assms by (simp add: permitted_def outside_policy_def)

text \<open>
  Under an active policy every answer of the container other than to an initialize request is dropped:
  a response has no method, so it does not parse.
\<close>

lemma response_dropped_under_policy:
  assumes "from_str (trim raw) = Inr v" and "json_get v ''method'' = None" and "be_from_str env = from_str"
    and "b_pending_initialize_ids (p_bridge s) = []"
  shows "\<not> permitted env s ContainerToHost raw"
  using assms by (simp add: permitted_def mcp_parse_def answers_initialize_def)

text \<open>
  A long line whose 8192nd byte is inside a character ends the pump: the line is neither audited nor
  forwarded, and no later line of that direction is.
\<close>

lemma long_line_ends_pump:
  assumes "length (trim_end_matches (CHR 0x0A) buf) > MCP_PAYLOAD_TRUNCATE"
    and "\<not> is_char_boundary (trim_end_matches (CHR 0x0A) buf) MCP_PAYLOAD_TRUNCATE"
  shows "pump env dir (ReadLine buf wr # rest) s = (Inl Panic, counted s)"
proof -
  have "audited_text (trim_end_matches (CHR 0x0A) buf) = None"
    using assms by (simp add: audited_text_def slice_to_def)
  then have "pump_line env dir buf wr s = (Inl Panic, counted s)"
    by (simp add: pump_line_def audited_text_def Let_def bindE_apply counted_def)
  then show ?thesis
    by (simp add: bindE_apply)
qed

text \<open>When the container side cannot be started, the host process that was already started stays behind.\<close>

lemma failed_start_leaves_host_process:
  "h_orphans (snd (bridge_start env podman cid cmd allow Spawned SpawnFailed s)) = cmd # h_orphans s"
  by (simp add: bridge_start_def allocate_id_def bindE_apply Let_def)

end
