(* ===== verification/Approval.thy ===== *)
theory Approval
  imports Common
begin

text \<open>
  The approval registry of the daemon (\<^verbatim>\<open>linpodx-daemon/src/approval.rs\<close>) as a machine of interleaved
  atomic steps. A request registers a one-shot channel under its id, fans the request out to the
  listeners and waits with a timeout; a listener's response takes the channel's sender out of the map,
  sends and announces. Every critical section and every channel operation is one step, so the races
  between responses, timeouts and reused ids are runs of the machine.
\<close>

section \<open>Model\<close>

text \<open>A one-shot channel, and where the task that waits on it stands.\<close>

datatype chan = Open | Sent approval_outcome | SenderDropped | ReceiverDropped

datatype task_pc = Registered | NobodyListening | Waiting nat | Expired | Finished approval_outcome

record approval_task =
  tk_request :: approval_request
  tk_chan :: chan
  tk_pc :: task_pc

record responder =
  rs_request_id :: string
  rs_chan :: nat
  rs_outcome :: approval_outcome
  rs_sent :: bool

text \<open>
  The registry with its tasks; a task and its channel have one index. The last field is a history of the
  answers accepted so far, by channel.
\<close>

record approvals =
  ap_now :: nat
  ap_listeners :: nat
  ap_pending :: "string \<Rightarrow> nat option"
  ap_tasks :: "approval_task list"
  ap_responders :: "responder list"
  ap_fanned :: "approval_request list"
  ap_announced :: "approval_resolved list"
  ap_answers :: "(nat \<times> approval_outcome) list"

definition approvals_new :: approvals where
  "approvals_new =
     \<lparr>ap_now = 0, ap_listeners = 0, ap_pending = Map.empty, ap_tasks = [], ap_responders = [], ap_fanned = [],
      ap_announced = [], ap_answers = []\<rparr>"

definition upd_task :: "nat \<Rightarrow> (approval_task \<Rightarrow> approval_task) \<Rightarrow> approvals \<Rightarrow> approvals" where
  "upd_task c f s = s\<lparr>ap_tasks := (ap_tasks s)[c := f (ap_tasks s ! c)]\<rparr>"

fun drop_sender :: "chan \<Rightarrow> chan" where
  "drop_sender Open = SenderDropped"
| "drop_sender ch = ch"

fun send_to :: "approval_outcome \<Rightarrow> chan \<Rightarrow> chan" where
  "send_to out Open = Sent out"
| "send_to out ch = ch"

text \<open>Removing an entry of the map drops its sender.\<close>

definition remove_pending :: "string \<Rightarrow> approvals \<Rightarrow> approvals" where
  "remove_pending rid s =
     (case ap_pending s rid of
        None \<Rightarrow> s
      | Some c \<Rightarrow> upd_task c (tk_chan_update drop_sender) (s\<lparr>ap_pending := (ap_pending s)(rid := None)\<rparr>))"

subsection \<open>A request\<close>

definition register :: "approval_request \<Rightarrow> approvals \<Rightarrow> approvals" where
  "register req s =
     (let s1 = remove_pending (request_id req) s in
      s1\<lparr>ap_pending := (ap_pending s1)(request_id req \<mapsto> length (ap_tasks s1)),
         ap_tasks := ap_tasks s1 @ [\<lparr>tk_request = req, tk_chan = Open, tk_pc = Registered\<rparr>]\<rparr>)"

definition fan_out :: "nat \<Rightarrow> approvals \<Rightarrow> approvals" where
  "fan_out c s =
     (let req = tk_request (ap_tasks s ! c) in
      if ap_listeners s = 0 then upd_task c (\<lambda>t. t\<lparr>tk_pc := NobodyListening\<rparr>) s
      else upd_task c (\<lambda>t. t\<lparr>tk_pc := Waiting (ap_now s + max (timeout_secs req) 1)\<rparr>) (s\<lparr>ap_fanned := ap_fanned s @ [req]\<rparr>))"

text \<open>
  One poll of the wait: a value that is there wins over an elapsed timer, a dropped sender counts as a
  timeout, and giving up drops the receiver.
\<close>

definition poll :: "nat \<Rightarrow> nat \<Rightarrow> approvals \<Rightarrow> approvals option" where
  "poll c deadline s =
     (let finish = (\<lambda>out t. t\<lparr>tk_chan := ReceiverDropped, tk_pc := Finished out\<rparr>) in
      case tk_chan (ap_tasks s ! c) of
        Sent out \<Rightarrow> Some (upd_task c (finish out) s)
      | SenderDropped \<Rightarrow> Some (upd_task c (finish TimedOut) s)
      | _ \<Rightarrow>
          if deadline \<le> ap_now s then Some (upd_task c (\<lambda>t. t\<lparr>tk_chan := ReceiverDropped, tk_pc := Expired\<rparr>) s)
          else None)"

definition clean_up :: "nat \<Rightarrow> approval_outcome \<Rightarrow> approvals \<Rightarrow> approvals" where
  "clean_up c out s =
     upd_task c (\<lambda>t. t\<lparr>tk_chan := ReceiverDropped, tk_pc := Finished out\<rparr>)
       (remove_pending (request_id (tk_request (ap_tasks s ! c))) s)"

definition request_step :: "nat \<Rightarrow> approvals \<Rightarrow> approvals option" where
  "request_step c s =
     (if c < length (ap_tasks s) then
        (case tk_pc (ap_tasks s ! c) of
           Registered \<Rightarrow> Some (fan_out c s)
         | NobodyListening \<Rightarrow> Some (clean_up c NoListener s)
         | Waiting deadline \<Rightarrow> poll c deadline s
         | Expired \<Rightarrow> Some (clean_up c TimedOut s)
         | Finished _ \<Rightarrow> None)
      else None)"

subsection \<open>A response\<close>

definition respond_take :: "string \<Rightarrow> approval_outcome \<Rightarrow> approvals \<Rightarrow> approvals option" where
  "respond_take rid out s =
     (case ap_pending s rid of
        None \<Rightarrow> None
      | Some c \<Rightarrow>
          Some (s\<lparr>ap_pending := (ap_pending s)(rid := None),
                  ap_responders := ap_responders s @ [\<lparr>rs_request_id = rid, rs_chan = c, rs_outcome = out, rs_sent = False\<rparr>],
                  ap_answers := ap_answers s @ [(c, out)]\<rparr>))"

definition respond_send :: "nat \<Rightarrow> approvals \<Rightarrow> approvals option" where
  "respond_send i s =
     (if i < length (ap_responders s) \<and> \<not> rs_sent (ap_responders s ! i) then
        let r = ap_responders s ! i in
        Some (upd_task (rs_chan r) (tk_chan_update (send_to (rs_outcome r)))
               (s\<lparr>ap_responders := (ap_responders s)[i := r\<lparr>rs_sent := True\<rparr>]\<rparr>))
      else None)"

definition respond_announce :: "nat \<Rightarrow> approvals \<Rightarrow> approvals option" where
  "respond_announce i s =
     (if i < length (ap_responders s) \<and> rs_sent (ap_responders s ! i) then
        let r = ap_responders s ! i in
        Some (s\<lparr>ap_responders := take i (ap_responders s) @ drop (Suc i) (ap_responders s),
                ap_announced := ap_announced s @ [\<lparr>resolved_id = rs_request_id r, resolved_outcome = rs_outcome r\<rparr>]\<rparr>)
      else None)"

text \<open>A response that runs without interruption, with what it returns.\<close>

definition respond :: "string \<Rightarrow> approval_outcome \<Rightarrow> approvals \<Rightarrow> bool \<times> approvals" where
  "respond rid out s =
     (case respond_take rid out s of
        None \<Rightarrow> (False, s)
      | Some s1 \<Rightarrow>
          (let i = length (ap_responders s) in
           (True, the (respond_announce i (the (respond_send i s1))))))"

subsection \<open>Interleavings\<close>

datatype approval_event =
  ERegister approval_request
| ERequest nat
| ETake string approval_outcome
| ESend nat
| EAnnounce nat
| ESubscribe
| EUnsubscribe
| ETick

fun apply_event :: "approval_event \<Rightarrow> approvals \<Rightarrow> approvals option" where
  "apply_event (ERegister req) s = Some (register req s)"
| "apply_event (ERequest c) s = request_step c s"
| "apply_event (ETake rid out) s = respond_take rid out s"
| "apply_event (ESend i) s = respond_send i s"
| "apply_event (EAnnounce i) s = respond_announce i s"
| "apply_event ESubscribe s = Some (s\<lparr>ap_listeners := Suc (ap_listeners s)\<rparr>)"
| "apply_event EUnsubscribe s = (if 0 < ap_listeners s then Some (s\<lparr>ap_listeners := ap_listeners s - 1\<rparr>) else None)"
| "apply_event ETick s = Some (s\<lparr>ap_now := Suc (ap_now s)\<rparr>)"

inductive approval_step :: "approvals \<Rightarrow> approvals \<Rightarrow> bool" where
  event: "apply_event e s = Some t \<Longrightarrow> approval_step s t"

inductive_cases approval_stepE: "approval_step s t"

fun run_events :: "approval_event list \<Rightarrow> approvals \<Rightarrow> approvals option" where
  "run_events [] s = Some s"
| "run_events (e # es) s = (case apply_event e s of None \<Rightarrow> None | Some t \<Rightarrow> run_events es t)"

definition approvals_initial :: "approvals \<Rightarrow> bool" where
  "approvals_initial s \<longleftrightarrow> s = approvals_new"

lemma run_events_reachable:
  "reachable approvals_initial approval_step s \<Longrightarrow> run_events es s = Some t \<Longrightarrow> reachable approvals_initial approval_step t"
proof (induction es arbitrary: s)
  case (Cons e es)
  then obtain s1 where "apply_event e s = Some s1" "run_events es s1 = Some t"
    by (auto split: option.splits)
  with Cons show ?case
    by (blast intro: reachable_step approval_step.event)
qed simp

lemma reachable_new: "reachable approvals_initial approval_step approvals_new"
  by (rule reachable_init) (simp add: approvals_initial_def)

lemmas run_from_new = run_events_reachable [OF reachable_new]

section \<open>Invariant\<close>

text \<open>
  Where a task stands tells what happened to it: it waits only after its request was fanned out, and it
  finishes with an answer only if that answer was accepted for its channel.
\<close>

definition pc_ok :: "approvals \<Rightarrow> nat \<Rightarrow> approval_task \<Rightarrow> bool" where
  "pc_ok s c t \<longleftrightarrow>
     (case tk_pc t of
        Waiting _ \<Rightarrow> tk_request t \<in> set (ap_fanned s) \<and> tk_chan t \<noteq> ReceiverDropped
      | Expired \<Rightarrow> tk_request t \<in> set (ap_fanned s)
      | Finished out \<Rightarrow>
          out = NoListener \<or> tk_request t \<in> set (ap_fanned s) \<and> (out = TimedOut \<or> (c, out) \<in> set (ap_answers s))
      | _ \<Rightarrow> tk_chan t \<noteq> ReceiverDropped)"

definition task_ok :: "approvals \<Rightarrow> nat \<Rightarrow> approval_task \<Rightarrow> bool" where
  "task_ok s c t \<longleftrightarrow> (\<forall>out. tk_chan t = Sent out \<longrightarrow> (c, out) \<in> set (ap_answers s)) \<and> pc_ok s c t"

definition pending_ok :: "approvals \<Rightarrow> bool" where
  "pending_ok s \<longleftrightarrow>
     (\<forall>rid c. ap_pending s rid = Some c \<longrightarrow>
        c < length (ap_tasks s) \<and> request_id (tk_request (ap_tasks s ! c)) = rid \<and> c \<notin> fst ` set (ap_answers s))"

definition responder_ok :: "approvals \<Rightarrow> responder \<Rightarrow> bool" where
  "responder_ok s r \<longleftrightarrow>
     rs_chan r < length (ap_tasks s) \<and> request_id (tk_request (ap_tasks s ! rs_chan r)) = rs_request_id r \<and>
     (rs_chan r, rs_outcome r) \<in> set (ap_answers s)"

definition approvals_inv :: "approvals \<Rightarrow> bool" where
  "approvals_inv s \<longleftrightarrow>
     pending_ok s \<and> (\<forall>r \<in> set (ap_responders s). responder_ok s r) \<and> distinct (map fst (ap_answers s)) \<and>
     fst ` set (ap_answers s) \<subseteq> {..< length (ap_tasks s)} \<and> (\<forall>c < length (ap_tasks s). task_ok s c (ap_tasks s ! c))"

lemmas inv_defs = approvals_inv_def pending_ok_def responder_ok_def task_ok_def pc_ok_def

lemma task_ok_mono:
  "task_ok s c t \<Longrightarrow> set (ap_fanned s) \<subseteq> set (ap_fanned s') \<Longrightarrow> set (ap_answers s) \<subseteq> set (ap_answers s') \<Longrightarrow> task_ok s' c t"
  by (auto simp: task_ok_def pc_ok_def split: task_pc.splits)

lemma upd_task_simps [simp]:
  "ap_pending (upd_task c f s) = ap_pending s" "ap_responders (upd_task c f s) = ap_responders s"
  "ap_answers (upd_task c f s) = ap_answers s" "ap_fanned (upd_task c f s) = ap_fanned s"
  "ap_now (upd_task c f s) = ap_now s" "length (ap_tasks (upd_task c f s)) = length (ap_tasks s)"
  "ap_listeners (upd_task c f s) = ap_listeners s" "ap_announced (upd_task c f s) = ap_announced s"
  by (simp_all add: upd_task_def)

lemma upd_task_nth:
  "c' < length (ap_tasks s) \<Longrightarrow> ap_tasks (upd_task c f s) ! c' = (if c' = c then f (ap_tasks s ! c) else ap_tasks s ! c')"
  by (simp add: upd_task_def)

text \<open>Changing one task so that it stays sound and keeps its request keeps the invariant.\<close>

lemma upd_task_inv:
  assumes "approvals_inv s" "c < length (ap_tasks s)" "tk_request (f (ap_tasks s ! c)) = tk_request (ap_tasks s ! c)"
    and "task_ok s c (f (ap_tasks s ! c))"
  shows "approvals_inv (upd_task c f s)"
proof -
  have "request_id (tk_request (ap_tasks (upd_task c f s) ! c')) = request_id (tk_request (ap_tasks s ! c'))"
    if "c' < length (ap_tasks s)" for c'
    using that assms(3) by (simp add: upd_task_nth)
  moreover have "task_ok (upd_task c f s) c' (ap_tasks (upd_task c f s) ! c')" if "c' < length (ap_tasks s)" for c'
    using that assms by (auto simp: upd_task_nth approvals_inv_def intro: task_ok_mono)
  ultimately show ?thesis
    using assms(1) by (auto simp: approvals_inv_def pending_ok_def responder_ok_def)
qed

lemma task_ok_drop: "task_ok s c t \<Longrightarrow> task_ok s c (tk_chan_update drop_sender t)"
  by (cases "tk_chan t") (auto simp: task_ok_def pc_ok_def split: task_pc.splits)

lemma remove_pending_inv:
  assumes "approvals_inv s"
  shows "approvals_inv (remove_pending rid s)"
proof (cases "ap_pending s rid")
  case (Some c)
  let ?s = "s\<lparr>ap_pending := (ap_pending s)(rid := None)\<rparr>"
  have ok: "task_ok ?s c' (ap_tasks s ! c')" if "c' < length (ap_tasks s)" for c'
    using assms that by (auto simp: approvals_inv_def intro: task_ok_mono)
  then have "approvals_inv ?s"
    using assms by (auto simp: approvals_inv_def pending_ok_def responder_ok_def)
  moreover have "c < length (ap_tasks s)"
    using assms Some by (simp add: approvals_inv_def pending_ok_def)
  with ok have "c < length (ap_tasks s)" "task_ok ?s c (ap_tasks s ! c)"
    by blast+
  ultimately show ?thesis
    using Some by (auto simp: remove_pending_def intro!: upd_task_inv task_ok_drop)
qed (simp add: remove_pending_def assms)

lemma remove_pending_simps [simp]:
  "ap_responders (remove_pending rid s) = ap_responders s" "ap_answers (remove_pending rid s) = ap_answers s"
  "ap_fanned (remove_pending rid s) = ap_fanned s" "length (ap_tasks (remove_pending rid s)) = length (ap_tasks s)"
  "ap_pending (remove_pending rid s) = (ap_pending s)(rid := None)"
  by (auto simp: remove_pending_def split: option.split)

lemma remove_pending_nth:
  assumes "c < length (ap_tasks s)"
  shows "tk_request (ap_tasks (remove_pending rid s) ! c) = tk_request (ap_tasks s ! c)"
    "tk_pc (ap_tasks (remove_pending rid s) ! c) = tk_pc (ap_tasks s ! c)"
  using assms by (auto simp: remove_pending_def upd_task_nth split: option.split)

lemma register_inv:
  assumes "approvals_inv s"
  shows "approvals_inv (register req s)"
proof -
  let ?s = "remove_pending (request_id req) s" and ?n = "length (ap_tasks s)"
  have inv: "approvals_inv ?s"
    by (rule remove_pending_inv [OF assms])
  have "task_ok (register req s) c (ap_tasks (register req s) ! c)" if "c < length (ap_tasks (register req s))" for c
  proof (cases "c < ?n")
    case True
    then have "task_ok ?s c (ap_tasks ?s ! c)"
      using inv by (simp add: approvals_inv_def)
    with True show ?thesis
      by (auto simp: register_def Let_def nth_append intro: task_ok_mono)
  next
    case False
    with that show ?thesis
      by (auto simp: register_def Let_def nth_append task_ok_def pc_ok_def)
  qed
  with inv show ?thesis
    by (auto simp: approvals_inv_def pending_ok_def responder_ok_def register_def Let_def nth_append split: if_splits)
qed

lemma fan_out_inv:
  assumes "approvals_inv s" "c < length (ap_tasks s)" "tk_pc (ap_tasks s ! c) = Registered"
  shows "approvals_inv (fan_out c s)"
proof -
  let ?req = "tk_request (ap_tasks s ! c)"
  have t: "task_ok s c (ap_tasks s ! c)"
    using assms by (simp add: approvals_inv_def)
  have "approvals_inv (s\<lparr>ap_fanned := ap_fanned s @ [?req]\<rparr>)"
    using assms(1) by (auto simp: approvals_inv_def pending_ok_def responder_ok_def intro: task_ok_mono)
  with assms t show ?thesis
    by (auto simp: fan_out_def Let_def intro!: upd_task_inv) (auto simp: task_ok_def pc_ok_def)
qed

lemma poll_inv:
  assumes "approvals_inv s" "c < length (ap_tasks s)" "tk_pc (ap_tasks s ! c) = Waiting d" "poll c d s = Some s'"
  shows "approvals_inv s'"
proof -
  have "task_ok s c (ap_tasks s ! c)"
    using assms by (simp add: approvals_inv_def)
  with assms show ?thesis
    by (auto simp: poll_def Let_def intro!: upd_task_inv split: chan.splits if_splits) (auto simp: task_ok_def pc_ok_def)
qed

lemma clean_up_inv:
  assumes "approvals_inv s" "c < length (ap_tasks s)"
    and "tk_pc (ap_tasks s ! c) = NobodyListening \<and> out = NoListener \<or> tk_pc (ap_tasks s ! c) = Expired \<and> out = TimedOut"
  shows "approvals_inv (clean_up c out s)"
proof -
  have "task_ok s c (ap_tasks s ! c)"
    using assms by (simp add: approvals_inv_def)
  with assms show ?thesis
    by (auto simp: clean_up_def intro!: upd_task_inv remove_pending_inv)
      (auto simp: task_ok_def pc_ok_def remove_pending_nth)
qed

lemma respond_take_inv:
  assumes "approvals_inv s" "respond_take rid out s = Some s'"
  shows "approvals_inv s'"
proof -
  obtain c where c: "ap_pending s rid = Some c"
    and s': "s' = s\<lparr>ap_pending := (ap_pending s)(rid := None),
      ap_responders := ap_responders s @ [\<lparr>rs_request_id = rid, rs_chan = c, rs_outcome = out, rs_sent = False\<rparr>],
      ap_answers := ap_answers s @ [(c, out)]\<rparr>"
    using assms(2) by (auto simp: respond_take_def split: option.splits)
  have "task_ok s' c' (ap_tasks s ! c')" if "c' < length (ap_tasks s)" for c'
    using assms(1) that by (auto simp: approvals_inv_def s' intro: task_ok_mono)
  moreover have own: "c < length (ap_tasks s)" "request_id (tk_request (ap_tasks s ! c)) = rid" "c \<notin> fst ` set (ap_answers s)"
    using assms(1) c by (auto simp: approvals_inv_def pending_ok_def)
  moreover have "pending_ok s'"
    unfolding pending_ok_def
  proof (intro allI impI)
    fix rid' c'
    assume "ap_pending s' rid' = Some c'"
    then have p: "ap_pending s rid' = Some c'" "rid' \<noteq> rid"
      by (auto simp: s' split: if_splits)
    then have "c' < length (ap_tasks s)" "request_id (tk_request (ap_tasks s ! c')) = rid'" "c' \<notin> fst ` set (ap_answers s)"
      using assms(1) by (auto simp: approvals_inv_def pending_ok_def)
    with p(2) own(2) show "c' < length (ap_tasks s') \<and> request_id (tk_request (ap_tasks s' ! c')) = rid' \<and>
        c' \<notin> fst ` set (ap_answers s')"
      by (auto simp: s')
  qed
  moreover have "responder_ok s' r" if "r \<in> set (ap_responders s')" for r
    using that assms(1) own by (auto simp: approvals_inv_def responder_ok_def s')
  ultimately show ?thesis
    using assms(1) by (simp add: approvals_inv_def) (simp add: s')
qed

lemma respond_send_inv:
  assumes "approvals_inv s" "respond_send i s = Some s'"
  shows "approvals_inv s'"
proof -
  let ?r = "ap_responders s ! i" and ?s = "s\<lparr>ap_responders := (ap_responders s)[i := (ap_responders s ! i)\<lparr>rs_sent := True\<rparr>]\<rparr>"
  have i: "i < length (ap_responders s)"
    and s': "s' = upd_task (rs_chan ?r) (tk_chan_update (send_to (rs_outcome ?r))) ?s"
    using assms(2) by (auto simp: respond_send_def Let_def split: if_splits)
  have r: "responder_ok s ?r"
    using assms(1) i by (simp add: approvals_inv_def)
  have ok: "task_ok ?s c (ap_tasks s ! c)" if "c < length (ap_tasks s)" for c
    using assms(1) that by (auto simp: approvals_inv_def intro: task_ok_mono)
  have "responder_ok ?s r'" if "r' \<in> set (ap_responders ?s)" for r'
    using set_update_subset_insert [of "ap_responders s" i "?r\<lparr>rs_sent := True\<rparr>"] that r assms(1)
    by (auto simp: approvals_inv_def responder_ok_def)
  with ok have "approvals_inv ?s"
    using assms(1) by (auto simp: approvals_inv_def pending_ok_def)
  moreover have "task_ok ?s (rs_chan ?r) (tk_chan_update (send_to (rs_outcome ?r)) (ap_tasks s ! rs_chan ?r))"
    using ok [of "rs_chan ?r"] r
    by (cases "tk_chan (ap_tasks s ! rs_chan ?r)") (auto simp: responder_ok_def task_ok_def pc_ok_def split: task_pc.splits)
  ultimately show ?thesis
    unfolding s' using r by (intro upd_task_inv) (auto simp: responder_ok_def)
qed

lemma respond_announce_inv:
  assumes "approvals_inv s" "respond_announce i s = Some s'"
  shows "approvals_inv s'"
proof -
  let ?rs = "take i (ap_responders s) @ drop (Suc i) (ap_responders s)"
  obtain an where s': "s' = s\<lparr>ap_responders := ?rs, ap_announced := an\<rparr>"
    using assms(2) by (auto simp: respond_announce_def Let_def split: if_splits)
  have rs: "set ?rs \<subseteq> set (ap_responders s)"
    by (auto dest: in_set_takeD in_set_dropD)
  have "task_ok s' c (ap_tasks s ! c)" if "c < length (ap_tasks s)" for c
    using assms(1) that by (auto simp: approvals_inv_def s' intro: task_ok_mono)
  with rs show ?thesis
    using assms(1) by (auto simp: approvals_inv_def pending_ok_def responder_ok_def s')
qed

lemma environment_inv: "approvals_inv s \<Longrightarrow> approvals_inv (s\<lparr>ap_listeners := n\<rparr>) \<and> approvals_inv (s\<lparr>ap_now := n\<rparr>)"
  by (auto simp: approvals_inv_def pending_ok_def responder_ok_def intro: task_ok_mono)

lemma apply_event_inv: "apply_event e s = Some t \<Longrightarrow> approvals_inv s \<Longrightarrow> approvals_inv t"
  by (cases e)
    (auto simp: request_step_def environment_inv intro: register_inv fan_out_inv poll_inv clean_up_inv respond_take_inv
      respond_send_inv respond_announce_inv split: if_splits task_pc.splits)

interpretation approval_machine: invariant_machine approvals_initial approval_step approvals_inv
proof
  show "approvals_initial s \<Longrightarrow> approvals_inv s" for s
    by (simp add: approvals_initial_def approvals_new_def approvals_inv_def pending_ok_def)
  show "approvals_inv s \<Longrightarrow> approval_step s t \<Longrightarrow> approvals_inv t" for s t
    by (auto elim: approval_stepE intro: apply_event_inv)
qed

section \<open>Properties\<close>

text \<open>
  C10. An approval is never made up: in every interleaving of requests, responses, timeouts and listeners
  coming and going, a request that ends granted was shown to the listeners and was granted by a response
  for it, and that response is the only one the registry accepted for it.
\<close>

theorem granted_only_by_listener:
  assumes "reachable approvals_initial approval_step s" and "c < length (ap_tasks s)"
    and "tk_pc (ap_tasks s ! c) = Finished (Granted by rsn)"
  shows "tk_request (ap_tasks s ! c) \<in> set (ap_fanned s) \<and>
    (\<forall>out. (c, out) \<in> set (ap_answers s) \<longleftrightarrow> out = Granted by rsn)"
proof -
  have inv: "approvals_inv s"
    by (rule approval_machine.inv_reachable [OF assms(1)])
  then have "task_ok s c (ap_tasks s ! c)"
    using assms(2) by (simp add: approvals_inv_def)
  with assms(3) have "tk_request (ap_tasks s ! c) \<in> set (ap_fanned s)" and ans: "(c, Granted by rsn) \<in> set (ap_answers s)"
    by (auto simp: task_ok_def pc_ok_def)
  moreover have "out = Granted by rsn" if "(c, out) \<in> set (ap_answers s)" for out
    using inv ans that by (auto simp: approvals_inv_def dest: eq_key_imp_eq_value)
  ultimately show ?thesis
    by blast
qed

definition demo_request :: "string \<Rightarrow> approval_request" where
  "demo_request rid = \<lparr>request_id = rid, category = MountHostPath, ar_profile_name = ''web'', timeout_secs = 1, created_at = 0,
     ar_payload = JNull, container_hint = None\<rparr>"

lemmas run_simps = approvals_new_def register_def remove_pending_def request_step_def fan_out_def upd_task_def
  respond_take_def respond_send_def respond_announce_def poll_def clean_up_def demo_request_def Let_def

definition granting_run :: "approval_event list" where
  "granting_run = [ESubscribe, ERegister (demo_request ''a''), ERequest 0, ETake ''a'' (Granted ''cli'' None), ESend 0, EAnnounce 0, ERequest 0]"

lemma granting_run_ends:
  "\<exists>s. run_events granting_run approvals_new = Some s \<and> 0 < length (ap_tasks s) \<and>
     tk_pc (ap_tasks s ! 0) = Finished (Granted ''cli'' None)"
  by (simp add: granting_run_def run_simps)

theorem granted_only_by_listener_witness:
  "\<exists>s. run_events granting_run approvals_new = Some s \<and> tk_pc (ap_tasks s ! 0) = Finished (Granted ''cli'' None) \<and>
     tk_request (ap_tasks s ! 0) \<in> set (ap_fanned s) \<and> (0, Granted ''cli'' None) \<in> set (ap_answers s)"
proof -
  obtain s where s: "run_events granting_run approvals_new = Some s" "0 < length (ap_tasks s)"
    "tk_pc (ap_tasks s ! 0) = Finished (Granted ''cli'' None)"
    using granting_run_ends by blast
  from granted_only_by_listener [OF run_from_new [OF s(1)] s(2,3)] s show ?thesis
    by blast
qed

text \<open>The steps a request still has ahead of it; nothing another party does adds to them.\<close>

fun steps_left :: "task_pc \<Rightarrow> nat" where
  "steps_left Registered = 3"
| "steps_left (Waiting _) = 2"
| "steps_left NobodyListening = 1"
| "steps_left Expired = 1"
| "steps_left (Finished _) = 0"

definition left :: "nat \<Rightarrow> approvals \<Rightarrow> nat" where
  "left c s = steps_left (tk_pc (ap_tasks s ! c))"

definition due :: "nat \<Rightarrow> approvals \<Rightarrow> bool" where
  "due c s \<longleftrightarrow> (case tk_pc (ap_tasks s ! c) of Waiting deadline \<Rightarrow> deadline \<le> ap_now s | _ \<Rightarrow> True)"

lemma request_step_left:
  assumes "request_step c s = Some t" "c' < length (ap_tasks s)"
  shows "if c' = c then left c t < left c s else left c' t = left c' s"
  using assms
  by (auto simp: request_step_def fan_out_def poll_def clean_up_def left_def upd_task_nth remove_pending_nth Let_def
      split: if_splits task_pc.splits chan.splits)

lemma apply_event_left:
  assumes "apply_event e s = Some t" "c < length (ap_tasks s)"
  shows "left c t \<le> left c s"
proof (cases e)
  case (ERequest c')
  with assms request_step_left [of c' s t c] show ?thesis
    by (auto split: if_splits)
next
  case (ERegister req)
  with assms show ?thesis
    by (auto simp: register_def left_def Let_def nth_append remove_pending_nth)
next
  case (ESend i)
  with assms show ?thesis
    by (cases "rs_chan (ap_responders s ! i) = c")
      (auto simp: respond_send_def left_def Let_def upd_task_def nth_list_update split: if_splits)
qed (use assms in \<open>auto simp: left_def respond_take_def respond_announce_def Let_def split: option.splits if_splits\<close>)

lemma due_request_step:
  assumes "due c s" "c < length (ap_tasks s)" "0 < left c s"
  shows "\<exists>t. request_step c s = Some t \<and> left c t < left c s \<and> length (ap_tasks t) = length (ap_tasks s)"
proof -
  have "\<exists>t. request_step c s = Some t \<and> length (ap_tasks t) = length (ap_tasks s)"
    using assms by (auto simp: due_def left_def request_step_def poll_def fan_out_def clean_up_def Let_def
        split: task_pc.splits chan.splits)
  with request_step_left [of c s _ c] assms(2) show ?thesis
    by auto
qed

lemma run_ticks: "run_events (replicate n ETick) s = Some (s\<lparr>ap_now := ap_now s + n\<rparr>)"
  by (induction n arbitrary: s) simp_all

lemma run_events_append:
  "run_events (es @ es') s = (case run_events es s of None \<Rightarrow> None | Some t \<Rightarrow> run_events es' t)"
  by (induction es arbitrary: s) (auto split: option.splits)

lemma returns_alone:
  assumes "c < length (ap_tasks s)"
  shows "\<exists>es s' out. set es \<subseteq> {ETick, ERequest c} \<and> run_events es s = Some s' \<and> tk_pc (ap_tasks s' ! c) = Finished out"
  using assms
proof (induction "left c s" arbitrary: s rule: less_induct)
  case less
  show ?case
  proof (cases "left c s = 0")
    case True
    then obtain out where "tk_pc (ap_tasks s ! c) = Finished out"
      by (cases "tk_pc (ap_tasks s ! c)") (simp_all add: left_def)
    then show ?thesis
      by (intro exI [of _ "[]"]) simp
  next
    case False
    define n where "n = (case tk_pc (ap_tasks s ! c) of Waiting d \<Rightarrow> d - ap_now s | _ \<Rightarrow> 0)"
    let ?s = "s\<lparr>ap_now := ap_now s + n\<rparr>"
    have "due c ?s" "left c ?s = left c s"
      by (auto simp: due_def n_def left_def split: task_pc.split)
    then obtain t where t: "request_step c ?s = Some t" "left c t < left c s" "c < length (ap_tasks t)"
      using due_request_step [of c ?s] False less.prems by auto
    obtain es s' out where "set es \<subseteq> {ETick, ERequest c}" "run_events es t = Some s'" "tk_pc (ap_tasks s' ! c) = Finished out"
      using less.hyps [OF t(2,3)] by blast
    with t(1) show ?thesis
      by (intro exI [of _ "replicate n ETick @ ERequest c # es"] exI [of _ s'])
        (auto simp: run_events_append run_ticks)
  qed
qed

text \<open>
  C19. A request always returns: with nothing but the passing of time and its own steps it reaches its end,
  whatever state the listeners and the other requests are in, and no step of anyone takes it further
  away from its end.
\<close>

theorem request_always_returns:
  assumes "c < length (ap_tasks s)"
  shows "(\<exists>es s' out. set es \<subseteq> {ETick, ERequest c} \<and> run_events es s = Some s' \<and> tk_pc (ap_tasks s' ! c) = Finished out) \<and>
    (\<forall>t. approval_step s t \<longrightarrow> left c t \<le> left c s)"
  using returns_alone [OF assms] assms by (blast elim: approval_stepE intro: apply_event_left)

theorem request_always_returns_witness:
  "\<exists>es s' out. set es \<subseteq> {ETick, ERequest 0} \<and> run_events es (register (demo_request ''a'') approvals_new) = Some s' \<and>
     tk_pc (ap_tasks s' ! 0) = Finished out"
proof -
  have "0 < length (ap_tasks (register (demo_request ''a'') approvals_new))"
    by (simp add: register_def Let_def)
  from request_always_returns [OF this] show ?thesis
    by blast
qed

section \<open>Races\<close>

text \<open>
  A response that arrives between a request's timeout and the removal of its entry is accepted, returns
  true and is announced to the other listeners as granted, while the request ends timed out.
\<close>

definition late_response_run :: "approval_event list" where
  "late_response_run = [ESubscribe, ERegister (demo_request ''a''), ERequest 0, ETick, ERequest 0,
     ETake ''a'' (Granted ''cli'' None), ESend 0, EAnnounce 0, ERequest 0]"

lemma late_response_announced_granted:
  "\<exists>s. run_events late_response_run approvals_new = Some s \<and> reachable approvals_initial approval_step s \<and>
     \<lparr>resolved_id = ''a'', resolved_outcome = Granted ''cli'' None\<rparr> \<in> set (ap_announced s) \<and>
     tk_pc (ap_tasks s ! 0) = Finished TimedOut"
proof -
  have "\<exists>s. run_events late_response_run approvals_new = Some s \<and>
     \<lparr>resolved_id = ''a'', resolved_outcome = Granted ''cli'' None\<rparr> \<in> set (ap_announced s) \<and>
     tk_pc (ap_tasks s ! 0) = Finished TimedOut"
    by (simp add: late_response_run_def run_simps)
  then show ?thesis
    using run_from_new by blast
qed

text \<open>Reusing an id while its request waits ends the first request at once, as timed out.\<close>

lemma reused_id_ends_first_request:
  "\<exists>s. run_events [ESubscribe, ERegister (demo_request ''a''), ERequest 0, ERegister (demo_request ''a''), ERequest 0]
      approvals_new = Some s \<and> ap_now s = 0 \<and> tk_pc (ap_tasks s ! 0) = Finished TimedOut"
  by (simp add: run_simps)

end
