(* ===== verification/Files.thy ===== *)
theory Files
  imports Text_Split
begin

text \<open>
  The part of \<^verbatim>\<open>std::path\<close> and \<^verbatim>\<open>std::fs\<close> the plugin, profile and snapshot code uses: joining paths, extensions, the file a
  path names, and a file system whose reads and writes may fail. Symbolic links are not modelled, so a
  path names the file its components lead to with \<^verbatim>\<open>..\<close> going up one level. Shown: joining a plain
  file name stays in the directory.
\<close>

section \<open>Paths\<close>

fun path_parts :: "string \<Rightarrow> string list" where
  "path_parts [] = [[]]"
| "path_parts (c # cs) =
     (if c = CHR ''/'' then [] # path_parts cs
      else case path_parts cs of [] \<Rightarrow> [[c]] | p # ps \<Rightarrow> (c # p) # ps)"

definition is_absolute :: "string \<Rightarrow> bool" where
  "is_absolute p \<longleftrightarrow> (case p of c # _ \<Rightarrow> c = CHR ''/'' | [] \<Rightarrow> False)"

definition path_join :: "string \<Rightarrow> string \<Rightarrow> string" where
  "path_join p q =
     (if is_absolute q then q
      else if p = [] \<or> last p = CHR ''/'' then p @ q
      else p @ CHR ''/'' # q)"

text \<open>The components of a path without empty ones and \<^verbatim>\<open>.\<close>, and the place they lead to.\<close>

definition components :: "string \<Rightarrow> string list" where
  "components p = filter (\<lambda>c. c \<noteq> [] \<and> c \<noteq> ''.'') (path_parts p)"

fun walk :: "string list \<Rightarrow> string list \<Rightarrow> string list" where
  "walk here [] = here"
| "walk here (c # cs) = walk (if c = ''..'' then butlast here else here @ [c]) cs"

definition with_extension :: "string \<Rightarrow> string \<Rightarrow> string" where
  "with_extension path ext =
     (let (dir, name) = (case rsplit_once (CHR ''/'') path of Some (d, f) \<Rightarrow> (d @ ''/'', f) | None \<Rightarrow> ([], path));
          stem = (case rsplit_once (CHR ''.'') name of
                    Some (b, _) \<Rightarrow> if b = [] then name else b
                  | None \<Rightarrow> name) in
      dir @ stem @ CHR ''.'' # ext)"

lemma path_parts_nonempty [simp]: "path_parts p \<noteq> []"
  by (induction p) (auto split: list.split)

lemma path_parts_append: "path_parts (p @ CHR ''/'' # q) = path_parts p @ path_parts q"
proof (induction p)
  case (Cons c p)
  then show ?case
    by (cases "path_parts p") auto
qed simp

lemma path_parts_plain: "CHR ''/'' \<notin> set q \<Longrightarrow> path_parts q = [q]"
  by (induction q) auto

lemma walk_append: "walk here (cs @ ds) = walk (walk here cs) ds"
  by (induction cs arbitrary: here) auto

text \<open>A name that names an entry of a directory and nothing else.\<close>

definition plain_name :: "string \<Rightarrow> bool" where
  "plain_name q \<longleftrightarrow> q \<noteq> [] \<and> CHR ''/'' \<notin> set q \<and> q \<noteq> ''.'' \<and> q \<noteq> ''..''"

lemma components_join:
  assumes "plain_name q"
  shows "components (path_join p q) = components p @ [q]"
proof -
  have q: "\<not> is_absolute q" "components q = [q]"
    using assms by (auto simp: plain_name_def is_absolute_def components_def path_parts_plain split: list.split)
  consider "p = []" | p' where "p = p' @ ''/''" | "p \<noteq> []" "last p \<noteq> CHR ''/''"
    by (metis append_butlast_last_id)
  then show ?thesis
  proof cases
    case 1
    with q show ?thesis
      by (simp add: path_join_def components_def)
  next
    case 2
    then have "path_parts (p @ q) = path_parts p' @ path_parts q" "path_parts p = path_parts p' @ [[]]"
      using path_parts_append [of p' q] path_parts_append [of p' "[]"] by simp_all
    with 2 q show ?thesis
      by (simp add: path_join_def components_def)
  next
    case 3
    with q show ?thesis
      by (simp add: path_join_def components_def path_parts_append)
  qed
qed

section \<open>The file system\<close>

datatype node = Dir | RegFile string

record files =
  cwd :: "string list"
  nodes :: "string list \<rightharpoonup> node"
  read_err :: "string list \<Rightarrow> string option"
  write_err :: "string list \<Rightarrow> string option"

definition place :: "files \<Rightarrow> string \<Rightarrow> string list" where
  "place f p = walk (if is_absolute p then [] else cwd f) (components p)"

definition is_file :: "files \<Rightarrow> string \<Rightarrow> bool" where
  "is_file f p = (case nodes f (place f p) of Some (RegFile _) \<Rightarrow> True | _ \<Rightarrow> False)"

definition is_dir :: "files \<Rightarrow> string \<Rightarrow> bool" where
  "is_dir f p = (nodes f (place f p) = Some Dir)"

definition exists_path :: "files \<Rightarrow> string \<Rightarrow> bool" where
  "exists_path f p = (nodes f (place f p) \<noteq> None)"

text \<open>\<^verbatim>\<open>fs::read_to_string\<close> (a file that is not UTF-8 is one that cannot be read) and \<^verbatim>\<open>fs::write\<close>.\<close>

definition read_file :: "files \<Rightarrow> string \<Rightarrow> string + string" where
  "read_file f p =
     (case nodes f (place f p) of
        Some (RegFile body) \<Rightarrow>
          (case read_err f (place f p) of Some e \<Rightarrow> Inl e | None \<Rightarrow> Inr body)
      | _ \<Rightarrow> Inl ''No such file or directory (os error 2)'')"

definition write_file :: "string \<Rightarrow> string \<Rightarrow> (files, string, unit) act" where
  "write_file p body f =
     (case write_err f (place f p) of
        Some e \<Rightarrow> (Inl e, f)
      | None \<Rightarrow> (Inr (), f\<lparr>nodes := (nodes f)(place f p \<mapsto> RegFile body)\<rparr>))"

text \<open>\<^verbatim>\<open>create_dir_all\<close>, \<^verbatim>\<open>remove_dir_all\<close> and the \<^verbatim>\<open>rename\<close> of a regular file.\<close>

definition create_dir_all :: "string \<Rightarrow> (files, string, unit) act" where
  "create_dir_all p f =
     (let pl = place f p in
      case write_err f pl of
        Some e \<Rightarrow> (Inl e, f)
      | None \<Rightarrow>
          if list_ex (\<lambda>n. case nodes f (take n pl) of Some (RegFile _) \<Rightarrow> True | _ \<Rightarrow> False) [0 ..< Suc (length pl)]
          then (Inl ''Not a directory (os error 20)'', f)
          else (Inr (), f\<lparr>nodes := (\<lambda>q. if take (length q) pl = q then Some Dir else nodes f q)\<rparr>))"

definition remove_dir_all :: "string \<Rightarrow> (files, string, unit) act" where
  "remove_dir_all p f =
     (let pl = place f p in
      if nodes f pl = None then (Inl ''No such file or directory (os error 2)'', f)
      else case write_err f pl of
        Some e \<Rightarrow> (Inl e, f)
      | None \<Rightarrow> (Inr (), f\<lparr>nodes := (\<lambda>q. if take (length pl) q = pl then None else nodes f q)\<rparr>))"

definition rename_file :: "string \<Rightarrow> string \<Rightarrow> (files, string, unit) act" where
  "rename_file src dst f =
     (case (write_err f (place f dst), nodes f (place f src), nodes f (place f dst)) of
        (Some e, _, _) \<Rightarrow> (Inl e, f)
      | (None, Some (RegFile body), Some Dir) \<Rightarrow> (Inl ''Is a directory (os error 21)'', f)
      | (None, Some (RegFile body), _) \<Rightarrow>
          (Inr (), f\<lparr>nodes := (nodes f)(place f src := None, place f dst := Some (RegFile body))\<rparr>)
      | _ \<Rightarrow> (Inl ''No such file or directory (os error 2)'', f))"

lemma place_nodes [simp]: "place (f\<lparr>nodes := n\<rparr>) p = place f p"
  by (simp add: place_def)

lemma place_cwd: "cwd f' = cwd f \<Longrightarrow> place f' p = place f p"
  by (simp add: place_def)

text \<open>What may change on disk, as a predicate on a place and its new content.\<close>

definition only_changes :: "(string list \<Rightarrow> node option \<Rightarrow> bool) \<Rightarrow> files \<Rightarrow> files \<Rightarrow> bool" where
  "only_changes W f f' \<longleftrightarrow> cwd f' = cwd f \<and> (\<forall>q. nodes f' q = nodes f q \<or> W q (nodes f' q))"

lemma place_join:
  assumes "plain_name q"
  shows "place f (path_join p q) = place f p @ [q]"
proof -
  have "\<not> is_absolute q"
    using assms by (auto simp: plain_name_def is_absolute_def split: list.split)
  then have "is_absolute (path_join p q) = is_absolute p"
    by (auto simp: path_join_def is_absolute_def split: list.split)
  with assms show ?thesis
    by (simp add: place_def components_join walk_append plain_name_def)
qed

text \<open>What the operations leave alone.\<close>

lemma read_file_node: "read_file f p = Inr body \<Longrightarrow> nodes f (place f p) = Some (RegFile body)"
  by (auto simp: read_file_def split: option.splits node.splits)

lemma create_dir_all_frame:
  assumes "create_dir_all p f = (Inr (), f')"
  shows "cwd f' = cwd f" "nodes f q = Some (RegFile b) \<Longrightarrow> nodes f' q = Some (RegFile b)"
proof -
  let ?pl = "place f p"
  have f': "f' = f\<lparr>nodes := (\<lambda>q. if take (length q) ?pl = q then Some Dir else nodes f q)\<rparr>"
    and none: "\<not> list_ex (\<lambda>n. case nodes f (take n ?pl) of Some (RegFile _) \<Rightarrow> True | _ \<Rightarrow> False) [0 ..< Suc (length ?pl)]"
    using assms by (auto simp: create_dir_all_def Let_def split: option.splits if_splits)
  show "cwd f' = cwd f"
    by (simp add: f')
  assume b: "nodes f q = Some (RegFile b)"
  have "take (length q) ?pl \<noteq> q"
  proof
    assume t: "take (length q) ?pl = q"
    then have "length q \<le> length ?pl"
      by (metis length_take min.absorb_iff2 nat_le_linear)
    then have "length q \<in> set [0 ..< Suc (length ?pl)]"
      by (simp del: upt_Suc)
    moreover have "case nodes f (take (length q) ?pl) of Some (RegFile _) \<Rightarrow> True | _ \<Rightarrow> False"
      using t b by simp
    ultimately show False
      using none unfolding list_ex_iff by blast
  qed
  with b show "nodes f' q = Some (RegFile b)"
    by (simp add: f')
qed

lemma create_dir_keeps_entries:
  assumes "create_dir_all dir f = (Inr (), f')"
  shows "cwd f' = cwd f" "nodes f' (place f dir @ [n]) = nodes f (place f dir @ [n])"
  using assms by (auto simp: create_dir_all_def Let_def split: option.splits if_splits)

lemma rename_file_Inr:
  assumes "rename_file src dst f = (Inr (), f')"
  shows "\<exists>body. nodes f (place f src) = Some (RegFile body) \<and>
    f' = f\<lparr>nodes := (nodes f)(place f src := None, place f dst := Some (RegFile body))\<rparr>"
  using assms by (auto simp: rename_file_def split: option.splits node.splits)

lemma write_file_Inr: "write_file p body f = (Inr (), f') \<Longrightarrow> f' = f\<lparr>nodes := (nodes f)(place f p \<mapsto> RegFile body)\<rparr>"
  by (auto simp: write_file_def split: option.splits)

lemma file_op_Inl: "write_file p body f = (Inl e, f') \<Longrightarrow> f' = f" "rename_file src dst f = (Inl e, f') \<Longrightarrow> f' = f"
  by (auto simp: write_file_def rename_file_def split: option.splits node.splits)

text \<open>Replacing the extension of a joined file name replaces it in the place.\<close>

lemma with_extension_name:
  assumes "CHR ''/'' \<notin> set n" "rsplit_once (CHR ''.'') n = Some (stem, e)" "stem \<noteq> []"
    and "d = [] \<or> (\<exists>d'. d = d' @ ''/'')"
  shows "with_extension (d @ n) ext = d @ stem @ CHR ''.'' # ext"
proof -
  have "(case rsplit_once (CHR ''/'') (d @ n) of Some (d, f) \<Rightarrow> (d @ ''/'', f) | None \<Rightarrow> ([], d @ n)) = (d, n)"
    using assms(1,4) by auto
  then show ?thesis
    using assms(2,3) by (simp add: with_extension_def)
qed

lemma path_join_prefix:
  obtains d where "d = [] \<or> (\<exists>d'. d = d' @ ''/'')" "\<And>m. \<not> is_absolute m \<Longrightarrow> path_join p m = d @ m"
proof
  let ?d = "if p = [] \<or> last p = CHR ''/'' then p else p @ ''/''"
  show "?d = [] \<or> (\<exists>d'. ?d = d' @ ''/'')"
    by (cases p rule: rev_cases) auto
  show "\<not> is_absolute m \<Longrightarrow> path_join p m = ?d @ m" for m
    by (simp add: path_join_def)
qed

lemma with_extension_join:
  assumes "plain_name (stem @ CHR ''.'' # e)" "stem \<noteq> []" "CHR ''.'' \<notin> set e"
  shows "with_extension (path_join p (stem @ CHR ''.'' # e)) ext = path_join p (stem @ CHR ''.'' # ext)"
proof -
  have sl: "CHR ''/'' \<notin> set (stem @ CHR ''.'' # e)"
    using assms(1) by (simp add: plain_name_def)
  have rel: "\<not> is_absolute (stem @ CHR ''.'' # x)" for x
    using assms(2) sl by (cases stem) (auto simp: is_absolute_def)
  obtain d where d: "d = [] \<or> (\<exists>d'. d = d' @ ''/'')" "\<And>m. \<not> is_absolute m \<Longrightarrow> path_join p m = d @ m"
    using path_join_prefix [of p] by blast
  show ?thesis
    unfolding d(2) [OF rel] by (rule with_extension_name [OF sl rsplit_once_append [OF assms(3)] assms(2) d(1)])
qed

end
