(* ===== verification/Key_Registry.thy ===== *)
theory Key_Registry
  imports Files Common Plugin_Registry Audit_Log
begin

text \<open>
  The trusted publisher keys (\<^verbatim>\<open>linpodx-plugin/src/key_registry.rs\<close>): looking a key up in the configured
  directories, revoking it with a marker file beside it, applying revocations that arrive from the
  cluster, and listing. Parsing and printing of the marker file and SHA-256 are parameters. Shown:
  a lookup never leaves the key directories, a revoked key is never handed out again, and remote
  revocations converge.
\<close>

section \<open>Model\<close>

datatype key_registry_error =
  KIo string
| KNotFound string
| KReadFailed string string string
| KRevoked string string

definition sq :: "string \<Rightarrow> string" where
  "sq s = [CHR 0x27] @ s @ [CHR 0x27]"

fun key_registry_error_display :: "key_registry_error \<Rightarrow> string" where
  "key_registry_error_display (KIo e) = ''io error reading key registry: '' @ e"
| "key_registry_error_display (KNotFound p) =
     ''publisher '' @ sq p @ '' has no key in any of the configured registries''"
| "key_registry_error_display (KReadFailed p path e) =
     ''publisher '' @ sq p @ '' resolved to '' @ sq path @ '' but read failed: '' @ e"
| "key_registry_error_display (KRevoked p r) = ''publisher '' @ sq p @ '' key has been revoked: '' @ r"

definition PEM_EXT :: string where "PEM_EXT = ''pem''"
definition REVOKED_EXT :: string where "REVOKED_EXT = ''revoked''"

record marker_file =
  mk_revoked_at :: timestamp
  mk_reason :: string

record key_env =
  marker_to_string :: "marker_file \<Rightarrow> string + string"
  marker_from_str :: "string \<Rightarrow> marker_file option"
  key_sha256 :: "byte list \<Rightarrow> byte list"
  datetime_from_timestamp :: "int \<Rightarrow> timestamp option"

definition ascii_alphanumeric :: "char \<Rightarrow> bool" where
  "ascii_alphanumeric c \<longleftrightarrow>
     (let n = (of_char c :: nat) in (48 \<le> n \<and> n \<le> 57) \<or> (65 \<le> n \<and> n \<le> 90) \<or> (97 \<le> n \<and> n \<le> 122))"

definition sanitize_stem :: "string \<Rightarrow> key_registry_error + string" where
  "sanitize_stem publisher =
     (let trimmed = trim publisher in
      if trimmed = [] then Inl (KNotFound ''(empty publisher)'')
      else if \<not> list_all (\<lambda>c. ascii_alphanumeric c \<or> c = CHR ''-'' \<or> c = CHR ''_'' \<or> c = CHR ''.'') trimmed \<or>
              starts_with trimmed ''.'' \<or> contains_str trimmed ''..''
      then Inl (KNotFound (''publisher name '' @ sq publisher @ '' contains disallowed characters''))
      else Inr trimmed)"

definition pem_candidate :: "string \<Rightarrow> string \<Rightarrow> string" where
  "pem_candidate root stem = path_join root (stem @ CHR ''.'' # PEM_EXT)"

definition resolve_path :: "string list \<Rightarrow> string \<Rightarrow> files \<Rightarrow> key_registry_error + string" where
  "resolve_path roots publisher f =
     (case sanitize_stem publisher of
        Inl e \<Rightarrow> Inl e
      | Inr stem \<Rightarrow>
          (case find (\<lambda>root. is_file f (pem_candidate root stem)) roots of
             Some root \<Rightarrow> Inr (pem_candidate root stem)
           | None \<Rightarrow> Inl (KNotFound publisher)))"

definition revoked_marker_for :: "string \<Rightarrow> string" where
  "revoked_marker_for pem = with_extension pem REVOKED_EXT"

definition read_marker_reason :: "key_env \<Rightarrow> files \<Rightarrow> string \<Rightarrow> string option" where
  "read_marker_reason env f marker =
     (case read_file f marker of
        Inl _ \<Rightarrow> None
      | Inr body \<Rightarrow> map_option mk_reason (marker_from_str env body))"

definition load_pem :: "key_env \<Rightarrow> string list \<Rightarrow> string \<Rightarrow> files \<Rightarrow> key_registry_error + string" where
  "load_pem env roots publisher f =
     (case resolve_path roots publisher f of
        Inl e \<Rightarrow> Inl e
      | Inr path \<Rightarrow>
          (let marker = revoked_marker_for path in
           if is_file f marker then
             Inl (KRevoked publisher
               (case read_marker_reason env f marker of Some r \<Rightarrow> r | None \<Rightarrow> ''unspecified''))
           else case read_file f path of
             Inl e \<Rightarrow> Inl (KReadFailed publisher path e)
           | Inr pem \<Rightarrow> Inr pem))"

definition write_marker ::
  "key_env \<Rightarrow> string list \<Rightarrow> string \<Rightarrow> string option \<Rightarrow> timestamp \<Rightarrow> (files, key_registry_error, unit) act" where
  "write_marker env roots publisher rsn revoked_at f =
     (case resolve_path roots publisher f of
        Inl e \<Rightarrow> (Inl e, f)
      | Inr path \<Rightarrow>
          (let marker = revoked_marker_for path in
           case marker_to_string env \<lparr>mk_revoked_at = revoked_at,
                  mk_reason = (case rsn of Some r \<Rightarrow> r | None \<Rightarrow> ''unspecified'')\<rparr> of
             Inl e \<Rightarrow> (Inl (KReadFailed publisher marker (''serialize revocation marker: '' @ e)), f)
           | Inr body \<Rightarrow>
               (case write_file marker body f of
                  (Inl e, f') \<Rightarrow> (Inl (KReadFailed publisher marker e), f')
                | (Inr _, f') \<Rightarrow> (Inr (), f'))))"

definition revoke ::
  "key_env \<Rightarrow> string list \<Rightarrow> timestamp \<Rightarrow> string \<Rightarrow> string option \<Rightarrow> (files, key_registry_error, unit) act" where
  "revoke env roots now publisher rsn = write_marker env roots publisher rsn now"

definition local_marker :: "key_env \<Rightarrow> files \<Rightarrow> string \<Rightarrow> marker_file option" where
  "local_marker env f marker =
     (if is_file f marker then
        (case read_file f marker of Inl _ \<Rightarrow> None | Inr body \<Rightarrow> marker_from_str env body)
      else None)"

definition apply_remote_revocation ::
  "key_env \<Rightarrow> string list \<Rightarrow> timestamp \<Rightarrow> string \<Rightarrow> string option \<Rightarrow> int
     \<Rightarrow> (files, key_registry_error, bool) act" where
  "apply_remote_revocation env roots now publisher rsn revoked_at_unix f =
     (let incoming = (case datetime_from_timestamp env revoked_at_unix of Some t \<Rightarrow> t | None \<Rightarrow> now) in
      case resolve_path roots publisher f of
        Inl (KNotFound _) \<Rightarrow> (Inr False, f)
      | Inl e \<Rightarrow> (Inl e, f)
      | Inr path \<Rightarrow>
          (let older = (case local_marker env f (revoked_marker_for path) of
                          Some m \<Rightarrow> incoming \<le> mk_revoked_at m
                        | None \<Rightarrow> False) in
           if older then (Inr False, f)
           else bindE (write_marker env roots publisher rsn incoming) (\<lambda>_. ret True) f))"

record key_entry =
  ke_publisher :: string
  ke_fingerprint :: string
  ke_status :: string
  ke_revoked_at :: "timestamp option"
  ke_reason :: "string option"

definition sha256_lower_hex :: "key_env \<Rightarrow> byte list \<Rightarrow> string" where
  "sha256_lower_hex env bs = hex_encode (key_sha256 env bs)"

definition pem_stem :: "string \<Rightarrow> string option" where
  "pem_stem name =
     (case rsplit_once (CHR ''.'') name of
        Some (stem, ext) \<Rightarrow> if stem \<noteq> [] \<and> ext = PEM_EXT then Some stem else None
      | None \<Rightarrow> None)"

definition key_entry_of :: "key_env \<Rightarrow> files \<Rightarrow> string \<Rightarrow> string \<Rightarrow> string \<Rightarrow> key_entry" where
  "key_entry_of env f path stem body =
     (let marker = revoked_marker_for path;
          parsed = (case read_file f marker of Inl _ \<Rightarrow> None | Inr b \<Rightarrow> marker_from_str env b) in
      \<lparr>ke_publisher = stem, ke_fingerprint = sha256_lower_hex env (as_bytes body),
       ke_status = (if is_file f marker then ''revoked'' else ''active''),
       ke_revoked_at = (if is_file f marker then map_option mk_revoked_at parsed else None),
       ke_reason = (if is_file f marker
                    then Some (case parsed of Some m \<Rightarrow> mk_reason m | None \<Rightarrow> ''unspecified'') else None)\<rparr>)"

fun list_root ::
  "key_env \<Rightarrow> files \<Rightarrow> string \<Rightarrow> string list \<Rightarrow> string list \<times> key_entry list \<Rightarrow> string list \<times> key_entry list" where
  "list_root env f root [] acc = acc"
| "list_root env f root (name # names) (seen, out) =
     list_root env f root names
       (case pem_stem name of
          None \<Rightarrow> (seen, out)
        | Some stem \<Rightarrow>
            if stem \<in> set seen then (seen, out)
            else (case read_file f (path_join root name) of
                    Inl _ \<Rightarrow> (stem # seen, out)
                  | Inr body \<Rightarrow> (stem # seen, out @ [key_entry_of env f (path_join root name) stem body])))"

fun list_roots ::
  "key_env \<Rightarrow> files \<Rightarrow> (string \<Rightarrow> string list option) \<Rightarrow> string list \<Rightarrow> string list \<times> key_entry list
     \<Rightarrow> string list \<times> key_entry list" where
  "list_roots env f read_dir [] acc = acc"
| "list_roots env f read_dir (root # roots) acc =
     list_roots env f read_dir roots
       (case read_dir root of None \<Rightarrow> acc | Some names \<Rightarrow> list_root env f root names acc)"

definition list_keys ::
  "key_env \<Rightarrow> files \<Rightarrow> (string \<Rightarrow> string list option) \<Rightarrow> string list \<Rightarrow> key_entry list" where
  "list_keys env f read_dir roots = sort_key ke_publisher (snd (list_roots env f read_dir roots ([], [])))"

text \<open>The directories that are searched, from the environment variables.\<close>

definition default_dirs :: "(string \<Rightarrow> string option) \<Rightarrow> string list" where
  "default_dirs var =
     (case var ''LINPODX_PLUGIN_KEYS_DIR'' of Some p \<Rightarrow> if p \<noteq> [] then [p] else [] | None \<Rightarrow> []) @
     (case var ''XDG_CONFIG_HOME'' of
        Some p \<Rightarrow> if p \<noteq> [] then [path_join (path_join p ''linpodx'') ''plugin-keys''] else [] | None \<Rightarrow> []) @
     (case var ''HOME'' of
        Some p \<Rightarrow> if p \<noteq> [] then [path_join (path_join (path_join p ''.config'') ''linpodx'') ''plugin-keys''] else []
      | None \<Rightarrow> []) @
     [''/etc/linpodx/plugin-keys'']"

section \<open>Lookups stay in the key directories\<close>

lemma sanitized:
  assumes "sanitize_stem publisher = Inr stem"
  shows "stem \<noteq> []" "CHR ''/'' \<notin> set stem" "hd stem \<noteq> CHR ''.''"
proof -
  have s: "stem \<noteq> []" "list_all (\<lambda>c. ascii_alphanumeric c \<or> c = CHR ''-'' \<or> c = CHR ''_'' \<or> c = CHR ''.'') stem"
    "\<not> starts_with stem ''.''"
    using assms by (auto simp: sanitize_stem_def Let_def split: if_splits)
  have "\<not> ascii_alphanumeric (CHR ''/'')"
    by (simp add: ascii_alphanumeric_def Let_def)
  with s(2) show "CHR ''/'' \<notin> set stem"
    by (auto simp: list_all_iff)
  show "stem \<noteq> []" "hd stem \<noteq> CHR ''.''"
    using s(1,3) by (cases stem; simp add: starts_with_def)+
qed

lemma sanitized_plain:
  assumes "sanitize_stem publisher = Inr stem" "CHR ''/'' \<notin> set e"
  shows "plain_name (stem @ CHR ''.'' # e)"
  using sanitized [OF assms(1)] assms(2) by (cases stem) (auto simp: plain_name_def)

lemma ext_facts: "CHR ''/'' \<notin> set PEM_EXT" "CHR ''/'' \<notin> set REVOKED_EXT" "CHR ''.'' \<notin> set PEM_EXT"
  by (simp_all add: PEM_EXT_def REVOKED_EXT_def)

lemma place_pem:
  "sanitize_stem publisher = Inr stem \<Longrightarrow> place f (pem_candidate root stem) = place f root @ [stem @ CHR ''.'' # PEM_EXT]"
  by (simp add: pem_candidate_def place_join sanitized_plain ext_facts)

lemma place_marker:
  assumes "sanitize_stem publisher = Inr stem"
  shows "place f (revoked_marker_for (pem_candidate root stem)) = place f root @ [stem @ CHR ''.'' # REVOKED_EXT]"
  using sanitized_plain [OF assms] sanitized(1) [OF assms]
  by (simp add: revoked_marker_for_def pem_candidate_def with_extension_join ext_facts place_join)

lemma resolve_path_Inr:
  assumes "resolve_path roots publisher f = Inr path"
  obtains root stem where "sanitize_stem publisher = Inr stem" "root \<in> set roots" "path = pem_candidate root stem"
    "is_file f path" "find (\<lambda>root. is_file f (pem_candidate root stem)) roots = Some root"
proof -
  obtain stem where stem: "sanitize_stem publisher = Inr stem"
    using assms by (auto simp: resolve_path_def split: sum.splits)
  then obtain root where root: "find (\<lambda>root. is_file f (pem_candidate root stem)) roots = Some root"
    and path: "path = pem_candidate root stem"
    using assms by (auto simp: resolve_path_def split: option.splits)
  have "root \<in> set roots" "is_file f path"
    using root path by (auto simp: find_Some_iff)
  with that stem root path show ?thesis
    by blast
qed

text \<open>
  C33. Whatever a manifest claims as its publisher, the key that is looked up is a file directly inside
  one of the configured key directories: no publisher name leads out of them.
\<close>

theorem key_lookup_stays_in_roots:
  assumes "resolve_path roots publisher f = Inr path"
  shows "\<exists>root \<in> set roots. \<exists>name. place f path = place f root @ [name] \<and> CHR ''/'' \<notin> set name \<and> is_file f path"
  using assms
proof (rule resolve_path_Inr)
  fix root stem
  assume s: "sanitize_stem publisher = Inr stem" "root \<in> set roots" "path = pem_candidate root stem" "is_file f path"
  have "CHR ''/'' \<notin> set (stem @ CHR ''.'' # PEM_EXT)"
    using sanitized(2) [OF s(1)] ext_facts(1) by simp
  with s place_pem [OF s(1)] show ?thesis
    by blast
qed

definition demo_files :: files where
  "demo_files = \<lparr>cwd = [], nodes = [[''k'', ''acme.pem''] \<mapsto> RegFile ''PEM''], read_err = (\<lambda>_. None), write_err = (\<lambda>_. None)\<rparr>"

lemma demo_resolve: "resolve_path [''/k''] ''acme'' demo_files = Inr ''/k/acme.pem''"
  by code_simp

theorem key_lookup_stays_in_roots_witness:
  "resolve_path [''/k''] ''acme'' demo_files = Inr ''/k/acme.pem'' \<and>
   (\<exists>name. place demo_files ''/k/acme.pem'' = place demo_files ''/k'' @ [name] \<and> CHR ''/'' \<notin> set name)"
  using key_lookup_stays_in_roots [OF demo_resolve] demo_resolve by auto

section \<open>A revoked key is not handed out again\<close>

text \<open>All the registry ever writes is a marker beside a key.\<close>

definition marker_added :: "files \<Rightarrow> files \<Rightarrow> bool" where
  "marker_added f f' \<longleftrightarrow>
     (\<exists>here stem body. f' = f\<lparr>nodes := (nodes f)(here @ [stem @ CHR ''.'' # REVOKED_EXT] \<mapsto> RegFile body)\<rparr>)"

lemma write_marker_Inr:
  assumes "write_marker env roots publisher rsn t f = (Inr (), f')"
  obtains root stem body where "sanitize_stem publisher = Inr stem"
    "find (\<lambda>root. is_file f (pem_candidate root stem)) roots = Some root"
    "marker_to_string env \<lparr>mk_revoked_at = t, mk_reason = (case rsn of Some r \<Rightarrow> r | None \<Rightarrow> ''unspecified'')\<rparr> = Inr body"
    "f' = f\<lparr>nodes := (nodes f)(place f (revoked_marker_for (pem_candidate root stem)) \<mapsto> RegFile body)\<rparr>"
proof -
  obtain path where p: "resolve_path roots publisher f = Inr path"
    using assms by (auto simp: write_marker_def split: sum.splits)
  then obtain root stem where "sanitize_stem publisher = Inr stem" "path = pem_candidate root stem"
    "find (\<lambda>root. is_file f (pem_candidate root stem)) roots = Some root"
    by (rule resolve_path_Inr)
  with that assms p show ?thesis
    by (auto simp: write_marker_def write_file_def Let_def split: sum.splits option.splits prod.splits)
qed

lemma write_marker_added:
  assumes "write_marker env roots publisher rsn t f = (r, f')"
  shows "f' = f \<or> marker_added f f'"
proof (cases r)
  case (Inl e)
  with assms show ?thesis
    by (auto simp: write_marker_def write_file_def Let_def split: sum.splits option.splits prod.splits)
next
  case (Inr u)
  with assms have "write_marker env roots publisher rsn t f = (Inr (), f')"
    by simp
  then have "marker_added f f'"
  proof (rule write_marker_Inr)
    fix root stem body
    assume "sanitize_stem publisher = Inr stem"
      "f' = f\<lparr>nodes := (nodes f)(place f (revoked_marker_for (pem_candidate root stem)) \<mapsto> RegFile body)\<rparr>"
    then show ?thesis
      unfolding marker_added_def by (auto simp: place_marker)
  qed
  then show ?thesis ..
qed

lemma apply_remote_added:
  "apply_remote_revocation env roots now publisher rsn u f = (r, f') \<Longrightarrow> f' = f \<or> marker_added f f'"
  by (auto simp: apply_remote_revocation_def Let_def bindE_apply dest!: write_marker_added
      split: sum.splits option.splits prod.splits key_registry_error.splits if_splits)

lemma marker_added_file: "marker_added f f' \<Longrightarrow> is_file f p \<Longrightarrow> is_file f' p"
  by (auto simp: marker_added_def is_file_def split: option.splits node.splits)

lemma marker_is_no_pem: "stem @ CHR ''.'' # REVOKED_EXT \<noteq> stem' @ CHR ''.'' # PEM_EXT"
proof
  assume "stem @ CHR ''.'' # REVOKED_EXT = stem' @ CHR ''.'' # PEM_EXT"
  then have "last (stem @ CHR ''.'' # REVOKED_EXT) = last (stem' @ CHR ''.'' # PEM_EXT)"
    by simp
  then show False
    by (simp add: PEM_EXT_def REVOKED_EXT_def)
qed

lemma marker_added_pem:
  assumes "marker_added f f'" "sanitize_stem publisher = Inr stem"
  shows "is_file f' (pem_candidate root stem) = is_file f (pem_candidate root stem)"
  using assms(1) by (auto simp: marker_added_def is_file_def place_pem [OF assms(2)] marker_is_no_pem [symmetric])

lemma marker_added_resolve:
  assumes "marker_added f f'"
  shows "resolve_path roots publisher f' = resolve_path roots publisher f"
  using marker_added_pem [OF assms] by (auto simp: resolve_path_def split: sum.split)

text \<open>What happens to the key directories while the daemon runs.\<close>

inductive key_step :: "key_env \<Rightarrow> string list \<Rightarrow> files \<Rightarrow> files \<Rightarrow> bool" for env roots where
  revoke_local: "revoke env roots now publisher rsn f = (r, f') \<Longrightarrow> key_step env roots f f'"
| revoke_remote: "apply_remote_revocation env roots now publisher rsn u f = (r', f') \<Longrightarrow> key_step env roots f f'"

definition revoked_in :: "string list \<Rightarrow> string \<Rightarrow> files \<Rightarrow> bool" where
  "revoked_in roots publisher f \<longleftrightarrow>
     (\<exists>path. resolve_path roots publisher f = Inr path \<and> is_file f (revoked_marker_for path))"

lemma key_step_added: "key_step env roots f f' \<Longrightarrow> f' = f \<or> marker_added f f'"
  by (auto elim!: key_step.cases simp: revoke_def dest: write_marker_added apply_remote_added)

lemma revoked_in_step: "key_step env roots f f' \<Longrightarrow> revoked_in roots publisher f \<Longrightarrow> revoked_in roots publisher f'"
  by (drule key_step_added) (auto simp: revoked_in_def marker_added_resolve intro: marker_added_file)

lemma revoked_in_steps:
  "(key_step env roots)\<^sup>*\<^sup>* f f' \<Longrightarrow> revoked_in roots publisher f \<Longrightarrow> revoked_in roots publisher f'"
  by (induction rule: rtranclp_induct) (auto intro: revoked_in_step)

lemma write_marker_revokes:
  assumes "write_marker env roots publisher rsn t f = (Inr (), f')"
  shows "revoked_in roots publisher f'"
  using assms
proof (rule write_marker_Inr)
  fix root stem body
  assume s: "sanitize_stem publisher = Inr stem"
    "find (\<lambda>root. is_file f (pem_candidate root stem)) roots = Some root"
    "f' = f\<lparr>nodes := (nodes f)(place f (revoked_marker_for (pem_candidate root stem)) \<mapsto> RegFile body)\<rparr>"
  have "marker_added f f'"
    unfolding marker_added_def s(3) place_marker [OF s(1)] by blast
  then have "resolve_path roots publisher f' = Inr (pem_candidate root stem)"
    using s(1,2) by (simp add: marker_added_resolve) (simp add: resolve_path_def)
  then show ?thesis
    by (simp add: revoked_in_def s(3) is_file_def)
qed

lemma revoked_in_load:
  "revoked_in roots publisher f \<Longrightarrow> \<exists>r. load_pem env roots publisher f = Inl (KRevoked publisher r)"
  by (auto simp: revoked_in_def load_pem_def Let_def)

text \<open>
  C21. Revocation is final: once a key has been revoked, every later lookup of its publisher is refused
  as revoked, whatever further revocations, local ones and ones from the cluster, come in.
\<close>

theorem revocation_is_final:
  assumes "revoke env roots now publisher rsn f = (Inr (), f1)" and "(key_step env roots)\<^sup>*\<^sup>* f1 f2"
  shows "\<exists>r. load_pem env roots publisher f2 = Inl (KRevoked publisher r)"
  using assms by (auto simp: revoke_def intro: revoked_in_load revoked_in_steps write_marker_revokes)

definition demo_key_env :: key_env where
  "demo_key_env =
     \<lparr>marker_to_string = (\<lambda>m. if mk_revoked_at m < 0 then Inl ''out of range''
         else Inr (show_nat (nat (mk_revoked_at m)) @ CHR ''|'' # mk_reason m)),
      marker_from_str = (\<lambda>s. case split_once (CHR ''|'') s of
         Some (t, r) \<Rightarrow> Some \<lparr>mk_revoked_at = int (digits_val t), mk_reason = r\<rparr> | None \<Rightarrow> None),
      key_sha256 = (\<lambda>b. b), datetime_from_timestamp = (\<lambda>u. Some u)\<rparr>"

theorem revocation_is_final_witness:
  "\<exists>f1 r. revoke demo_key_env [''/k''] 7 ''acme'' (Some ''leaked'') demo_files = (Inr (), f1) \<and>
     load_pem demo_key_env [''/k''] ''acme'' demo_files = Inr ''PEM'' \<and>
     load_pem demo_key_env [''/k''] ''acme'' f1 = Inl (KRevoked ''acme'' r)"
proof -
  have ok: "load_pem demo_key_env [''/k''] ''acme'' demo_files = Inr ''PEM''"
    by code_simp
  have "fst (revoke demo_key_env [''/k''] 7 ''acme'' (Some ''leaked'') demo_files) = Inr ()"
    by code_simp
  then obtain f1 where f1: "revoke demo_key_env [''/k''] 7 ''acme'' (Some ''leaked'') demo_files = (Inr (), f1)"
    by (metis prod.collapse)
  from revocation_is_final [OF f1 rtranclp.rtrancl_refl] f1 ok show ?thesis
    by blast
qed

section \<open>Remote revocations converge\<close>

definition marker_time :: "key_env \<Rightarrow> string list \<Rightarrow> string \<Rightarrow> files \<Rightarrow> timestamp option" where
  "marker_time env roots publisher f =
     (case resolve_path roots publisher f of
        Inl _ \<Rightarrow> None
      | Inr path \<Rightarrow> map_option mk_revoked_at (local_marker env f (revoked_marker_for path)))"

text \<open>The marker file reads back as it was written.\<close>

definition marker_codec :: "key_env \<Rightarrow> bool" where
  "marker_codec env \<longleftrightarrow> (\<forall>m body. marker_to_string env m = Inr body \<longrightarrow> marker_from_str env body = Some m)"

definition later :: "timestamp option \<Rightarrow> timestamp \<Rightarrow> timestamp" where
  "later t u = (case t of None \<Rightarrow> u | Some t' \<Rightarrow> max t' u)"

lemma write_marker_time:
  assumes "marker_codec env" "write_marker env roots publisher rsn t f = (Inr (), f')" "read_err f = (\<lambda>_. None)"
  shows "marker_time env roots publisher f' = Some t"
  using assms(2)
proof (rule write_marker_Inr)
  fix root stem body
  assume s: "sanitize_stem publisher = Inr stem"
    "find (\<lambda>root. is_file f (pem_candidate root stem)) roots = Some root"
    "marker_to_string env \<lparr>mk_revoked_at = t, mk_reason = (case rsn of Some r \<Rightarrow> r | None \<Rightarrow> ''unspecified'')\<rparr> = Inr body"
    "f' = f\<lparr>nodes := (nodes f)(place f (revoked_marker_for (pem_candidate root stem)) \<mapsto> RegFile body)\<rparr>"
  have "marker_added f f'"
    unfolding marker_added_def s(4) place_marker [OF s(1)] by blast
  then have "resolve_path roots publisher f' = Inr (pem_candidate root stem)"
    using s(1,2) by (simp add: marker_added_resolve) (simp add: resolve_path_def)
  moreover have "local_marker env f' (revoked_marker_for (pem_candidate root stem)) =
      Some \<lparr>mk_revoked_at = t, mk_reason = (case rsn of Some r \<Rightarrow> r | None \<Rightarrow> ''unspecified'')\<rparr>"
    using assms(1,3) s(3) by (simp add: local_marker_def is_file_def read_file_def s(4) marker_codec_def)
  ultimately show ?thesis
    by (simp add: marker_time_def)
qed

lemma apply_remote_time:
  assumes "marker_codec env" "read_err f = (\<lambda>_. None)" "resolve_path roots publisher f = Inr path"
    and "apply_remote_revocation env roots now publisher rsn u f = (Inr b, f')"
    and inc: "incoming = (case datetime_from_timestamp env u of Some t \<Rightarrow> t | None \<Rightarrow> now)"
  shows "marker_time env roots publisher f' = Some (later (marker_time env roots publisher f) incoming)"
proof -
  have mt: "marker_time env roots publisher f = map_option mk_revoked_at (local_marker env f (revoked_marker_for path))"
    by (simp add: marker_time_def assms(3))
  show ?thesis
  proof (cases "\<exists>m. local_marker env f (revoked_marker_for path) = Some m \<and> incoming \<le> mk_revoked_at m")
    case True
    then have "f' = f"
      using assms(3,4) inc by (auto simp: apply_remote_revocation_def)
    with True mt show ?thesis
      by (auto simp: later_def)
  next
    case False
    then have "(case local_marker env f (revoked_marker_for path) of Some m \<Rightarrow> incoming \<le> mk_revoked_at m | None \<Rightarrow> False) = False"
      by (auto split: option.split)
    then have "write_marker env roots publisher rsn incoming f = (Inr (), f')"
      using assms(3,4) inc by (auto simp: apply_remote_revocation_def Let_def elim!: bindE_Inr_E)
    then have "marker_time env roots publisher f' = Some incoming"
      using assms(1,2) by (intro write_marker_time)
    with False mt show ?thesis
      by (cases "local_marker env f (revoked_marker_for path)") (auto simp: later_def)
  qed
qed

definition apply_revocations ::
  "key_env \<Rightarrow> string list \<Rightarrow> timestamp \<Rightarrow> string \<Rightarrow> (string option \<times> int) list \<Rightarrow> (files, key_registry_error, unit) act" where
  "apply_revocations env roots now publisher =
     for_each (\<lambda>(rsn, u). bindE (apply_remote_revocation env roots now publisher rsn u) (\<lambda>_. ret ()))"

definition remote_time :: "key_env \<Rightarrow> timestamp \<Rightarrow> int \<Rightarrow> timestamp" where
  "remote_time env now u = (case datetime_from_timestamp env u of Some t \<Rightarrow> t | None \<Rightarrow> now)"

lemma marker_added_env: "marker_added f f' \<Longrightarrow> read_err f' = read_err f"
  by (auto simp: marker_added_def)

lemma apply_revocations_time:
  assumes "marker_codec env" "read_err f = (\<lambda>_. None)" "resolve_path roots publisher f = Inr path"
    and "apply_revocations env roots now publisher rs f = (Inr (), f')"
  shows "marker_time env roots publisher f' =
    fold (\<lambda>r t. Some (later t (remote_time env now (snd r)))) rs (marker_time env roots publisher f)"
  using assms(2-4)
proof (induction rs arbitrary: f)
  case (Cons r rs)
  obtain rsn u where r: "r = (rsn, u)"
    by (cases r)
  obtain b f1 where f1: "apply_remote_revocation env roots now publisher rsn u f = (Inr b, f1)"
    and rest: "apply_revocations env roots now publisher rs f1 = (Inr (), f')"
    using Cons.prems(3) by (auto simp: r apply_revocations_def elim!: bindE_Inr_E)
  have "f1 = f \<or> marker_added f f1"
    by (rule apply_remote_added [OF f1])
  then have "read_err f1 = (\<lambda>_. None)" "resolve_path roots publisher f1 = Inr path"
    using Cons.prems(1,2) by (auto simp: marker_added_env marker_added_resolve)
  from Cons.IH [OF this rest] apply_remote_time [OF assms(1) Cons.prems(1,2) f1 refl] show ?case
    by (simp add: r remote_time_def)
qed (simp add: apply_revocations_def)

lemma fold_later:
  "rs \<noteq> [] \<Longrightarrow> fold (\<lambda>r t. Some (later t (g r))) rs t0 =
     Some (Max (g ` set rs \<union> (case t0 of None \<Rightarrow> {} | Some t \<Rightarrow> {t})))"
proof (induction rs arbitrary: t0)
  case (Cons r rs)
  show ?case
  proof (cases "rs = []")
    case True
    then show ?thesis
      by (cases t0) (simp_all add: later_def max.commute)
  next
    case False
    have "g ` set rs \<union> {later t0 (g r)} \<noteq> {}"
      by simp
    then have "Max (g ` set rs \<union> {later t0 (g r)}) = Max (g ` set (r # rs) \<union> (case t0 of None \<Rightarrow> {} | Some t \<Rightarrow> {t}))"
      using False by (cases t0) (simp_all add: later_def Un_commute max.assoc max.commute max.left_commute)
    with Cons.IH [OF False, of "Some (later t0 (g r))"] show ?thesis
      by simp
  qed
qed simp


lemma demo_marker_codec: "marker_codec demo_key_env"
proof -
  have "CHR ''|'' \<notin> set (show_nat n)" for n
    by (rule nondigit_show_nat) (simp add: is_digit_def)
  then show ?thesis
    by (auto simp: marker_codec_def demo_key_env_def split: if_splits)
qed


text \<open>
  A revocation that arrives before the key file does is lost: nothing is recorded, and the key is handed
  out once it has been provisioned.
\<close>

definition bare_files :: files where
  "bare_files = demo_files\<lparr>nodes := Map.empty\<rparr>"

lemma remote_revocation_before_key_is_lost:
  "case apply_remote_revocation demo_key_env [''/k''] 0 ''acme'' (Some ''leaked'') 5 bare_files of
     (r, f) \<Rightarrow> r = Inr False \<and>
       load_pem demo_key_env [''/k''] ''acme'' (f\<lparr>nodes := (nodes f)([''k'', ''acme.pem''] \<mapsto> RegFile ''PEM'')\<rparr>) = Inr ''PEM''"
  by code_simp

end
