(* ===== verification/Plugin_Install.thy ===== *)
theory Plugin_Install
  imports Key_Registry
begin

text \<open>
  Plugin manifests, the signature check of an install and the copy into the plugin directory
  (\<^verbatim>\<open>linpodx-plugin/src/manifest.rs\<close>, \<^verbatim>\<open>signing.rs\<close>, \<^verbatim>\<open>check_signature\<close> of
  \<^verbatim>\<open>linpodx-sandbox/src/plugin_store.rs\<close>). TOML, base64 and ed25519 are parameters.
\<close>

section \<open>Manifests (manifest.rs)\<close>

definition MANIFEST_FILENAME :: string where
  "MANIFEST_FILENAME = ''linpodx-plugin.toml''"

definition KNOWN_HOOKS :: "string list" where
  "KNOWN_HOOKS = [''approval'', ''audit_filter'', ''profile_validator'', ''network_trace'', ''runtime_injector'']"

definition known_hooks_debug :: string where
  "known_hooks_debug =
     ''[\"approval\", \"audit_filter\", \"profile_validator\", \"network_trace\", \"runtime_injector\"]''"

definition validate_manifest :: "plugin_manifest \<Rightarrow> plugin_error + unit" where
  "validate_manifest m =
     (if trim (pm_name m) = [] then Inl (Manifest ''name must not be empty'')
      else if trim (pm_version m) = [] then Inl (Manifest ''version must not be empty'')
      else if trim (pm_wasm m) = [] then Inl (Manifest ''wasm path must not be empty'')
      else if is_absolute (pm_wasm m) \<or> ''..'' \<in> set (path_parts (pm_wasm m)) then
        Inl (Manifest (''wasm path '' @ sq (pm_wasm m) @ '' must be a relative file inside the plugin dir''))
      else if pm_hooks m = [] then Inl (Manifest ''hooks must list at least one hook'')
      else case find (\<lambda>h. h \<notin> set KNOWN_HOOKS) (pm_hooks m) of
        Some h \<Rightarrow> Inl (Manifest (''unknown hook '' @ sq h @ '' (known: '' @ known_hooks_debug @ '')''))
      | None \<Rightarrow> Inr ())"

definition parse_from_dir ::
  "(string \<Rightarrow> string + plugin_manifest) \<Rightarrow> string \<Rightarrow> files \<Rightarrow> plugin_error + plugin_manifest \<times> string" where
  "parse_from_dir from_toml dir f =
     (let manifest_path = path_join dir MANIFEST_FILENAME in
      case read_file f manifest_path of
        Inl e \<Rightarrow> Inl (Manifest (''could not read '' @ manifest_path @ '': '' @ e))
      | Inr raw \<Rightarrow>
          (case from_toml raw of
             Inl e \<Rightarrow> Inl (Manifest e)
           | Inr m \<Rightarrow>
               (case validate_manifest m of
                  Inl e \<Rightarrow> Inl e
                | Inr _ \<Rightarrow>
                    (let wasm_abs = path_join dir (pm_wasm m) in
                     if is_file f wasm_abs then Inr (m, wasm_abs)
                     else Inl (Manifest (''wasm file '' @ sq wasm_abs @ '' not found''))))))"

definition user_plugin_root :: "(string \<Rightarrow> string option) \<Rightarrow> plugin_error + string" where
  "user_plugin_root var =
     (case var ''LINPODX_PLUGIN_DIR'' of
        Some p \<Rightarrow> Inr p
      | None \<Rightarrow>
          (case (case var ''XDG_DATA_HOME'' of Some p \<Rightarrow> if p \<noteq> [] then Some p else None | None \<Rightarrow> None) of
             Some p \<Rightarrow> Inr (path_join (path_join p ''linpodx'') ''plugins'')
           | None \<Rightarrow>
               (case var ''HOME'' of
                  None \<Rightarrow> Inl (Manifest ''HOME not set; cannot locate plugin dir'')
                | Some home \<Rightarrow>
                    Inr (path_join (path_join (path_join (path_join home ''.local'') ''share'') ''linpodx'') ''plugins''))))"

text \<open>
  The recursive copy of a whole tree. A copy that fails leaves the entries it had copied by then, given
  relative to the source.
\<close>

definition copy_tree :: "string list \<Rightarrow> string list \<Rightarrow> (string list \<Rightarrow> bool) \<Rightarrow> files \<Rightarrow> files" where
  "copy_tree src dst copied f =
     f\<lparr>nodes := (\<lambda>q.
          if take (length dst) q = dst \<and> length dst < length q \<and> copied (drop (length dst) q) \<and>
             nodes f (src @ drop (length dst) q) \<noteq> None
          then nodes f (src @ drop (length dst) q) else nodes f q)\<rparr>"

datatype copy_result = CopyOk | CopyFailed string "string list \<Rightarrow> bool"

definition copy_dir_recursive :: "copy_result \<Rightarrow> string \<Rightarrow> string \<Rightarrow> (files, plugin_error, unit) act" where
  "copy_dir_recursive res src dst f =
     (case res of
        CopyOk \<Rightarrow> (Inr (), copy_tree (place f src) (place f dst) (\<lambda>_. True) f)
      | CopyFailed e copied \<Rightarrow> (Inl (PIo e), copy_tree (place f src) (place f dst) copied f))"

definition pure_result :: "'e + 'a \<Rightarrow> ('s, 'e, 'a) act" where
  "pure_result r s = (r, s)"

definition install_to_user_dir ::
  "(string \<Rightarrow> string + plugin_manifest) \<Rightarrow> (string \<Rightarrow> string option) \<Rightarrow> copy_result \<Rightarrow> string
     \<Rightarrow> (files, plugin_error, string \<times> plugin_manifest \<times> string) act" where
  "install_to_user_dir from_toml var res src =
     bindE (\<lambda>f. (parse_from_dir from_toml src f, f)) (\<lambda>(m, _).
     bindE (pure_result (user_plugin_root var)) (\<lambda>root.
     let dest = path_join root (pm_name m) in
     bindE (gets (\<lambda>f. exists_path f dest)) (\<lambda>there.
     if there then throw (Duplicate (pm_name m))
     else
       bindE (\<lambda>f. case create_dir_all dest f of (Inl e, f') \<Rightarrow> (Inl (PIo e), f') | (Inr u, f') \<Rightarrow> (Inr u, f')) (\<lambda>_.
       bindE (copy_dir_recursive res src dest) (\<lambda>_.
       bindE (\<lambda>f. (parse_from_dir from_toml dest f, f)) (\<lambda>(m', wasm_abs).
         ret (dest, m', wasm_abs)))))))"

definition remove_user_dir ::
  "(string \<Rightarrow> string option) \<Rightarrow> string \<Rightarrow> (files, plugin_error, bool) act" where
  "remove_user_dir var name =
     bindE (pure_result (user_plugin_root var)) (\<lambda>root f.
       let dest = path_join root name; pl = place f dest in
       if \<not> exists_path f dest then (Inr False, f)
       else case write_err f pl of
         Some e \<Rightarrow> (Inl (PIo e), f)
       | None \<Rightarrow> (Inr True, f\<lparr>nodes := (\<lambda>q. if take (length pl) q = pl then None else nodes f q)\<rparr>))"

section \<open>Signatures (signing.rs, plugin\_store.rs)\<close>

datatype signing_error =
  KeyParse string
| SignatureDecode string
| SignatureLength nat nat
| VerifyFailed string

fun signing_error_display :: "signing_error \<Rightarrow> string" where
  "signing_error_display (KeyParse e) = ''public key PEM parse failed: '' @ e"
| "signing_error_display (SignatureDecode e) = ''signature base64 decode failed: '' @ e"
| "signing_error_display (SignatureLength ex ac) =
     ''signature must be exactly '' @ show_nat ex @ '' bytes, got '' @ show_nat ac"
| "signing_error_display (VerifyFailed e) = ''signature verification failed: '' @ e"

record 'k sign_env =
  from_public_key_pem :: "string \<Rightarrow> string + 'k"
  b64_decode :: "string \<Rightarrow> string + byte list"
  verify_strict :: "'k \<Rightarrow> byte list \<Rightarrow> byte list \<Rightarrow> string option"

definition SIGNATURE_LENGTH :: nat where
  "SIGNATURE_LENGTH = 64"

definition verify_plugin_signature :: "'k sign_env \<Rightarrow> byte list \<Rightarrow> string \<Rightarrow> string \<Rightarrow> signing_error + unit" where
  "verify_plugin_signature env wasm sig_b64 pem =
     (case from_public_key_pem env (trim pem) of
        Inl e \<Rightarrow> Inl (KeyParse e)
      | Inr key \<Rightarrow>
          (case b64_decode env (trim sig_b64) of
             Inl e \<Rightarrow> Inl (SignatureDecode e)
           | Inr raw \<Rightarrow>
               if length raw \<noteq> SIGNATURE_LENGTH then Inl (SignatureLength SIGNATURE_LENGTH (length raw))
               else case verify_strict env key wasm raw of
                 Some e \<Rightarrow> Inl (VerifyFailed e)
               | None \<Rightarrow> Inr ()))"

datatype signature_outcome =
  Verified "string option" string string
| UnsignedAccepted string
| Rejected string

record install_params =
  ip_manifest_path :: string
  ip_signature_path :: "string option"
  ip_public_key_path :: "string option"

definition ALLOW_UNSIGNED_ENV :: string where
  "ALLOW_UNSIGNED_ENV = ''LINPODX_ALLOW_UNSIGNED_PLUGINS''"

definition unsigned_allowed :: "(string \<Rightarrow> string option) \<Rightarrow> bool" where
  "unsigned_allowed var \<longleftrightarrow> (case var ALLOW_UNSIGNED_ENV of Some v \<Rightarrow> v \<in> {''1'', ''true'', ''yes''} | None \<Rightarrow> False)"

definition DETACHED_SIG_FILENAME :: string where
  "DETACHED_SIG_FILENAME = ''signature.b64''"

definition read_override :: "string \<Rightarrow> string \<Rightarrow> files \<Rightarrow> error + string" where
  "read_override what path f =
     (case read_file f path of
        Inl e \<Rightarrow> Inl (InvalidArgument (''could not read '' @ what @ '' '' @ sq path @ '': '' @ e))
      | Inr raw \<Rightarrow> Inr raw)"

definition resolve_signature ::
  "string \<Rightarrow> plugin_manifest \<Rightarrow> install_params \<Rightarrow> files \<Rightarrow> error + string option \<times> string" where
  "resolve_signature src_dir m params f =
     (case ip_signature_path params of
        Some path \<Rightarrow>
          (case read_override ''--signature'' path f of
             Inl e \<Rightarrow> Inl e | Inr raw \<Rightarrow> Inr (Some raw, ''override:'' @ path))
      | None \<Rightarrow>
          (let detached = path_join src_dir DETACHED_SIG_FILENAME in
           if is_file f detached then
             (case read_override ''detached signature'' detached f of
                Inl e \<Rightarrow> Inl e | Inr raw \<Rightarrow> Inr (Some raw, ''detached:'' @ detached))
           else case pm_signature_b64 m of
             Some b64 \<Rightarrow> Inr (Some b64, ''manifest:signature_b64'')
           | None \<Rightarrow> Inr (None, [])))"

text \<open>The public key: the override, or the publisher's key of the registry, whose refusal is final.\<close>

definition resolve_public_key ::
  "key_env \<Rightarrow> (string \<Rightarrow> string option) \<Rightarrow> plugin_manifest \<Rightarrow> install_params \<Rightarrow> files
     \<Rightarrow> error + (string + string option \<times> string)" where
  "resolve_public_key kenv var m params f =
     (case ip_public_key_path params of
        Some path \<Rightarrow>
          (case read_override ''--public-key'' path f of
             Inl e \<Rightarrow> Inl e | Inr raw \<Rightarrow> Inr (Inr (Some raw, ''override:'' @ path)))
      | None \<Rightarrow>
          (case pm_publisher m of
             Some publisher \<Rightarrow>
               (case load_pem kenv (default_dirs var) publisher f of
                  Inr pem \<Rightarrow> Inr (Inr (Some pem, ''registry:'' @ publisher))
                | Inl e \<Rightarrow> Inr (Inl (''publisher key lookup failed: '' @ key_registry_error_display e)))
           | None \<Rightarrow> Inr (Inr (None, []))))"

text \<open>\<^verbatim>\<open>{:?}\<close> of an optional string, for printable characters and the usual escapes.\<close>

definition char_debug :: "char \<Rightarrow> string" where
  "char_debug c =
     (case map_of [(CHR 0x22, [CHR 0x22]), (CHR 0x5C, [CHR 0x5C]), (CHR 0x0A, ''n''), (CHR 0x0D, ''r''),
                   (CHR 0x09, ''t''), (CHR 0x00, ''0'')] c of
        Some e \<Rightarrow> CHR 0x5C # e
      | None \<Rightarrow> [c])"

definition opt_debug :: "string option \<Rightarrow> string" where
  "opt_debug x = (case x of None \<Rightarrow> ''None'' | Some s \<Rightarrow> ''Some(\"'' @ concat (map char_debug s) @ ''\")'')"

definition check_signature ::
  "'k sign_env \<Rightarrow> key_env \<Rightarrow> (string \<Rightarrow> string option) \<Rightarrow> string \<Rightarrow> string \<Rightarrow> plugin_manifest \<Rightarrow> install_params
     \<Rightarrow> files \<Rightarrow> error + signature_outcome" where
  "check_signature senv kenv var src_dir wasm_path m params f =
     (case read_file f wasm_path of
        Inl e \<Rightarrow> Inl (Io e)
      | Inr wasm \<Rightarrow>
          (case resolve_signature src_dir m params f of
             Inl e \<Rightarrow> Inl e
           | Inr (sig, sig_source) \<Rightarrow>
               (case resolve_public_key kenv var m params f of
                  Inl e \<Rightarrow> Inl e
                | Inr (Inl rsn) \<Rightarrow> Inr (Rejected rsn)
                | Inr (Inr (key, key_source)) \<Rightarrow>
                    (case (sig, key) of
                       (Some sig_b64, Some pem) \<Rightarrow>
                         (case verify_plugin_signature senv (as_bytes wasm) sig_b64 pem of
                            Inr _ \<Rightarrow> Inr (Verified (pm_publisher m) key_source sig_source)
                          | Inl (VerifyFailed e) \<Rightarrow> Inr (Rejected (''ed25519 verify failed: '' @ e))
                          | Inl other \<Rightarrow> Inr (Rejected (signing_error_display other)))
                     | _ \<Rightarrow>
                         if unsigned_allowed var
                         then Inr (UnsignedAccepted ''no signature/public key supplied'')
                         else Inr (Rejected (''unsigned plugin install requires '' @ ALLOW_UNSIGNED_ENV @ ''=1 (publisher='' @
                                opt_debug (pm_publisher m) @ '', signature_present='' @
                                (if pm_signature_b64 m \<noteq> None then ''true'' else ''false'') @ '')''))))))"

section \<open>What is installed is what was checked\<close>

lemma components_join_rel:
  assumes "\<not> is_absolute q"
  shows "components (path_join p q) = components p @ components q"
proof -
  consider "p = []" | p' where "p = p' @ ''/''" | "p \<noteq> []" "last p \<noteq> CHR ''/''"
    by (metis append_butlast_last_id)
  then show ?thesis
  proof cases
    case 2
    then have "path_parts (p @ q) = path_parts p' @ path_parts q" "path_parts p = path_parts p' @ [[]]"
      using path_parts_append [of p' q] path_parts_append [of p' "[]"] by simp_all
    with 2 assms show ?thesis
      by (simp add: path_join_def components_def)
  qed (use assms in \<open>simp_all add: path_join_def components_def path_parts_append\<close>)
qed

lemma walk_down: "''..'' \<notin> set cs \<Longrightarrow> walk here cs = here @ cs"
  by (induction cs arbitrary: here) auto

lemma place_join_rel:
  assumes "\<not> is_absolute q" "''..'' \<notin> set (path_parts q)" "p \<noteq> [] \<or> \<not> is_absolute q"
  shows "place f (path_join p q) = place f p @ components q"
proof -
  have "''..'' \<notin> set (components q)"
    using assms(2) by (simp add: components_def)
  moreover have "is_absolute (path_join p q) = is_absolute p"
    using assms(1) by (auto simp: path_join_def is_absolute_def split: list.split)
  ultimately show ?thesis
    using assms(1) by (simp add: place_def components_join_rel walk_append walk_down)
qed

lemma validate_wasm:
  "validate_manifest m = Inr () \<Longrightarrow> \<not> is_absolute (pm_wasm m) \<and> ''..'' \<notin> set (path_parts (pm_wasm m))"
  by (simp add: validate_manifest_def split: if_splits)

lemma parse_from_dir_Inr:
  assumes "parse_from_dir from_toml dir f = Inr (m, wasm)"
  shows "wasm = path_join dir (pm_wasm m)" "is_file f wasm" "validate_manifest m = Inr ()"
    "place f wasm = place f dir @ components (pm_wasm m)"
    "\<exists>raw. read_file f (path_join dir MANIFEST_FILENAME) = Inr raw \<and> from_toml raw = Inr m"
proof -
  show w: "wasm = path_join dir (pm_wasm m)" and "is_file f wasm" and v: "validate_manifest m = Inr ()"
    and "\<exists>raw. read_file f (path_join dir MANIFEST_FILENAME) = Inr raw \<and> from_toml raw = Inr m"
    using assms by (auto simp: parse_from_dir_def Let_def split: sum.splits if_splits)
  show "place f wasm = place f dir @ components (pm_wasm m)"
    using validate_wasm [OF v] by (simp add: w place_join_rel)
qed

lemma place_manifest: "place f (path_join dir MANIFEST_FILENAME) = place f dir @ [MANIFEST_FILENAME]"
  by (rule place_join) (simp add: plain_name_def MANIFEST_FILENAME_def)

lemma copy_tree_file:
  assumes "nodes f (src @ rel) = Some (RegFile b)" "rel \<noteq> []"
  shows "nodes (copy_tree src dst (\<lambda>_. True) f) (dst @ rel) = Some (RegFile b)"
  using assms by (simp add: copy_tree_def)

lemma copied_file:
  assumes "create_dir_all dest f = (Inr (), f1)" "copy_dir_recursive CopyOk src dest f1 = (Inr (), f2)"
    and "nodes f (place f src @ rel) = Some (RegFile b)" "rel \<noteq> []"
  shows "nodes f2 (place f2 dest @ rel) = Some (RegFile b)" "cwd f2 = cwd f"
proof -
  have cw: "cwd f1 = cwd f"
    by (rule create_dir_all_frame(1) [OF assms(1)])
  have c: "nodes f1 (place f1 src @ rel) = Some (RegFile b)"
    using create_dir_all_frame(2) [OF assms(1) assms(3)] by (simp add: place_cwd [OF cw])
  have f2: "f2 = copy_tree (place f1 src) (place f1 dest) (\<lambda>_. True) f1"
    using assms(2) by (simp add: copy_dir_recursive_def)
  then have cw2: "cwd f2 = cwd f1"
    by (simp add: copy_tree_def)
  then show "cwd f2 = cwd f"
    using cw by simp
  have "nodes f2 (place f1 dest @ rel) = Some (RegFile b)"
    unfolding f2 by (rule copy_tree_file [OF c assms(4)])
  then show "nodes f2 (place f2 dest @ rel) = Some (RegFile b)"
    using place_cwd [OF cw2, of dest] by simp
qed

lemma install_to_user_dir_copies:
  assumes "install_to_user_dir from_toml var res src f = (Inr (dest, m', wasm'), f')"
    and "parse_from_dir from_toml src f = Inr (m, wasm)" and "read_file f wasm = Inr body"
    and "components (pm_wasm m) \<noteq> []"
  shows "m' = m \<and> nodes f' (place f' wasm') = Some (RegFile body) \<and>
    (\<exists>root. user_plugin_root var = Inr root \<and> dest = path_join root (pm_name m))"
proof -
  obtain root f1 f2 where root: "user_plugin_root var = Inr root" and dest: "dest = path_join root (pm_name m)"
    and mk: "create_dir_all dest f = (Inr (), f1)" and cp: "copy_dir_recursive res src dest f1 = (Inr (), f2)"
    and re: "parse_from_dir from_toml dest f2 = Inr (m', wasm')" and f': "f' = f2"
    using assms(1,2)
    by (auto simp: install_to_user_dir_def pure_result_def Let_def elim!: bindE_Inr_E
        split: if_splits prod.splits sum.splits)
  have res: "res = CopyOk"
    using cp by (cases res) (simp_all add: copy_dir_recursive_def)
  obtain raw where raw: "read_file f (path_join src MANIFEST_FILENAME) = Inr raw" "from_toml raw = Inr m"
    using parse_from_dir_Inr(5) [OF assms(2)] by blast
  have "nodes f2 (place f2 dest @ [MANIFEST_FILENAME]) = Some (RegFile raw)"
    by (rule copied_file [OF mk cp [unfolded res]]) (use read_file_node [OF raw(1)] in \<open>simp_all add: place_manifest\<close>)
  moreover obtain raw' where "read_file f2 (path_join dest MANIFEST_FILENAME) = Inr raw'" "from_toml raw' = Inr m'"
    using parse_from_dir_Inr(5) [OF re] by blast
  ultimately have m: "m' = m"
    using raw(2) read_file_node [of f2 "path_join dest MANIFEST_FILENAME" raw'] by (simp add: place_manifest)
  have "nodes f2 (place f2 dest @ components (pm_wasm m)) = Some (RegFile body)"
    by (rule copied_file [OF mk cp [unfolded res]])
      (use read_file_node [OF assms(3)] parse_from_dir_Inr(4) [OF assms(2)] assms(4) in simp_all)
  then have "nodes f' (place f' wasm') = Some (RegFile body)"
    using parse_from_dir_Inr(4) [OF re] by (simp add: f' m)
  with m root dest show ?thesis
    by blast
qed

lemma check_signature_cases:
  assumes "check_signature senv kenv var src_dir wasm m params f = Inr out"
  shows "case out of
      Verified _ ks ss \<Rightarrow> \<exists>body sig pem. read_file f wasm = Inr body \<and>
        resolve_signature src_dir m params f = Inr (Some sig, ss) \<and>
        resolve_public_key kenv var m params f = Inr (Inr (Some pem, ks)) \<and>
        verify_plugin_signature senv (as_bytes body) sig pem = Inr ()
    | UnsignedAccepted _ \<Rightarrow> unsigned_allowed var
    | Rejected _ \<Rightarrow> True"
  using assms
  by (auto simp: check_signature_def split: sum.splits option.splits prod.splits signing_error.splits if_splits)

text \<open>A publisher whose key is revoked is rejected, unless the caller brings a key of their own.\<close>

lemma check_signature_revoked:
  assumes "revoked_in (default_dirs var) publisher f" and "pm_publisher m = Some publisher"
    and "ip_public_key_path params = None"
    and "check_signature senv kenv var src_dir wasm m params f = Inr out"
  shows "\<exists>rsn. out = Rejected rsn"
proof -
  obtain r where "load_pem kenv (default_dirs var) publisher f = Inl (KRevoked publisher r)"
    using revoked_in_load [OF assms(1)] by blast
  with assms(2-4) show ?thesis
    by (auto simp: check_signature_def resolve_public_key_def split: sum.splits)
qed

text \<open>
  The name in a manifest is not confined the way its wasm path is: a name with \<^verbatim>\<open>..\<close> passes validation
  and names a directory outside the plugin directory, for the copy of an install and for the recursive
  delete of a forced removal.
\<close>

definition escaping_manifest :: plugin_manifest where
  "escaping_manifest = \<lparr>pm_name = ''../../outside'', pm_version = ''1'', pm_hooks = [''approval''], pm_wasm = ''p.wasm'',
     pm_publisher = None, pm_signature_b64 = None\<rparr>"

lemma manifest_name_escapes:
  "validate_manifest escaping_manifest = Inr () \<and>
   place demo_files (path_join ''/data/linpodx/plugins'' (pm_name escaping_manifest)) = [''data'', ''outside'']"
  by code_simp

end
