(* ===== verification/Plugin_Store.thy ===== *)
theory Plugin_Store
  imports Plugin_Install Mcp_Store
begin

text \<open>
  The table of installed plugins (\<^verbatim>\<open>linpodx-sandbox/src/plugin_store.rs\<close>): install with its signature gate,
  enable, disable, remove, and the enabled plugins the daemon loads. Shown: nothing is installed without
  a verified signature or the explicit override, what is installed is what was verified, a revoked
  publisher cannot install, and the table names each plugin once.
\<close>

section \<open>Model\<close>

record 'w plug_state =
  pg_world :: "'w sink_world"
  pg_files :: files

record ('k, 'w) plug_env =
  pe_audit :: audit_env
  pe_record :: "'w sink_world sink_fn"
  pe_sign :: "'k sign_env"
  pe_key :: key_env
  pe_var :: "string \<Rightarrow> string option"
  pe_from_toml :: "string \<Rightarrow> string + plugin_manifest"
  pe_hooks_from_str :: "string \<Rightarrow> string + string list"

type_synonym ('w, 'a) plug_act = "('w plug_state, error + panic, 'a) act"

definition on_store :: "'a dbact \<Rightarrow> ('w, 'a) plug_act" where
  "on_store m = zoom pg_world (\<lambda>w s. s\<lparr>pg_world := w\<rparr>) (with_db m)"

fun plugin_to_err :: "plugin_error \<Rightarrow> error" where
  "plugin_to_err (PNotFound n) = NotFound (''plugin '' @ sq n)"
| "plugin_to_err (Duplicate n) = InvalidArgument (''plugin '' @ sq n @ '' already exists'')"
| "plugin_to_err (Manifest m) = InvalidArgument (''plugin manifest: '' @ m)"
| "plugin_to_err (WasmLoad m) = Runtime (''plugin wasm load: '' @ m)"
| "plugin_to_err (HostRejected m) = Runtime (''plugin host call: '' @ m)"
| "plugin_to_err (PIo e) = Io e"
| "plugin_to_err (NotImplemented m) = Runtime (''plugin not implemented: '' @ m)"

definition on_files :: "(files, plugin_error, 'a) act \<Rightarrow> ('w, 'a) plug_act" where
  "on_files m = map_err (Inl \<circ> plugin_to_err) (zoom pg_files (\<lambda>f s. s\<lparr>pg_files := f\<rparr>) m)"

definition checked :: "(files \<Rightarrow> error + 'a) \<Rightarrow> ('w, 'a) plug_act" where
  "checked g = (\<lambda>s. (case g (pg_files s) of Inl e \<Rightarrow> Inl (Inl e) | Inr x \<Rightarrow> Inr x, s))"

text \<open>
  Every change is recorded with the sink it was called with and again in the local log; the second
  entry is best effort.
\<close>

definition record_both ::
  "('k, 'w) plug_env \<Rightarrow> audit_sink_kind \<Rightarrow> audit_kind \<Rightarrow> json \<Rightarrow> ('w, unit) plug_act" where
  "record_both env kind local_kind payload =
     bindE (zoom pg_world (\<lambda>w s. s\<lparr>pg_world := w\<rparr>) (map_err Inr (pe_record env kind None None payload))) (\<lambda>_.
       bindE (attempt (on_store (audit_append (pe_audit env) local_kind None None payload) :: ('w, _) plug_act)) (\<lambda>_.
         ret ()))"

definition row_by_name :: "string \<Rightarrow> plugin_row option dbact" where
  "row_by_name name = sql (gets (\<lambda>d. find (\<lambda>r. pl_name r = name) (rows (plugins d))))"

definition strings_json :: "string list \<Rightarrow> json" where
  "strings_json xs = JArray (map JString xs)"

type_synonym plugin_spec = "plugin_manifest \<times> string"

definition row_spec :: "('k, 'w) plug_env \<Rightarrow> plugin_row \<Rightarrow> error + plugin_spec" where
  "row_spec env r =
     (case pe_hooks_from_str env (pl_hooks r) of
        Inl e \<Rightarrow> Inl (Json e)
      | Inr hooks \<Rightarrow>
          Inr (\<lparr>pm_name = pl_name r, pm_version = pl_version r, pm_hooks = hooks, pm_wasm = pl_wasm_path r,
                pm_publisher = None, pm_signature_b64 = None\<rparr>, pl_wasm_path r))"

fun collect_results :: "('e + 'a) list \<Rightarrow> 'e + 'a list" where
  "collect_results [] = Inr []"
| "collect_results (Inl e # rs) = Inl e"
| "collect_results (Inr x # rs) = (case collect_results rs of Inl e \<Rightarrow> Inl e | Inr xs \<Rightarrow> Inr (x # xs))"

definition list_enabled_specs :: "('k, 'w) plug_env \<Rightarrow> plugin_spec list dbact" where
  "list_enabled_specs env =
     bindE (sql (gets (\<lambda>d. sort_key pl_id (filter (\<lambda>r. pl_enabled r = 1) (rows (plugins d)))))) (\<lambda>rs.
       case collect_results (map (row_spec env) rs) of Inl e \<Rightarrow> throw e | Inr xs \<Rightarrow> ret xs)"

record plugin_summary =
  psu_name :: string
  psu_version :: string
  psu_hooks :: "string list"
  psu_enabled :: bool
  psu_manifest_path :: string
  psu_installed_at :: timestamp

definition into_summary :: "('k, 'w) plug_env \<Rightarrow> plugin_row \<Rightarrow> error + plugin_summary" where
  "into_summary env r =
     (case pe_hooks_from_str env (pl_hooks r) of
        Inl e \<Rightarrow> Inl (Json e)
      | Inr hooks \<Rightarrow>
          (case parse_from_rfc3339 (pe_audit env) (pl_installed_at r) of
             Inl e \<Rightarrow> Inl (Runtime (''invalid plugin installed_at '' @ sq (pl_installed_at r) @ '': '' @ e))
           | Inr t \<Rightarrow> Inr \<lparr>psu_name = pl_name r, psu_version = pl_version r, psu_hooks = hooks,
                            psu_enabled = (pl_enabled r \<noteq> 0), psu_manifest_path = pl_manifest_path r,
                            psu_installed_at = t\<rparr>))"

definition plugin_list :: "('k, 'w) plug_env \<Rightarrow> plugin_summary list dbact" where
  "plugin_list env =
     bindE (sql (gets (\<lambda>d. sort_key pl_id (rows (plugins d))))) (\<lambda>rs.
       case collect_results (map (into_summary env) rs) of Inl e \<Rightarrow> throw e | Inr xs \<Rightarrow> ret xs)"

subsection \<open>Install\<close>

text \<open>
  \<^verbatim>\<open>Path::parent\<close>: the last component is dropped, together with the separators and the \<^verbatim>\<open>.\<close> components
  around it; \<^verbatim>\<open>/\<close> and the empty path have no parent. The first function works on the reversed path.
\<close>

fun trim_tail :: "string \<Rightarrow> string" where
  "trim_tail (c # d # cs) =
     (if c = CHR ''/'' \<or> c = CHR ''.'' \<and> d = CHR ''/'' then trim_tail (d # cs) else c # d # cs)"
| "trim_tail cs = cs"

definition path_parent :: "string \<Rightarrow> string option" where
  "path_parent p =
     (let q = trim_tail (rev p) in
      if q = [] \<or> q = ''/'' then None
      else Some (rev (trim_tail (dropWhile (\<lambda>c. c \<noteq> CHR ''/'') q))))"

lemma path_parent_examples:
  "path_parent ''/a/b.toml'' = Some ''/a'' \<and> path_parent ''/a'' = Some ''/'' \<and> path_parent ''a/./b/'' = Some ''a'' \<and>
   path_parent ''./a'' = Some ''.'' \<and> path_parent ''a'' = Some [] \<and> path_parent ''/./'' = None"
  by code_simp

definition source_dir :: "install_params \<Rightarrow> files \<Rightarrow> error + string" where
  "source_dir params f =
     (let src = ip_manifest_path params in
      if is_dir f src then Inr src
      else case path_parent src of
        Some d \<Rightarrow> Inr d
      | None \<Rightarrow> Inl (InvalidArgument (''plugin install path '' @ sq src @ '' must be a directory or a manifest file'')))"

definition emit_signature_outcome ::
  "('k, 'w) plug_env \<Rightarrow> plugin_manifest \<Rightarrow> signature_outcome \<Rightarrow> ('w, unit) plug_act" where
  "emit_signature_outcome env m out =
     (case out of
        Verified publisher key_source signature_source \<Rightarrow>
          record_both env audit_sink_kind.PluginSignatureVerified audit_kind.PluginSignatureVerified
            (JObject [(''name'', JString (pm_name m)), (''version'', JString (pm_version m)),
                      (''publisher'', json_opt JString publisher), (''key_source'', JString key_source),
                      (''signature_source'', JString signature_source)])
      | UnsignedAccepted rsn \<Rightarrow>
          record_both env audit_sink_kind.PluginSignatureRejected audit_kind.PluginSignatureRejected
            (JObject [(''name'', JString (pm_name m)), (''version'', JString (pm_version m)),
                      (''accepted'', JBool True), (''reason'', JString rsn), (''bypass'', JString ALLOW_UNSIGNED_ENV)])
      | Rejected rsn \<Rightarrow>
          record_both env audit_sink_kind.PluginSignatureRejected audit_kind.PluginSignatureRejected
            (JObject [(''name'', JString (pm_name m)), (''version'', JString (pm_version m)),
                      (''accepted'', JBool False), (''reason'', JString rsn)]))"

definition insert_plugin :: "plugin_manifest \<Rightarrow> string \<Rightarrow> string \<Rightarrow> string \<Rightarrow> string \<Rightarrow> int dbact" where
  "insert_plugin m manifest_path wasm hooks now_str =
     sql (\<lambda>d.
       if pm_name m \<in> pl_name ` set (rows (plugins d)) then
         (Inl (Sqlx ''UNIQUE constraint failed: plugins.name''), d)
       else case next_id pl_id (plugins d) of
         None \<Rightarrow> (Inl (Sqlx ''database or disk is full''), d)
       | Some i \<Rightarrow>
           (Inr i, d\<lparr>plugins := \<lparr>rows = rows (plugins d) @
              [\<lparr>pl_id = i, pl_name = pm_name m, pl_version = pm_version m, pl_manifest_path = manifest_path,
                pl_wasm_path = wasm, pl_hooks = hooks, pl_enabled = 1, pl_installed_at = now_str\<rparr>],
              autoinc = i\<rparr>\<rparr>))"

record install_response =
  ir_name :: string
  ir_version :: string
  ir_installed_path :: string

text \<open>An install is its gate, everything before the first copy, and the copy with its row and its record.\<close>

definition install_gate ::
  "('k, 'w) plug_env \<Rightarrow> install_params \<Rightarrow> ('w, string \<times> plugin_manifest) plug_act" where
  "install_gate env params =
     bindE (checked (source_dir params)) (\<lambda>src.
     bindE (on_files (\<lambda>f. (parse_from_dir (pe_from_toml env) src f, f))) (\<lambda>(preview, wasm_preview).
     bindE (on_store (row_by_name (pm_name preview))) (\<lambda>existing.
     case existing of
       Some row \<Rightarrow> throw (Inl (InvalidArgument (''plugin '' @ sq (pl_name row) @ '' already installed (id='' @ show_int (pl_id row) @ '')'')))
     | None \<Rightarrow>
     bindE (checked (check_signature (pe_sign env) (pe_key env) (pe_var env) src wasm_preview preview params)) (\<lambda>out.
     bindE (emit_signature_outcome env preview out) (\<lambda>_.
     case out of
       Rejected rsn \<Rightarrow> throw (Inl (InvalidArgument (''plugin '' @ sq (pm_name preview) @ '' signature check failed: '' @ rsn)))
     | _ \<Rightarrow> ret (src, preview))))))"

definition install_copy ::
  "('k, 'w) plug_env \<Rightarrow> copy_result \<Rightarrow> string \<Rightarrow> ('w, install_response) plug_act" where
  "install_copy env res src =
     bindE (on_files (install_to_user_dir (pe_from_toml env) (pe_var env) res src)) (\<lambda>(dir, m, wasm_abs).
     bindE (case json_to_string (pe_audit env) (strings_json (pm_hooks m)) of Inl e \<Rightarrow> throw (Inl (Json e)) | Inr j \<Rightarrow> ret j) (\<lambda>hooks_json.
     bindE (on_store utc_now) (\<lambda>now.
     bindE (on_store (insert_plugin m (path_join dir MANIFEST_FILENAME) wasm_abs hooks_json (fmt_ms (pe_audit env) now))) (\<lambda>i.
     bindE (record_both env audit_sink_kind.PluginInstalled audit_kind.PluginInstalled
              (JObject [(''id'', JInt i), (''name'', JString (pm_name m)), (''version'', JString (pm_version m)),
                        (''hooks'', strings_json (pm_hooks m)), (''installed_path'', JString dir)])) (\<lambda>_.
       ret \<lparr>ir_name = pm_name m, ir_version = pm_version m, ir_installed_path = dir\<rparr>)))))"

definition plugin_install ::
  "('k, 'w) plug_env \<Rightarrow> copy_result \<Rightarrow> install_params \<Rightarrow> ('w, install_response) plug_act" where
  "plugin_install env res params = bindE (install_gate env params) (\<lambda>(src, _). install_copy env res src)"

subsection \<open>Enable, disable, remove\<close>

definition update_enabled :: "int \<Rightarrow> int \<Rightarrow> unit dbact" where
  "update_enabled i v =
     sql (modify (\<lambda>d. d\<lparr>plugins := (plugins d)\<lparr>rows :=
       map (\<lambda>r. if pl_id r = i then r\<lparr>pl_enabled := v\<rparr> else r) (rows (plugins d))\<rparr>\<rparr>))"

definition not_installed :: "string \<Rightarrow> error + panic" where
  "not_installed name = Inl (NotFound (''plugin '' @ sq name))"

definition set_enabled :: "('k, 'w) plug_env \<Rightarrow> string \<Rightarrow> bool \<Rightarrow> ('w, string \<times> bool) plug_act" where
  "set_enabled env name enabled =
     bindE (on_store (row_by_name name)) (\<lambda>found.
       case found of
         None \<Rightarrow> throw (not_installed name)
       | Some row \<Rightarrow>
           bindE (on_store (update_enabled (pl_id row) (if enabled then 1 else 0))) (\<lambda>_.
           bindE (record_both env
                    (if enabled then audit_sink_kind.PluginEnabled else audit_sink_kind.PluginDisabled)
                    (if enabled then audit_kind.PluginEnabled else audit_kind.PluginDisabled)
                    (JObject [(''id'', JInt (pl_id row)), (''name'', JString (pl_name row)), (''enabled'', JBool enabled)])) (\<lambda>_.
             ret (pl_name row, enabled))))"

definition plugin_remove :: "('k, 'w) plug_env \<Rightarrow> string \<Rightarrow> bool \<Rightarrow> ('w, string \<times> bool) plug_act" where
  "plugin_remove env name force =
     bindE (on_store (row_by_name name)) (\<lambda>found.
       case found of
         None \<Rightarrow> throw (not_installed name)
       | Some row \<Rightarrow>
           bindE (on_store (sql (modify (\<lambda>d. d\<lparr>plugins := (plugins d)\<lparr>rows :=
                    filter (\<lambda>r. pl_id r \<noteq> pl_id row) (rows (plugins d))\<rparr>\<rparr>)))) (\<lambda>_.
           bindE (if force then bindE (attempt (on_files (remove_user_dir (pe_var env) (pl_name row)) :: ('w, bool) plug_act))
                                  (\<lambda>r. ret (case r of Inr removed \<Rightarrow> removed | Inl _ \<Rightarrow> False))
                  else ret False) (\<lambda>deleted.
           bindE (record_both env audit_sink_kind.PluginRemoved audit_kind.PluginRemoved
                    (JObject [(''id'', JInt (pl_id row)), (''name'', JString (pl_name row)),
                              (''deleted_files'', JBool deleted), (''force'', JBool force)])) (\<lambda>_.
             ret (pl_name row, deleted)))))"

section \<open>What each operation leaves alone\<close>

abbreviation store_db :: "'w plug_state \<Rightarrow> db" where
  "store_db s \<equiv> sw_db (pg_world s)"

lemma on_store_apply [act_simps]:
  "on_store m s = (case m (store_db s) of (r, d) \<Rightarrow>
     (case r of Inl e \<Rightarrow> Inl (Inl e) | Inr x \<Rightarrow> Inr x, s\<lparr>pg_world := (pg_world s)\<lparr>sw_db := d\<rparr>\<rparr>))"
  by (simp add: on_store_def with_db_def map_err_def zoom_apply split: prod.split sum.split)

lemma on_store_Inr:
  assumes "on_store m s = (Inr x, s')"
  obtains d where "m (store_db s) = (Inr x, d)" "s' = s\<lparr>pg_world := (pg_world s)\<lparr>sw_db := d\<rparr>\<rparr>"
  using assms by (auto simp: on_store_apply split: prod.splits sum.splits)

lemma on_files_apply [act_simps]:
  "on_files m s = (case m (pg_files s) of (r, f) \<Rightarrow>
     (case r of Inl e \<Rightarrow> Inl (Inl (plugin_to_err e)) | Inr x \<Rightarrow> Inr x, s\<lparr>pg_files := f\<rparr>))"
  by (simp add: on_files_def map_err_def zoom_apply split: prod.split sum.split)

lemma on_files_Inr:
  assumes "on_files m s = (Inr x, s')"
  obtains f where "m (pg_files s) = (Inr x, f)" "s' = s\<lparr>pg_files := f\<rparr>"
  using assms by (auto simp: on_files_apply split: prod.splits sum.splits)

lemma checked_Inr: "checked g s = (Inr x, s') \<longleftrightarrow> g (pg_files s) = Inr x \<and> s' = s"
  by (auto simp: checked_def split: sum.splits)

definition sandbox_store :: "('k, 'w) plug_env \<Rightarrow> 'w wasm_engine \<Rightarrow> bool \<Rightarrow> bool" where
  "sandbox_store env eng j \<longleftrightarrow> pe_record env = sandbox_record (pe_audit env) eng j"

lemma record_both_frame:
  assumes "sandbox_store env eng j" "record_both env k lk payload s = (r, s')"
  shows "pg_files s' = pg_files s \<and> log_only (store_db s) (store_db s')"
proof -
  let ?w = "snd (pe_record env k None None payload (pg_world s))"
  have "log_only (store_db s) (sw_db ?w)"
    using sandbox_record_log_only assms(1) by (simp add: sandbox_store_def)
  moreover have "\<exists>d. (d = sw_db ?w \<or> d = snd (audit_append (pe_audit env) lk None None payload (sw_db ?w))) \<and>
      s' = s\<lparr>pg_world := ?w\<lparr>sw_db := d\<rparr>\<rparr>"
    using assms(2)
    by (auto simp: record_both_def bindE_apply attempt_apply zoom_apply map_err_def on_store_apply
        split: prod.splits sum.splits)
  ultimately show ?thesis
    by (auto intro: log_only_trans [OF _ audit_append_log_only])
qed

section \<open>Only verified plugins are installed\<close>

definition signed_by_resolved_key ::
  "('k, 'w) plug_env \<Rightarrow> string \<Rightarrow> plugin_manifest \<Rightarrow> install_params \<Rightarrow> files \<Rightarrow> string \<Rightarrow> bool" where
  "signed_by_resolved_key env src m params f body \<longleftrightarrow>
     (\<exists>sig pem ss ks. resolve_signature src m params f = Inr (Some sig, ss) \<and>
        resolve_public_key (pe_key env) (pe_var env) m params f = Inr (Inr (Some pem, ks)) \<and>
        verify_plugin_signature (pe_sign env) (as_bytes body) sig pem = Inr ())"

definition dir_tree :: "files \<Rightarrow> bool" where
  "dir_tree f \<longleftrightarrow> (\<forall>p x. nodes f (p @ [x]) \<noteq> None \<longrightarrow> nodes f p = Some Dir)"

lemma parsed_wasm_below_dir:
  assumes "dir_tree f" "parse_from_dir from_toml src f = Inr (m, wasm)"
  shows "components (pm_wasm m) \<noteq> []"
proof
  assume "components (pm_wasm m) = []"
  then have "place f wasm = place f src"
    using parse_from_dir_Inr(4) [OF assms(2)] by simp
  moreover obtain raw where "read_file f (path_join src MANIFEST_FILENAME) = Inr raw"
    using parse_from_dir_Inr(5) [OF assms(2)] by blast
  then have "nodes f (place f src) = Some Dir"
    using assms(1) read_file_node by (fastforce simp: dir_tree_def place_manifest)
  ultimately show False
    using parse_from_dir_Inr(2) [OF assms(2)] by (simp add: is_file_def)
qed

lemma row_by_name_Inr:
  assumes "row_by_name name d = (Inr x, d')"
  shows "x = find (\<lambda>r. pl_name r = name) (rows (plugins d)) \<and> plugins d' = plugins d"
  using assms by (auto simp: row_by_name_def dest!: sql_Inr)

lemma insert_plugin_Inr:
  assumes "insert_plugin m mp wasm hooks now d = (Inr i, d')"
  shows "pm_name m \<notin> pl_name ` set (rows (plugins d)) \<and> next_id pl_id (plugins d) = Some i \<and>
    plugins d' = \<lparr>rows = rows (plugins d) @ [\<lparr>pl_id = i, pl_name = pm_name m, pl_version = pm_version m,
      pl_manifest_path = mp, pl_wasm_path = wasm, pl_hooks = hooks, pl_enabled = 1, pl_installed_at = now\<rparr>], autoinc = i\<rparr>"
  using assms by (auto simp: insert_plugin_def dest!: sql_Inr split: if_splits option.splits)

lemma emit_frame:
  assumes "sandbox_store env eng j" "emit_signature_outcome env m out s = (r, s')"
  shows "pg_files s' = pg_files s \<and> log_only (store_db s) (store_db s')"
  using assms by (auto simp: emit_signature_outcome_def dest: record_both_frame split: signature_outcome.splits)

lemma row_by_name_plugins: "plugins (snd (row_by_name name d)) = plugins d"
  by (simp add: row_by_name_def sql_def Let_def split: option.split)

lemma install_gate_frame:
  assumes "sandbox_store env eng j" "install_gate env params s = (r, s')"
  shows "pg_files s' = pg_files s \<and> plugins (store_db s') = plugins (store_db s)"
proof -
  have rb: "plugins d' = plugins d" if "row_by_name name d = (q, d')" for name d q d'
    using row_by_name_plugins [of name d] that by simp
  show ?thesis
    using assms(2)
    by (auto simp: install_gate_def bindE_apply checked_def on_files_apply on_store_apply
        dest!: emit_frame [OF assms(1)] log_only_tables(3) rb split: prod.splits sum.splits option.splits signature_outcome.splits)
qed

lemma install_gate_Inr:
  assumes "sandbox_store env eng j" "install_gate env params s = (Inr (src, m), s')"
  shows "\<exists>wasm body. source_dir params (pg_files s) = Inr src \<and>
    parse_from_dir (pe_from_toml env) src (pg_files s) = Inr (m, wasm) \<and> read_file (pg_files s) wasm = Inr body \<and>
    (signed_by_resolved_key env src m params (pg_files s) body \<or> unsigned_allowed (pe_var env))"
proof -
  obtain wasm out s1 where src: "source_dir params (pg_files s) = Inr src"
    and parsed: "parse_from_dir (pe_from_toml env) src (pg_files s) = Inr (m, wasm)"
    and out: "check_signature (pe_sign env) (pe_key env) (pe_var env) src wasm m params (pg_files s) = Inr out"
    and acc: "\<forall>rsn. out \<noteq> Rejected rsn"
    using assms(2)
    by (auto simp: install_gate_def checked_Inr elim!: bindE_Inr_E on_files_Inr on_store_Inr
        split: option.splits prod.splits signature_outcome.splits)
  obtain body where "read_file (pg_files s) wasm = Inr body"
    using out by (auto simp: check_signature_def split: sum.splits)
  with check_signature_cases [OF out] acc src parsed show ?thesis
    by (auto simp: signed_by_resolved_key_def split: signature_outcome.splits)
qed

lemma install_copy_Inr:
  assumes "sandbox_store env eng j" "install_copy env res src s = (Inr resp, s')"
    and "parse_from_dir (pe_from_toml env) src (pg_files s) = Inr (m, wasm)"
    and "read_file (pg_files s) wasm = Inr body" "components (pm_wasm m) \<noteq> []"
  shows "\<exists>row. rows (plugins (store_db s')) = rows (plugins (store_db s)) @ [row] \<and> pl_name row = pm_name m \<and>
    pm_name m \<notin> pl_name ` set (rows (plugins (store_db s))) \<and> pl_enabled row = 1 \<and> ir_name resp = pm_name m \<and>
    nodes (pg_files s') (place (pg_files s') (pl_wasm_path row)) = Some (RegFile body)"
proof -
  obtain dir m' wasm' f where inst: "install_to_user_dir (pe_from_toml env) (pe_var env) res src (pg_files s) = (Inr (dir, m', wasm'), f)"
    and rest: "\<exists>hooks now i s1 s2 s3. on_store utc_now (s\<lparr>pg_files := f\<rparr>) = (Inr now, s1) \<and>
      on_store (insert_plugin m' (path_join dir MANIFEST_FILENAME) wasm' hooks (fmt_ms (pe_audit env) now)) s1 = (Inr i, s2) \<and>
      (\<exists>payload. record_both env audit_sink_kind.PluginInstalled audit_kind.PluginInstalled payload s2 = (Inr (), s')) \<and>
      ir_name resp = pm_name m'"
    using assms(2)
    by (auto simp: install_copy_def elim!: bindE_Inr_E on_files_Inr split: sum.splits) blast
  have copied: "m' = m" "nodes f (place f wasm') = Some (RegFile body)"
    using install_to_user_dir_copies [OF inst assms(3-5)] by blast+
  from rest obtain hooks now i s1 s2 payload where now: "on_store utc_now (s\<lparr>pg_files := f\<rparr>) = (Inr now, s1)"
    and ins: "on_store (insert_plugin m' (path_join dir MANIFEST_FILENAME) wasm' hooks (fmt_ms (pe_audit env) now)) s1 = (Inr i, s2)"
    and rec: "record_both env audit_sink_kind.PluginInstalled audit_kind.PluginInstalled payload s2 = (Inr (), s')"
    and resp: "ir_name resp = pm_name m'"
    by blast
  have "pg_files s1 = f" "plugins (store_db s1) = plugins (store_db s)"
    using now by (auto simp: utc_now_def elim!: on_store_Inr)
  moreover from ins obtain d where "insert_plugin m' (path_join dir MANIFEST_FILENAME) wasm' hooks (fmt_ms (pe_audit env) now) (store_db s1) = (Inr i, d)"
    "s2 = s1\<lparr>pg_world := (pg_world s1)\<lparr>sw_db := d\<rparr>\<rparr>"
    by (rule on_store_Inr)
  ultimately show ?thesis
    using record_both_frame [OF assms(1) rec] log_only_tables(3) insert_plugin_Inr copied resp by fastforce
qed

text \<open>
  C6. An install that succeeds installed a verified plugin: the wasm file of the source directory carries
  a signature that verifies under the key the override or the publisher's registry entry gives, unless
  the operator set the override for unsigned plugins; and the bytes the new row points to are exactly the
  verified bytes, under a name no other row has.
\<close>

theorem installed_plugin_is_verified:
  assumes "sandbox_store env eng j" and "dir_tree (pg_files s)"
    and "plugin_install env res params s = (Inr resp, s')"
  shows "\<exists>src m wasm body row.
    source_dir params (pg_files s) = Inr src \<and> parse_from_dir (pe_from_toml env) src (pg_files s) = Inr (m, wasm) \<and>
    read_file (pg_files s) wasm = Inr body \<and>
    (signed_by_resolved_key env src m params (pg_files s) body \<or> unsigned_allowed (pe_var env)) \<and>
    rows (plugins (store_db s')) = rows (plugins (store_db s)) @ [row] \<and>
    pl_name row = ir_name resp \<and> ir_name resp = pm_name m \<and>
    pm_name m \<notin> pl_name ` set (rows (plugins (store_db s))) \<and>
    nodes (pg_files s') (place (pg_files s') (pl_wasm_path row)) = Some (RegFile body)"
proof -
  obtain src m s1 where gate: "install_gate env params s = (Inr (src, m), s1)"
    and copy: "install_copy env res src s1 = (Inr resp, s')"
    using assms(3) by (auto simp: plugin_install_def elim!: bindE_Inr_E)
  have frame: "pg_files s1 = pg_files s" "plugins (store_db s1) = plugins (store_db s)"
    using install_gate_frame [OF assms(1) gate] by simp_all
  obtain wasm body where ok: "source_dir params (pg_files s) = Inr src"
    "parse_from_dir (pe_from_toml env) src (pg_files s) = Inr (m, wasm)" "read_file (pg_files s) wasm = Inr body"
    "signed_by_resolved_key env src m params (pg_files s) body \<or> unsigned_allowed (pe_var env)"
    using install_gate_Inr [OF assms(1) gate] by blast
  have "components (pm_wasm m) \<noteq> []"
    by (rule parsed_wasm_below_dir [OF assms(2) ok(2)])
  from install_copy_Inr [OF assms(1) copy, unfolded frame, OF ok(2,3) this] ok show ?thesis
    by metis
qed

definition demo_manifest :: plugin_manifest where
  "demo_manifest = \<lparr>pm_name = ''guard'', pm_version = ''1'', pm_hooks = [''approval''], pm_wasm = ''p.wasm'',
     pm_publisher = Some ''acme'', pm_signature_b64 = Some ''sig''\<rparr>"

definition demo_sign_env :: "string sign_env" where
  "demo_sign_env =
     \<lparr>from_public_key_pem = Inr, b64_decode = (\<lambda>_. Inr (replicate 64 1)),
      verify_strict = (\<lambda>k msg sg. if k = ''PEM'' \<and> msg = as_bytes ''code'' then None else Some ''bad'')\<rparr>"

definition demo_vars :: "string \<Rightarrow> string option" where
  "demo_vars = [''LINPODX_PLUGIN_DIR'' \<mapsto> ''/plugins'', ''LINPODX_PLUGIN_KEYS_DIR'' \<mapsto> ''/k'']"

definition demo_plug_env :: "(string, unit) plug_env" where
  "demo_plug_env =
     (let aenv = demo_env\<lparr>json_to_string := (\<lambda>_. Inr ''[]'')\<rparr> in
      \<lparr>pe_audit = aenv, pe_record = sandbox_record aenv demo_engine True, pe_sign = demo_sign_env,
       pe_key = demo_key_env, pe_var = demo_vars, pe_from_toml = (\<lambda>_. Inr demo_manifest),
       pe_hooks_from_str = (\<lambda>_. Inr [''approval''])\<rparr>)"

lemma demo_plug_env_simps [simp]:
  "pe_sign demo_plug_env = demo_sign_env" "pe_key demo_plug_env = demo_key_env" "pe_var demo_plug_env = demo_vars"
  "pe_from_toml demo_plug_env = (\<lambda>_. Inr demo_manifest)" "json_to_string (pe_audit demo_plug_env) j = Inr ''[]''"
  by (simp_all add: demo_plug_env_def Let_def)

definition demo_plugin_tree :: files where
  "demo_plugin_tree =
     \<lparr>cwd = [], nodes = [[] \<mapsto> Dir, [''k''] \<mapsto> Dir, [''k'', ''acme.pem''] \<mapsto> RegFile ''PEM'', [''src''] \<mapsto> Dir,
        [''src'', ''linpodx-plugin.toml''] \<mapsto> RegFile ''manifest'', [''src'', ''p.wasm''] \<mapsto> RegFile ''code''],
      read_err = (\<lambda>_. None), write_err = (\<lambda>_. None)\<rparr>"

definition demo_plug_state :: "unit plug_state" where
  "demo_plug_state = \<lparr>pg_world = demo_world, pg_files = demo_plugin_tree\<rparr>"

definition demo_params :: install_params where
  "demo_params = \<lparr>ip_manifest_path = ''/src'', ip_signature_path = None, ip_public_key_path = None\<rparr>"

lemma demo_plugin_tree_ok: "dir_tree demo_plugin_tree"
  by (auto simp: dir_tree_def demo_plugin_tree_def Cons_eq_append_conv split: if_splits)

lemma demo_sandbox_store: "sandbox_store demo_plug_env demo_engine True"
  by (simp add: sandbox_store_def demo_plug_env_def Let_def)

lemma demo_gate_facts:
  "source_dir demo_params demo_plugin_tree = Inr ''/src''"
  "parse_from_dir (\<lambda>_. Inr demo_manifest) ''/src'' demo_plugin_tree = Inr (demo_manifest, ''/src/p.wasm'')"
  "check_signature demo_sign_env demo_key_env demo_vars ''/src'' ''/src/p.wasm'' demo_manifest demo_params demo_plugin_tree =
     Inr (Verified (Some ''acme'') ''registry:acme'' ''manifest:signature_b64'')"
  "fst (install_to_user_dir (\<lambda>_. Inr demo_manifest) demo_vars CopyOk ''/src'' demo_plugin_tree) =
     Inr (''/plugins/guard'', demo_manifest, ''/plugins/guard/p.wasm'')"
  "\<not> unsigned_allowed demo_vars"
  by code_simp+

text \<open>With no plugin in front of the log a record always returns.\<close>

lemma record_both_returns:
  assumes "sandbox_store env eng j" "sw_plugins (pg_world s) = None"
  shows "\<exists>s'. record_both env k lk payload s = (Inr (), s') \<and> sw_plugins (pg_world s') = None \<and>
    pg_files s' = pg_files s \<and> log_only (store_db s) (store_db s')"
proof -
  obtain r s' where r: "record_both env k lk payload s = (r, s')"
    by (cases "record_both env k lk payload s")
  moreover have "r = Inr ()" "sw_plugins (pg_world s') = None"
    using r assms
    by (auto simp: record_both_def sandbox_store_def sandbox_record_def run_audit_filter_chain_def bindE_apply
        attempt_apply zoom_apply map_err_def on_store_apply split: prod.splits sum.splits if_splits)
  ultimately show ?thesis
    using record_both_frame [OF assms(1)] by blast
qed

lemma emit_returns:
  assumes "sandbox_store env eng j" "sw_plugins (pg_world s) = None"
  shows "\<exists>s'. emit_signature_outcome env m out s = (Inr (), s') \<and> sw_plugins (pg_world s') = None \<and>
    pg_files s' = pg_files s \<and> log_only (store_db s) (store_db s')"
  by (cases out) (simp_all add: emit_signature_outcome_def record_both_returns [OF assms])

lemma demo_gate_runs:
  "\<exists>s. install_gate demo_plug_env demo_params demo_plug_state = (Inr (''/src'', demo_manifest), s) \<and>
     sw_plugins (pg_world s) = None \<and> pg_files s = demo_plugin_tree \<and> plugins (store_db s) = empty_table \<and>
     fault (store_db s) = Map.empty"
proof -
  have files: "pg_files demo_plug_state = demo_plugin_tree"
    and db: "store_db demo_plug_state = demo_db" and plain: "sw_plugins (pg_world demo_plug_state) = None"
    by (simp_all add: demo_plug_state_def demo_world_def)
  have demo: "fault demo_db = Map.empty" "plugins demo_db = empty_table" "rows (plugins demo_db) = []"
    by (simp_all add: demo_db_def fresh_db_def empty_table_def)
  let ?s = "demo_plug_state\<lparr>pg_world := (pg_world demo_plug_state)\<lparr>sw_db := demo_db\<lparr>ops := Suc (ops demo_db)\<rparr>\<rparr>\<rparr>"
  obtain s' where "emit_signature_outcome demo_plug_env demo_manifest
      (Verified (Some ''acme'') ''registry:acme'' ''manifest:signature_b64'') ?s = (Inr (), s')"
    "sw_plugins (pg_world s') = None" "pg_files s' = pg_files ?s" "log_only (store_db ?s) (store_db s')"
    using emit_returns [OF demo_sandbox_store, of ?s] plain by auto
  then show ?thesis
    using demo log_only_tables [of "store_db ?s" "store_db s'"]
    by (simp add: install_gate_def bindE_apply checked_def on_files_apply on_store_apply row_by_name_def files db
        demo_gate_facts)
qed

lemma demo_install_runs:
  "\<exists>resp s' row. plugin_install demo_plug_env CopyOk demo_params demo_plug_state = (Inr resp, s') \<and>
     sw_plugins (pg_world s') = None \<and> fault (store_db s') = Map.empty \<and> rows (plugins (store_db s')) = [row] \<and>
     pl_name row = ''guard'' \<and> pl_enabled row = 1"
proof -
  obtain s where gate: "install_gate demo_plug_env demo_params demo_plug_state = (Inr (''/src'', demo_manifest), s)"
    "sw_plugins (pg_world s) = None" "pg_files s = demo_plugin_tree" "plugins (store_db s) = empty_table"
    "fault (store_db s) = Map.empty"
    using demo_gate_runs by blast
  obtain f where f: "install_to_user_dir (\<lambda>_. Inr demo_manifest) demo_vars CopyOk ''/src'' demo_plugin_tree =
      (Inr (''/plugins/guard'', demo_manifest, ''/plugins/guard/p.wasm''), f)"
    using demo_gate_facts(4) by (metis prod.collapse)
  define g where "g k lk payload t = snd (record_both demo_plug_env k lk payload t)" for k lk payload t
  have g: "record_both demo_plug_env k lk payload t = (Inr (), g k lk payload t) \<and> sw_plugins (pg_world (g k lk payload t)) = None \<and>
      fault (store_db (g k lk payload t)) = fault (store_db t) \<and> plugins (store_db (g k lk payload t)) = plugins (store_db t)"
    if "sw_plugins (pg_world t) = None" for k lk payload t
    using record_both_returns [OF demo_sandbox_store that, of k lk payload] log_only_tables(1,3) by (auto simp: g_def)
  from gate f show ?thesis
    by (simp add: g plugin_install_def install_copy_def bindE_apply on_files_apply on_store_apply utc_now_def
        insert_plugin_def empty_table_def next_id_def max_rowid_def demo_manifest_def)
qed

theorem installed_plugin_is_verified_witness:
  "\<exists>resp s' src m wasm body row. plugin_install demo_plug_env CopyOk demo_params demo_plug_state = (Inr resp, s') \<and>
     parse_from_dir (pe_from_toml demo_plug_env) src demo_plugin_tree = Inr (m, wasm) \<and>
     signed_by_resolved_key demo_plug_env src m demo_params demo_plugin_tree body \<and>
     rows (plugins (store_db s')) = rows (plugins (store_db demo_plug_state)) @ [row] \<and>
     nodes (pg_files s') (place (pg_files s') (pl_wasm_path row)) = Some (RegFile body)"
proof -
  obtain resp s' where run: "plugin_install demo_plug_env CopyOk demo_params demo_plug_state = (Inr resp, s')"
    using demo_install_runs by blast
  have files: "pg_files demo_plug_state = demo_plugin_tree"
    by (simp add: demo_plug_state_def)
  have "dir_tree (pg_files demo_plug_state)"
    by (simp add: files demo_plugin_tree_ok)
  from installed_plugin_is_verified [OF demo_sandbox_store this run] run demo_gate_facts(5) show ?thesis
    unfolding files by (simp, blast)
qed

section \<open>A revoked publisher cannot install\<close>

lemma refused_install:
  assumes "sandbox_store env eng j"
    and "\<And>src m wasm out. source_dir params (pg_files s) = Inr src \<Longrightarrow>
      parse_from_dir (pe_from_toml env) src (pg_files s) = Inr (m, wasm) \<Longrightarrow>
      check_signature (pe_sign env) (pe_key env) (pe_var env) src wasm m params (pg_files s) = Inr out \<Longrightarrow>
      \<exists>rsn. out = Rejected rsn"
    and "plugin_install env res params s = (r, s')"
  shows "isl r \<and> pg_files s' = pg_files s \<and> plugins (store_db s') = plugins (store_db s)"
proof -
  obtain q s1 where gate: "install_gate env params s = (q, s1)"
    by (cases "install_gate env params s")
  have "q \<noteq> Inr x" for x
  proof
    assume "q = Inr x"
    with gate have "\<exists>src m wasm out. source_dir params (pg_files s) = Inr src \<and>
        parse_from_dir (pe_from_toml env) src (pg_files s) = Inr (m, wasm) \<and>
        check_signature (pe_sign env) (pe_key env) (pe_var env) src wasm m params (pg_files s) = Inr out \<and>
        (\<forall>rsn. out \<noteq> Rejected rsn)"
      by (auto simp: install_gate_def checked_Inr elim!: bindE_Inr_E on_files_Inr on_store_Inr
          split: option.splits prod.splits signature_outcome.splits)
    with assms(2) show False
      by metis
  qed
  then obtain e where "q = Inl e"
    by (cases q) auto
  then have "r = Inl e" "s' = s1"
    using gate assms(3) by (auto simp: plugin_install_def bindE_apply)
  then show ?thesis
    using install_gate_frame [OF assms(1) gate] by simp
qed

text \<open>
  C22. After a publisher's key is revoked, and whatever revocations follow, an install of a plugin of that
  publisher that brings no key of its own is refused, and it leaves the plugin directory and the plugin
  table as they were. This holds even with the override for unsigned plugins set.
\<close>

theorem revoked_publisher_cannot_install:
  assumes "sandbox_store env eng j"
    and "revoke (pe_key env) (default_dirs (pe_var env)) now publisher rsn f = (Inr (), f1)"
    and "(key_step (pe_key env) (default_dirs (pe_var env)))\<^sup>*\<^sup>* f1 (pg_files s)"
    and "\<And>src m wasm. source_dir params (pg_files s) = Inr src \<Longrightarrow>
      parse_from_dir (pe_from_toml env) src (pg_files s) = Inr (m, wasm) \<Longrightarrow> pm_publisher m = Some publisher"
    and "ip_public_key_path params = None"
    and "plugin_install env res params s = (r, s')"
  shows "isl r \<and> pg_files s' = pg_files s \<and> plugins (store_db s') = plugins (store_db s)"
proof (rule refused_install [OF assms(1) _ assms(6)])
  have "revoked_in (default_dirs (pe_var env)) publisher (pg_files s)"
    using assms(2) by (auto simp: revoke_def intro: revoked_in_steps [OF assms(3)] write_marker_revokes)
  then show "\<exists>rsn. out = Rejected rsn"
    if "source_dir params (pg_files s) = Inr src" "parse_from_dir (pe_from_toml env) src (pg_files s) = Inr (m, wasm)"
      "check_signature (pe_sign env) (pe_key env) (pe_var env) src wasm m params (pg_files s) = Inr out"
    for src m wasm out
    using check_signature_revoked [OF _ assms(4) [OF that(1,2)] assms(5) that(3)] by blast
qed

theorem revoked_publisher_cannot_install_witness:
  "\<exists>f1 s' r. revoke demo_key_env (default_dirs demo_vars) 7 ''acme'' None demo_plugin_tree = (Inr (), f1) \<and>
     plugin_install demo_plug_env CopyOk demo_params (demo_plug_state\<lparr>pg_files := f1\<rparr>) = (r, s') \<and> isl r \<and>
     pg_files s' = f1 \<and> plugins (store_db s') = plugins (store_db demo_plug_state)"
proof -
  have "fst (revoke demo_key_env (default_dirs demo_vars) 7 ''acme'' None demo_plugin_tree) = Inr ()"
    by code_simp
  then obtain f1 where f1: "revoke demo_key_env (default_dirs demo_vars) 7 ''acme'' None demo_plugin_tree = (Inr (), f1)"
    by (metis prod.collapse)
  let ?s = "demo_plug_state\<lparr>pg_files := f1\<rparr>"
  obtain r s' where run: "plugin_install demo_plug_env CopyOk demo_params ?s = (r, s')"
    by (cases "plugin_install demo_plug_env CopyOk demo_params ?s")
  have pub: "pm_publisher m = Some ''acme''" if "parse_from_dir (\<lambda>_. Inr demo_manifest) src f1 = Inr (m, wasm)" for src m wasm
    using parse_from_dir_Inr(5) [OF that] by (auto simp: demo_manifest_def)
  have "isl r \<and> pg_files s' = pg_files ?s \<and> plugins (store_db s') = plugins (store_db ?s)"
    by (rule revoked_publisher_cannot_install [OF demo_sandbox_store _ _ _ _ run, of 7 "''acme''" None demo_plugin_tree f1])
      (use f1 pub in \<open>auto simp: demo_params_def\<close>)
  with f1 run show ?thesis
    by auto
qed

section \<open>Every sequence of operations keeps the table and the log\<close>

definition plugins_ok :: "plugin_row table \<Rightarrow> bool" where
  "plugins_ok t \<longleftrightarrow> distinct (map pl_name (rows t)) \<and> distinct (map pl_id (rows t)) \<and> (\<forall>r \<in> set (rows t). pl_enabled r \<in> {0, 1})"

definition tables_ok :: "audit_env \<Rightarrow> db \<Rightarrow> bool" where
  "tables_ok env d \<longleftrightarrow> chain_inv env d \<and> plugins_ok (plugins d)"

definition store_inv :: "('k, 'w) plug_env \<Rightarrow> 'w plug_state \<Rightarrow> bool" where
  "store_inv env s \<longleftrightarrow> tables_ok (pe_audit env) (store_db s)"

lemma of_tables_tables_ok [intro]: "of_tables (tables_ok env)"
  by (rule of_tablesI) (simp add: tables_ok_def chain_inv_def)

lemma preserves_on_store [preserves_intros]:
  "preserves (tables_ok (pe_audit env)) m \<Longrightarrow> preserves (store_inv env) (on_store m)"
  by (rule preservesI) (auto simp: on_store_apply store_inv_def dest: preservesD split: prod.split)

lemma preserves_on_files [preserves_intros]: "preserves (store_inv env) (on_files m)"
  by (rule preservesI) (auto simp: on_files_apply store_inv_def split: prod.split)

lemma preserves_checked [preserves_intros]: "preserves (store_inv env) (checked g)"
  by (rule preservesI) (simp add: checked_def)

lemma preserves_append_tables [preserves_intros]: "preserves (tables_ok env) (audit_append env kind pn ci payload)"
  by (rule preservesI)
    (auto simp: tables_ok_def log_only_tables(3) [OF audit_append_log_only] intro: preserves_snd [OF preserves_audit_append])

lemma preserves_record_both:
  assumes "sandbox_store env eng j"
  shows "preserves (store_inv env) (record_both env k lk payload)"
proof -
  have "tables_ok (pe_audit env) (sw_db w')"
    if "tables_ok (pe_audit env) (sw_db w)" "pe_record env k None None payload w = (r, w')" for w r w'
    using that assms preserves_snd [OF sandbox_sink.record_inv, of "pe_audit env" w eng j k None None payload]
      log_only_tables(3) [OF sandbox_record_log_only, of "pe_audit env" eng j k None None payload w]
    by (simp add: sandbox_store_def sink_inv_def tables_ok_def)
  then have "preserves (store_inv env) (zoom pg_world (\<lambda>w s. s\<lparr>pg_world := w\<rparr>) (map_err Inr (pe_record env k None None payload)))"
    by (intro preservesI) (auto simp: zoom_apply map_err_def store_inv_def split: prod.split sum.split)
  then show ?thesis
    unfolding record_both_def by (intro preserves_intros)
qed

lemma preserves_insert_plugin [preserves_intros]: "preserves (tables_ok env) (insert_plugin m mp wasm hooks now)"
  unfolding insert_plugin_def
proof (intro preserves_sql of_tables_tables_ok, rule preservesI)
  fix d
  assume "tables_ok env d"
  then show "tables_ok env (snd (if pm_name m \<in> pl_name ` set (rows (plugins d)) then
       (Inl (Sqlx ''UNIQUE constraint failed: plugins.name''), d)
     else case next_id pl_id (plugins d) of
       None \<Rightarrow> (Inl (Sqlx ''database or disk is full''), d)
     | Some i \<Rightarrow>
         (Inr i, d\<lparr>plugins := \<lparr>rows = rows (plugins d) @
            [\<lparr>pl_id = i, pl_name = pm_name m, pl_version = pm_version m, pl_manifest_path = mp,
              pl_wasm_path = wasm, pl_hooks = hooks, pl_enabled = 1, pl_installed_at = now\<rparr>], autoinc = i\<rparr>\<rparr>)))"
    using next_id_fresh [of pl_id "plugins d"]
    by (fastforce simp: tables_ok_def chain_inv_def plugins_ok_def split: option.split)
qed

lemma map_update_enabled:
  "map pl_name (map (\<lambda>r. if pl_id r = i then r\<lparr>pl_enabled := v\<rparr> else r) rs) = map pl_name rs"
  "map pl_id (map (\<lambda>r. if pl_id r = i then r\<lparr>pl_enabled := v\<rparr> else r) rs) = map pl_id rs"
  by (induction rs) auto

lemma preserves_update_enabled [preserves_intros]:
  "v \<in> {0, 1} \<Longrightarrow> preserves (tables_ok env) (update_enabled i v)"
  unfolding update_enabled_def
  by (intro preserves_sql of_tables_tables_ok preserves_modify)
    (auto simp: tables_ok_def chain_inv_def plugins_ok_def map_update_enabled simp del: map_map)

lemma preserves_row_by_name [preserves_intros]: "preserves (tables_ok env) (row_by_name name)"
  unfolding row_by_name_def by (intro preserves_intros of_tables_tables_ok)

lemma preserves_install:
  assumes "sandbox_store env eng j"
  shows "preserves (store_inv env) (plugin_install env res params)"
  unfolding plugin_install_def install_gate_def install_copy_def emit_signature_outcome_def
  by (auto intro!: preserves_intros of_tables_tables_ok preserves_record_both [OF assms] split: signature_outcome.split)

lemma preserves_set_enabled:
  assumes "sandbox_store env eng j"
  shows "preserves (store_inv env) (set_enabled env name enabled)"
  unfolding set_enabled_def by (auto intro!: preserves_intros preserves_record_both [OF assms])

lemma preserves_delete_row [preserves_intros]:
  "preserves (tables_ok env) (sql (modify (\<lambda>d. d\<lparr>plugins := (plugins d)\<lparr>rows := filter P (rows (plugins d))\<rparr>\<rparr>)))"
  by (intro preserves_sql of_tables_tables_ok preserves_modify)
    (auto simp: tables_ok_def chain_inv_def plugins_ok_def intro: distinct_map_filter)

lemma preserves_remove:
  assumes "sandbox_store env eng j"
  shows "preserves (store_inv env) (plugin_remove env name force)"
  unfolding plugin_remove_def by (auto intro!: preserves_intros preserves_record_both [OF assms])

inductive store_step :: "('k, 'w) plug_env \<Rightarrow> 'w plug_state \<Rightarrow> 'w plug_state \<Rightarrow> bool" for env where
  install: "plugin_install env res params s = (r, s') \<Longrightarrow> store_step env s s'"
| toggle: "set_enabled env name enabled s = (r', s') \<Longrightarrow> store_step env s s'"
| remove: "plugin_remove env name force s = (r', s') \<Longrightarrow> store_step env s s'"
| outside: "store_db s' = store_db s \<Longrightarrow> store_step env s s'"

definition store_initial :: "'w plug_state \<Rightarrow> bool" where
  "store_initial s \<longleftrightarrow> (\<exists>f c. store_db s = fresh_db f c)"

definition sandbox_store_env :: "('k, 'w) plug_env \<Rightarrow> 'w wasm_engine \<Rightarrow> bool \<Rightarrow> ('k, 'w) plug_env" where
  "sandbox_store_env env eng j = env\<lparr>pe_record := sandbox_record (pe_audit env) eng j\<rparr>"

lemma sandbox_store_env: "sandbox_store (sandbox_store_env env eng j) eng j"
  by (simp add: sandbox_store_def sandbox_store_env_def)

interpretation store_machine: invariant_machine store_initial "store_step (sandbox_store_env env eng j)"
  "store_inv (sandbox_store_env env eng j)" for env :: "('k, 'w) plug_env" and eng j
proof
  show "store_initial s \<Longrightarrow> store_inv (sandbox_store_env env eng j) s" for s
    by (auto simp: store_initial_def store_inv_def tables_ok_def plugins_ok_def) (simp add: fresh_db_def empty_table_def)+
  show "store_inv (sandbox_store_env env eng j) t"
    if "store_inv (sandbox_store_env env eng j) s" "store_step (sandbox_store_env env eng j) s t" for s t
    using that(2)
  proof cases
    case outside
    with that(1) show ?thesis
      by (simp add: store_inv_def)
  qed (blast intro: preservesD [OF preserves_install [OF sandbox_store_env] that(1)]
      preservesD [OF preserves_set_enabled [OF sandbox_store_env] that(1)]
      preservesD [OF preserves_remove [OF sandbox_store_env] that(1)])+
qed

lemma collect_results_Inr: "collect_results rs = Inr xs \<Longrightarrow> rs = map Inr xs"
  by (induction rs arbitrary: xs rule: collect_results.induct) (auto split: sum.splits)

lemma list_enabled_Inr:
  assumes "list_enabled_specs env d = (Inr specs, d')"
  shows "map (pm_name \<circ> fst) specs = map pl_name (sort_key pl_id (filter (\<lambda>r. pl_enabled r = 1) (rows (plugins d))))"
proof -
  let ?rs = "sort_key pl_id (filter (\<lambda>r. pl_enabled r = 1) (rows (plugins d)))"
  have "map (row_spec env) ?rs = map Inr specs"
    using assms by (auto simp: list_enabled_specs_def elim!: bindE_Inr_E dest!: sql_Inr collect_results_Inr split: sum.splits)
  moreover have "map (row_spec env) rs = map Inr xs \<Longrightarrow> map (pm_name \<circ> fst) xs = map pl_name rs" for rs xs
    by (induction rs arbitrary: xs) (auto simp: row_spec_def Cons_eq_map_conv split: sum.splits)
  ultimately show ?thesis
    by blast
qed

lemma set_enabled_Inr:
  assumes "sandbox_store env eng j" "set_enabled env name enabled s = (Inr x, s')"
  shows "\<exists>row. find (\<lambda>r. pl_name r = name) (rows (plugins (store_db s))) = Some row \<and>
    rows (plugins (store_db s')) =
      map (\<lambda>r. if pl_id r = pl_id row then r\<lparr>pl_enabled := if enabled then 1 else 0\<rparr> else r) (rows (plugins (store_db s)))"
proof -
  obtain row d d' payload k lk where row: "row_by_name name (store_db s) = (Inr (Some row), d)"
    and upd: "update_enabled (pl_id row) (if enabled then 1 else 0) d = (Inr (), d')"
    and rec: "record_both env k lk payload (s\<lparr>pg_world := (pg_world s)\<lparr>sw_db := d'\<rparr>\<rparr>) = (Inr (), s')"
    using assms(2)
    by (auto simp: set_enabled_def not_installed_def elim!: bindE_Inr_E on_store_Inr split: option.splits)
  have "rows (plugins d') = map (\<lambda>r. if pl_id r = pl_id row then r\<lparr>pl_enabled := if enabled then 1 else 0\<rparr> else r) (rows (plugins d))"
    using upd by (auto simp: update_enabled_def dest!: sql_Inr)
  moreover have "plugins (store_db s') = plugins d'"
    using record_both_frame [OF assms(1) rec] log_only_tables(3) by fastforce
  ultimately show ?thesis
    using row_by_name_Inr [OF row] by (intro exI [of _ row]) simp
qed

lemma disabled_rows:
  assumes "plugins_ok t" "find (\<lambda>r. pl_name r = name) (rows t) = Some row"
  shows "filter (\<lambda>r. pl_enabled r = 1) (map (\<lambda>r. if pl_id r = pl_id row then r\<lparr>pl_enabled := 0\<rparr> else r) (rows t)) =
    filter (\<lambda>r. pl_name r \<noteq> name) (filter (\<lambda>r. pl_enabled r = 1) (rows t))"
proof -
  have row: "row \<in> set (rows t)" "pl_name row = name"
    using assms(2) by (auto simp: find_Some_iff)
  have "pl_id r = pl_id row \<longleftrightarrow> pl_name r = name" if "r \<in> set (rows t)" for r
    using assms(1) row that by (auto simp: plugins_ok_def distinct_map dest: inj_onD)
  moreover have "filter (\<lambda>r. pl_enabled r = 1) (map (\<lambda>r. if pl_id r = pl_id row then r\<lparr>pl_enabled := 0\<rparr> else r) rs) =
      filter (\<lambda>r. pl_name r \<noteq> name) (filter (\<lambda>r. pl_enabled r = 1) rs)"
    if "\<And>r. r \<in> set rs \<Longrightarrow> (pl_id r = pl_id row) = (pl_name r = name)" for rs
    using that by (induction rs) auto
  ultimately show ?thesis
    by blast
qed

text \<open>
  C35. Disabling a plugin takes effect: in every state the store can reach, after a plugin was disabled
  the enabled plugins the daemon loads are those of before without that name.
\<close>

theorem disabled_plugin_not_loaded:
  assumes "reachable store_initial (store_step (sandbox_store_env env eng j)) s"
    and "set_enabled (sandbox_store_env env eng j) name False s = (Inr x, s')"
    and "list_enabled_specs env (store_db s) = (Inr before, d)" and "list_enabled_specs env (store_db s') = (Inr after, d')"
  shows "map (pm_name \<circ> fst) after = filter (\<lambda>n. n \<noteq> name) (map (pm_name \<circ> fst) before)"
proof -
  let ?t = "plugins (store_db s)"
  have ok: "plugins_ok ?t"
    using store_machine.inv_reachable [OF assms(1)] by (simp add: store_inv_def tables_ok_def)
  obtain row where row: "find (\<lambda>r. pl_name r = name) (rows ?t) = Some row"
    and upd: "rows (plugins (store_db s')) = map (\<lambda>r. if pl_id r = pl_id row then r\<lparr>pl_enabled := 0\<rparr> else r) (rows ?t)"
    using set_enabled_Inr [OF sandbox_store_env assms(2)] by auto
  have "filter (\<lambda>r. pl_enabled r = 1) (rows (plugins (store_db s'))) =
      filter (\<lambda>r. pl_name r \<noteq> name) (filter (\<lambda>r. pl_enabled r = 1) (rows ?t))"
    unfolding upd by (rule disabled_rows [OF ok row])
  then show ?thesis
    unfolding list_enabled_Inr [OF assms(3)] list_enabled_Inr [OF assms(4)]
    by (simp add: filter_map comp_def filter_sort del: filter_filter)
qed

lemma set_enabled_runs:
  assumes "sandbox_store env eng j" "sw_plugins (pg_world s) = None" "fault (store_db s) = Map.empty"
    and "find (\<lambda>r. pl_name r = name) (rows (plugins (store_db s))) = Some row"
  shows "\<exists>x s'. set_enabled env name v s = (Inr x, s') \<and> fault (store_db s') = Map.empty"
proof -
  define g where "g k lk payload t = snd (record_both env k lk payload t)" for k lk payload t
  have "record_both env k lk payload t = (Inr (), g k lk payload t) \<and> fault (store_db (g k lk payload t)) = fault (store_db t)"
    if "sw_plugins (pg_world t) = None" for k lk payload t
    using record_both_returns [OF assms(1) that, of k lk payload] log_only_tables(1) by (auto simp: g_def)
  with assms show ?thesis
    by (simp add: set_enabled_def bindE_apply on_store_apply row_by_name_def update_enabled_def)
qed

theorem disabled_plugin_not_loaded_witness:
  "\<exists>s x s' before after. set_enabled demo_plug_env ''guard'' False s = (Inr x, s') \<and>
     fst (list_enabled_specs demo_plug_env (store_db s)) = Inr before \<and> map (pm_name \<circ> fst) before = [''guard''] \<and>
     fst (list_enabled_specs demo_plug_env (store_db s')) = Inr after \<and> map (pm_name \<circ> fst) after = []"
proof -
  let ?env = "sandbox_store_env demo_plug_env demo_engine True"
  have env: "?env = demo_plug_env"
    by (simp add: sandbox_store_env_def demo_plug_env_def Let_def)
  obtain resp s row where run: "plugin_install demo_plug_env CopyOk demo_params demo_plug_state = (Inr resp, s)"
    and s: "sw_plugins (pg_world s) = None" "fault (store_db s) = Map.empty" "rows (plugins (store_db s)) = [row]"
      "pl_name row = ''guard''" "pl_enabled row = 1"
    using demo_install_runs by blast
  have "store_initial demo_plug_state"
    by (auto simp: store_initial_def demo_plug_state_def demo_world_def demo_db_def)
  then have reach: "reachable store_initial (store_step ?env) s"
    using store_step.install [OF run] unfolding env by (blast intro: reachable_init reachable_step)
  have specs: "list_enabled_specs demo_plug_env d = (Inr (map (\<lambda>r. (\<lparr>pm_name = pl_name r, pm_version = pl_version r,
      pm_hooks = [''approval''], pm_wasm = pl_wasm_path r, pm_publisher = None, pm_signature_b64 = None\<rparr>, pl_wasm_path r))
      (filter (\<lambda>r. pl_enabled r = 1) (rows (plugins d)))), d\<lparr>ops := Suc (ops d)\<rparr>)"
    if "fault d = Map.empty" "rows (plugins d) = [r]" for d r
    using that by (simp add: list_enabled_specs_def bindE_apply row_spec_def demo_plug_env_def Let_def)
  obtain x s' where dis: "set_enabled ?env ''guard'' False s = (Inr x, s')" and s': "fault (store_db s') = Map.empty"
    using set_enabled_runs [OF demo_sandbox_store s(1,2), of "''guard''" row False] s(3,4) unfolding env by auto
  obtain row' where "rows (plugins (store_db s')) = [row']"
    using set_enabled_Inr [OF sandbox_store_env dis] s(3) by auto
  from disabled_plugin_not_loaded [OF reach dis specs [OF s(2,3)] specs [OF s' this]] dis s
    specs [OF s(2,3)] specs [OF s' this] show ?thesis
    unfolding env by fastforce
qed

end
