(* ===== verification/Policy.thy ===== *)
theory Policy
  imports Common
begin

text \<open>
  Sandbox profiles and the policy engine (\<^verbatim>\<open>linpodx-sandbox/src/schema.rs\<close>, \<^verbatim>\<open>policy.rs\<close>): the profile
  applied to a container create request. Shown: exactly which requests are denied, which need
  approval and for what, and what the engine enforces on the options it returns.
\<close>

section \<open>Profiles (schema.rs)\<close>

definition PROFILE_SCHEMA_VERSION :: u32 where
  "PROFILE_SCHEMA_VERSION = 1"

datatype network_policy = NetNone | Allowlist "string list" "egress_rule list" | NetFull

datatype source_pattern = Named string | HostPath string

record mount_rule =
  mr_source :: source_pattern
  mr_destination :: string
  mr_read_only :: bool

record limits =
  lim_cpu :: "f32 option"
  lim_memory_mb :: "u64 option"
  lim_disk_mb :: "u64 option"
  lim_time_secs :: "u64 option"

record capabilities =
  caps_drop :: "string list"
  caps_add :: "string list"

definition default_capabilities_profile :: capabilities where
  "default_capabilities_profile = \<lparr>caps_drop = [''ALL''], caps_add = []\<rparr>"

record apparmor_extras =
  aa_deny :: "string list"
  aa_allow :: "string list"

record sandbox_profile_t =
  pf_version :: u32
  pf_name :: string
  pf_description :: string
  pf_network :: network_policy
  pf_mounts :: "mount_rule list"
  pf_limits :: limits
  pf_capabilities :: capabilities
  pf_read_only_rootfs :: bool
  pf_approval_gates :: "approval_category list"
  pf_approval_timeout_secs :: "u64 option"
  pf_snapshot_before_run :: bool
  pf_passthrough :: "passthrough_spec option"
  pf_distro_kind :: "distro_kind option"
  pf_systemd :: bool
  pf_snapshot_backend :: "snapshot_backend_kind option"
  pf_syscall_allowlist :: "string list option"
  pf_apparmor_extra :: "apparmor_extras option"
  pf_selinux_label :: "string option"
  pf_selinux_type :: "string option"
  pf_auto_encrypt_snapshots :: bool

section \<open>Decisions (policy.rs)\<close>

record pending_gate =
  pg_category :: approval_category
  pg_payload :: json

record applied_policy =
  ap_profile_name :: string
  ap_network :: string
  ap_mounts_allowed :: "string list"
  ap_cap_drop :: "string list"
  ap_cap_add :: "string list"
  ap_read_only_rootfs :: bool
  ap_cpus :: "f32 option"
  ap_memory_mb :: "u64 option"
  ap_deferred :: "string list"

datatype policy_decision =
  Allow create_options applied_policy
| DenyReq string
| NeedsApproval "pending_gate list" create_options applied_policy

datatype mount_verdict = NotAllowed | Allowed | DowngradeToReadOnly

fun source_matches :: "source_pattern \<Rightarrow> string \<Rightarrow> bool" where
  "source_matches (Named n) s = (s = n)"
| "source_matches (HostPath p) s = (s = p)"

fun mount_verdict_of :: "mount_rule list \<Rightarrow> volume_mount \<Rightarrow> mount_verdict" where
  "mount_verdict_of [] vm = NotAllowed"
| "mount_verdict_of (rule # rest) vm =
     (if source_matches (mr_source rule) (vm_source vm) \<and> mr_destination rule = vm_destination vm
      then (if mr_read_only rule \<and> \<not> vm_read_only vm then DowngradeToReadOnly else Allowed)
      else mount_verdict_of rest vm)"

definition arrow :: "volume_mount \<Rightarrow> string" where
  "arrow vm = vm_source vm @ ''->'' @ vm_destination vm"

definition mount_gate :: "volume_mount \<Rightarrow> pending_gate" where
  "mount_gate vm =
     \<lparr>pg_category = MountHostPath,
      pg_payload = JObject [(''source'', JString (vm_source vm)),
                            (''destination'', JString (vm_destination vm)),
                            (''read_only'', JBool (vm_read_only vm))]\<rparr>"

text \<open>
  The loop over the requested mounts: the mounts as rewritten, the audit labels and the gates, or
  the reason of the first mount that is refused.
\<close>

fun apply_mounts ::
  "sandbox_profile_t \<Rightarrow> bool \<Rightarrow> volume_mount list
     \<Rightarrow> string + volume_mount list \<times> string list \<times> pending_gate list" where
  "apply_mounts profile gate_mounts [] = Inr ([], [], [])"
| "apply_mounts profile gate_mounts (vm # vms) =
     (case mount_verdict_of (pf_mounts profile) vm of
        NotAllowed \<Rightarrow>
          if gate_mounts
          then (case apply_mounts profile gate_mounts vms of
                  Inl r \<Rightarrow> Inl r
                | Inr (vs, ls, gs) \<Rightarrow>
                    Inr (vm # vs, (arrow vm @ '' (pending)'') # ls, mount_gate vm # gs))
          else Inl (''mount '' @ [CHR 0x27] @ arrow vm @ [CHR 0x27] @
                    '' is not permitted by profile '' @ [CHR 0x27] @ pf_name profile @ [CHR 0x27])
      | DowngradeToReadOnly \<Rightarrow>
          (case apply_mounts profile gate_mounts vms of
             Inl r \<Rightarrow> Inl r
           | Inr (vs, ls, gs) \<Rightarrow>
               Inr (vm\<lparr>vm_read_only := True\<rparr> # vs, (arrow vm @ '' (ro-enforced)'') # ls, gs))
      | Allowed \<Rightarrow>
          (case apply_mounts profile gate_mounts vms of
             Inl r \<Rightarrow> Inl r
           | Inr (vs, ls, gs) \<Rightarrow> Inr (vm # vs, arrow vm # ls, gs)))"

definition cap_gate :: "string \<Rightarrow> pending_gate" where
  "cap_gate cap = \<lparr>pg_category = CapAdd, pg_payload = JObject [(''cap'', JString cap)]\<rparr>"

definition apply_network :: "network_policy \<Rightarrow> string list \<Rightarrow> string list \<times> string \<times> string list" where
  "apply_network net networks =
     (case net of
        NetNone \<Rightarrow> ([''none''], ''none'', [])
      | Allowlist domains _ \<Rightarrow>
          (networks, ''allowlist'',
           [''network egress allowlist not enforced in v0.1 ('' @ show_nat (length domains) @
            '' domains recorded)''])
      | NetFull \<Rightarrow> (networks, ''full'', []))"

definition policy_apply :: "sandbox_profile_t \<Rightarrow> create_options \<Rightarrow> policy_decision" where
  "policy_apply profile opts =
     (let gate_mounts = MountHostPath \<in> set (pf_approval_gates profile);
          gate_caps = CapAdd \<in> set (pf_approval_gates profile) in
      case apply_mounts profile gate_mounts (co_volumes opts) of
        Inl reason \<Rightarrow> DenyReq reason
      | Inr (volumes, mounts_allowed, mount_gates) \<Rightarrow>
          (case apply_network (pf_network profile) (co_networks opts) of
             (networks, network_label, net_deferred) \<Rightarrow>
               (let profile_add = caps_add (pf_capabilities profile);
                    cap_gates = map cap_gate
                      (filter (\<lambda>cap. cap \<notin> set profile_add \<and> gate_caps) (co_cap_add opts));
                    drop_caps = sorted_set (caps_drop (pf_capabilities profile) @ co_cap_drop opts);
                    add_caps = sorted_set (profile_add @ co_cap_add opts);
                    lims = pf_limits profile;
                    opts' = opts\<lparr>co_volumes := volumes, co_networks := networks,
                                 co_cap_drop := drop_caps, co_cap_add := add_caps,
                                 co_read_only := (pf_read_only_rootfs profile \<or> co_read_only opts),
                                 co_cpus := (case lim_cpu lims of Some c \<Rightarrow> Some c | None \<Rightarrow> co_cpus opts),
                                 co_memory_mb := (case lim_memory_mb lims of Some m \<Rightarrow> Some m
                                                  | None \<Rightarrow> co_memory_mb opts)\<rparr>;
                    deferred = net_deferred @
                      (if lim_disk_mb lims \<noteq> None then [''limits.disk_mb not enforced in v0.1''] else []) @
                      (if lim_time_secs lims \<noteq> None then [''limits.time_secs not enforced in v0.1''] else []);
                    applied = \<lparr>ap_profile_name = pf_name profile, ap_network = network_label,
                               ap_mounts_allowed = mounts_allowed, ap_cap_drop = drop_caps,
                               ap_cap_add = add_caps, ap_read_only_rootfs = co_read_only opts',
                               ap_cpus = co_cpus opts', ap_memory_mb = co_memory_mb opts',
                               ap_deferred = deferred\<rparr>;
                    gates = mount_gates @ cap_gates in
                if gates = [] then Allow opts' applied else NeedsApproval gates opts' applied)))"

section \<open>What the engine guarantees\<close>

text \<open>
  A mount is listed when a rule names its source and destination; the first such rule decides
  whether it is pinned read-only.
\<close>

definition rule_for :: "sandbox_profile_t \<Rightarrow> volume_mount \<Rightarrow> mount_rule option" where
  "rule_for p vm =
     find (\<lambda>r. source_matches (mr_source r) (vm_source vm) \<and> mr_destination r = vm_destination vm)
       (pf_mounts p)"

definition pinned_ro :: "sandbox_profile_t \<Rightarrow> volume_mount \<Rightarrow> bool" where
  "pinned_ro p vm = (case rule_for p vm of Some r \<Rightarrow> mr_read_only r | None \<Rightarrow> False)"

definition enforce_mount :: "sandbox_profile_t \<Rightarrow> volume_mount \<Rightarrow> volume_mount" where
  "enforce_mount p vm = vm\<lparr>vm_read_only := (vm_read_only vm \<or> pinned_ro p vm)\<rparr>"

lemma mount_verdict_rule:
  "mount_verdict_of (pf_mounts p) vm =
     (case rule_for p vm of
        None \<Rightarrow> NotAllowed
      | Some r \<Rightarrow> if mr_read_only r \<and> \<not> vm_read_only vm then DowngradeToReadOnly else Allowed)"
proof -
  have "mount_verdict_of rs vm =
      (case find (\<lambda>r. source_matches (mr_source r) (vm_source vm) \<and> mr_destination r = vm_destination vm) rs of
         None \<Rightarrow> NotAllowed
       | Some r \<Rightarrow> if mr_read_only r \<and> \<not> vm_read_only vm then DowngradeToReadOnly else Allowed)" for rs
    by (induction rs) auto
  then show ?thesis
    by (simp add: rule_for_def)
qed

lemma vm_read_only_id [simp]: "vm_read_only vm = b \<Longrightarrow> vm\<lparr>vm_read_only := b\<rparr> = vm"
  by (cases vm) simp

lemma apply_mounts_spec:
  "case apply_mounts p g vms of
     Inl _ \<Rightarrow> \<not> g \<and> (\<exists>vm\<in>set vms. rule_for p vm = None)
   | Inr (vs, ls, gs) \<Rightarrow>
       (g \<or> (\<forall>vm\<in>set vms. rule_for p vm \<noteq> None)) \<and> vs = map (enforce_mount p) vms \<and>
       gs = map mount_gate (filter (\<lambda>vm. rule_for p vm = None) vms) \<and> length ls = length vms"
proof (induction vms)
  case (Cons vm vms)
  then show ?case
    by (cases "rule_for p vm"; cases "apply_mounts p g vms")
      (auto simp: mount_verdict_rule enforce_mount_def pinned_ro_def split: if_splits)
qed simp

definition required_gates :: "sandbox_profile_t \<Rightarrow> create_options \<Rightarrow> pending_gate list" where
  "required_gates p opts =
     map mount_gate (filter (\<lambda>vm. rule_for p vm = None) (co_volumes opts)) @
     (if CapAdd \<in> set (pf_approval_gates p)
      then map cap_gate (filter (\<lambda>c. c \<notin> set (caps_add (pf_capabilities p))) (co_cap_add opts)) else [])"

text \<open>The options the engine hands on.\<close>

definition confine :: "sandbox_profile_t \<Rightarrow> create_options \<Rightarrow> create_options" where
  "confine p opts =
     opts\<lparr>co_volumes := map (enforce_mount p) (co_volumes opts),
          co_networks := fst (apply_network (pf_network p) (co_networks opts)),
          co_cap_drop := sorted_set (caps_drop (pf_capabilities p) @ co_cap_drop opts),
          co_cap_add := sorted_set (caps_add (pf_capabilities p) @ co_cap_add opts),
          co_read_only := (pf_read_only_rootfs p \<or> co_read_only opts),
          co_cpus := (case lim_cpu (pf_limits p) of Some c \<Rightarrow> Some c | None \<Rightarrow> co_cpus opts),
          co_memory_mb := (case lim_memory_mb (pf_limits p) of Some m \<Rightarrow> Some m
                           | None \<Rightarrow> co_memory_mb opts)\<rparr>"

lemma policy_apply_Inl:
  "apply_mounts p (MountHostPath \<in> set (pf_approval_gates p)) (co_volumes opts) = Inl r \<Longrightarrow>
     policy_apply p opts = DenyReq r"
  by (simp add: policy_apply_def)

lemma policy_apply_Inr:
  assumes "apply_mounts p (MountHostPath \<in> set (pf_approval_gates p)) (co_volumes opts) = Inr (vs, ls, gs)"
  shows "\<exists>ap. policy_apply p opts =
    (if required_gates p opts = [] then Allow (confine p opts) ap
     else NeedsApproval (required_gates p opts) (confine p opts) ap)"
proof -
  obtain ns l d where n: "apply_network (pf_network p) (co_networks opts) = (ns, l, d)"
    by (cases "apply_network (pf_network p) (co_networks opts)") auto
  have m: "vs = map (enforce_mount p) (co_volumes opts)"
    "gs = map mount_gate (filter (\<lambda>vm. rule_for p vm = None) (co_volumes opts))"
    using apply_mounts_spec [where p = p and g = "MountHostPath \<in> set (pf_approval_gates p)"
        and vms = "co_volumes opts"] assms by simp_all
  have g: "gs @ map cap_gate (filter (\<lambda>cap. cap \<notin> set (caps_add (pf_capabilities p)) \<and>
      CapAdd \<in> set (pf_approval_gates p)) (co_cap_add opts)) = required_gates p opts"
    by (simp add: m required_gates_def)
  show ?thesis
    unfolding policy_apply_def assms n Let_def sum.case prod.case g
    by (simp add: m confine_def n)
qed

lemma policy_apply_cases:
  obtains (deny) r where "policy_apply p opts = DenyReq r"
      "MountHostPath \<notin> set (pf_approval_gates p)" "list_ex (\<lambda>vm. rule_for p vm = None) (co_volumes opts)"
    | (decide) ap where "policy_apply p opts =
        (if required_gates p opts = [] then Allow (confine p opts) ap
         else NeedsApproval (required_gates p opts) (confine p opts) ap)"
      "MountHostPath \<in> set (pf_approval_gates p) \<or> \<not> list_ex (\<lambda>vm. rule_for p vm = None) (co_volumes opts)"
proof (cases "apply_mounts p (MountHostPath \<in> set (pf_approval_gates p)) (co_volumes opts)")
  case (Inl r)
  then show ?thesis
    using deny policy_apply_Inl [OF Inl]
      apply_mounts_spec [where p = p and g = "MountHostPath \<in> set (pf_approval_gates p)"
        and vms = "co_volumes opts"] by (auto simp: list_ex_iff)
next
  case (Inr q)
  obtain vs ls gs where q: "q = (vs, ls, gs)"
    by (cases q) auto
  obtain ap where "policy_apply p opts =
      (if required_gates p opts = [] then Allow (confine p opts) ap
       else NeedsApproval (required_gates p opts) (confine p opts) ap)"
    using policy_apply_Inr [of p opts vs ls gs] Inr q by auto
  then show ?thesis
    using decide apply_mounts_spec [where p = p and g = "MountHostPath \<in> set (pf_approval_gates p)"
        and vms = "co_volumes opts"] Inr q by (auto simp: list_ex_iff)
qed

lemma policy_deny_iff:
  "(\<exists>reason. policy_apply p opts = DenyReq reason) \<longleftrightarrow>
     MountHostPath \<notin> set (pf_approval_gates p) \<and> list_ex (\<lambda>vm. rule_for p vm = None) (co_volumes opts)"
  by (cases rule: policy_apply_cases [of p opts]) auto

lemma policy_gates:
  "policy_apply p opts = Allow opts' ap \<Longrightarrow> required_gates p opts = []"
  "policy_apply p opts = NeedsApproval gates opts' ap \<Longrightarrow> gates = required_gates p opts \<and> gates \<noteq> []"
  by (cases rule: policy_apply_cases [of p opts]; auto split: if_splits)+

lemma policy_options:
  "policy_apply p opts = Allow opts' ap \<or> policy_apply p opts = NeedsApproval gates opts' ap \<Longrightarrow>
     opts' = confine p opts"
  by (cases rule: policy_apply_cases [of p opts]) (auto split: if_splits)

text \<open>
  C26. Which requests are denied: exactly those that ask for a mount no rule lists, under a profile
  that does not gate mounts. No other part of the request can be denied.
\<close>

theorem policy_denies_unlisted_mounts:
  "(\<exists>reason. policy_apply p opts = DenyReq reason) \<longleftrightarrow>
     MountHostPath \<notin> set (pf_approval_gates p) \<and> list_ex (\<lambda>vm. rule_for p vm = None) (co_volumes opts)"
  by (rule policy_deny_iff)

text \<open>
  What needs approval: a request that is not denied is allowed outright exactly when every mount
  is listed and no gated capability is asked for beyond the profile's; otherwise the decision carries
  one gate for each unlisted mount and each such capability, in request order, and nothing else.
\<close>

theorem policy_gates_exact:
  "case policy_apply p opts of
     DenyReq _ \<Rightarrow> True
   | Allow _ _ \<Rightarrow> required_gates p opts = []
   | NeedsApproval gates _ _ \<Rightarrow> gates = required_gates p opts \<and> gates \<noteq> []"
  by (auto split: policy_decision.splits dest: policy_gates)

definition enforced :: "sandbox_profile_t \<Rightarrow> create_options \<Rightarrow> create_options \<Rightarrow> bool" where
  "enforced p opts opts' \<longleftrightarrow>
     co_volumes opts' = map (enforce_mount p) (co_volumes opts) \<and>
     (pf_network p = NetNone \<longrightarrow> co_networks opts' = [''none'']) \<and>
     (pf_network p \<noteq> NetNone \<longrightarrow> co_networks opts' = co_networks opts) \<and>
     set (co_cap_drop opts') = set (caps_drop (pf_capabilities p)) \<union> set (co_cap_drop opts) \<and>
     set (co_cap_add opts') = set (caps_add (pf_capabilities p)) \<union> set (co_cap_add opts) \<and>
     sorted (co_cap_drop opts') \<and> distinct (co_cap_drop opts') \<and>
     sorted (co_cap_add opts') \<and> distinct (co_cap_add opts') \<and>
     (pf_read_only_rootfs p \<longrightarrow> co_read_only opts') \<and> (co_read_only opts \<longrightarrow> co_read_only opts') \<and>
     (lim_cpu (pf_limits p) \<noteq> None \<longrightarrow> co_cpus opts' = lim_cpu (pf_limits p)) \<and>
     (lim_memory_mb (pf_limits p) \<noteq> None \<longrightarrow> co_memory_mb opts' = lim_memory_mb (pf_limits p)) \<and>
     opts' = opts\<lparr>co_volumes := co_volumes opts', co_networks := co_networks opts',
                  co_cap_drop := co_cap_drop opts', co_cap_add := co_cap_add opts',
                  co_read_only := co_read_only opts', co_cpus := co_cpus opts',
                  co_memory_mb := co_memory_mb opts'\<rparr>"

lemma enforced_confine: "enforced p opts (confine p opts)"
  unfolding enforced_def
  by (intro conjI; simp add: confine_def apply_network_def split: network_policy.split option.split)

lemma policy_enforced_options:
  "policy_apply p opts = Allow opts' ap \<or> policy_apply p opts = NeedsApproval gates opts' ap \<Longrightarrow>
     enforced p opts opts'"
  using policy_options enforced_confine by blast


text \<open>
  A profile that does not gate capabilities grants every capability the caller asks for, listed or
  not, without asking.
\<close>

lemma ungated_capabilities_granted:
  assumes "CapAdd \<notin> set (pf_approval_gates p)" and "list_all (\<lambda>vm. rule_for p vm \<noteq> None) (co_volumes opts)"
  shows "\<exists>opts' ap. policy_apply p opts = Allow opts' ap \<and> set (co_cap_add opts) \<subseteq> set (co_cap_add opts')"
proof -
  have nogates: "required_gates p opts = []"
    using assms by (auto simp: required_gates_def list_all_iff filter_empty_conv)
  have "\<nexists>r. policy_apply p opts = DenyReq r"
    using policy_deny_iff [of p opts] assms(2) by (auto simp: list_all_iff list_ex_iff)
  with nogates obtain opts' ap where a: "policy_apply p opts = Allow opts' ap"
    by (cases "policy_apply p opts") (auto dest: policy_gates)
  with policy_enforced_options have "enforced p opts opts'"
    by blast
  with a show ?thesis
    by (auto simp: enforced_def)
qed

end
