(* ===== verification/Profile.thy ===== *)
theory Profile
  imports Policy Text_Split
begin

text \<open>
  Loading sandbox profiles (\<^verbatim>\<open>linpodx-sandbox/src/profile.rs\<close>). The YAML parser and the directory are
  parameters: a listing yields entries in directory order, each a path and the result of reading it.
\<close>

datatype dir_listing =
  DirNotFound
| DirError string
| DirEntries "(string + string \<times> (string + string)) list"

definition validate :: "sandbox_profile_t \<Rightarrow> string \<Rightarrow> error + unit" where
  "validate p src =
     (if pf_version p \<noteq> PROFILE_SCHEMA_VERSION then
        Inl (InvalidArgument (src @ '' declares version '' @ show_nat (unat (pf_version p)) @
               '' but only '' @ show_nat (unat PROFILE_SCHEMA_VERSION) @ '' is supported in this build''))
      else if trim (pf_name p) = [] then Inl (InvalidArgument (src @ '': profile name is empty''))
      else if pf_selinux_label p \<noteq> None \<and> pf_selinux_type p \<noteq> None then
        Inl (InvalidArgument (src @ '': selinux_label and selinux_type are mutually exclusive '' @
               [CHR 0xE2, CHR 0x80, CHR 0x94] @
               '' pick one (selinux_label for a static system label like '' @ [CHR 0x22] @ ''container_t'' @ [CHR 0x22] @
               '', selinux_type when you want linpodx to synthesize a per-profile module)''))
      else Inr ())"

definition parse_profile ::
  "(string \<Rightarrow> string + sandbox_profile_t) \<Rightarrow> string \<Rightarrow> string \<Rightarrow> error + sandbox_profile_t" where
  "parse_profile from_yaml content src =
     (case from_yaml content of
        Inl e \<Rightarrow> Inl (Runtime (''invalid sandbox profile '' @ src @ '': '' @ e))
      | Inr p \<Rightarrow> (case validate p src of Inl e \<Rightarrow> Inl e | Inr _ \<Rightarrow> Inr p))"

text \<open>
  \<^verbatim>\<open>Path::extension\<close>: what follows the last dot of the file name, unless that dot starts the name.
\<close>

definition file_name :: "string \<Rightarrow> string" where
  "file_name path = (case rsplit_once (CHR ''/'') path of Some (_, f) \<Rightarrow> f | None \<Rightarrow> path)"

definition path_extension :: "string \<Rightarrow> string option" where
  "path_extension path =
     (case rsplit_once (CHR ''.'') (file_name path) of
        Some (stem, ext) \<Rightarrow> if stem = [] then None else Some ext
      | None \<Rightarrow> None)"

definition is_yaml :: "string \<Rightarrow> bool" where
  "is_yaml path \<longleftrightarrow> path_extension path = Some ''yaml'' \<or> path_extension path = Some ''yml''"

fun load_entries ::
  "(string \<Rightarrow> string + sandbox_profile_t) \<Rightarrow> (string + string \<times> (string + string)) list
     \<Rightarrow> error + (sandbox_profile_t \<times> string) list" where
  "load_entries from_yaml [] = Inr []"
| "load_entries from_yaml (Inl e # es) = Inl (Io e)"
| "load_entries from_yaml (Inr (path, content) # es) =
     (if \<not> is_yaml path then load_entries from_yaml es
      else case content of
        Inl e \<Rightarrow> Inl (Io e)
      | Inr txt \<Rightarrow>
          (case parse_profile from_yaml txt path of
             Inl e \<Rightarrow> Inl e
           | Inr p \<Rightarrow>
               (case load_entries from_yaml es of Inl e \<Rightarrow> Inl e | Inr ps \<Rightarrow> Inr ((p, txt) # ps))))"

definition load_profiles_from_dir ::
  "(string \<Rightarrow> string + sandbox_profile_t) \<Rightarrow> dir_listing \<Rightarrow> error + (sandbox_profile_t \<times> string) list" where
  "load_profiles_from_dir from_yaml dir =
     (case dir of
        DirNotFound \<Rightarrow> Inr []
      | DirError e \<Rightarrow> Inl (Io e)
      | DirEntries es \<Rightarrow>
          (case load_entries from_yaml es of
             Inl e \<Rightarrow> Inl e
           | Inr ps \<Rightarrow> Inr (sort_key (pf_name \<circ> fst) ps)))"

lemma validate_Inr:
  "validate p src = Inr u \<longleftrightarrow>
     pf_version p = PROFILE_SCHEMA_VERSION \<and> trim (pf_name p) \<noteq> [] \<and>
     (pf_selinux_label p = None \<or> pf_selinux_type p = None)"
  by (auto simp: validate_def)

lemma load_entries_valid:
  "load_entries from_yaml es = Inr ps \<Longrightarrow> (p, txt) \<in> set ps \<Longrightarrow>
     from_yaml txt = Inr p \<and> (\<exists>src. validate p src = Inr ())"
proof (induction from_yaml es arbitrary: ps rule: load_entries.induct)
  case (3 from_yaml path content es)
  then show ?case
    by (auto simp: parse_profile_def split: if_splits sum.splits)
qed auto

text \<open>
  Every profile the loader returns was parsed from the text it is returned with and passed
  validation: the supported schema version, a name that is not blank, and not both SELinux modes.
  The profiles come sorted by name.
\<close>

theorem loaded_profiles_valid:
  assumes "load_profiles_from_dir from_yaml dir = Inr ps"
  shows "list_all (\<lambda>(p, txt). from_yaml txt = Inr p \<and> pf_version p = PROFILE_SCHEMA_VERSION \<and>
      trim (pf_name p) \<noteq> [] \<and> (pf_selinux_label p = None \<or> pf_selinux_type p = None)) ps \<and>
    sorted (map (pf_name \<circ> fst) ps)"
  using assms load_entries_valid
  by (fastforce simp: load_profiles_from_dir_def list_all_iff validate_Inr split: dir_listing.splits sum.splits)

definition demo_profile :: sandbox_profile_t where
  "demo_profile =
     \<lparr>pf_version = 1, pf_name = ''web'', pf_description = '''', pf_network = NetNone,
      pf_mounts = [\<lparr>mr_source = HostPath ''/data'', mr_destination = ''/data'', mr_read_only = True\<rparr>],
      pf_limits = \<lparr>lim_cpu = None, lim_memory_mb = Some 512, lim_disk_mb = None, lim_time_secs = None\<rparr>,
      pf_capabilities = default_capabilities_profile, pf_read_only_rootfs = True,
      pf_approval_gates = [MountHostPath], pf_approval_timeout_secs = None,
      pf_snapshot_before_run = False, pf_passthrough = None, pf_distro_kind = None, pf_systemd = False,
      pf_snapshot_backend = None, pf_syscall_allowlist = None, pf_apparmor_extra = None,
      pf_selinux_label = None, pf_selinux_type = None, pf_auto_encrypt_snapshots = True\<rparr>"

lemma trim_web: "trim ''web'' = ''web''"
  by code_simp

theorem loaded_profiles_valid_witness:
  "\<exists>ps. load_profiles_from_dir (\<lambda>_. Inr demo_profile) (DirEntries [Inr (''p/web.yaml'', Inr ''y'')]) = Inr ps \<and>
     sorted (map (pf_name \<circ> fst) ps) \<and> length ps = 1"
proof -
  have y: "is_yaml ''p/web.yaml''"
    by code_simp
  have "load_profiles_from_dir (\<lambda>_. Inr demo_profile) (DirEntries [Inr (''p/web.yaml'', Inr ''y'')]) =
      Inr [(demo_profile, ''y'')]"
    by (simp add: load_profiles_from_dir_def y parse_profile_def validate_def demo_profile_def
        PROFILE_SCHEMA_VERSION_def trim_web)
  with loaded_profiles_valid [OF this] show ?thesis
    by simp
qed

end
