(* ===== verification/Manager.thy ===== *)
theory Manager
  imports Profile Audit_Chain Plugin_Chains "HOL-Library.AList"
begin

text \<open>
  The sandbox manager (\<^verbatim>\<open>linpodx-sandbox/src/manager.rs\<close>): the profile cache, reload, the policy engine
  behind a container create with its approval gates, audit and events, and chain verification. The
  approval gateway, the profile directory, serde and the security-profile compiler are parameters.
\<close>

record loaded_profile =
  ld_profile :: sandbox_profile_t
  ld_yaml :: string
  ld_yaml_hash :: string
  ld_last_updated :: timestamp

text \<open>The profile cache is a hash map: an association list with distinct keys.\<close>

record ('g, 'w) mgr =
  m_db :: db
  m_profiles :: "(string \<times> loaded_profile) list"
  m_events :: "event list"
  m_counter :: u64
  m_gateway :: 'g
  m_plugins :: "'w registry option"

type_synonym ('g, 'w, 'a) mgr_act = "(('g, 'w) mgr, error, 'a) act"

record ('g, 'w) mgr_env =
  env_audit :: audit_env
  env_engine :: "'w wasm_engine"
  gw_request :: "approval_request \<Rightarrow> 'g \<Rightarrow> approval_outcome \<times> 'g"
  default_timeout_secs :: nat
  to_value_applied :: "applied_policy \<Rightarrow> json option"
  to_value_request :: "approval_request \<Rightarrow> json option"
  to_value_outcome :: "approval_outcome \<Rightarrow> json option"
  from_yaml :: "string \<Rightarrow> string + sandbox_profile_t"
  compiler :: "(sandbox_profile_t \<Rightarrow> error + string list) option"
  validator_joins :: bool

definition on_db :: "'a dbact \<Rightarrow> ('g, 'w, 'a) mgr_act" where
  "on_db = zoom m_db (\<lambda>d s. s\<lparr>m_db := d\<rparr>)"

definition audit_m ::
  "('g, 'w) mgr_env \<Rightarrow> audit_kind \<Rightarrow> string option \<Rightarrow> json \<Rightarrow> ('g, 'w, unit) mgr_act" where
  "audit_m env kind pn payload =
     bindE (on_db (audit_append (env_audit env) kind pn None payload)) (\<lambda>_. ret ())"

definition publish :: "event_topic \<Rightarrow> event_kind \<Rightarrow> string \<Rightarrow> json \<Rightarrow> ('g, 'w, unit) mgr_act" where
  "publish topic kind rid details =
     bindE (on_db utc_now) (\<lambda>t.
       modify (\<lambda>s. s\<lparr>m_events := m_events s @
         [\<lparr>ev_topic = topic, ev_kind = kind, ev_resource_id = rid, ev_timestamp = t, ev_details = details\<rparr>]\<rparr>))"

definition unwrap_or_null :: "json option \<Rightarrow> json" where
  "unwrap_or_null v = (case v of Some j \<Rightarrow> j | None \<Rightarrow> JNull)"

definition new_request_id :: "('g, 'w, string) mgr_act" where
  "new_request_id =
     bindE (gets m_counter) (\<lambda>n.
       bindE (modify (\<lambda>s. s\<lparr>m_counter := n + 1\<rparr>)) (\<lambda>_.
         bindE (on_db utc_now) (\<lambda>now.
           ret (''req-'' @ show_int (now div 1000000) @ ''-'' @ show_nat (unat n)))))"

definition sha256_hex :: "audit_env \<Rightarrow> string \<Rightarrow> string" where
  "sha256_hex env s = hex_encode (sha256 env (as_bytes s))"

section \<open>Applying a profile to a create request\<close>

definition maybe_compile_security_opts ::
  "('g, 'w) mgr_env \<Rightarrow> sandbox_profile_t \<Rightarrow> create_options \<Rightarrow> ('g, 'w, create_options) mgr_act" where
  "maybe_compile_security_opts env p opts =
     (if pf_syscall_allowlist p = None \<and> pf_apparmor_extra p = None \<and>
         pf_selinux_type p = None \<and> pf_selinux_label p = None then ret opts
      else case compiler env of
        None \<Rightarrow> ret opts
      | Some compile \<Rightarrow>
          (case compile p of
             Inl e \<Rightarrow> throw e
           | Inr extra \<Rightarrow> ret (opts\<lparr>co_security_opts := co_security_opts opts @ extra\<rparr>)))"

definition audit_and_publish_applied ::
  "('g, 'w) mgr_env \<Rightarrow> string \<Rightarrow> applied_policy \<Rightarrow> ('g, 'w, unit) mgr_act" where
  "audit_and_publish_applied env name applied =
     (let payload = unwrap_or_null (to_value_applied env applied) in
      bindE (audit_m env audit_kind.ProfileApplied (Some name) payload) (\<lambda>_.
        publish TSandbox EvCreated name payload))"

fun outcome_kind :: "approval_outcome \<Rightarrow> audit_kind" where
  "outcome_kind (Granted _ _) = audit_kind.ApprovalGranted"
| "outcome_kind (Denied _ _) = audit_kind.ApprovalDenied"
| "outcome_kind TimedOut = audit_kind.ApprovalTimedOut"
| "outcome_kind NoListener = audit_kind.ApprovalNoListener"

fun outcome_payload :: "('g, 'w) mgr_env \<Rightarrow> approval_outcome \<Rightarrow> json" where
  "outcome_payload env (Granted b r) = unwrap_or_null (to_value_outcome env (Granted b r))"
| "outcome_payload env (Denied b r) = unwrap_or_null (to_value_outcome env (Denied b r))"
| "outcome_payload env _ = JNull"

definition ask_gateway ::
  "('g, 'w) mgr_env \<Rightarrow> approval_request \<Rightarrow> ('g, 'w, approval_outcome) mgr_act" where
  "ask_gateway env req s =
     (case gw_request env req (m_gateway s) of (o', g) \<Rightarrow> (Inr o', s\<lparr>m_gateway := g\<rparr>))"

definition not_granted_error :: "string \<Rightarrow> approval_outcome \<Rightarrow> error" where
  "not_granted_error name outcome =
     InvalidArgument (''sandbox profile '' @ [CHR 0x27] @ name @ [CHR 0x27] @
       '' denied: approval not granted ('' @ audit_kind_str (outcome_kind outcome) @ '')'')"

definition run_gate ::
  "('g, 'w) mgr_env \<Rightarrow> string \<Rightarrow> nat \<Rightarrow> pending_gate \<Rightarrow> ('g, 'w, unit) mgr_act" where
  "run_gate env name timeout gate =
     bindE new_request_id (\<lambda>rid.
       bindE (on_db utc_now) (\<lambda>now.
         let req = \<lparr>request_id = rid, category = pg_category gate, ar_profile_name = name,
                    timeout_secs = timeout, created_at = now, ar_payload = pg_payload gate,
                    container_hint = None\<rparr> in
         bindE (audit_m env audit_kind.ApprovalRequested (Some name)
                  (unwrap_or_null (to_value_request env req))) (\<lambda>_.
           bindE (ask_gateway env req) (\<lambda>outcome.
             bindE (audit_m env (outcome_kind outcome) (Some name) (outcome_payload env outcome)) (\<lambda>_.
               if is_granted outcome then ret () else throw (not_granted_error name outcome))))))"

definition deny_request ::
  "('g, 'w) mgr_env \<Rightarrow> string \<Rightarrow> string \<Rightarrow> ('g, 'w, 'a) mgr_act" where
  "deny_request env name why =
     (let payload = JObject [(''reason'', JString why)] in
      bindE (audit_m env audit_kind.ProfileDenied (Some name) payload) (\<lambda>_.
        bindE (publish TSandbox EvStopped name payload) (\<lambda>_.
          throw (InvalidArgument (''sandbox profile '' @ [CHR 0x27] @ name @ [CHR 0x27] @
                   '' denied: '' @ why)))))"

definition finish_create ::
  "('g, 'w) mgr_env \<Rightarrow> string \<Rightarrow> sandbox_profile_t \<Rightarrow> create_options \<Rightarrow> applied_policy
     \<Rightarrow> ('g, 'w, create_options \<times> applied_policy) mgr_act" where
  "finish_create env name p opts applied =
     bindE (maybe_compile_security_opts env p opts) (\<lambda>opts'.
       bindE (audit_and_publish_applied env name applied) (\<lambda>_. ret (opts', applied)))"

definition profile_not_found :: "string \<Rightarrow> error" where
  "profile_not_found name = NotFound (''sandbox profile '' @ [CHR 0x27] @ name @ [CHR 0x27])"

definition approval_timeout :: "('g, 'w) mgr_env \<Rightarrow> sandbox_profile_t \<Rightarrow> nat" where
  "approval_timeout env p =
     (case pf_approval_timeout_secs p of Some t \<Rightarrow> unat t | None \<Rightarrow> default_timeout_secs env)"

definition apply_to_create ::
  "('g, 'w) mgr_env \<Rightarrow> string \<Rightarrow> create_options
     \<Rightarrow> ('g, 'w, create_options \<times> applied_policy) mgr_act" where
  "apply_to_create env name opts =
     bindE (gets (\<lambda>s. map_of (m_profiles s) name)) (\<lambda>lp.
       case lp of
         None \<Rightarrow> throw (profile_not_found name)
       | Some ld \<Rightarrow>
           (case policy_apply (ld_profile ld) opts of
              Allow opts' applied \<Rightarrow> finish_create env name (ld_profile ld) opts' applied
            | NeedsApproval gates opts' applied \<Rightarrow>
                bindE (for_each (run_gate env name (approval_timeout env (ld_profile ld))) gates) (\<lambda>_.
                  finish_create env name (ld_profile ld) opts' applied)
            | DenyReq why \<Rightarrow> deny_request env name why))"

section \<open>Reload\<close>

definition upsert_profile_row :: "string \<Rightarrow> string \<Rightarrow> string \<Rightarrow> unit dbact" where
  "upsert_profile_row name yaml hash =
     sql (\<lambda>d.
       let t = sandbox_profile d in
       if name \<in> sp_name ` set (rows t)
       then (Inr (), d\<lparr>sandbox_profile := t\<lparr>rows := map (\<lambda>r.
               if sp_name r = name then r\<lparr>sp_yaml_content := yaml, sp_yaml_hash := hash\<rparr> else r) (rows t)\<rparr>\<rparr>)
       else case next_id sp_id t of
         None \<Rightarrow> (Inl (Sqlx ''database or disk is full''), d)
       | Some i \<Rightarrow>
           (Inr (), d\<lparr>sandbox_profile := \<lparr>rows = rows t @
              [\<lparr>sp_id = i, sp_name = name, sp_yaml_content = yaml, sp_yaml_hash = hash\<rparr>],
              autoinc = i\<rparr>\<rparr>))"

definition rejections :: "(string \<times> validator_decision) list \<Rightarrow> (string \<times> string) list" where
  "rejections outs =
     concat (map (\<lambda>(n, d). case d of Reject r \<Rightarrow> [(n, r)] | Pass \<Rightarrow> []) outs)"

text \<open>
  The plugin validators of one profile: \<open>None\<close> when the blocking task did not join and the profile is
  skipped, else the rejections.
\<close>

definition run_validators ::
  "('g, 'w) mgr_env \<Rightarrow> string \<Rightarrow> ('g, 'w, (string \<times> string) list option) mgr_act" where
  "run_validators env yaml s =
     (case m_plugins s of
        None \<Rightarrow> (Inr (Some []), s)
      | Some reg \<Rightarrow>
          if \<not> validator_joins env then (Inr None, s)
          else (case evaluate_profile_validator (env_engine env) yaml reg of
                  (outs, reg') \<Rightarrow> (Inr (Some (rejections outs)), s\<lparr>m_plugins := Some reg'\<rparr>)))"

definition reload_one ::
  "('g, 'w) mgr_env \<Rightarrow> timestamp \<Rightarrow> sandbox_profile_t \<times> string
     \<Rightarrow> ('g, 'w, (string \<times> loaded_profile) option) mgr_act" where
  "reload_one env now py =
     (case py of (p, yaml) \<Rightarrow>
        (let h = sha256_hex (env_audit env) yaml in
         bindE (run_validators env yaml) (\<lambda>rej.
           case rej of
             None \<Rightarrow> ret None
           | Some rs \<Rightarrow>
               bindE (for_each (\<lambda>(plugin, why).
                        audit_m env audit_kind.ProfileValidatorRejected (Some (pf_name p))
                          (JObject [(''plugin'', JString plugin), (''reason'', JString why),
                                    (''yaml_hash'', JString h)])) rs) (\<lambda>_.
                 if rs \<noteq> [] then ret None
                 else
                   bindE (audit_m env audit_kind.ProfileLoaded (Some (pf_name p))
                            (JObject [(''yaml_hash'', JString h),
                                      (''version'', JInt (uint (pf_version p)))])) (\<lambda>_.
                     bindE (on_db (upsert_profile_row (pf_name p) yaml h)) (\<lambda>_.
                       ret (Some (pf_name p,
                         \<lparr>ld_profile = p, ld_yaml = yaml, ld_yaml_hash = h, ld_last_updated = now\<rparr>))))))))"

fun reload_loop ::
  "('g, 'w) mgr_env \<Rightarrow> timestamp \<Rightarrow> (sandbox_profile_t \<times> string) list
     \<Rightarrow> (string \<times> loaded_profile) list \<Rightarrow> string list
     \<Rightarrow> ('g, 'w, (string \<times> loaded_profile) list \<times> string list) mgr_act" where
  "reload_loop env now [] new_map names = ret (new_map, names)"
| "reload_loop env now (py # pys) new_map names =
     bindE (reload_one env now py) (\<lambda>r.
       case r of
         None \<Rightarrow> reload_loop env now pys new_map names
       | Some (n, ld) \<Rightarrow> reload_loop env now pys (AList.update n ld new_map) (names @ [n]))"

definition reload :: "('g, 'w) mgr_env \<Rightarrow> dir_listing \<Rightarrow> ('g, 'w, string list) mgr_act" where
  "reload env dir =
     (case load_profiles_from_dir (from_yaml env) dir of
        Inl e \<Rightarrow> throw e
      | Inr pairs \<Rightarrow>
          bindE (on_db utc_now) (\<lambda>now.
            bindE (reload_loop env now pairs [] []) (\<lambda>(new_map, names).
              bindE (modify (\<lambda>s. s\<lparr>m_profiles := new_map\<rparr>)) (\<lambda>_.
                let details = JObject [(''count'', JInt (int (length new_map))),
                                       (''names'', JArray (map JString names))] in
                bindE (audit_m env audit_kind.ProfilesReloaded None details) (\<lambda>_.
                  bindE (publish TSandbox EvRenamed ''profiles'' details) (\<lambda>_. ret names))))))"

section \<open>Lookups and verification\<close>

definition get_profile :: "string \<Rightarrow> ('g, 'w) mgr \<Rightarrow> sandbox_profile_t option" where
  "get_profile name s = map_option ld_profile (map_of (m_profiles s) name)"

definition l4_rules_for_profile :: "string \<Rightarrow> ('g, 'w) mgr \<Rightarrow> egress_rule list" where
  "l4_rules_for_profile name s =
     (case map_of (m_profiles s) name of
        Some lp \<Rightarrow> (case pf_network (ld_profile lp) of Allowlist _ rules \<Rightarrow> rules | _ \<Rightarrow> [])
      | None \<Rightarrow> [])"

record profile_summary =
  ps_name :: string
  ps_description :: string
  ps_version :: u32
  ps_yaml_hash :: string
  ps_last_updated :: timestamp

definition list_profiles :: "('g, 'w) mgr \<Rightarrow> profile_summary list" where
  "list_profiles s =
     sort_key ps_name (map (\<lambda>(_, lp).
       \<lparr>ps_name = pf_name (ld_profile lp), ps_description = pf_description (ld_profile lp),
        ps_version = pf_version (ld_profile lp), ps_yaml_hash = ld_yaml_hash lp,
        ps_last_updated = ld_last_updated lp\<rparr>) (m_profiles s))"

definition get_profile_response ::
  "string \<Rightarrow> ('g, 'w) mgr \<Rightarrow> error + string \<times> string \<times> string \<times> timestamp" where
  "get_profile_response name s =
     (case map_of (m_profiles s) name of
        None \<Rightarrow> Inl (profile_not_found name)
      | Some lp \<Rightarrow> Inr (pf_name (ld_profile lp), ld_yaml lp, ld_yaml_hash lp, ld_last_updated lp))"

definition query_audit :: "('g, 'w) mgr_env \<Rightarrow> audit_filters \<Rightarrow> ('g, 'w, audit_entry list) mgr_act" where
  "query_audit env f = on_db (audit_query (env_audit env) f)"

definition json_int_opt :: "int option \<Rightarrow> json" where
  "json_int_opt = json_opt JInt"

definition verify_chain_m :: "('g, 'w) mgr_env \<Rightarrow> int option \<Rightarrow> ('g, 'w, verify_report) mgr_act" where
  "verify_chain_m env since =
     bindE (on_db (verify_chain (env_audit env) since)) (\<lambda>rep.
       bindE (audit_m env audit_kind.ChainVerified None
                (JObject [(''total'', JInt (vr_total rep)), (''last_seq'', json_int_opt (vr_last_seq rep)),
                          (''broken_at'', json_int_opt (vr_broken_at rep))])) (\<lambda>_. ret rep))"

end
