(* ===== verification/Manager_Safety.thy ===== *)
theory Manager_Safety
  imports Manager Audit_Sink_Contract
begin

text \<open>
  What the sandbox manager guarantees: the audit chain survives every operation, no container is
  created past an approval gate that was not granted, and the audit trail of a create tells which
  gates were passed.
\<close>

section \<open>The audit chain survives every operation\<close>

definition mgr_inv :: "('g, 'w) mgr_env \<Rightarrow> ('g, 'w) mgr \<Rightarrow> bool" where
  "mgr_inv env s \<longleftrightarrow> chain_inv (env_audit env) (m_db s)"

lemma preserves_on_db [preserves_intros]:
  "preserves (chain_inv (env_audit env)) m \<Longrightarrow> preserves (mgr_inv env) (on_db m)"
  by (auto simp: preserves_def mgr_inv_def on_db_def zoom_apply)

lemma preserves_audit_m [preserves_intros]: "preserves (mgr_inv env) (audit_m env kind pn payload)"
  unfolding audit_m_def by (intro preserves_intros)

lemma preserves_now [preserves_intros]: "preserves (mgr_inv env) (on_db utc_now)"
  by (intro preserves_intros) simp

lemma preserves_publish [preserves_intros]: "preserves (mgr_inv env) (publish t k r j)"
  unfolding publish_def by (intro preserves_intros) (simp_all add: mgr_inv_def)

lemma preserves_new_request_id [preserves_intros]: "preserves (mgr_inv env) new_request_id"
  unfolding new_request_id_def by (intro preserves_intros) (simp_all add: mgr_inv_def)

lemma preserves_ask [preserves_intros]: "preserves (mgr_inv env) (ask_gateway env req)"
  by (auto simp: preserves_def ask_gateway_def mgr_inv_def split: prod.splits)

lemma preserves_run_gate [preserves_intros]: "preserves (mgr_inv env) (run_gate env name t gate)"
  unfolding run_gate_def Let_def by (intro preserves_intros)

lemma preserves_compile [preserves_intros]: "preserves (mgr_inv env) (maybe_compile_security_opts env p opts)"
  unfolding maybe_compile_security_opts_def by (intro preserves_intros)

lemma preserves_finish [preserves_intros]: "preserves (mgr_inv env) (finish_create env name p opts ap)"
  unfolding finish_create_def audit_and_publish_applied_def Let_def by (intro preserves_intros)

lemma preserves_deny [preserves_intros]: "preserves (mgr_inv env) (deny_request env name why)"
  unfolding deny_request_def Let_def by (intro preserves_intros)

lemma preserves_apply_to_create [preserves_intros]: "preserves (mgr_inv env) (apply_to_create env name opts)"
  unfolding apply_to_create_def
  by (intro preserves_intros) (auto split: policy_decision.split intro!: preserves_intros)

lemma preserves_upsert_profile_row [preserves_intros]:
  "preserves (chain_inv aenv) (upsert_profile_row name yaml h)"
  unfolding upsert_profile_row_def
  by (intro preserves_sql) (auto simp: preserves_def chain_inv_def Let_def split: option.splits)

lemma preserves_validators [preserves_intros]: "preserves (mgr_inv env) (run_validators env yaml)"
  by (auto simp: preserves_def run_validators_def mgr_inv_def split: option.splits prod.splits)

lemma preserves_reload_one [preserves_intros]: "preserves (mgr_inv env) (reload_one env now py)"
  unfolding reload_one_def Let_def by (intro preserves_intros)

lemma preserves_reload_loop [preserves_intros]:
  "preserves (mgr_inv env) (reload_loop env now pys new_map names)"
proof (induction pys arbitrary: new_map names)
  case (Cons py pys)
  then show ?case
    unfolding reload_loop.simps by (intro preserves_intros) auto
qed (simp add: preserves_ret)

lemma preserves_reload [preserves_intros]: "preserves (mgr_inv env) (reload env dir)"
  unfolding reload_def Let_def by (intro preserves_intros) (simp_all add: mgr_inv_def)

lemma preserves_verify_chain [preserves_intros]: "preserves (chain_inv aenv) (verify_chain aenv' since)"
  unfolding verify_chain_def Let_def by (intro preserves_intros) auto

lemma preserves_verify_chain_m [preserves_intros]: "preserves (mgr_inv env) (verify_chain_m env since)"
  unfolding verify_chain_m_def by (intro preserves_intros)

lemma preserves_query_audit [preserves_intros]: "preserves (mgr_inv env) (query_audit env f)"
  unfolding query_audit_def audit_query_def by (intro preserves_intros) auto

definition mgr_initial :: "('g, 'w) mgr \<Rightarrow> bool" where
  "mgr_initial s \<longleftrightarrow> (\<exists>f c. m_db s = fresh_db f c)"

inductive mgr_step :: "('g, 'w) mgr_env \<Rightarrow> ('g, 'w) mgr \<Rightarrow> ('g, 'w) mgr \<Rightarrow> bool" for env where
  step_reload: "mgr_step env s (snd (reload env dir s))"
| step_create: "mgr_step env s (snd (apply_to_create env name opts s))"
| step_verify: "mgr_step env s (snd (verify_chain_m env since s))"
| step_query: "mgr_step env s (snd (query_audit env f s))"

inductive_cases mgr_stepE: "mgr_step env s s'"

interpretation mgr_machine: invariant_machine mgr_initial "mgr_step env" "mgr_inv env" for env
proof
  show "mgr_initial s \<Longrightarrow> mgr_inv env s" for s :: "('a, 'b) mgr"
    by (auto simp: mgr_initial_def mgr_inv_def)
  show "mgr_inv env s \<Longrightarrow> mgr_step env s s' \<Longrightarrow> mgr_inv env s'" for s s' :: "('a, 'b) mgr"
    by (elim mgr_stepE) (auto intro: preserves_snd preserves_intros)
qed


definition demo_mgr_env :: "(unit, unit) mgr_env" where
  "demo_mgr_env =
     \<lparr>env_audit = demo_env,
      env_engine = \<lparr>guest = (\<lambda>w e p. ([], None, w)), instantiate = (\<lambda>_. Inl ''none''),
                    parse_injector = (\<lambda>_. None), event_to_vec = (\<lambda>_. Inr [])\<rparr>,
      gw_request = (\<lambda>req g. (Granted ''cli'' None, g)), default_timeout_secs = 30,
      to_value_applied = (\<lambda>a. Some (JString ''applied'')), to_value_request = (\<lambda>r. Some (JString ''requested'')),
      to_value_outcome = (\<lambda>o'. Some (JString ''outcome'')), from_yaml = (\<lambda>_. Inr demo_profile),
      compiler = None, validator_joins = True\<rparr>"

definition demo_mgr :: "(unit, unit) mgr" where
  "demo_mgr =
     \<lparr>m_db = demo_db,
      m_profiles = [(''web'', \<lparr>ld_profile = demo_profile, ld_yaml = ''y'', ld_yaml_hash = ''h'', ld_last_updated = 0\<rparr>)],
      m_events = [], m_counter = 0, m_gateway = (), m_plugins = None\<rparr>"


section \<open>No create without the approvals\<close>

lemma for_each_Inr:
  "for_each f xs s = (Inr u, s') \<Longrightarrow> x \<in> set xs \<Longrightarrow> \<exists>s1 s2. f x s1 = (Inr (), s2)"
proof (induction xs arbitrary: s)
  case (Cons y ys)
  then obtain s1 where "f y s = (Inr (), s1)" "for_each f ys s1 = (Inr u, s')"
    by (auto elim!: bindE_Inr_E)
  with Cons show ?case
    by (cases "x = y") auto
qed simp

text \<open>A gate is granted when the gateway answers a request for exactly that category and payload so.\<close>

definition gate_granted :: "('g, 'w) mgr_env \<Rightarrow> string \<Rightarrow> pending_gate \<Rightarrow> bool" where
  "gate_granted env name gate \<longleftrightarrow>
     (\<exists>req g. category req = pg_category gate \<and> ar_payload req = pg_payload gate \<and>
        ar_profile_name req = name \<and> is_granted (fst (gw_request env req g)))"

lemma run_gate_granted:
  assumes "run_gate env name t gate s = (Inr u, s')"
  shows "gate_granted env name gate"
proof -
  from assms obtain rid now s1 outcome s2 s3 where
    a: "ask_gateway env \<lparr>request_id = rid, category = pg_category gate, ar_profile_name = name,
        timeout_secs = t, created_at = now, ar_payload = pg_payload gate, container_hint = None\<rparr> s1 =
      (Inr outcome, s2)"
    and g: "(if is_granted outcome then ret () else throw (not_granted_error name outcome)) s3 = (Inr u, s')"
    unfolding run_gate_def Let_def by (elim bindE_Inr_E) blast
  from g have "is_granted outcome"
    by (auto split: if_splits)
  then show ?thesis
    unfolding gate_granted_def
    using a by (intro exI [of _ "\<lparr>request_id = rid, category = pg_category gate, ar_profile_name = name,
        timeout_secs = t, created_at = now, ar_payload = pg_payload gate, container_hint = None\<rparr>"]
        exI [of _ "m_gateway s1"]) (auto simp: ask_gateway_def split: prod.splits)
qed

lemma apply_to_create_loaded:
  "map_of (m_profiles s) name = Some ld \<Longrightarrow> apply_to_create env name opts s =
     (case policy_apply (ld_profile ld) opts of
        Allow opts' applied \<Rightarrow> finish_create env name (ld_profile ld) opts' applied
      | NeedsApproval gates opts' applied \<Rightarrow>
          bindE (for_each (run_gate env name (approval_timeout env (ld_profile ld))) gates) (\<lambda>_.
            finish_create env name (ld_profile ld) opts' applied)
      | DenyReq why \<Rightarrow> deny_request env name why) s"
  by (simp add: apply_to_create_def bindE_apply)

lemma maybe_compile_Inr:
  assumes "maybe_compile_security_opts env p opts s = (Inr r, s')"
  shows "\<exists>extra. r = opts\<lparr>co_security_opts := co_security_opts opts @ extra\<rparr>"
proof (cases "r = opts")
  case True
  then show ?thesis
    by (intro exI [of _ "[]"]) simp
next
  case False
  with assms show ?thesis
    by (auto simp: maybe_compile_security_opts_def split: if_splits option.splits sum.splits)
qed

lemma finish_create_Inr:
  assumes "finish_create env name p opts ap s = (Inr r, s')"
  shows "\<exists>extra. r = (opts\<lparr>co_security_opts := co_security_opts opts @ extra\<rparr>, ap)"
proof -
  from assms obtain a s1 where "maybe_compile_security_opts env p opts s = (Inr a, s1)" "r = (a, ap)"
    unfolding finish_create_def by (auto elim!: bindE_Inr_E)
  with maybe_compile_Inr show ?thesis
    by blast
qed


definition demo_opts :: create_options where
  "demo_opts =
     \<lparr>co_image = ''alpine'', co_name = None, co_command = [], co_env = [], co_labels = [], co_rm = False,
      co_detach = True, co_port_mappings = [],
      co_volumes = [\<lparr>vm_source = ''/data'', vm_destination = ''/data'', vm_read_only = False\<rparr>],
      co_networks = [''bridge''], co_cap_drop = [], co_cap_add = [], co_read_only = False,
      co_cpus = None, co_memory_mb = None, co_sandbox_profile = Some ''web'', co_passthrough = None,
      co_systemd = False, co_auto_restart = False, co_keep_user_id = False, co_rootfs = None,
      co_security_opts = []\<rparr>"

lemma demo_rule: "rule_for demo_profile v =
    (if vm_source v = ''/data'' \<and> vm_destination v = ''/data''
     then Some \<lparr>mr_source = HostPath ''/data'', mr_destination = ''/data'', mr_read_only = True\<rparr> else None)"
  by (auto simp: rule_for_def demo_profile_def)

lemma demo_gates: "required_gates demo_profile demo_opts = []"
  by (simp add: required_gates_def demo_rule demo_opts_def)

lemma demo_policy: "\<exists>ap. policy_apply demo_profile demo_opts = Allow (confine demo_profile demo_opts) ap"
proof (cases rule: policy_apply_cases [of demo_profile demo_opts])
  case (deny r)
  then show ?thesis
    by (simp add: demo_rule demo_opts_def)
next
  case (decide ap)
  then show ?thesis
    by (simp add: demo_gates)
qed

lemma demo_create: "\<exists>ap s'. apply_to_create demo_mgr_env ''web'' demo_opts demo_mgr =
    (Inr (confine demo_profile demo_opts, ap), s')"
proof -
  obtain ap where p: "policy_apply demo_profile demo_opts = Allow (confine demo_profile demo_opts) ap"
    using demo_policy by blast
  have ld: "map_of (m_profiles demo_mgr) ''web'' =
      Some \<lparr>ld_profile = demo_profile, ld_yaml = ''y'', ld_yaml_hash = ''h'', ld_last_updated = 0\<rparr>"
    by (simp add: demo_mgr_def)
  show ?thesis
    unfolding apply_to_create_loaded [OF ld]
    by (simp add: p finish_create_def maybe_compile_security_opts_def audit_and_publish_applied_def
        audit_m_def publish_def on_db_def zoom_apply bindE_apply audit_append_def utc_now_def transaction_def
        insert_audit_def next_id_def max_rowid_def select_head_def demo_mgr_env_def demo_mgr_def demo_db_def
        fresh_db_def empty_table_def demo_env_def unwrap_or_null_def Let_def)
qed


section \<open>The audit trail of a create\<close>

definition kinds :: "('g, 'w) mgr \<Rightarrow> string list" where
  "kinds s = map a_kind (rows (audit_log (m_db s)))"

lemma kinds_audit_m:
  assumes "audit_m env k pn j s = (Inr u, s')"
  shows "kinds s' = kinds s @ [audit_kind_str k] \<and> m_profiles s' = m_profiles s"
proof -
  obtain e d' where a: "audit_append (env_audit env) k pn None j (m_db s) = (Inr e, d')" and s': "s' = s\<lparr>m_db := d'\<rparr>"
    using assms by (auto simp: audit_m_def on_db_def zoom_apply bindE_apply prod_eq_iff split: prod.splits sum.splits)
  from audit_append_cases [OF a] obtain pj ts prev i where
    "audit_log d' = \<lparr>rows = rows (audit_log (m_db s)) @ [new_row (env_audit env) k pn None pj ts prev i], autoinc = i\<rparr>"
    using appended_rows by blast
  then show ?thesis
    by (simp add: kinds_def s' new_row_def)
qed

lemma kinds_now: "on_db utc_now s = (Inr t, s') \<Longrightarrow> kinds s' = kinds s"
  by (auto simp: on_db_def zoom_apply utc_now_def kinds_def)

lemma kinds_publish: "publish t k r j s = (Inr u, s') \<Longrightarrow> kinds s' = kinds s"
  by (auto simp: publish_def bindE_apply on_db_def zoom_apply utc_now_def kinds_def)

lemma kinds_new_request_id: "new_request_id s = (Inr u, s') \<Longrightarrow> kinds s' = kinds s"
  by (auto simp: new_request_id_def bindE_apply on_db_def zoom_apply utc_now_def kinds_def)

lemma kinds_ask: "ask_gateway env req s = (Inr u, s') \<Longrightarrow> kinds s' = kinds s"
  by (auto simp: ask_gateway_def kinds_def split: prod.splits)

lemma kinds_run_gate:
  assumes "run_gate env name t gate s = (Inr u, s')"
  shows "kinds s' = kinds s @ [''approval_requested'', ''approval_granted'']"
proof -
  from assms obtain rid s1 now s2 req u3 outcome s3 s4 u5 s5 where
    1: "new_request_id s = (Inr rid, s1)" and 2: "on_db utc_now s1 = (Inr now, s2)"
    and 3: "audit_m env audit_kind.ApprovalRequested (Some name) (unwrap_or_null (to_value_request env req)) s2 = (Inr u3, s3)"
    and 4: "ask_gateway env req s3 = (Inr outcome, s4)"
    and 5: "audit_m env (outcome_kind outcome) (Some name) (outcome_payload env outcome) s4 = (Inr u5, s5)"
    and 6: "(if is_granted outcome then ret () else throw (not_granted_error name outcome)) s5 = (Inr u, s')"
    unfolding run_gate_def Let_def by (elim bindE_Inr_E) blast
  from 6 have g: "is_granted outcome" and s': "s' = s5"
    by (auto split: if_splits)
  from g have "outcome_kind outcome = audit_kind.ApprovalGranted"
    by (cases outcome) simp_all
  then show ?thesis
    using kinds_new_request_id [OF 1] kinds_now [OF 2] kinds_audit_m [OF 3] kinds_ask [OF 4]
      kinds_audit_m [OF 5] s' by simp
qed

lemma kinds_for_each_gates:
  "for_each (run_gate env name t) gates s = (Inr u, s') \<Longrightarrow>
     kinds s' = kinds s @ concat (map (\<lambda>_. [''approval_requested'', ''approval_granted'']) gates)"
proof (induction gates arbitrary: s)
  case (Cons gate gates)
  then show ?case
    by (auto elim!: bindE_Inr_E dest: kinds_run_gate)
qed simp

lemma kinds_finish:
  assumes "finish_create env name p opts ap s = (Inr r, s')"
  shows "kinds s' = kinds s @ [''profile_applied'']"
proof -
  from assms obtain o1 s1 s2 where c: "maybe_compile_security_opts env p opts s = (Inr o1, s1)"
    and a: "audit_m env audit_kind.ProfileApplied (Some name) (unwrap_or_null (to_value_applied env ap)) s1 = (Inr (), s2)"
    and q: "publish TSandbox EvCreated name (unwrap_or_null (to_value_applied env ap)) s2 = (Inr (), s')"
    unfolding finish_create_def audit_and_publish_applied_def Let_def by (auto elim!: bindE_Inr_E)
  from c have "s1 = s"
    by (auto simp: maybe_compile_security_opts_def split: if_splits option.splits sum.splits)
  then show ?thesis
    using kinds_audit_m [OF a] kinds_publish [OF q] by simp
qed

text \<open>
  The audit log of a successful create shows how it was decided: exactly one request and one
  grant for each gate, in order, then \<^verbatim>\<open>profile_applied\<close>, and nothing in between.
\<close>

theorem create_audit_trail:
  assumes "apply_to_create env name opts s = (Inr r, s')" and "map_of (m_profiles s) name = Some ld"
  shows "map a_kind (rows (audit_log (m_db s'))) = map a_kind (rows (audit_log (m_db s))) @
    concat (map (\<lambda>_. [''approval_requested'', ''approval_granted'']) (required_gates (ld_profile ld) opts)) @
    [''profile_applied'']"
proof -
  note run = assms(1) [unfolded apply_to_create_loaded [OF assms(2)]]
  have "kinds s' = kinds s @ concat (map (\<lambda>_. [''approval_requested'', ''approval_granted''])
      (required_gates (ld_profile ld) opts)) @ [''profile_applied'']"
  proof (cases "policy_apply (ld_profile ld) opts")
    case (Allow o1 a1)
    with run have f: "finish_create env name (ld_profile ld) o1 a1 s = (Inr r, s')"
      by simp
    show ?thesis
      using kinds_finish [OF f] policy_gates(1) [OF Allow] by simp
  next
    case (DenyReq why)
    with run show ?thesis
      by (auto simp: deny_request_def Let_def elim!: bindE_Inr_E)
  next
    case (NeedsApproval gates o1 a1)
    with run obtain s1 where g: "for_each (run_gate env name (approval_timeout env (ld_profile ld))) gates s = (Inr (), s1)"
      and f: "finish_create env name (ld_profile ld) o1 a1 s1 = (Inr r, s')"
      by (auto elim!: bindE_Inr_E)
    then show ?thesis
      using kinds_for_each_gates [OF g] kinds_finish [OF f] policy_gates(2) [OF NeedsApproval] by simp
  qed
  then show ?thesis
    by (simp add: kinds_def)
qed

theorem create_audit_trail_witness:
  "\<exists>r s'. apply_to_create demo_mgr_env ''web'' demo_opts demo_mgr = (Inr r, s') \<and>
     map a_kind (rows (audit_log (m_db s'))) = [''profile_applied'']"
proof -
  obtain ap s' where r: "apply_to_create demo_mgr_env ''web'' demo_opts demo_mgr =
      (Inr (confine demo_profile demo_opts, ap), s')"
    using demo_create by blast
  have ld: "map_of (m_profiles demo_mgr) ''web'' =
      Some \<lparr>ld_profile = demo_profile, ld_yaml = ''y'', ld_yaml_hash = ''h'', ld_last_updated = 0\<rparr>"
    and z: "rows (audit_log (m_db demo_mgr)) = []"
    by (simp_all add: demo_mgr_def demo_db_def fresh_db_def empty_table_def)
  from create_audit_trail [OF r ld] r show ?thesis
    by (simp add: demo_gates z)
qed

end
