(* ===== verification/Approval_Gateways.thy ===== *)
theory Approval_Gateways
  imports Approval Plugin_Store Manager_Safety
begin

text \<open>
  The gateways in front of the registry: the test gateways of \<^verbatim>\<open>linpodx-common/src/approval.rs\<close>, and the
  daemon's gateway that asks the enabled plugins first (\<^verbatim>\<open>PluginAwareApprovalGateway\<close> of
  \<^verbatim>\<open>linpodx-daemon/src/approval.rs\<close>). Serialising a request and the wasm engine are parameters.
\<close>

section \<open>Contract\<close>

text \<open>
  What a gateway promises to the policy code: it grants only what it was set up to authorise. The sandbox
  manager relies on nothing else.
\<close>

locale approval_gateway =
  fixes request :: "approval_request \<Rightarrow> 'g \<Rightarrow> approval_outcome \<times> 'g"
    and authorised :: "approval_request \<Rightarrow> bool"
  assumes granted_authorised: "is_granted (fst (request req g)) \<Longrightarrow> authorised req"
begin

lemma gate_authorised:
  assumes "gw_request env = request" "gate_granted env name gate"
  shows "\<exists>req. category req = pg_category gate \<and> ar_profile_name req = name \<and> ar_payload req = pg_payload gate \<and> authorised req"
  using assms granted_authorised by (fastforce simp: gate_granted_def)

end

definition noop_request :: "approval_request \<Rightarrow> 'g \<Rightarrow> approval_outcome \<times> 'g" where
  "noop_request req g = (Granted ''noop'' None, g)"

definition deny_all_request :: "approval_request \<Rightarrow> 'g \<Rightarrow> approval_outcome \<times> 'g" where
  "deny_all_request req g = (Denied ''deny-all-test'' (Some ''DenyAllApprovalGateway in use''), g)"

interpretation noop_gateway: approval_gateway noop_request "\<lambda>_. True"
  by unfold_locales simp

interpretation deny_all_gateway: approval_gateway deny_all_request "\<lambda>_. False"
  by unfold_locales (simp add: deny_all_request_def)

lemma deny_all_grants_nothing: "gw_request env = deny_all_request \<Longrightarrow> \<not> gate_granted env name gate"
  using deny_all_gateway.gate_authorised by blast

section \<open>Asking the plugins first\<close>

record ('w, 'g) gate_state =
  gs_world :: "'w sink_world"
  gs_inner :: 'g

record ('k, 'w, 'g) gate_env =
  ge_store :: "('k, 'w) plug_env"
  ge_engine :: "'w wasm_engine"
  ge_engine_ok :: bool
  ge_join_ok :: bool
  ge_to_vec :: "approval_request \<Rightarrow> byte list option"
  ge_inner :: "approval_request \<Rightarrow> 'g \<Rightarrow> approval_outcome \<times> 'g"

text \<open>Deny before allow before defer.\<close>

instantiation plugin_decision :: linorder
begin

definition decision_rank :: "plugin_decision \<Rightarrow> nat" where
  "decision_rank d = (case d of PDefer \<Rightarrow> 0 | PAllow \<Rightarrow> 1 | PDeny \<Rightarrow> 2)"

definition less_eq_plugin_decision :: "plugin_decision \<Rightarrow> plugin_decision \<Rightarrow> bool" where
  "d \<le> e \<longleftrightarrow> decision_rank d \<le> decision_rank e"

definition less_plugin_decision :: "plugin_decision \<Rightarrow> plugin_decision \<Rightarrow> bool" where
  "d < e \<longleftrightarrow> decision_rank d < decision_rank e"

instance
  by standard
    (auto simp: less_eq_plugin_decision_def less_plugin_decision_def decision_rank_def split: plugin_decision.splits)

end

fun combine_decisions ::
  "(string \<times> plugin_decision \<times> string) list \<Rightarrow> plugin_decision \<times> string \<times> string \<Rightarrow> plugin_decision \<times> string \<times> string" where
  "combine_decisions [] acc = acc"
| "combine_decisions ((name, d, rsn) # ds) acc =
     (case d of
        PDeny \<Rightarrow> (PDeny, name, rsn)
      | PAllow \<Rightarrow> combine_decisions ds (if fst acc \<noteq> PAllow then (PAllow, name, rsn) else acc)
      | PDefer \<Rightarrow> combine_decisions ds acc)"

definition plugin_votes ::
  "('k, 'w, 'g) gate_env \<Rightarrow> plugin_spec list \<Rightarrow> approval_request \<Rightarrow> (string \<times> plugin_decision \<times> string) list" where
  "plugin_votes env specs req =
     (let payload = (case ge_to_vec env req of Some v \<Rightarrow> v | None \<Rightarrow> []) in
      if ge_join_ok env \<and> ge_engine_ok env
      then fst (evaluate_approval (ge_engine env) payload (load_all (ge_engine env) specs [])) else [])"

definition evaluate_plugins ::
  "('k, 'w, 'g) gate_env \<Rightarrow> approval_request \<Rightarrow> (('w, 'g) gate_state, panic, (plugin_decision \<times> string \<times> string) option) act" where
  "evaluate_plugins env req s =
     (case list_enabled_specs (ge_store env) (sw_db (gs_world s)) of
        (r, d) \<Rightarrow>
          (Inr (case r of
                  Inl _ \<Rightarrow> None
                | Inr specs \<Rightarrow>
                    if specs = [] then None
                    else let votes = plugin_votes env specs req in
                      if votes = [] then None
                      else let combined = combine_decisions votes (PDefer, [], []) in
                        if fst combined = PDefer then None else Some combined),
           s\<lparr>gs_world := (gs_world s)\<lparr>sw_db := d\<rparr>\<rparr>))"

fun plugin_decision_str :: "plugin_decision \<Rightarrow> string" where
  "plugin_decision_str PAllow = ''allow''"
| "plugin_decision_str PDeny = ''deny''"
| "plugin_decision_str PDefer = ''defer''"

definition ask_inner :: "('k, 'w, 'g) gate_env \<Rightarrow> approval_request \<Rightarrow> (('w, 'g) gate_state, panic, approval_outcome) act" where
  "ask_inner env req s = (case ge_inner env req (gs_inner s) of (out, g) \<Rightarrow> (Inr out, s\<lparr>gs_inner := g\<rparr>))"

definition plugin_aware_request ::
  "('k, 'w, 'g) gate_env \<Rightarrow> approval_request \<Rightarrow> (('w, 'g) gate_state, panic, approval_outcome) act" where
  "plugin_aware_request env req =
     bindE (evaluate_plugins env req) (\<lambda>v.
       case v of
         None \<Rightarrow> ask_inner env req
       | Some (d, name, rsn) \<Rightarrow>
           bindE (zoom gs_world (\<lambda>w s. s\<lparr>gs_world := w\<rparr>)
                    (pe_record (ge_store env) audit_sink_kind.PluginInvoked None None
                       (JObject [(''request_id'', JString (request_id req)), (''category'', JString (approval_category_str (category req))),
                                 (''profile_name'', JString (ar_profile_name req)), (''plugin'', JString name),
                                 (''decision'', JString (plugin_decision_str d)), (''reason'', JString rsn)]))) (\<lambda>_.
             let by = ''plugin:'' @ name; rsn_opt = (if rsn = [] then None else Some rsn) in
             case d of
               PAllow \<Rightarrow> ret (Granted by rsn_opt)
             | PDeny \<Rightarrow> ret (Denied by rsn_opt)
             | PDefer \<Rightarrow> ask_inner env req))"

section \<open>The plugins' verdict\<close>

lemmas decision_order = less_eq_plugin_decision_def less_plugin_decision_def decision_rank_def

lemma PDefer_least [simp]: "max PDefer d = d" "max d PDefer = d"
  by (cases d; simp add: max_def decision_order)+

lemma PDeny_greatest [simp]: "max PDeny d = PDeny" "max d PDeny = PDeny"
  by (cases d; simp add: max_def decision_order)+

text \<open>The loop computes the strictest vote, and names a plugin that cast it.\<close>

lemma combine_is_strictest:
  "fst acc \<noteq> PDeny \<Longrightarrow> fst (combine_decisions votes acc) = fold max (map (fst \<circ> snd) votes) (fst acc)"
proof (induction votes acc rule: combine_decisions.induct)
  case (2 name d rsn ds acc)
  have deny: "fold max ds' PDeny = PDeny" for ds'
    by (induction ds') simp_all
  have allow: "max PAllow (fst acc) = PAllow"
    using 2(3) by (cases "fst acc") (simp_all add: max_def decision_order)
  show ?case
    using 2 by (cases d) (auto simp: deny allow)
qed simp

lemma combine_names_a_voter:
  "combine_decisions votes acc = acc \<or>
   (fst (snd (combine_decisions votes acc)), fst (combine_decisions votes acc), snd (snd (combine_decisions votes acc))) \<in> set votes"
  by (induction votes acc rule: combine_decisions.induct) (auto split: plugin_decision.split)

lemma fold_max_Max: "fold max ds d = Max (insert d (set ds))" for d :: plugin_decision
  by (simp add: Max.set_eq_fold [symmetric])

text \<open>What the gateway owes: the verdict of the strictest enabled plugin, and the inner gateway's answer when all defer.\<close>

definition strictest :: "(string \<times> plugin_decision \<times> string) list \<Rightarrow> plugin_decision" where
  "strictest votes = Max (insert PDefer ((fst \<circ> snd) ` set votes))"

lemma combine_strictest: "fst (combine_decisions votes (PDefer, [], [])) = strictest votes"
  using combine_is_strictest [of "(PDefer, [], [])" votes] by (simp add: fold_max_Max strictest_def)

lemma evaluate_plugins_votes:
  assumes "list_enabled_specs (ge_store env) (sw_db (gs_world s)) = (Inr specs, d)"
  shows "fst (evaluate_plugins env req s) =
    Inr (let votes = plugin_votes env specs req in
         if strictest votes = PDefer then None else Some (combine_decisions votes (PDefer, [], [])))"
proof -
  have "plugin_votes env [] req = []"
    by (simp add: plugin_votes_def Let_def)
  then show ?thesis
    using assms by (auto simp: evaluate_plugins_def combine_strictest Let_def strictest_def)
qed

lemma evaluate_plugins_inner: "gs_inner (snd (evaluate_plugins env req s)) = gs_inner s"
  by (simp add: evaluate_plugins_def split: prod.split)

text \<open>
  C20. A plugin's veto stands: with the enabled plugins that load voting on a request, one deny denies it
  whatever the others and the human listeners say, an allow with no deny grants it, the outcome names a
  plugin that cast that vote, and only when every plugin defers is the inner gateway asked.
\<close>

theorem plugin_gateway_strictest_vote:
  assumes "list_enabled_specs (ge_store env) (sw_db (gs_world s)) = (Inr specs, d)"
    and "plugin_aware_request env req s = (Inr out, s')"
  shows "case strictest (plugin_votes env specs req) of
      PDeny \<Rightarrow> gs_inner s' = gs_inner s \<and>
        (\<exists>name rsn. (name, PDeny, rsn) \<in> set (plugin_votes env specs req) \<and>
           out = Denied (''plugin:'' @ name) (if rsn = [] then None else Some rsn))
    | PAllow \<Rightarrow> gs_inner s' = gs_inner s \<and>
        (\<exists>name rsn. (name, PAllow, rsn) \<in> set (plugin_votes env specs req) \<and>
           out = Granted (''plugin:'' @ name) (if rsn = [] then None else Some rsn))
    | PDefer \<Rightarrow> (out, gs_inner s') = ge_inner env req (gs_inner s)"
proof -
  let ?votes = "plugin_votes env specs req"
  let ?v = "if strictest ?votes = PDefer then None else Some (combine_decisions ?votes (PDefer, [], []))"
  obtain r s1 where ev0: "evaluate_plugins env req s = (r, s1)"
    by (cases "evaluate_plugins env req s")
  have r: "r = Inr ?v" and inner: "gs_inner s1 = gs_inner s"
    using evaluate_plugins_votes [OF assms(1), of req] evaluate_plugins_inner [of env req s] by (simp_all add: ev0 Let_def)
  note ev = ev0 [unfolded r]
  show ?thesis
  proof (cases "strictest ?votes = PDefer")
    case True
    with assms(2) ev inner show ?thesis
      by (auto simp: plugin_aware_request_def bindE_apply ask_inner_def split: prod.splits)
  next
    case False
    obtain d' name rsn where c: "combine_decisions ?votes (PDefer, [], []) = (d', name, rsn)"
      by (cases "combine_decisions ?votes (PDefer, [], [])") auto
    have d': "d' = strictest ?votes"
      using combine_strictest [of ?votes] c by simp
    then have "(name, d', rsn) \<in> set ?votes"
      using combine_names_a_voter [of ?votes "(PDefer, [], [])"] c False by auto
    moreover have "gs_inner s' = gs_inner s \<and> out =
        (if d' = PAllow then Granted (''plugin:'' @ name) (if rsn = [] then None else Some rsn)
         else Denied (''plugin:'' @ name) (if rsn = [] then None else Some rsn))"
      using assms(2) ev c False d' inner
      by (cases d') (auto simp: plugin_aware_request_def Let_def zoom_apply elim!: bindE_Inr_E)
    ultimately show ?thesis
      using False d' by (cases d') auto
  qed
qed

definition vetoing_engine :: "unit wasm_engine" where
  "vetoing_engine = demo_engine\<lparr>instantiate := (\<lambda>_. Inr ((), [EApproval])),
     guest := (\<lambda>w e p. ([(Some [], HostReturnDecision 2 0 0)], None, w))\<rparr>"

definition demo_gate_env :: "(string, unit, unit) gate_env" where
  "demo_gate_env = \<lparr>ge_store = demo_plug_env, ge_engine = vetoing_engine, ge_engine_ok = True, ge_join_ok = True,
     ge_to_vec = (\<lambda>_. Some []), ge_inner = noop_request\<rparr>"

definition demo_plugin_row :: plugin_row where
  "demo_plugin_row = \<lparr>pl_id = 1, pl_name = ''guard'', pl_version = ''1'', pl_manifest_path = [], pl_wasm_path = ''/p.wasm'',
     pl_hooks = ''[]'', pl_enabled = 1, pl_installed_at = []\<rparr>"

definition demo_gate_state :: "(unit, unit) gate_state" where
  "demo_gate_state = \<lparr>gs_world = demo_world\<lparr>sw_db := demo_db\<lparr>plugins := \<lparr>rows = [demo_plugin_row], autoinc = 1\<rparr>\<rparr>\<rparr>, gs_inner = ()\<rparr>"

lemma demo_specs:
  "\<exists>d. list_enabled_specs (ge_store demo_gate_env) (sw_db (gs_world demo_gate_state)) =
     (Inr [(\<lparr>pm_name = ''guard'', pm_version = ''1'', pm_hooks = [''approval''], pm_wasm = ''/p.wasm'', pm_publisher = None,
       pm_signature_b64 = None\<rparr>, ''/p.wasm'')], d)"
  by (simp add: demo_gate_env_def demo_gate_state_def list_enabled_specs_def bindE_apply demo_plug_env_def demo_plugin_row_def
      row_spec_def demo_world_def demo_db_def fresh_db_def Let_def)

lemma demo_votes:
  "plugin_votes demo_gate_env [(\<lparr>pm_name = ''guard'', pm_version = ''1'', pm_hooks = [''approval''], pm_wasm = ''/p.wasm'',
     pm_publisher = None, pm_signature_b64 = None\<rparr>, ''/p.wasm'')] req = [(''guard'', PDeny, [])]"
proof -
  have "read_lossy (Some []) 0 0 = []"
    by code_simp
  then show ?thesis
    by (simp add: plugin_votes_def demo_gate_env_def vetoing_engine_def load_plugin_def subscribes_def evaluate_def
        call_entry_def host_call_step_def host_return_decision_impl_def plugin_decision_from_u8_def take_decision_def Let_def)
qed

theorem plugin_gateway_strictest_vote_witness:
  "\<exists>out s'. plugin_aware_request demo_gate_env (demo_request ''a'') demo_gate_state = (Inr out, s') \<and>
     out = Denied ''plugin:guard'' None \<and> fst (ge_inner demo_gate_env (demo_request ''a'') ()) = Granted ''noop'' None"
proof -
  let ?specs = "[(\<lparr>pm_name = ''guard'', pm_version = ''1'', pm_hooks = [''approval''], pm_wasm = ''/p.wasm'',
     pm_publisher = None, pm_signature_b64 = None\<rparr>, ''/p.wasm'')]"
  obtain d where d: "list_enabled_specs (ge_store demo_gate_env) (sw_db (gs_world demo_gate_state)) = (Inr ?specs, d)"
    using demo_specs by blast
  have str: "strictest (plugin_votes demo_gate_env ?specs (demo_request ''a'')) = PDeny"
    unfolding demo_votes by (simp add: strictest_def)
  have ev: "fst (evaluate_plugins demo_gate_env (demo_request ''a'') demo_gate_state) = Inr (Some (PDeny, ''guard'', []))"
    unfolding evaluate_plugins_votes [OF d] Let_def demo_votes by (simp add: strictest_def)
  have rec: "fst (pe_record (ge_store demo_gate_env) k None None j w) = Inr ()" if "sw_plugins w = None" for k j w
    using that by (simp add: demo_gate_env_def demo_plug_env_def sandbox_record_def run_audit_filter_chain_def bindE_apply
        attempt_apply zoom_apply Let_def split: prod.split)
  have "sw_plugins (gs_world (snd (evaluate_plugins demo_gate_env (demo_request ''a'') demo_gate_state))) = None"
    by (simp add: evaluate_plugins_def demo_gate_state_def demo_world_def split: prod.split)
  with ev rec obtain out s' where run: "plugin_aware_request demo_gate_env (demo_request ''a'') demo_gate_state = (Inr out, s')"
    by (cases "evaluate_plugins demo_gate_env (demo_request ''a'') demo_gate_state")
      (fastforce simp: plugin_aware_request_def bindE_apply zoom_apply Let_def split: prod.splits sum.splits)
  from plugin_gateway_strictest_vote [OF d run] str demo_votes run show ?thesis
    by (auto simp: demo_gate_env_def noop_request_def)
qed

end
