(* ===== verification/Sec_Profile.thy ===== *)
theory Sec_Profile
  imports Plugin_Install Profile Mcp_Store
begin

text \<open>
  The security-profile compiler (\<^verbatim>\<open>linpodx-sandbox/src/secprofile.rs\<close>): the seccomp, AppArmor and SELinux
  artefacts of a sandbox profile, their cache directory and the options handed to podman. JSON printing,
  SHA-256, the environment and the external tools are parameters; a tool gets the file system and may
  change it. Shown: the compiler writes nowhere but into its cache directory, whatever the profile is
  called, and the seccomp file it hands out is the one of the profile it was asked to compile.
\<close>

section \<open>Names\<close>

definition MAX_CACHE_STEM_LEN :: nat where
  "MAX_CACHE_STEM_LEN = 128"

text \<open>The characters of a string, each by its first byte: an ASCII character is its own byte.\<close>

definition char_starts :: "string \<Rightarrow> string" where
  "char_starts s = filter (\<lambda>c. \<not> (128 \<le> (of_char c :: nat) \<and> (of_char c :: nat) < 192)) s"

definition fold_to_underscore :: "(char \<Rightarrow> bool) \<Rightarrow> string \<Rightarrow> string" where
  "fold_to_underscore keep s = map (\<lambda>c. if keep c then c else CHR ''_'') (char_starts s)"

definition stem_char :: "char \<Rightarrow> bool" where
  "stem_char c \<longleftrightarrow> ascii_alphanumeric c \<or> c = CHR ''_'' \<or> c = CHR ''-''"

definition sanitize_profile_stem :: "string \<Rightarrow> string" where
  "sanitize_profile_stem name =
     (let s = take MAX_CACHE_STEM_LEN (fold_to_underscore stem_char name) in if s = [] then ''_'' else s)"

definition content_digest :: "(byte list \<Rightarrow> byte list) \<Rightarrow> string \<Rightarrow> string" where
  "content_digest sha body = hex_encode (take 8 (sha (as_bytes body)))"

definition APPARMOR_PROFILE_PREFIX :: string where
  "APPARMOR_PROFILE_PREFIX = ''linpodx-''"

definition SELINUX_MODULE_PREFIX :: string where
  "SELINUX_MODULE_PREFIX = ''linpodx_''"

definition SELINUX_RUNTIME_FALLBACK_ENV :: string where
  "SELINUX_RUNTIME_FALLBACK_ENV = ''LINPODX_SELINUX_RUNTIME_FALLBACK''"

definition SELINUX_RUNTIME_FALLBACK_LABEL :: string where
  "SELINUX_RUNTIME_FALLBACK_LABEL = ''container_t''"

definition apparmor_profile_name :: "string \<Rightarrow> string" where
  "apparmor_profile_name name = APPARMOR_PROFILE_PREFIX @ fold_to_underscore stem_char name"

definition selinux_module :: "string \<Rightarrow> string" where
  "selinux_module name = SELINUX_MODULE_PREFIX @ fold_to_underscore (\<lambda>c. ascii_alphanumeric c \<or> c = CHR ''_'') name"

record compiled_profile =
  seccomp_path :: "string option"
  apparmor_name :: "string option"
  selinux_module_name :: "string option"
  selinux_static_label :: "string option"

definition empty_compiled :: compiled_profile where
  "empty_compiled = \<lparr>seccomp_path = None, apparmor_name = None, selinux_module_name = None, selinux_static_label = None\<rparr>"

definition to_security_opts :: "compiled_profile \<Rightarrow> string list" where
  "to_security_opts cp =
     (case seccomp_path cp of Some p \<Rightarrow> [''seccomp='' @ p] | None \<Rightarrow> []) @
     (case apparmor_name cp of Some n \<Rightarrow> [''apparmor='' @ n] | None \<Rightarrow> []) @
     (case selinux_static_label cp of
        Some l \<Rightarrow> [''label=type:'' @ l]
      | None \<Rightarrow> (case selinux_module_name cp of Some n \<Rightarrow> [''label=type:'' @ n] | None \<Rightarrow> []))"

section \<open>Rendering\<close>

definition nl :: string where
  "nl = [CHR 0x0A]"

record seccomp_profile =
  default_action :: string
  architectures :: "string list"
  syscalls :: "(string list \<times> string) list"

definition render_seccomp_json :: "string list \<Rightarrow> seccomp_profile" where
  "render_seccomp_json names =
     \<lparr>default_action = ''SCMP_ACT_ERRNO'',
      architectures = [''SCMP_ARCH_X86_64'', ''SCMP_ARCH_X86'', ''SCMP_ARCH_X32'', ''SCMP_ARCH_AARCH64''],
      syscalls = [(sorted_set names, ''SCMP_ACT_ALLOW'')]\<rparr>"

definition seccomp_json :: "seccomp_profile \<Rightarrow> json" where
  "seccomp_json p =
     JObject [(''defaultAction'', JString (default_action p)), (''architectures'', JArray (map JString (architectures p))),
       (''syscalls'', JArray (map (\<lambda>(names, action). JObject [(''names'', JArray (map JString names)), (''action'', JString action)])
          (syscalls p)))]"

definition render_apparmor_caps :: "capabilities \<Rightarrow> string" where
  "render_apparmor_caps caps =
     (let adds = concat (map (\<lambda>c. ''  capability '' @ to_ascii_lowercase c @ '','' @ nl) (caps_add caps)) in
      if list_ex (\<lambda>c. to_ascii_lowercase c = ''all'') (caps_drop caps) then ''  deny capability,'' @ nl @ adds
      else concat (map (\<lambda>c. ''  deny capability '' @ to_ascii_lowercase c @ '','' @ nl) (caps_drop caps)) @ adds)"

fun render_apparmor_network :: "network_policy \<Rightarrow> string" where
  "render_apparmor_network NetNone = ''  deny network,'' @ nl"
| "render_apparmor_network (Allowlist _ _) = ''  network,'' @ nl"
| "render_apparmor_network NetFull = ''  network,'' @ nl"

definition render_apparmor_mount :: "mount_rule \<Rightarrow> string" where
  "render_apparmor_mount r =
     (let access = (if mr_read_only r then ''r'' else ''rw'');
          dst = ''  '' @ mr_destination r @ ''/** '' @ access @ '','' @ nl in
      case mr_source r of
        HostPath path \<Rightarrow> ''  '' @ path @ ''/** '' @ access @ '','' @ nl @ dst
      | Named name \<Rightarrow> ''  # named volume '' @ name @ nl @ dst)"

definition render_apparmor_mounts :: "mount_rule list \<Rightarrow> string" where
  "render_apparmor_mounts ms = (if ms = [] then ''  deny mount,'' @ nl else concat (map render_apparmor_mount ms))"

definition render_apparmor_profile :: "sandbox_profile_t \<Rightarrow> string \<Rightarrow> string" where
  "render_apparmor_profile p name =
     ''# Auto-generated by linpodx secprofile compiler. Do not edit by hand.'' @ nl @
     ''#include <tunables/global>'' @ nl @ nl @
     ''profile '' @ name @ '' flags=(attach_disconnected,mediate_deleted) {'' @ nl @
     ''  #include <abstractions/base>'' @ nl @
     nl @ ''  # ---- Capabilities (derived from sandbox profile) ----'' @ nl @ render_apparmor_caps (pf_capabilities p) @
     nl @ ''  # ---- Network (derived from network policy) ----'' @ nl @ render_apparmor_network (pf_network p) @
     nl @ ''  # ---- Mounts (derived from allowed mount whitelist) ----'' @ nl @ render_apparmor_mounts (pf_mounts p) @
     (case pf_apparmor_extra p of
        None \<Rightarrow> []
      | Some ex \<Rightarrow>
          (if aa_deny ex = [] then []
           else nl @ ''  # ---- Extra deny rules ----'' @ nl @ concat (map (\<lambda>r. ''  deny '' @ r @ '','' @ nl) (aa_deny ex))) @
          (if aa_allow ex = [] then []
           else nl @ ''  # ---- Extra allow rules ----'' @ nl @ concat (map (\<lambda>r. ''  '' @ r @ '','' @ nl) (aa_allow ex)))) @
     ''}'' @ nl"

fun join_with :: "string \<Rightarrow> string list \<Rightarrow> string" where
  "join_with sep [] = []"
| "join_with sep [x] = x"
| "join_with sep (x # y # xs) = x @ sep @ join_with sep (y # xs)"

definition render_cap_class_list :: "capabilities \<Rightarrow> string" where
  "render_cap_class_list caps =
     join_with '' '' (foldl (\<lambda>out c. let l = to_ascii_lowercase c in if l \<in> set out then out else out @ [l])
       [''net_bind_service''] (caps_add caps))"

definition render_selinux_mount :: "string \<Rightarrow> mount_rule \<Rightarrow> string" where
  "render_selinux_mount ty r =
     (case mr_source r of
        HostPath path \<Rightarrow> ''# mount host:'' @ path @ '' -> '' @ mr_destination r @ nl
      | Named name \<Rightarrow> ''# mount volume:'' @ name @ '' -> '' @ mr_destination r @ nl) @
     ''allow '' @ ty @ '' container_file_t:file '' @
       (if mr_read_only r then ''{ read open getattr }'' else ''{ read write open getattr }'') @ '';'' @ nl @
     ''allow '' @ ty @ '' container_file_t:dir { read search getattr };'' @ nl"

fun render_selinux_network :: "string \<Rightarrow> network_policy \<Rightarrow> string" where
  "render_selinux_network ty NetNone =
     ''# network=none '' @ [CHR 0xE2, CHR 0x80, CHR 0x94] @ '' no socket allow rules emitted'' @ nl"
| "render_selinux_network ty _ =
     ''allow '' @ ty @ '' self:tcp_socket { create connect bind listen };'' @ nl @
     ''allow '' @ ty @ '' self:udp_socket { create connect bind };'' @ nl"

definition render_selinux_te :: "string \<Rightarrow> string \<Rightarrow> capabilities \<Rightarrow> mount_rule list \<Rightarrow> network_policy \<Rightarrow> string" where
  "render_selinux_te modname ty caps mounts net =
     ''# Auto-generated by linpodx secprofile compiler. Do not edit by hand.'' @ nl @
     ''module '' @ modname @ '' 1.0;'' @ nl @ nl @
     ''require {'' @ nl @ ''    type container_t;'' @ nl @ ''    type container_file_t;'' @ nl @
     ''    class capability { '' @ render_cap_class_list caps @ '' };'' @ nl @
     ''    class file { read write open getattr };'' @ nl @
     ''    class dir { read search getattr };'' @ nl @
     ''    class tcp_socket { create connect bind listen };'' @ nl @
     ''    class udp_socket { create connect bind };'' @ nl @ ''}'' @ nl @ nl @
     ''type '' @ ty @ '';'' @ nl @ ''typeattribute '' @ ty @ '' container_t;'' @ nl @ nl @
     concat (map (\<lambda>c. ''allow '' @ ty @ '' self:capability '' @ to_ascii_lowercase c @ '';'' @ nl) (caps_add caps)) @
     nl @ concat (map (render_selinux_mount ty) mounts) @ nl @ render_selinux_network ty net"

section \<open>The compiler\<close>

datatype cmd_result = NotSpawned string | Exited bool "byte list"

record 's sec_state =
  se_sink :: 's
  se_files :: files

record 's sec_env =
  sv_cache_dir :: string
  sv_record :: "'s sink_fn"
  sv_to_string_pretty :: "json \<Rightarrow> string + string"
  sv_sha256 :: "byte list \<Rightarrow> byte list"
  sv_var :: "string \<Rightarrow> string option"
  sv_run :: "string list \<Rightarrow> files \<Rightarrow> cmd_result \<times> files"

type_synonym ('s, 'e, 'a) sec_act = "('s sec_state, 'e + panic, 'a) act"

definition se_file_act :: "(files, 'e, 'a) act \<Rightarrow> ('s, 'e, 'a) sec_act" where
  "se_file_act m = map_err Inl (zoom se_files (\<lambda>f s. s\<lparr>se_files := f\<rparr>) m)"

definition se_record :: "'s sec_env \<Rightarrow> audit_sink_kind \<Rightarrow> string \<Rightarrow> json \<Rightarrow> ('s, 'e, unit) sec_act" where
  "se_record env kind name payload =
     map_err Inr (zoom se_sink (\<lambda>w s. s\<lparr>se_sink := w\<rparr>) (sv_record env kind (Some name) None payload))"

definition run_cmd :: "'s sec_env \<Rightarrow> string list \<Rightarrow> ('s, 'e, cmd_result) sec_act" where
  "run_cmd env argv = (\<lambda>s. case sv_run env argv (se_files s) of (r, f) \<Rightarrow> (Inr r, s\<lparr>se_files := f\<rparr>))"

definition runtime_fallback_enabled :: "'s sec_env \<Rightarrow> bool" where
  "runtime_fallback_enabled env \<longleftrightarrow> sv_var env SELINUX_RUNTIME_FALLBACK_ENV = Some ''1''"

definition which_in_path :: "'s sec_env \<Rightarrow> string \<Rightarrow> files \<Rightarrow> bool" where
  "which_in_path env binary f =
     (case sv_var env ''PATH'' of
        None \<Rightarrow> False
      | Some paths \<Rightarrow> list_ex (\<lambda>dir. is_file f (path_join dir binary)) (split_char (CHR '':'') paths))"

definition is_apparmor_available :: "'s sec_env \<Rightarrow> files \<Rightarrow> bool" where
  "is_apparmor_available env f =
     (case sv_var env ''LINPODX_TEST_APPARMOR'' of
        Some v \<Rightarrow> v = ''1''
      | None \<Rightarrow> which_in_path env ''apparmor_parser'' f)"

definition is_selinux_available :: "'s sec_env \<Rightarrow> ('s, 'e, bool) sec_act" where
  "is_selinux_available env =
     (case sv_var env ''LINPODX_TEST_SELINUX'' of
        Some v \<Rightarrow> ret (v = ''1'')
      | None \<Rightarrow>
          bindE (gets (\<lambda>s. list_all (\<lambda>b. which_in_path env b (se_files s)) [''checkmodule'', ''semodule_package'', ''semodule''])) (\<lambda>tools.
            if \<not> tools then ret False
            else bindE (run_cmd env [''getenforce'']) (\<lambda>r.
              ret (case r of
                     Exited True out \<Rightarrow>
                       (let t = trim (bytes_string (from_utf8_lossy out)) in to_ascii_lowercase t \<noteq> ''disabled'' \<and> t \<noteq> [])
                   | _ \<Rightarrow> False))))"

text \<open>
  Pruning goes over the entries of the cache directory; the order does not matter, an entry that cannot be
  removed stays.
\<close>

definition cache_name :: "string \<Rightarrow> string \<Rightarrow> string \<Rightarrow> string" where
  "cache_name stem digest suffix = stem @ ''.'' @ digest @ suffix"

definition stale :: "string \<Rightarrow> string \<Rightarrow> string \<Rightarrow> string \<Rightarrow> bool" where
  "stale stem suffix keep name \<longleftrightarrow>
     name \<noteq> keep \<and> strip_prefix (stem @ ''.'') name \<noteq> None \<and> strip_suffix suffix name \<noteq> None"

definition prune_stale :: "'s sec_env \<Rightarrow> string \<Rightarrow> string \<Rightarrow> string \<Rightarrow> files \<Rightarrow> files" where
  "prune_stale env stem suffix keep f =
     (let dir = place f (sv_cache_dir env) in
      if nodes f dir \<noteq> Some Dir \<or> read_err f dir \<noteq> None then f
      else f\<lparr>nodes := (\<lambda>q.
             if q \<noteq> [] \<and> butlast q = dir \<and> stale stem suffix keep (last q) \<and> write_err f q = None \<and>
                (case nodes f q of Some (RegFile _) \<Rightarrow> True | _ \<Rightarrow> False)
             then None else nodes f q)\<rparr>)"

definition compile_seccomp :: "'s sec_env \<Rightarrow> sandbox_profile_t \<Rightarrow> string list \<Rightarrow> ('s, error, string) sec_act" where
  "compile_seccomp env p names =
     (case sv_to_string_pretty env (seccomp_json (render_seccomp_json names)) of
        Inl e \<Rightarrow> throw (Inl (Runtime (''seccomp serialize: '' @ e)))
      | Inr body \<Rightarrow>
          (let stem = sanitize_profile_stem (pf_name p);
               name = cache_name stem (content_digest (sv_sha256 env) body) ''.seccomp.json'';
               path = path_join (sv_cache_dir env) name in
           bindE (gets (\<lambda>s. exists_path (se_files s) path)) (\<lambda>hit.
             if hit then ret path
             else
               bindE (modify (\<lambda>s. s\<lparr>se_files := prune_stale env stem ''.seccomp.json'' name (se_files s)\<rparr>)) (\<lambda>_.
               bindE (se_file_act (map_err (\<lambda>e. Runtime (''write '' @ path @ '': '' @ e)) (write_file path body))) (\<lambda>_.
               bindE (se_record env audit_sink_kind.SeccompCompiled (pf_name p)
                        (JObject [(''path'', JString path), (''syscall_count'', JInt (int (length names)))])) (\<lambda>_.
                 ret path))))))"

definition compile_apparmor :: "'s sec_env \<Rightarrow> sandbox_profile_t \<Rightarrow> ('s, string, string) sec_act" where
  "compile_apparmor env p =
     (let aa = apparmor_profile_name (pf_name p);
          body = render_apparmor_profile p aa;
          stem = sanitize_profile_stem (pf_name p);
          name = cache_name stem (content_digest (sv_sha256 env) body) ''.apparmor'';
          path = path_join (sv_cache_dir env) name in
      bindE (gets (\<lambda>s. exists_path (se_files s) path)) (\<lambda>hit.
      bindE (if hit then ret ()
             else bindE (modify (\<lambda>s. s\<lparr>se_files := prune_stale env stem ''.apparmor'' name (se_files s)\<rparr>)) (\<lambda>_.
                    se_file_act (write_file path body))) (\<lambda>_.
      bindE (run_cmd env [''apparmor_parser'', ''-r'', path]) (\<lambda>r.
        case r of
          NotSpawned e \<Rightarrow> throw (Inl e)
        | Exited ok _ \<Rightarrow>
            bindE (se_record env audit_sink_kind.ApparmorCompiled (pf_name p)
                     (JObject [(''path'', JString path), (''name'', JString aa), (''loaded'', JBool ok)])) (\<lambda>_.
              ret aa)))))"

definition run_step :: "'s sec_env \<Rightarrow> string list \<Rightarrow> ('s, 'e, bool) sec_act" where
  "run_step env argv = bindE (run_cmd env argv) (\<lambda>r. ret (case r of Exited ok _ \<Rightarrow> ok | NotSpawned _ \<Rightarrow> False))"

definition package_and_install :: "'s sec_env \<Rightarrow> string \<Rightarrow> string \<Rightarrow> string \<Rightarrow> ('s, 'e, bool) sec_act" where
  "package_and_install env te md pp =
     bindE (run_step env [''checkmodule'', ''-M'', ''-m'', ''-o'', md, te]) (\<lambda>ok1.
       if \<not> ok1 then ret False
       else bindE (run_step env [''semodule_package'', ''-o'', pp, ''-m'', md]) (\<lambda>ok2.
         if \<not> ok2 then ret False
         else run_step env [''semodule'', ''-i'', pp]))"

definition selinux_path_for :: "'s sec_env \<Rightarrow> string \<Rightarrow> string \<Rightarrow> string" where
  "selinux_path_for env profile_name ext = path_join (sv_cache_dir env) (selinux_module profile_name @ ext)"

definition compile_selinux :: "'s sec_env \<Rightarrow> sandbox_profile_t \<Rightarrow> ('s, error, string option) sec_act" where
  "compile_selinux env p =
     (case (case pf_selinux_type p of Some t \<Rightarrow> if t = [] then None else Some t | None \<Rightarrow> None) of
        None \<Rightarrow> ret None
      | Some ty \<Rightarrow>
          (let md = selinux_module (pf_name p);
               te = selinux_path_for env (pf_name p) ''.te'';
               pp = selinux_path_for env (pf_name p) ''.pp'' in
           bindE (se_file_act (map_err (\<lambda>e. Runtime (''write '' @ te @ '': '' @ e))
                    (write_file te (render_selinux_te md ty (pf_capabilities p) (pf_mounts p) (pf_network p))))) (\<lambda>_.
           bindE (package_and_install env te (selinux_path_for env (pf_name p) ''.mod'') pp) (\<lambda>installed.
           bindE (se_record env audit_sink_kind.SelinuxCompiled (pf_name p)
                    (JObject [(''te_path'', JString te), (''pp_path'', JString pp), (''module_name'', JString md),
                              (''selinux_type'', JString ty), (''installed'', JBool installed)])) (\<lambda>_.
             if installed then
               bindE (se_record env audit_sink_kind.SelinuxApplied (pf_name p)
                        (JObject [(''module_name'', JString md), (''selinux_type'', JString ty)])) (\<lambda>_.
                 ret (Some ty))
             else ret None)))))"

definition maybe_apply_runtime_fallback ::
  "'s sec_env \<Rightarrow> sandbox_profile_t \<Rightarrow> compiled_profile \<Rightarrow> string \<Rightarrow> ('s, 'e, compiled_profile) sec_act" where
  "maybe_apply_runtime_fallback env p cp rsn =
     (if \<not> runtime_fallback_enabled env then ret cp
      else bindE (se_record env audit_sink_kind.SelinuxLabelRuntimeFallback (pf_name p)
                    (JObject [(''fallback_label'', JString SELINUX_RUNTIME_FALLBACK_LABEL), (''reason'', JString rsn),
                              (''requested_type'', json_opt JString (pf_selinux_type p))])) (\<lambda>_.
             ret (cp\<lparr>selinux_static_label := Some SELINUX_RUNTIME_FALLBACK_LABEL\<rparr>)))"

text \<open>The three stages of a compile; what only degrades the result is caught where the code catches it.\<close>

definition catch_err :: "('s, 'e, 'a) sec_act \<Rightarrow> ('s, 'f, 'e + 'a) sec_act" where
  "catch_err m s = (case m s of (Inl (Inl e), s') \<Rightarrow> (Inr (Inl e), s') | (Inl (Inr q), s') \<Rightarrow> (Inl (Inr q), s') | (Inr x, s') \<Rightarrow> (Inr (Inr x), s'))"

definition seccomp_stage :: "'s sec_env \<Rightarrow> sandbox_profile_t \<Rightarrow> compiled_profile \<Rightarrow> ('s, error, compiled_profile) sec_act" where
  "seccomp_stage env p cp =
     (case pf_syscall_allowlist p of
        None \<Rightarrow> ret cp
      | Some names \<Rightarrow>
          bindE (catch_err (compile_seccomp env p names)) (\<lambda>r.
            case r of
              Inl e \<Rightarrow> throw (Inl (Runtime (''secprofile: seccomp compile failed: '' @ error_display e)))
            | Inr path \<Rightarrow> ret (cp\<lparr>seccomp_path := Some path\<rparr>)))"

definition apparmor_stage :: "'s sec_env \<Rightarrow> sandbox_profile_t \<Rightarrow> compiled_profile \<Rightarrow> ('s, error, compiled_profile) sec_act" where
  "apparmor_stage env p cp =
     (if pf_apparmor_extra p = None then ret cp
      else bindE (gets (\<lambda>s. is_apparmor_available env (se_files s))) (\<lambda>av.
        if \<not> av then ret cp
        else bindE (catch_err (compile_apparmor env p)) (\<lambda>r.
          ret (case r of Inr name \<Rightarrow> cp\<lparr>apparmor_name := Some name\<rparr> | Inl _ \<Rightarrow> cp))))"

definition selinux_stage :: "'s sec_env \<Rightarrow> sandbox_profile_t \<Rightarrow> compiled_profile \<Rightarrow> ('s, error, compiled_profile) sec_act" where
  "selinux_stage env p cp =
     (case pf_selinux_label p of
        Some label \<Rightarrow>
          (let t = trim label in
           if t = [] then ret cp
           else bindE (se_record env audit_sink_kind.SelinuxStaticLabelApplied (pf_name p) (JObject [(''label'', JString t)])) (\<lambda>_.
                  ret (cp\<lparr>selinux_static_label := Some t\<rparr>)))
      | None \<Rightarrow>
          if pf_selinux_type p = None then ret cp
          else bindE (is_selinux_available env) (\<lambda>av.
            if \<not> av then ret cp
            else bindE (catch_err (compile_selinux env p)) (\<lambda>r.
              case r of
                Inr (Some name) \<Rightarrow> ret (cp\<lparr>selinux_module_name := Some name\<rparr>)
              | Inr None \<Rightarrow> maybe_apply_runtime_fallback env p cp ''install_failed''
              | Inl _ \<Rightarrow> maybe_apply_runtime_fallback env p cp ''compile_error'')))"

definition sec_compile :: "'s sec_env \<Rightarrow> sandbox_profile_t \<Rightarrow> ('s, error, compiled_profile) sec_act" where
  "sec_compile env p =
     bindE (se_file_act (map_err (\<lambda>e. Runtime (''secprofile: create cache dir '' @ sv_cache_dir env @ '': '' @ e))
              (create_dir_all (sv_cache_dir env)))) (\<lambda>_.
     bindE (seccomp_stage env p empty_compiled) (\<lambda>cp.
     bindE (apparmor_stage env p cp) (\<lambda>cp'.
       selinux_stage env p cp')))"

section \<open>The compiler stays in its cache directory\<close>

lemma stem_char_plain: "stem_char c \<Longrightarrow> c \<noteq> CHR ''/'' \<and> c \<noteq> CHR ''.''"
  by (auto simp: stem_char_def ascii_alphanumeric_def)

lemma set_fold_to_underscore: "set (fold_to_underscore keep s) \<subseteq> {c. keep c} \<union> {CHR ''_''}"
  by (auto simp: fold_to_underscore_def)

lemma sanitized_stem:
  "set (sanitize_profile_stem name) \<subseteq> {c. stem_char c}" "sanitize_profile_stem name \<noteq> []"
  "length (sanitize_profile_stem name) \<le> MAX_CACHE_STEM_LEN"
  using set_fold_to_underscore [of stem_char name]
  by (auto simp: sanitize_profile_stem_def Let_def stem_char_def MAX_CACHE_STEM_LEN_def dest!: in_set_takeD)

lemma stem_plain: "CHR ''/'' \<notin> set (sanitize_profile_stem name) \<and> CHR ''.'' \<notin> set (sanitize_profile_stem name)"
  using sanitized_stem(1) [of name] stem_char_plain by blast

lemma digest_plain: "CHR ''/'' \<notin> set (content_digest sha body) \<and> CHR ''.'' \<notin> set (content_digest sha body)"
  using set_hex_encode [of "take 8 (sha (as_bytes body))"] by (auto simp: content_digest_def hex_alphabet_def)

lemma long_plain_name: "CHR ''/'' \<notin> set n \<Longrightarrow> 2 < length n \<Longrightarrow> plain_name n"
  by (auto simp: plain_name_def)

lemma cache_name_plain:
  assumes "CHR ''/'' \<notin> set suffix" "3 \<le> length suffix"
  shows "plain_name (cache_name (sanitize_profile_stem name) (content_digest sha body) suffix)"
  using assms stem_plain [of name] digest_plain [of sha body] by (intro long_plain_name) (auto simp: cache_name_def)

lemma selinux_name_plain: "CHR ''/'' \<notin> set ext \<Longrightarrow> plain_name (selinux_module name @ ext)"
  using set_fold_to_underscore [of "\<lambda>c. ascii_alphanumeric c \<or> c = CHR ''_''" name]
  by (intro long_plain_name) (auto simp: selinux_module_def SELINUX_MODULE_PREFIX_def ascii_alphanumeric_def)

text \<open>
  The external tools write the files they are told to, a compiled module beside its source, and the system's own policy store.
\<close>

definition has_suffix :: "string \<Rightarrow> string \<Rightarrow> bool" where
  "has_suffix suffix n \<longleftrightarrow> strip_suffix suffix n \<noteq> None"

definition tools_write_outputs :: "'s sec_env \<Rightarrow> (string list \<Rightarrow> bool) \<Rightarrow> bool" where
  "tools_write_outputs env store \<longleftrightarrow>
     (\<forall>argv f. only_changes (\<lambda>q _. store q \<or>
          (\<exists>n. q = place f (sv_cache_dir env) @ [n] \<and> (has_suffix ''.mod'' n \<or> has_suffix ''.pp'' n)))
        f (snd (sv_run env argv f)))"

definition sec_only :: "(string list \<Rightarrow> node option \<Rightarrow> bool) \<Rightarrow> files \<Rightarrow> 's sec_state \<Rightarrow> bool" where
  "sec_only W f s \<longleftrightarrow> only_changes W f (se_files s)"

lemma sec_only_step:
  assumes "sec_only W f s" "only_changes W (se_files s) f'"
  shows "sec_only W f (s\<lparr>se_files := f'\<rparr>)"
proof -
  have "nodes f' q = nodes f q \<or> W q (nodes f' q)" for q
    using assms unfolding sec_only_def only_changes_def by (cases "nodes f' q = nodes (se_files s) q") auto
  with assms show ?thesis
    by (simp add: sec_only_def only_changes_def)
qed

lemma sec_only_place: "sec_only W f s \<Longrightarrow> place (se_files s) p = place f p"
  by (simp add: sec_only_def only_changes_def place_def)

lemma preserves_se_file:
  assumes "\<And>f'. cwd f' = cwd f \<Longrightarrow> only_changes W f' (snd (m f'))"
  shows "preserves (sec_only W f) (se_file_act (map_err g m))" "preserves (sec_only W f) (se_file_act m)"
proof -
  have step: "sec_only W f (s\<lparr>se_files := snd (m (se_files s))\<rparr>)" if "sec_only W f s" for s
  proof (rule sec_only_step [OF that])
    have "cwd (se_files s) = cwd f"
      using that by (simp add: sec_only_def only_changes_def)
    then show "only_changes W (se_files s) (snd (m (se_files s)))"
      by (rule assms)
  qed
  have "snd (map_err g m f') = snd (m f')" for f'
    by (simp add: map_err_def split: prod.split sum.split)
  with step show "preserves (sec_only W f) (se_file_act (map_err g m))" "preserves (sec_only W f) (se_file_act m)"
    by (auto intro!: preservesI simp: se_file_act_def map_err_def [of Inl] zoom_apply split: prod.split sum.split)
qed

lemma write_changes:
  assumes "plain_name n" "cwd f' = cwd f" "W (place f dir @ [n]) (Some (RegFile body))"
  shows "only_changes W f' (snd (write_file (path_join dir n) body f'))"
  using assms place_cwd [OF assms(2)] by (auto simp: only_changes_def write_file_def place_join [OF assms(1)] split: option.splits)

lemma preserves_write:
  assumes "plain_name n" "W (place f dir @ [n]) (Some (RegFile body))"
  shows "preserves (sec_only W f) (se_file_act (map_err g (write_file (path_join dir n) body)))"
    "preserves (sec_only W f) (se_file_act (write_file (path_join dir n) body))"
  by (rule preserves_se_file(1), rule write_changes [where f = f], use assms in simp_all,
      rule preserves_se_file(2), rule write_changes [where f = f], use assms in simp_all)

lemma preserves_record [preserves_intros]: "preserves (sec_only W f) (se_record env k n j)"
  by (rule preservesI) (auto simp: se_record_def map_err_def zoom_apply sec_only_def split: prod.split sum.split)

lemma preserves_prune:
  assumes "\<And>n. stale stem suffix keep n \<Longrightarrow> W (place f (sv_cache_dir env) @ [n]) None"
  shows "preserves (sec_only W f) (modify (\<lambda>s. s\<lparr>se_files := prune_stale env stem suffix keep (se_files s)\<rparr>))"
proof (rule preserves_modify)
  fix s
  assume c: "sec_only W f s"
  have "W q None" if "q \<noteq> []" "butlast q = place f (sv_cache_dir env)" "stale stem suffix keep (last q)" for q
    using assms [OF that(3)] that(1,2) by (metis append_butlast_last_id)
  then show "sec_only W f (s\<lparr>se_files := prune_stale env stem suffix keep (se_files s)\<rparr>)"
    by (intro sec_only_step [OF c]) (auto simp: only_changes_def prune_stale_def Let_def sec_only_place [OF c])
qed

lemma preserves_run:
  assumes "tools_write_outputs env store"
    and "\<And>q v. store q \<Longrightarrow> W q v"
    and "\<And>n v. has_suffix ''.mod'' n \<or> has_suffix ''.pp'' n \<Longrightarrow> W (place f (sv_cache_dir env) @ [n]) v"
  shows "preserves (sec_only W f) (run_cmd (env :: 'a sec_env) argv)"
proof (rule preservesI)
  fix s :: "'a sec_state"
  assume c: "sec_only W f s"
  have "only_changes W (se_files s) (snd (sv_run env argv (se_files s)))"
    using assms(1) [unfolded tools_write_outputs_def, rule_format, of "se_files s" argv] assms(2,3)
    unfolding only_changes_def sec_only_place [OF c] by metis
  then show "sec_only W f (snd (run_cmd env argv s))"
    using sec_only_step [OF c] by (auto simp: run_cmd_def split: prod.split)
qed

lemma preserves_catch [preserves_intros]: "preserves P m \<Longrightarrow> preserves P (catch_err m)"
  by (rule preservesI) (auto simp: catch_err_def dest: preservesD split: prod.split sum.split)

lemma has_suffix_append [simp]: "has_suffix suffix (s @ suffix)"
  by (simp add: has_suffix_def strip_suffix_def strip_prefix_def)

lemma has_suffix_cache_name [simp]: "has_suffix suffix (cache_name stem digest suffix)"
  using has_suffix_append [of suffix "stem @ CHR ''.'' # digest"] by (simp add: cache_name_def)

lemma stale_has_suffix: "stale stem suffix keep n \<Longrightarrow> has_suffix suffix n"
  by (simp add: stale_def has_suffix_def)

lemma preserves_apparmor_stage:
  assumes "tools_write_outputs env store"
    and store: "\<And>q v. store q \<Longrightarrow> W q v"
    and W: "\<And>n v. has_suffix ''.apparmor'' n \<or> has_suffix ''.mod'' n \<or> has_suffix ''.pp'' n \<Longrightarrow> W (place f (sv_cache_dir env) @ [n]) v"
  shows "preserves (sec_only W f) (apparmor_stage env p cp)"
  unfolding apparmor_stage_def compile_apparmor_def Let_def
  by (auto intro!: preserves_intros preserves_prune preserves_write(2) cache_name_plain preserves_run [OF assms(1) store] W
      dest: stale_has_suffix split: cmd_result.split)

lemma preserves_selinux_stage:
  assumes "tools_write_outputs env store"
    and store: "\<And>q v. store q \<Longrightarrow> W q v"
    and W: "\<And>n v. has_suffix ''.te'' n \<or> has_suffix ''.mod'' n \<or> has_suffix ''.pp'' n \<Longrightarrow> W (place f (sv_cache_dir env) @ [n]) v"
  shows "preserves (sec_only W f) (selinux_stage env p cp)"
  unfolding selinux_stage_def compile_selinux_def is_selinux_available_def package_and_install_def run_step_def
    maybe_apply_runtime_fallback_def selinux_path_for_def Let_def
  by (auto intro!: preserves_intros preserves_write(1) selinux_name_plain preserves_run [OF assms(1) store] W)

definition cache_change :: "string list \<Rightarrow> string list \<Rightarrow> node option \<Rightarrow> bool" where
  "cache_change dir q v \<longleftrightarrow> (\<exists>n. q = dir @ [n]) \<or> take (length q) dir = q \<and> v = Some Dir"

lemma preserves_create_cache:
  "preserves (sec_only (\<lambda>q v. store q \<or> cache_change (place f dir) q v) f) (se_file_act (map_err g (create_dir_all dir)))"
  by (rule preserves_se_file)
    (auto simp: only_changes_def cache_change_def create_dir_all_def Let_def place_def split: option.split)

lemma preserves_seccomp_stage:
  "preserves (sec_only (\<lambda>q v. store q \<or> cache_change (place f (sv_cache_dir env)) q v) f) (seccomp_stage env p cp)"
  unfolding seccomp_stage_def compile_seccomp_def Let_def
  by (auto intro!: preserves_intros preserves_prune preserves_write(1) cache_name_plain simp: cache_change_def)


section \<open>The seccomp file handed out is the current one\<close>

text \<open>
  The cache is sound when every seccomp entry holds a text with the digest in its name. Compiling keeps it
  sound, and the file it hands out is then the rendering of the allowlist it was given; the one way out
  is a cached text that shares its digest, which is excluded by name.
\<close>

definition dotless :: "string \<Rightarrow> bool" where
  "dotless s \<longleftrightarrow> CHR ''.'' \<notin> set s"

definition cache_sound :: "'s sec_env \<Rightarrow> files \<Rightarrow> bool" where
  "cache_sound env f \<longleftrightarrow>
     (\<forall>stem digest. dotless stem \<and> dotless digest \<longrightarrow>
        (case nodes f (place f (sv_cache_dir env) @ [cache_name stem digest ''.seccomp.json'']) of
           None \<Rightarrow> True
         | Some Dir \<Rightarrow> False
         | Some (RegFile body) \<Rightarrow> content_digest (sv_sha256 env) body = digest))"

definition no_cached_collision :: "'s sec_env \<Rightarrow> string \<Rightarrow> files \<Rightarrow> bool" where
  "no_cached_collision env body f \<longleftrightarrow>
     (\<forall>n body'. nodes f (place f (sv_cache_dir env) @ [n]) = Some (RegFile body') \<and>
        content_digest (sv_sha256 env) body' = content_digest (sv_sha256 env) body \<longrightarrow> body' = body)"

lemma cache_name_inject:
  assumes "dotless stem" "dotless d"
  shows "cache_name stem d suffix = cache_name stem' d' suffix \<longleftrightarrow> stem = stem' \<and> d = d'"
  using append_Cons_eq_iff [of "CHR ''.''" stem d stem' d'] assms by (simp add: cache_name_def dotless_def)

lemma dotless_stem: "dotless (sanitize_profile_stem name)" and dotless_digest: "dotless (content_digest sha body)"
  using stem_plain digest_plain by (simp_all add: dotless_def)

lemma sound_entry:
  assumes "cache_sound env f" "dotless stem" "dotless digest"
  shows "nodes f (place f (sv_cache_dir env) @ [cache_name stem digest ''.seccomp.json'']) \<noteq> Some Dir"
    "nodes f (place f (sv_cache_dir env) @ [cache_name stem digest ''.seccomp.json'']) = Some (RegFile body) \<Longrightarrow>
     content_digest (sv_sha256 env) body = digest"
  using assms by (auto simp: cache_sound_def split: option.splits node.splits)

lemma cache_soundI:
  assumes "\<And>stem digest v. dotless stem \<Longrightarrow> dotless digest \<Longrightarrow>
    nodes f (place f (sv_cache_dir env) @ [cache_name stem digest ''.seccomp.json'']) = Some v \<Longrightarrow>
    \<exists>body. v = RegFile body \<and> content_digest (sv_sha256 env) body = digest"
  shows "cache_sound env f"
  using assms by (fastforce simp: cache_sound_def split: option.split node.split)

lemma sound_entryE:
  assumes "cache_sound env f" "dotless stem" "dotless digest"
    and "nodes f (place f (sv_cache_dir env) @ [cache_name stem digest ''.seccomp.json'']) = Some v"
  shows "\<exists>body. v = RegFile body \<and> content_digest (sv_sha256 env) body = digest"
  using sound_entry [OF assms(1-3)] assms(4) by (cases v) auto

lemma prune_nodes:
  "nodes (prune_stale env stem suffix keep f) q = nodes f q \<or> nodes (prune_stale env stem suffix keep f) q = None"
  "cwd (prune_stale env stem suffix keep f) = cwd f"
  by (auto simp: prune_stale_def Let_def)

lemma prune_place [simp]: "place (prune_stale env stem suffix keep f) p = place f p"
  by (rule place_cwd [OF prune_nodes(2)])

lemma se_file_act_Inr: "se_file_act m s = (Inr x, s') \<longleftrightarrow> (\<exists>f. m (se_files s) = (Inr x, f) \<and> s' = s\<lparr>se_files := f\<rparr>)"
  by (cases "m (se_files s)") (auto simp: se_file_act_def map_err_Inr zoom_def)

lemma se_record_files: "se_record env k n j s = (r, s') \<Longrightarrow> se_files s' = se_files s"
  by (auto simp: se_record_def map_err_def zoom_apply split: prod.splits sum.splits)

lemma compile_seccomp_current:
  assumes "compile_seccomp env p names s = (Inr path, s')" and "cache_sound env (se_files s)"
    and "sv_to_string_pretty env (seccomp_json (render_seccomp_json names)) = Inr body"
    and "no_cached_collision env body (se_files s)"
  shows "nodes (se_files s') (place (se_files s') path) = Some (RegFile body) \<and> cache_sound env (se_files s') \<and>
    cwd (se_files s') = cwd (se_files s) \<and> (\<exists>n. path = path_join (sv_cache_dir env) n \<and> plain_name n \<and> has_suffix ''.seccomp.json'' n)"
proof -
  let ?stem = "sanitize_profile_stem (pf_name p)" and ?d = "content_digest (sv_sha256 env) body"
  let ?n = "cache_name ?stem ?d ''.seccomp.json''"
  let ?f = "se_files s" and ?dir = "place (se_files s) (sv_cache_dir env)"
  have plain: "plain_name ?n"
    by (rule cache_name_plain) simp_all
  have path: "path = path_join (sv_cache_dir env) ?n"
    using assms(1,3) by (auto simp: compile_seccomp_def Let_def elim!: bindE_Inr_E split: if_splits)
  show ?thesis
  proof (cases "exists_path ?f path")
    case True
    then obtain v where v: "nodes ?f (?dir @ [?n]) = Some v"
      by (auto simp: exists_path_def path place_join [OF plain])
    obtain body' where "v = RegFile body'" "content_digest (sv_sha256 env) body' = ?d"
      using sound_entryE [OF assms(2) dotless_stem dotless_digest v] by blast
    with v assms(4) have "nodes ?f (?dir @ [?n]) = Some (RegFile body)"
      by (auto simp: no_cached_collision_def)
    moreover have "s' = s"
      using assms(1,3) True by (simp add: compile_seccomp_def Let_def bindE_apply path)
    ultimately show ?thesis
      using assms(2) plain by (auto simp: path place_join [OF plain])
  next
    case False
    let ?f1 = "prune_stale env ?stem ''.seccomp.json'' ?n ?f"
    obtain s1 where "se_file_act (map_err (\<lambda>e. Runtime (''write '' @ path @ '': '' @ e)) (write_file path body))
        (s\<lparr>se_files := ?f1\<rparr>) = (Inr (), s1)" and rec: "se_files s' = se_files s1"
      using assms(1,3) False unfolding compile_seccomp_def path [symmetric]
      by (auto simp: Let_def path [symmetric] elim!: bindE_Inr_E dest!: se_record_files)
    then have "write_file path body ?f1 = (Inr (), se_files s1)"
      by (auto simp: se_file_act_Inr map_err_Inr)
    then have f': "se_files s' = ?f1\<lparr>nodes := (nodes ?f1)(?dir @ [?n] \<mapsto> RegFile body)\<rparr>"
      by (auto simp: rec write_file_def path place_join [OF plain] split: option.splits)
    have "cache_sound env (se_files s')"
    proof (rule cache_soundI)
      fix stem digest v
      assume dl: "dotless stem" "dotless digest"
        and v: "nodes (se_files s') (place (se_files s') (sv_cache_dir env) @ [cache_name stem digest ''.seccomp.json'']) = Some v"
      show "\<exists>body. v = RegFile body \<and> content_digest (sv_sha256 env) body = digest"
      proof (cases "cache_name stem digest ''.seccomp.json'' = ?n")
        case True
        with v dl cache_name_inject [OF dl] show ?thesis
          by (auto simp: f')
      next
        case other: False
        with v have "nodes ?f (?dir @ [cache_name stem digest ''.seccomp.json'']) = Some v"
          using prune_nodes(1) [of env ?stem "''.seccomp.json''" ?n ?f "?dir @ [cache_name stem digest ''.seccomp.json'']"]
          by (auto simp: f' split: if_splits)
        then show ?thesis
          by (rule sound_entryE [OF assms(2) dl])
      qed
    qed
    then show ?thesis
      using plain by (auto simp: f' path place_join [OF plain] prune_nodes(2))
  qed
qed

definition later_output :: "string list \<Rightarrow> string list \<Rightarrow> bool" where
  "later_output dir q \<longleftrightarrow>
     (\<exists>n. q = dir @ [n] \<and> list_ex (\<lambda>suffix. has_suffix suffix n) [''.apparmor'', ''.te'', ''.mod'', ''.pp''])"

lemma has_suffix_last: "has_suffix suffix n \<Longrightarrow> suffix \<noteq> [] \<Longrightarrow> n \<noteq> [] \<and> last n = last suffix"
proof -
  assume "has_suffix suffix n" "suffix \<noteq> []"
  then have "take (length suffix) (rev n) = rev suffix"
    by (auto simp: has_suffix_def strip_suffix_def strip_prefix_def split: if_splits)
  with \<open>suffix \<noteq> []\<close> show ?thesis
    by (cases n rule: rev_cases; cases suffix rule: rev_cases) auto
qed

lemma later_output_no_seccomp: "later_output dir (dir @ [n]) \<Longrightarrow> \<not> has_suffix ''.seccomp.json'' n"
  by (auto simp: later_output_def dest!: has_suffix_last)

lemma later_stages_keep:
  assumes "tools_write_outputs env store"
    and "bindE (apparmor_stage env p cp) (selinux_stage env p) s = (r, s')"
  shows "only_changes (\<lambda>q _. store q \<or> later_output (place (se_files s) (sv_cache_dir env)) q) (se_files s) (se_files s')"
proof -
  let ?W = "\<lambda>q (_ :: node option). store q \<or> later_output (place (se_files s) (sv_cache_dir env)) q"
  have "preserves (sec_only ?W (se_files s)) (bindE (apparmor_stage env p cp) (selinux_stage env p))"
    by (intro preserves_intros preserves_apparmor_stage [OF assms(1)] preserves_selinux_stage [OF assms(1)])
      (auto simp: later_output_def)
  moreover have "sec_only ?W (se_files s) s"
    by (simp add: sec_only_def only_changes_def)
  ultimately show ?thesis
    using preservesD assms(2) by (fastforce simp: sec_only_def)
qed

lemma later_stages_seccomp_path:
  assumes "bindE (apparmor_stage env p cp) (selinux_stage env p) s = (Inr cp', s')"
  shows "seccomp_path cp' = seccomp_path cp"
proof -
  have "seccomp_path c' = seccomp_path c" if "apparmor_stage env p c t = (Inr c', t')" for c c' t t'
    using that by (auto simp: apparmor_stage_def elim!: bindE_Inr_E split: if_splits sum.splits)
  moreover have "seccomp_path c' = seccomp_path c" if "selinux_stage env p c t = (Inr c', t')" for c c' t t'
    using that by (auto simp: selinux_stage_def maybe_apply_runtime_fallback_def Let_def elim!: bindE_Inr_E
        split: if_splits sum.splits option.splits)
  ultimately show ?thesis
    using assms by (auto elim!: bindE_Inr_E)
qed

lemma sound_transfer:
  assumes "cwd f' = cwd f" "\<And>n. has_suffix ''.seccomp.json'' n \<Longrightarrow>
      nodes f' (place f (sv_cache_dir env) @ [n]) = nodes f (place f (sv_cache_dir env) @ [n])"
  shows "cache_sound env f' = cache_sound env f"
  using assms place_cwd [OF assms(1)] by (simp add: cache_sound_def)

text \<open>
  C13. The seccomp profile podman gets is the one of the profile being applied, never an older one: from a
  sound cache that holds no other text with the same digest, a compile that succeeds for a profile with a
  syscall allowlist names a file that holds exactly the rendering of that allowlist, after all later
  stages, and leaves the cache sound.
\<close>

theorem compile_serves_current_allowlist:
  assumes "tools_write_outputs env store" and "cache_sound env (se_files s)"
    and "pf_syscall_allowlist p = Some names"
    and "sv_to_string_pretty env (seccomp_json (render_seccomp_json names)) = Inr body"
    and "no_cached_collision env body (se_files s)"
    and "\<forall>n. \<not> store (place (se_files s) (sv_cache_dir env) @ [n])"
    and "sec_compile env p s = (Inr cp, s')"
  shows "\<exists>path. seccomp_path cp = Some path \<and> nodes (se_files s') (place (se_files s') path) = Some (RegFile body) \<and>
    cache_sound env (se_files s')"
proof -
  let ?dir = "place (se_files s) (sv_cache_dir env)"
  obtain f1 path s2 where mk: "create_dir_all (sv_cache_dir env) (se_files s) = (Inr (), f1)"
    and sc: "compile_seccomp env p names (s\<lparr>se_files := f1\<rparr>) = (Inr path, s2)"
    and rest: "bindE (apparmor_stage env p (empty_compiled\<lparr>seccomp_path := Some path\<rparr>)) (selinux_stage env p) s2 = (Inr cp, s')"
    using assms(3,7)
    by (auto simp: sec_compile_def seccomp_stage_def se_file_act_Inr map_err_Inr catch_err_def elim!: bindE_Inr_E
        split: prod.splits sum.splits) (auto simp: bindE_apply)
  note keep = create_dir_keeps_entries [OF mk]
  have pl: "place f1 q = place (se_files s) q" for q
    by (rule place_cwd [OF keep(1)])
  have "cache_sound env f1"
    using assms(2) sound_transfer [OF keep(1)] keep(2) by blast
  moreover have "no_cached_collision env body f1"
    using assms(5) by (simp add: no_cached_collision_def pl keep(2))
  ultimately obtain n where held: "nodes (se_files s2) (place (se_files s2) path) = Some (RegFile body)"
    and sound: "cache_sound env (se_files s2)" and path: "path = path_join (sv_cache_dir env) n"
    and n: "plain_name n" "has_suffix ''.seccomp.json'' n" and cw2: "cwd (se_files s2) = cwd f1"
    using compile_seccomp_current [OF sc _ assms(4)] by auto
  have later: "only_changes (\<lambda>q _. store q \<or> later_output (place (se_files s2) (sv_cache_dir env)) q) (se_files s2) (se_files s')"
    by (rule later_stages_keep [OF assms(1) rest])
  then have cw: "cwd (se_files s') = cwd (se_files s2)"
    and same: "has_suffix ''.seccomp.json'' m \<Longrightarrow> nodes (se_files s') (place (se_files s2) (sv_cache_dir env) @ [m]) =
      nodes (se_files s2) (place (se_files s2) (sv_cache_dir env) @ [m])" for m
    using later_output_no_seccomp assms(6) pl [of "sv_cache_dir env"] place_cwd [OF cw2, of "sv_cache_dir env"]
    by (auto simp: only_changes_def)
  have "nodes (se_files s') (place (se_files s') path) = Some (RegFile body)"
    using held same [OF n(2)] by (simp add: path place_join [OF n(1)] place_cwd [OF cw])
  moreover have "cache_sound env (se_files s')"
    using sound sound_transfer [OF cw same] by simp
  ultimately show ?thesis
    using later_stages_seccomp_path [OF rest] by simp
qed

text \<open>
  Two profiles whose names differ only in folded characters share a stem: compiling one removes the
  seccomp file of the other, although a container may still be about to use it.
\<close>

lemma aliased_profile_is_pruned:
  assumes "d \<noteq> d'" and "dotless d" and "dotless d'"
  shows "stale (sanitize_profile_stem ''a/b'') ''.seccomp.json'' (cache_name (sanitize_profile_stem ''a/b'') d ''.seccomp.json'')
    (cache_name (sanitize_profile_stem ''a_b'') d' ''.seccomp.json'')"
proof -
  have stem: "sanitize_profile_stem ''a/b'' = ''a_b''" "sanitize_profile_stem ''a_b'' = ''a_b''"
    by code_simp+
  have suffix: "has_suffix ''.seccomp.json'' (cache_name ''a_b'' d' ''.seccomp.json'')"
    by simp
  have "cache_name ''a_b'' d' ''.seccomp.json'' \<noteq> cache_name ''a_b'' d ''.seccomp.json''"
    using assms by (simp add: cache_name_def)
  with suffix show ?thesis
    by (simp add: stem stale_def has_suffix_def) (simp add: cache_name_def strip_prefix_def)
qed

section \<open>A concrete compile\<close>

definition demo_sec_env :: "unit sec_env" where
  "demo_sec_env =
     \<lparr>sv_cache_dir = ''/cache'', sv_record = (\<lambda>_ _ _ _. ret ()),
      sv_to_string_pretty = (\<lambda>j. case j of JObject kvs \<Rightarrow> Inr (concat (map fst kvs)) | _ \<Rightarrow> Inl ''not an object''),
      sv_sha256 = rev, sv_var = Map.empty, sv_run = (\<lambda>_ f. (NotSpawned ''ENOENT'', f))\<rparr>"

definition demo_sec_profile :: sandbox_profile_t where
  "demo_sec_profile = demo_profile\<lparr>pf_name := ''../etc/x'', pf_syscall_allowlist := Some [''write'', ''read'']\<rparr>"

definition demo_sec_state :: "unit sec_state" where
  "demo_sec_state =
     \<lparr>se_sink = (), se_files = \<lparr>cwd = [], nodes = [[] \<mapsto> Dir], read_err = Map.empty, write_err = Map.empty\<rparr>\<rparr>"

lemma demo_sec_tools: "tools_write_outputs demo_sec_env (\<lambda>_. False)"
  by (simp add: tools_write_outputs_def demo_sec_env_def only_changes_def)

lemma demo_cache_place: "place (se_files demo_sec_state) (sv_cache_dir demo_sec_env) = [''cache'']"
  by code_simp

lemma demo_compile_runs:
  "\<exists>cp s'. sec_compile demo_sec_env demo_sec_profile demo_sec_state = (Inr cp, s') \<and>
     seccomp_path cp = Some (path_join ''/cache'' (cache_name ''___etc_x'' (content_digest rev ''defaultActionarchitecturessyscalls'') ''.seccomp.json''))"
proof -
  have stem: "sanitize_profile_stem ''../etc/x'' = ''___etc_x''"
    by code_simp
  show ?thesis
    using demo_cache_place
    by (auto simp: sec_compile_def seccomp_stage_def compile_seccomp_def apparmor_stage_def selinux_stage_def
        demo_sec_profile_def demo_profile_def stem demo_sec_env_def demo_sec_state_def seccomp_json_def bindE_apply
        catch_err_def se_file_act_def se_record_def map_err_def zoom_apply create_dir_all_def write_file_def
        prune_stale_def empty_compiled_def Let_def upt_rec gets_def modify_def ret_def)
qed


theorem compile_serves_current_allowlist_witness:
  "\<exists>cp s' path. sec_compile demo_sec_env demo_sec_profile demo_sec_state = (Inr cp, s') \<and> seccomp_path cp = Some path \<and>
     nodes (se_files s') (place (se_files s') path) = Some (RegFile ''defaultActionarchitecturessyscalls'')"
proof -
  obtain cp s' where run: "sec_compile demo_sec_env demo_sec_profile demo_sec_state = (Inr cp, s')"
    using demo_compile_runs by blast
  have empty: "nodes (se_files demo_sec_state) (dir @ [n]) = None" for dir n
    by (simp add: demo_sec_state_def)
  have "cache_sound demo_sec_env (se_files demo_sec_state)"
    "no_cached_collision demo_sec_env ''defaultActionarchitecturessyscalls'' (se_files demo_sec_state)"
    by (simp_all only: cache_sound_def no_cached_collision_def empty option.case option.distinct) simp_all
  from compile_serves_current_allowlist [OF demo_sec_tools this(1) _ _ this(2) _ run] run show ?thesis
    by (simp add: demo_sec_profile_def demo_sec_env_def seccomp_json_def) blast
qed

end
