(* ===== verification/Podman.thy ===== *)
theory Podman
  imports Mount_Args Policy Plugin_Registry Files
begin

text \<open>
  The adapter over the podman command line (\<^verbatim>\<open>linpodx-runtime/src/podman.rs\<close>) and the host passthrough flags
  (\<^verbatim>\<open>passthrough.rs\<close>): the argument vectors of every container operation and how the end of the process
  becomes a result. The process is a parameter that may change the host; printing a float and the text of
  a UTF-8 error are parameters too. Shown: a create under a sandbox profile reaches podman with every
  confinement flag of the profile, and what is not wanted has no flag.
\<close>

section \<open>Running podman\<close>

record podman_config =
  cfg_binary :: "string option"
  cfg_root :: "string option"
  cfg_runroot :: "string option"

datatype proc_result =
  NoSpawn string
| Proc (px_code: "int option") (px_stdout: "byte list") (px_stderr: "byte list")

record 'w podman_env =
  po_config :: podman_config
  po_output :: "string list \<Rightarrow> 'w \<Rightarrow> proc_result \<times> 'w"
  po_utf8_error :: "byte list \<Rightarrow> string"
  po_fmt_f32 :: "f32 \<Rightarrow> string"
  po_fmt_f64 :: "f64 \<Rightarrow> string"

definition podman_binary :: "podman_config \<Rightarrow> string" where
  "podman_binary cfg = (case cfg_binary cfg of Some p \<Rightarrow> p | None \<Rightarrow> ''podman'')"

definition base_command :: "podman_config \<Rightarrow> string list" where
  "base_command cfg =
     podman_binary cfg #
     (case cfg_root cfg of Some r \<Rightarrow> [''--root'', r] | None \<Rightarrow> []) @
     (case cfg_runroot cfg of Some r \<Rightarrow> [''--runroot'', r] | None \<Rightarrow> [])"

text \<open>\<^verbatim>\<open>String::from_utf8\<close>: bytes are well-formed when the lossy reading leaves them alone.\<close>

definition from_utf8 :: "(byte list \<Rightarrow> string) \<Rightarrow> byte list \<Rightarrow> string + string" where
  "from_utf8 err bs = (if from_utf8_lossy bs = bs then Inr (bytes_string bs) else Inl (err bs))"

definition lossy :: "byte list \<Rightarrow> string" where
  "lossy bs = bytes_string (from_utf8_lossy bs)"

definition run_capture :: "'w podman_env \<Rightarrow> string list \<Rightarrow> ('w, error, string) act" where
  "run_capture env args w =
     (case po_output env (base_command (po_config env) @ args) w of
        (NoSpawn e, w') \<Rightarrow> (Inl (Io e), w')
      | (Proc code out err, w') \<Rightarrow>
          if code \<noteq> Some 0 then (Inl (Runtime (trim (lossy err))), w')
          else (case from_utf8 (po_utf8_error env) out of Inl e \<Rightarrow> (Inl (Runtime e), w') | Inr s \<Rightarrow> (Inr s, w')))"

text \<open>
  Lowercasing as far as a search for ASCII words can see: ASCII letters, and the two other characters whose
  lowercase form contains an ASCII letter (the Kelvin sign and the capital I with a dot).
\<close>

fun lower_for_search :: "string \<Rightarrow> string" where
  "lower_for_search (a # b # c # cs) =
     (if a = CHR 0xE2 \<and> b = CHR 0x84 \<and> c = CHR 0xAA then CHR ''k'' # lower_for_search cs
      else if a = CHR 0xC4 \<and> b = CHR 0xB0 then CHR ''i'' # CHR 0xCC # CHR 0x87 # lower_for_search (c # cs)
      else ascii_lower a # lower_for_search (b # c # cs))"
| "lower_for_search [a, b] =
     (if a = CHR 0xC4 \<and> b = CHR 0xB0 then [CHR ''i'', CHR 0xCC, CHR 0x87] else [ascii_lower a, ascii_lower b])"
| "lower_for_search [a] = [ascii_lower a]"
| "lower_for_search [] = []"

definition not_found_phrases :: "string list" where
  "not_found_phrases =
     [''no such container'', ''no such image'', ''no such volume'', ''no such network'', ''no container with id'',
      ''no image with id'', ''does not exist in local storage'', ''image not known'', ''container not known'',
      ''volume not known'', ''network not known'']"

definition looks_like_not_found :: "string \<Rightarrow> bool" where
  "looks_like_not_found stderr = list_ex (contains_str (lower_for_search stderr)) not_found_phrases"

definition map_not_found :: "error \<Rightarrow> string \<Rightarrow> error" where
  "map_not_found err what =
     (case err of Runtime message \<Rightarrow> if looks_like_not_found message then NotFound what else err | _ \<Rightarrow> err)"

definition run_on :: "'w podman_env \<Rightarrow> string \<Rightarrow> string list \<Rightarrow> ('w, error, string) act" where
  "run_on env what args = map_err (\<lambda>e. map_not_found e what) (run_capture env args)"

section \<open>Host passthrough (passthrough.rs)\<close>

text \<open>A \<^verbatim>\<open>HostEnv\<close>: environment variables, the user id and the host's groups.\<close>

record host_env =
  he_var :: "string \<Rightarrow> string option"
  he_uid :: u32
  he_group_gid :: "string \<Rightarrow> u32 option"

definition parse_u32 :: "string \<Rightarrow> u32 option" where
  "parse_u32 s = map_option of_nat (parse_unsigned (2 ^ 32) s)"

text \<open>\<^verbatim>\<open>str::lines\<close>: a final line ending opens no further line, and a carriage return before it is dropped.\<close>

definition strip_cr :: "string \<Rightarrow> string" where
  "strip_cr l = (if l \<noteq> [] \<and> last l = CHR 0x0D then butlast l else l)"

definition str_lines :: "string \<Rightarrow> string list" where
  "str_lines s =
     (let ps = split_char (CHR 0x0A) s in
      if last ps = [] then map strip_cr (butlast ps) else map strip_cr (butlast ps) @ [last ps])"

definition group_line_gid :: "string \<Rightarrow> string \<Rightarrow> u32 option" where
  "group_line_gid name line =
     (case splitn 4 (CHR '':'') line of
        entry # _ # gid # _ \<Rightarrow> if entry = name then parse_u32 gid else None
      | _ \<Rightarrow> None)"

definition parse_group_gid :: "string \<Rightarrow> string \<Rightarrow> u32 option" where
  "parse_group_gid contents name =
     (case List.map_filter (group_line_gid name) (str_lines contents) of g # _ \<Rightarrow> Some g | [] \<Rightarrow> None)"

definition system_host_env :: "(string \<Rightarrow> string option) \<Rightarrow> string option \<Rightarrow> host_env" where
  "system_host_env var etc_group =
     \<lparr>he_var = var,
      he_uid = (case Option.bind (var ''UID'') parse_u32 of Some n \<Rightarrow> n | None \<Rightarrow> 1000),
      he_group_gid = (\<lambda>name. Option.bind etc_group (\<lambda>c. parse_group_gid c name))\<rparr>"

definition show_u32 :: "u32 \<Rightarrow> string" where
  "show_u32 w = show_nat (unat w)"

definition add_group_by_name :: "host_env \<Rightarrow> string \<Rightarrow> string list list" where
  "add_group_by_name he name = (case he_group_gid he name of Some gid \<Rightarrow> [[''--group-add'', show_u32 gid]] | None \<Rightarrow> [])"

definition HIDPI_FORWARD :: "string list" where
  "HIDPI_FORWARD =
     [''GDK_SCALE'', ''GDK_DPI_SCALE'', ''GDK_BACKEND'', ''GTK_THEME'', ''GTK_OVERLAY_SCROLLING'', ''QT_SCALE_FACTOR'',
      ''QT_AUTO_SCREEN_SCALE_FACTOR'', ''QT_ENABLE_HIGHDPI_SCALING'', ''QT_QPA_PLATFORM'', ''QT_QPA_PLATFORMTHEME'',
      ''XCURSOR_SIZE'', ''XCURSOR_THEME'']"

text \<open>An argument vector is built in groups, a flag with its value.\<close>

definition env_flag :: "string \<Rightarrow> string \<Rightarrow> string list" where
  "env_flag k v = [''--env'', k @ ''='' @ v]"

definition wayland_flags :: "host_env \<Rightarrow> string \<Rightarrow> string list list" where
  "wayland_flags he container_xdg =
     (case he_var he ''XDG_RUNTIME_DIR'' of
        None \<Rightarrow> []
      | Some xdg \<Rightarrow>
          (let display = (case he_var he ''WAYLAND_DISPLAY'' of Some d \<Rightarrow> d | None \<Rightarrow> ''wayland-0'') in
           [[''--volume'', path_join xdg display @ '':'' @ container_xdg @ ''/'' @ display],
            env_flag ''WAYLAND_DISPLAY'' display, env_flag ''XDG_RUNTIME_DIR'' container_xdg]))"

definition x11_flags :: "host_env \<Rightarrow> string list list" where
  "x11_flags he =
     [[''--volume'', ''/tmp/.X11-unix:/tmp/.X11-unix:ro''],
      env_flag ''DISPLAY'' (case he_var he ''DISPLAY'' of Some d \<Rightarrow> d | None \<Rightarrow> '':0'')] @
     (case he_var he ''XAUTHORITY'' of
        Some xauth \<Rightarrow> [[''--volume'', xauth @ '':'' @ xauth @ '':ro''], env_flag ''XAUTHORITY'' xauth]
      | None \<Rightarrow> [])"

fun audio_flags :: "host_env \<Rightarrow> string \<Rightarrow> audio_mode \<Rightarrow> string list list" where
  "audio_flags he cx AudioNone = []"
| "audio_flags he cx PipeWire =
     (case he_var he ''XDG_RUNTIME_DIR'' of
        None \<Rightarrow> []
      | Some xdg \<Rightarrow> [[''--volume'', path_join xdg ''pipewire-0'' @ '':'' @ cx @ ''/pipewire-0''],
                     env_flag ''PIPEWIRE_RUNTIME_DIR'' cx, env_flag ''XDG_RUNTIME_DIR'' cx])"
| "audio_flags he cx Pulse =
     (case he_var he ''XDG_RUNTIME_DIR'' of
        None \<Rightarrow> []
      | Some xdg \<Rightarrow> [[''--volume'', path_join xdg ''pulse'' @ '':'' @ cx @ ''/pulse''],
                     env_flag ''PULSE_SERVER'' (''unix:'' @ cx @ ''/pulse/native''), env_flag ''XDG_RUNTIME_DIR'' cx])"

definition apply_passthrough_with_env :: "passthrough_spec \<Rightarrow> host_env \<Rightarrow> string list list" where
  "apply_passthrough_with_env spec he =
     (if passthrough_is_empty spec then []
      else
        let cx = ''/run/user/'' @ show_u32 (he_uid he) in
        (if wayland spec then wayland_flags he cx else []) @
        (if x11 spec then x11_flags he else []) @
        audio_flags he cx (audio spec) @
        (if gpu spec then [[''--device'', ''/dev/dri'']] @ add_group_by_name he ''video'' @ add_group_by_name he ''render'' else []) @
        (if dbus_session spec then
           [[''--volume'', ''/run/user/'' @ show_u32 (he_uid he) @ ''/bus:'' @ cx @ ''/bus''],
            env_flag ''DBUS_SESSION_BUS_ADDRESS'' (''unix:path='' @ cx @ ''/bus'')]
         else []) @
        (if clipboard spec then [[''--label'', ''linpodx.clipboard=requested'']] else []) @
        (if hidpi_inherit spec then
           List.map_filter (\<lambda>key. map_option (env_flag key) (he_var he key)) HIDPI_FORWARD
         else []) @
        (case register_app_menu spec of Some slug \<Rightarrow> [[''--label'', ''linpodx.app_menu='' @ slug]] | None \<Rightarrow> []))"

section \<open>Containers\<close>

fun dedup_label_type :: "bool \<Rightarrow> string list \<Rightarrow> string list" where
  "dedup_label_type emitted [] = []"
| "dedup_label_type emitted (s # ss) =
     (if starts_with s ''label=type:'' then
        (if emitted then dedup_label_type emitted ss else s # dedup_label_type True ss)
      else s # dedup_label_type emitted ss)"

definition dedup_label_type_first_wins :: "string list \<Rightarrow> string list" where
  "dedup_label_type_first_wins opts = dedup_label_type False opts"

definition create_groups :: "'w podman_env \<Rightarrow> host_env \<Rightarrow> create_options \<Rightarrow> string list list" where
  "create_groups env he opts =
     (case co_name opts of Some n \<Rightarrow> [[''--name'', n]] | None \<Rightarrow> []) @
     (if co_rm opts then [[''--rm'']] else []) @
     map (\<lambda>(k, v). env_flag k v) (co_env opts) @
     map (\<lambda>(k, v). [''--label'', k @ ''='' @ v]) (co_labels opts) @
     map (\<lambda>pm. [''--publish'', to_publish_arg pm]) (co_port_mappings opts) @
     map (\<lambda>vm. [''--volume'', to_volume_arg vm]) (co_volumes opts) @
     map (\<lambda>net. [''--network'', net]) (co_networks opts) @
     (case co_cpus opts of Some c \<Rightarrow> [[''--cpus'', po_fmt_f32 env c]] | None \<Rightarrow> []) @
     (case co_memory_mb opts of Some m \<Rightarrow> [[''--memory'', show_nat (unat m) @ ''m'']] | None \<Rightarrow> []) @
     map (\<lambda>cap. [''--cap-drop'', cap]) (co_cap_drop opts) @
     map (\<lambda>cap. [''--cap-add'', cap]) (co_cap_add opts) @
     (if co_read_only opts then [[''--read-only'']] else []) @
     map (\<lambda>s. [''--security-opt'', s]) (dedup_label_type_first_wins (co_security_opts opts)) @
     (case co_passthrough opts of
        Some spec \<Rightarrow> if passthrough_is_empty spec then [] else apply_passthrough_with_env spec he
      | None \<Rightarrow> []) @
     (if co_systemd opts then [[''--systemd=true''], [''--tmpfs'', ''/run''], [''--tmpfs'', ''/run/lock'']] else []) @
     (if co_auto_restart opts then [[''--restart=unless-stopped'']] else []) @
     (if co_keep_user_id opts then [[''--userns=keep-id'']] else []) @
     (case co_rootfs opts of Some rootfs \<Rightarrow> [[''--rootfs'', rootfs]] | None \<Rightarrow> [])"

definition create_args :: "'w podman_env \<Rightarrow> host_env \<Rightarrow> create_options \<Rightarrow> string list" where
  "create_args env he opts =
     ''create'' # concat (create_groups env he opts) @
     (if co_rootfs opts = None then [co_image opts] else []) @ co_command opts"

definition podman_create :: "'w podman_env \<Rightarrow> host_env \<Rightarrow> create_options \<Rightarrow> ('w, error, string) act" where
  "podman_create env he opts =
     bindE (run_capture env (create_args env he opts)) (\<lambda>out.
       let cid = trim out in
       if cid = [] then throw (Runtime ''podman create returned empty id'') else ret cid)"

definition podman_start :: "'w podman_env \<Rightarrow> string \<Rightarrow> ('w, error, unit) act" where
  "podman_start env cid = bindE (run_on env cid [''start'', cid]) (\<lambda>_. ret ())"

definition podman_stop :: "'w podman_env \<Rightarrow> string \<Rightarrow> nat option \<Rightarrow> ('w, error, unit) act" where
  "podman_stop env cid timeout =
     bindE (run_on env cid (''stop'' # (case timeout of Some t \<Rightarrow> [''--time'', show_nat t] | None \<Rightarrow> []) @ [cid])) (\<lambda>_. ret ())"

definition podman_remove :: "'w podman_env \<Rightarrow> string \<Rightarrow> bool \<Rightarrow> ('w, error, unit) act" where
  "podman_remove env cid force =
     bindE (run_on env cid (''rm'' # (if force then [''--force''] else []) @ [cid])) (\<lambda>_. ret ())"

definition podman_pull :: "'w podman_env \<Rightarrow> string \<Rightarrow> ('w, error, unit) act" where
  "podman_pull env img = bindE (run_capture env [''pull'', img]) (\<lambda>_. ret ())"

record update_params =
  up_id :: string
  up_memory_bytes :: "u64 option"
  up_memory_swap_bytes :: "u64 option"
  up_cpus :: "f64 option"
  up_pids_limit :: "int option"
  up_restart_policy :: "string option"

definition build_update_command :: "'w podman_env \<Rightarrow> update_params \<Rightarrow> string list" where
  "build_update_command env p =
     ''update'' #
     (case up_memory_bytes p of Some m \<Rightarrow> [''--memory'', show_nat (unat m)] | None \<Rightarrow> []) @
     (case up_memory_swap_bytes p of Some m \<Rightarrow> [''--memory-swap'', show_nat (unat m)] | None \<Rightarrow> []) @
     (case up_cpus p of Some c \<Rightarrow> [''--cpus'', po_fmt_f64 env c] | None \<Rightarrow> []) @
     (case up_pids_limit p of Some n \<Rightarrow> [''--pids-limit'', show_int n] | None \<Rightarrow> []) @
     (case up_restart_policy p of Some r \<Rightarrow> [''--restart'', r] | None \<Rightarrow> []) @ [up_id p]"

definition update_applied_fields :: "update_params \<Rightarrow> string list" where
  "update_applied_fields p =
     (if up_memory_bytes p \<noteq> None then [''memory''] else []) @
     (if up_memory_swap_bytes p \<noteq> None then [''memory_swap''] else []) @
     (if up_cpus p \<noteq> None then [''cpus''] else []) @
     (if up_pids_limit p \<noteq> None then [''pids_limit''] else []) @
     (if up_restart_policy p \<noteq> None then [''restart_policy''] else [])"

definition container_update :: "'w podman_env \<Rightarrow> update_params \<Rightarrow> ('w, error, string \<times> string list) act" where
  "container_update env p =
     (let applied = update_applied_fields p in
      if applied = [] then ret (up_id p, applied)
      else bindE (run_on env (up_id p) (build_update_command env p)) (\<lambda>_. ret (up_id p, applied)))"

record exec_output =
  eo_exit_code :: int
  eo_stdout :: string
  eo_stderr :: string

definition build_exec_command :: "bool \<Rightarrow> (string \<times> string) list \<Rightarrow> string \<Rightarrow> string list \<Rightarrow> string list" where
  "build_exec_command tty envs cid command =
     ''exec'' # (if tty then [''-t''] else []) @ concat (map (\<lambda>(k, v). [''-e'', k @ ''='' @ v]) envs) @ cid # command"

definition podman_exec ::
  "'w podman_env \<Rightarrow> bool \<Rightarrow> (string \<times> string) list \<Rightarrow> string \<Rightarrow> string list \<Rightarrow> ('w, error, exec_output) act" where
  "podman_exec env tty envs cid command w =
     (case po_output env (base_command (po_config env) @ build_exec_command tty envs cid command) w of
        (NoSpawn e, w') \<Rightarrow> (Inl (Io e), w')
      | (Proc code out err, w') \<Rightarrow>
          if code \<noteq> Some 0 \<and> out = [] \<and> looks_like_not_found (lossy err) then (Inl (NotFound cid), w')
          else (Inr \<lparr>eo_exit_code = (case code of Some c \<Rightarrow> c | None \<Rightarrow> - 1), eo_stdout = lossy out, eo_stderr = lossy err\<rparr>, w'))"

definition podman_logs :: "'w podman_env \<Rightarrow> string \<Rightarrow> string option \<Rightarrow> ('w, error, string \<times> string) act" where
  "podman_logs env cid since w =
     (case po_output env (base_command (po_config env) @ ''logs'' #
             (case since of Some t \<Rightarrow> [''--since'', t] | None \<Rightarrow> []) @ [cid]) w of
        (NoSpawn e, w') \<Rightarrow> (Inl (Io e), w')
      | (Proc code out err, w') \<Rightarrow>
          if code \<noteq> Some 0 \<and> out = [] \<and> err = [] then (Inl (Runtime (''podman logs failed: '' @ trim (lossy err))), w')
          else (Inr (lossy out, lossy err), w'))"

definition logs_stream_args :: "string \<Rightarrow> bool \<Rightarrow> string option \<Rightarrow> string list" where
  "logs_stream_args cid follow since =
     ''logs'' # (if follow then [''--follow''] else []) @ (case since of Some s \<Rightarrow> [''--since'', s] | None \<Rightarrow> []) @ [cid]"

definition make_bridge_id :: "(byte list \<Rightarrow> byte list) \<Rightarrow> string \<Rightarrow> int \<Rightarrow> string" where
  "make_bridge_id sha container_id now_micros =
     ''pty-'' @ hex_encode (take 4 (sha (as_bytes container_id @ to_le_bytes (word_of_int now_micros))))"

section \<open>What the flags say\<close>

definition flag_value :: "string \<Rightarrow> string list \<Rightarrow> string option" where
  "flag_value f g = (case g of [f', v] \<Rightarrow> if f' = f then Some v else None | _ \<Rightarrow> None)"

definition flag_values :: "string \<Rightarrow> string list list \<Rightarrow> string list" where
  "flag_values f gs = List.map_filter (flag_value f) gs"

lemma flag_value_simps [simp]:
  "flag_value f [] = None" "flag_value f [x] = None" "flag_value f [f', v] = (if f' = f then Some v else None)"
  by (simp_all add: flag_value_def)

lemma flag_values_simps [simp]:
  "flag_values f [] = []"
  "flag_values f (g # gs) = (case flag_value f g of Some v \<Rightarrow> v # flag_values f gs | None \<Rightarrow> flag_values f gs)"
  "flag_values f (gs @ hs) = flag_values f gs @ flag_values f hs"
  by (simp_all add: flag_values_def map_filter_def split: option.split)

lemma flag_values_map [simp]: "flag_values f (map (\<lambda>x. [f', h x]) xs) = (if f' = f then map h xs else [])"
  by (induction xs) auto

lemma flag_values_map_prod [simp]:
  "flag_values f (map (\<lambda>(k, v). [f', h k v]) xs) = (if f' = f then map (\<lambda>(k, v). h k v) xs else [])"
  by (induction xs) auto

lemma flag_values_option [simp]:
  "flag_values f (case x of Some v \<Rightarrow> [[f', h v]] | None \<Rightarrow> []) =
     (if f' = f then (case x of Some v \<Rightarrow> [h v] | None \<Rightarrow> []) else [])"
  by (simp split: option.split)

lemma flag_values_if [simp]:
  "flag_values f (if b then [[x]] else []) = []"
  "flag_values f (if b then [] else gs) = (if b then [] else flag_values f gs)"
  by simp_all

lemma flag_values_none: "(\<And>g. g \<in> set gs \<Longrightarrow> flag_value f g = None) \<Longrightarrow> flag_values f gs = []"
  by (induction gs) auto

lemma env_flag_map [simp]: "flag_values f (map (\<lambda>(k, v). env_flag k v) xs) = (if f = ''--env'' then map (\<lambda>(k, v). k @ ''='' @ v) xs else [])"
  by (simp add: env_flag_def)

text \<open>Passthrough adds binds, variables, a device, groups and labels, never a flag of the confinement.\<close>

definition passthrough_flag_names :: "string list" where
  "passthrough_flag_names = [''--volume'', ''--env'', ''--device'', ''--group-add'', ''--label'']"

definition passthrough_group :: "string list \<Rightarrow> bool" where
  "passthrough_group g = (case g of [f, v] \<Rightarrow> f \<in> set passthrough_flag_names | _ \<Rightarrow> False)"

lemma passthrough_group_simps [simp]:
  "passthrough_group [''--volume'', v]" "passthrough_group [''--device'', v]" "passthrough_group [''--group-add'', v]"
  "passthrough_group [''--label'', v]" "passthrough_group (env_flag k v)" "\<not> passthrough_group [x]"
  by (simp_all add: passthrough_group_def passthrough_flag_names_def env_flag_def)

lemma passthrough_parts:
  "list_all passthrough_group (wayland_flags he cx)" "list_all passthrough_group (x11_flags he)"
  "list_all passthrough_group (audio_flags he cx a)" "list_all passthrough_group (add_group_by_name he name)"
  "list_all passthrough_group (List.map_filter (\<lambda>key. map_option (env_flag key) (he_var he key)) keys)"
proof -
  show "list_all passthrough_group (wayland_flags he cx)"
    by (simp add: wayland_flags_def Let_def split: option.split)
  show "list_all passthrough_group (x11_flags he)"
    by (simp add: x11_flags_def split: option.split)
  show "list_all passthrough_group (audio_flags he cx a)"
    by (cases a) (simp_all split: option.split)
  show "list_all passthrough_group (add_group_by_name he name)"
    by (simp add: add_group_by_name_def split: option.split)
  show "list_all passthrough_group (List.map_filter (\<lambda>key. map_option (env_flag key) (he_var he key)) keys)"
    by (induction keys) (simp_all add: map_filter_simps split: option.split)
qed

lemma passthrough_flags: "list_all passthrough_group (apply_passthrough_with_env spec he)"
  by (simp add: apply_passthrough_with_env_def passthrough_parts Let_def split: option.split)

lemma passthrough_no_flag:
  assumes "f \<notin> set passthrough_flag_names"
  shows "flag_values f (apply_passthrough_with_env spec he) = []"
proof (rule flag_values_none)
  fix g
  assume "g \<in> set (apply_passthrough_with_env spec he)"
  then have "passthrough_group g"
    using passthrough_flags [of spec he] by (simp add: list_all_iff)
  with assms show "flag_value f g = None"
    by (auto simp: passthrough_group_def flag_value_def split: list.splits)
qed

lemma confinement_not_passthrough:
  "f \<in> {''--network'', ''--cap-drop'', ''--cap-add'', ''--cpus'', ''--memory'', ''--security-opt'', ''--rootfs'', ''--publish''} \<Longrightarrow>
   f \<notin> set passthrough_flag_names"
  by (auto simp: passthrough_flag_names_def)

lemma option_passthrough_no_flag:
  assumes "f \<notin> set passthrough_flag_names"
  shows "flag_values f (case x of Some spec \<Rightarrow> if passthrough_is_empty spec then [] else apply_passthrough_with_env spec he | None \<Rightarrow> []) = []"
  using assms by (simp add: passthrough_no_flag split: option.split)

lemma create_flag_values:
  "flag_values ''--network'' (create_groups env he opts) = co_networks opts"
  "flag_values ''--cap-drop'' (create_groups env he opts) = co_cap_drop opts"
  "flag_values ''--cap-add'' (create_groups env he opts) = co_cap_add opts"
  "flag_values ''--cpus'' (create_groups env he opts) = (case co_cpus opts of Some c \<Rightarrow> [po_fmt_f32 env c] | None \<Rightarrow> [])"
  "flag_values ''--memory'' (create_groups env he opts) = (case co_memory_mb opts of Some m \<Rightarrow> [show_nat (unat m) @ ''m''] | None \<Rightarrow> [])"
  "flag_values ''--security-opt'' (create_groups env he opts) = dedup_label_type_first_wins (co_security_opts opts)"
  "flag_values ''--rootfs'' (create_groups env he opts) = (case co_rootfs opts of Some r \<Rightarrow> [r] | None \<Rightarrow> [])"
  by (simp_all add: create_groups_def option_passthrough_no_flag confinement_not_passthrough)

lemma create_volume_values:
  "flag_values ''--volume'' (create_groups env he opts) = map to_volume_arg (co_volumes opts) @
     (case co_passthrough opts of Some spec \<Rightarrow> flag_values ''--volume'' (apply_passthrough_with_env spec he) | None \<Rightarrow> [])"
  by (auto simp: create_groups_def apply_passthrough_with_env_def split: option.split)

lemma read_only_group: "[''--read-only''] \<in> set (create_groups env he opts) \<longleftrightarrow> co_read_only opts"
proof -
  have "[''--read-only''] \<notin> set (apply_passthrough_with_env spec he)" for spec
    using passthrough_flags [of spec he] by (auto simp: list_all_iff)
  then show ?thesis
    by (auto simp: create_groups_def env_flag_def split: option.splits if_splits)
qed

text \<open>The SELinux label: the first one given is the one podman gets, and all other options stay.\<close>

lemma dedup_label_type:
  "length (filter (\<lambda>s. starts_with s ''label=type:'') (dedup_label_type e ss)) \<le> (if e then 0 else 1)"
  "filter (\<lambda>s. \<not> starts_with s ''label=type:'') (dedup_label_type e ss) = filter (\<lambda>s. \<not> starts_with s ''label=type:'') ss"
  "\<not> e \<Longrightarrow> find (\<lambda>s. starts_with s ''label=type:'') (dedup_label_type e ss) = find (\<lambda>s. starts_with s ''label=type:'') ss"
  by (induction e ss rule: dedup_label_type.induct) (auto split: if_splits)

end
