(* ===== verification/Snapshot_Crypto.thy ===== *)
theory Snapshot_Crypto
  imports Podman
begin

text \<open>
  At-rest encryption of snapshots (\<^verbatim>\<open>linpodx-runtime/src/snapshot_crypto.rs\<close>): key derivation, the choice of the
  key from the environment, and the blob layout of a nonce followed by the sealed text. AES-GCM, Argon2,
  SHA-256, base64 and the random source are parameters. Shown: a blob decrypts to what was encrypted and
  has the documented length, every configuration holds a key of 32 bytes, and a raw key in the
  environment wins over a passphrase.
\<close>

section \<open>Parameters and configuration\<close>

definition NONCE_LEN :: nat where "NONCE_LEN = 12"
definition TAG_LEN :: nat where "TAG_LEN = 16"
definition KEY_LEN :: nat where "KEY_LEN = 32"
definition ALGORITHM :: string where "ALGORITHM = ''aes-256-gcm''"
definition KDF_SALT_DEFAULT :: "byte list" where "KDF_SALT_DEFAULT = as_bytes ''linpodx-snap/v1.''"
definition ENV_KEY :: string where "ENV_KEY = ''LINPODX_SNAPSHOT_KEY''"
definition ENV_PASSPHRASE :: string where "ENV_PASSPHRASE = ''LINPODX_SNAPSHOT_ENCRYPT_PASSPHRASE''"
definition ENV_KDF :: string where "ENV_KDF = ''LINPODX_SNAPSHOT_KDF''"
definition LEGACY_SHA256_ROUNDS :: u32 where "LEGACY_SHA256_ROUNDS = 1000"

text \<open>
  The cryptography the code calls: sealing and opening under a key and a nonce, the validity check and the
  derivation of Argon2, and the bytes of the n-th draw from the system's random source.
\<close>

record crypto_env =
  cr_seal :: "byte list \<Rightarrow> byte list \<Rightarrow> byte list \<Rightarrow> byte list option"
  cr_open :: "byte list \<Rightarrow> byte list \<Rightarrow> byte list \<Rightarrow> byte list option"
  cr_sha256 :: "byte list \<Rightarrow> byte list"
  cr_argon2_params :: "u32 \<Rightarrow> u32 \<Rightarrow> u32 \<Rightarrow> bool"
  cr_argon2 :: "u32 \<Rightarrow> u32 \<Rightarrow> u32 \<Rightarrow> byte list \<Rightarrow> byte list \<Rightarrow> byte list option"
  cr_b64_decode :: "string \<Rightarrow> string + byte list"
  cr_random :: "nat \<Rightarrow> byte list"

datatype kdf = Argon2id u32 u32 u32 | Sha256Rounds u32

definition argon2id_default :: kdf where
  "argon2id_default = Argon2id 19456 2 1"

definition sha256_legacy :: kdf where
  "sha256_legacy = Sha256Rounds LEGACY_SHA256_ROUNDS"

fun kdf_str :: "kdf \<Rightarrow> string" where
  "kdf_str (Argon2id _ _ _) = ''argon2id''"
| "kdf_str (Sha256Rounds _) = ''sha256-rounds''"

datatype key_source = KeyEnv | KeyPassphrase | KeyExplicit

fun key_source_str :: "key_source \<Rightarrow> string" where
  "key_source_str KeyEnv = ''env''"
| "key_source_str KeyPassphrase = ''passphrase''"
| "key_source_str KeyExplicit = ''explicit''"

record encryption_config =
  ec_key :: "byte list"
  ec_algorithm :: string
  ec_key_source :: key_source
  ec_kdf :: kdf

datatype crypto_error =
  ShortBlob
| DecryptFailed
| KeyDecode string
| KeyLength nat
| EncryptFailed
| Argon2Failed
| Argon2Params u32 u32 u32
| KdfUnknown string

definition backquoted :: "string \<Rightarrow> string" where
  "backquoted s = [CHR 0x60] @ s @ [CHR 0x60]"

fun crypto_error_display :: "crypto_error \<Rightarrow> string" where
  "crypto_error_display ShortBlob = ''ciphertext shorter than nonce length''"
| "crypto_error_display DecryptFailed = ''AEAD decrypt failed (wrong key, tampered ciphertext, or wrong nonce)''"
| "crypto_error_display (KeyDecode e) = ''invalid base64 key in '' @ ENV_KEY @ '': '' @ e"
| "crypto_error_display (KeyLength n) =
     ENV_KEY @ '' key length must be '' @ show_nat KEY_LEN @ '' bytes after base64 decode, got '' @ show_nat n"
| "crypto_error_display EncryptFailed = ''AEAD encrypt failed''"
| "crypto_error_display Argon2Failed = ''argon2 KDF failed''"
| "crypto_error_display (Argon2Params m t p) =
     ''invalid argon2 parameters (m_cost='' @ show_u32 m @ '', t_cost='' @ show_u32 t @ '', p_cost='' @ show_u32 p @ '')''"
| "crypto_error_display (KdfUnknown k) =
     ''unknown KDF identifier '' @ backquoted k @ '' (expected '' @ backquoted ''argon2id'' @ '' or '' @ backquoted ''sha256-1k'' @ '')''"

definition kdf_from_env_var :: "string \<Rightarrow> crypto_error + kdf" where
  "kdf_from_env_var raw =
     (let trimmed = trim raw in
      if trimmed = [] then Inr argon2id_default
      else
        let lower = to_ascii_lowercase trimmed in
        if lower = ''argon2id'' then Inr argon2id_default
        else if lower = ''sha256-1k'' \<or> lower = ''sha256-rounds'' then Inr sha256_legacy
        else Inl (KdfUnknown lower))"

section \<open>Keys\<close>

definition derive_key_sha256_rounds :: "crypto_env \<Rightarrow> string \<Rightarrow> byte list \<Rightarrow> u32 \<Rightarrow> byte list" where
  "derive_key_sha256_rounds env passphrase salt rounds =
     foldl (\<lambda>state r. cr_sha256 env (state @ to_be_bytes32 (of_nat r) @ salt))
       (cr_sha256 env (salt @ as_bytes passphrase)) [1 ..< unat rounds]"

definition derive_key_argon2id ::
  "crypto_env \<Rightarrow> byte list \<Rightarrow> byte list \<Rightarrow> u32 \<Rightarrow> u32 \<Rightarrow> u32 \<Rightarrow> crypto_error + byte list" where
  "derive_key_argon2id env passphrase salt m t p =
     (if \<not> cr_argon2_params env m t p then Inl (Argon2Params m t p)
      else case cr_argon2 env m t p passphrase salt of None \<Rightarrow> Inl Argon2Failed | Some k \<Rightarrow> Inr k)"

definition derive_key :: "crypto_env \<Rightarrow> byte list \<Rightarrow> byte list \<Rightarrow> kdf \<Rightarrow> crypto_error + byte list" where
  "derive_key env passphrase salt k =
     (case k of
        Argon2id m t p \<Rightarrow> derive_key_argon2id env passphrase salt m t p
      | Sha256Rounds rounds \<Rightarrow>
          (let s = (case from_utf8 (\<lambda>_. []) passphrase of Inr s \<Rightarrow> s | Inl _ \<Rightarrow> []) in
           Inr (derive_key_sha256_rounds env s salt rounds)))"

definition derive_key_from_passphrase :: "crypto_env \<Rightarrow> string \<Rightarrow> byte list \<Rightarrow> byte list" where
  "derive_key_from_passphrase env passphrase salt = derive_key_sha256_rounds env passphrase salt LEGACY_SHA256_ROUNDS"

definition key_from_base64 :: "crypto_env \<Rightarrow> string \<Rightarrow> crypto_error + byte list" where
  "key_from_base64 env raw =
     (case cr_b64_decode env (trim raw) of
        Inl e \<Rightarrow> Inl (KeyDecode e)
      | Inr bytes \<Rightarrow> if length bytes \<noteq> KEY_LEN then Inl (KeyLength (length bytes)) else Inr bytes)"

definition config_from_key :: "byte list \<Rightarrow> encryption_config" where
  "config_from_key key = \<lparr>ec_key = key, ec_algorithm = ALGORITHM, ec_key_source = KeyExplicit, ec_kdf = argon2id_default\<rparr>"

definition from_passphrase_with_kdf :: "crypto_env \<Rightarrow> string \<Rightarrow> kdf \<Rightarrow> crypto_error + encryption_config" where
  "from_passphrase_with_kdf env passphrase k =
     (case derive_key env (as_bytes passphrase) KDF_SALT_DEFAULT k of
        Inl e \<Rightarrow> Inl e
      | Inr key \<Rightarrow> Inr \<lparr>ec_key = key, ec_algorithm = ALGORITHM, ec_key_source = KeyPassphrase, ec_kdf = k\<rparr>)"

definition from_passphrase :: "crypto_env \<Rightarrow> string \<Rightarrow> encryption_config" where
  "from_passphrase env passphrase =
     (case from_passphrase_with_kdf env passphrase argon2id_default of
        Inr cfg \<Rightarrow> cfg
      | Inl _ \<Rightarrow> \<lparr>ec_key = derive_key_sha256_rounds env passphrase KDF_SALT_DEFAULT LEGACY_SHA256_ROUNDS,
                 ec_algorithm = ALGORITHM, ec_key_source = KeyPassphrase, ec_kdf = sha256_legacy\<rparr>)"

definition nonempty_var :: "(string \<Rightarrow> string option) \<Rightarrow> string \<Rightarrow> string option" where
  "nonempty_var var name = (case var name of Some v \<Rightarrow> if v \<noteq> [] then Some v else None | None \<Rightarrow> None)"

definition config_from_env :: "crypto_env \<Rightarrow> (string \<Rightarrow> string option) \<Rightarrow> crypto_error + encryption_config option" where
  "config_from_env env var =
     (case nonempty_var var ENV_KEY of
        Some raw \<Rightarrow>
          (case key_from_base64 env raw of
             Inl e \<Rightarrow> Inl e
           | Inr key \<Rightarrow> Inr (Some \<lparr>ec_key = key, ec_algorithm = ALGORITHM, ec_key_source = KeyEnv, ec_kdf = argon2id_default\<rparr>))
      | None \<Rightarrow>
          (case nonempty_var var ENV_PASSPHRASE of
             None \<Rightarrow> Inr None
           | Some raw \<Rightarrow>
               (case (case var ENV_KDF of Some v \<Rightarrow> kdf_from_env_var v | None \<Rightarrow> Inr argon2id_default) of
                  Inl e \<Rightarrow> Inl e
                | Inr k \<Rightarrow> (case from_passphrase_with_kdf env raw k of Inl e \<Rightarrow> Inl e | Inr cfg \<Rightarrow> Inr (Some cfg)))))"

section \<open>Blobs\<close>

text \<open>The state of the random source is the number of draws made.\<close>

definition encrypt_bytes :: "crypto_env \<Rightarrow> byte list \<Rightarrow> encryption_config \<Rightarrow> (nat, crypto_error, byte list) act" where
  "encrypt_bytes env plain cfg n =
     (let nonce = cr_random env n in
      case cr_seal env (ec_key cfg) nonce plain of
        None \<Rightarrow> (Inl EncryptFailed, Suc n)
      | Some ct \<Rightarrow> (Inr (nonce @ ct), Suc n))"

definition decrypt_bytes :: "crypto_env \<Rightarrow> byte list \<Rightarrow> encryption_config \<Rightarrow> crypto_error + byte list" where
  "decrypt_bytes env blob cfg =
     (if length blob < NONCE_LEN + TAG_LEN then Inl ShortBlob
      else case cr_open env (ec_key cfg) (take NONCE_LEN blob) (drop NONCE_LEN blob) of
        None \<Rightarrow> Inl DecryptFailed
      | Some plain \<Rightarrow> Inr plain)"

definition blob_sha256_hex :: "crypto_env \<Rightarrow> byte list \<Rightarrow> string" where
  "blob_sha256_hex env bytes = hex_encode (cr_sha256 env bytes)"

text \<open>Texts and bytes are two readings of the same data.\<close>

lemma as_bytes_bytes_string [simp]: "as_bytes (bytes_string bs) = bs"
proof -
  have "(of_char (char_of (unat b) :: char) :: byte) = b" for b :: byte
    using unsigned_less [of b, where 'a = nat] by (simp add: word_eq_iff_unsigned [where 'a = nat] unat_of_char_byte)
  then show ?thesis
    by (simp add: as_bytes_def bytes_string_def o_def)
qed

lemma bytes_string_as_bytes [simp]: "bytes_string (as_bytes s) = s"
  by (simp add: as_bytes_def bytes_string_def o_def unat_of_char_byte)

section \<open>What the cryptography promises\<close>

text \<open>
  The documented behaviour of the primitives: opening undoes sealing, sealing appends a tag of 16 bytes,
  the random source fills the 12 bytes it is asked for, and hashes and derived keys have 32 bytes.
\<close>

definition aead_ok :: "crypto_env \<Rightarrow> bool" where
  "aead_ok env \<longleftrightarrow>
     (\<forall>key nonce plain ct. cr_seal env key nonce plain = Some ct \<longrightarrow>
        cr_open env key nonce ct = Some plain \<and> length ct = length plain + TAG_LEN) \<and>
     (\<forall>n. length (cr_random env n) = NONCE_LEN)"

definition kdf_ok :: "crypto_env \<Rightarrow> bool" where
  "kdf_ok env \<longleftrightarrow>
     (\<forall>bs. length (cr_sha256 env bs) = KEY_LEN) \<and>
     (\<forall>m t p pw salt k. cr_argon2 env m t p pw salt = Some k \<longrightarrow> length k = KEY_LEN)"

lemma encrypt_decrypt:
  assumes "aead_ok env" and "encrypt_bytes env plain cfg n = (Inr blob, n')"
  shows "decrypt_bytes env blob cfg = Inr plain" "length blob = length plain + NONCE_LEN + TAG_LEN"
proof -
  obtain ct where ct: "cr_seal env (ec_key cfg) (cr_random env n) plain = Some ct" and blob: "blob = cr_random env n @ ct"
    using assms(2) by (auto simp: encrypt_bytes_def Let_def split: option.splits)
  have "cr_open env (ec_key cfg) (cr_random env n) ct = Some plain" "length ct = length plain + TAG_LEN"
    "length (cr_random env n) = NONCE_LEN"
    using assms(1) ct by (auto simp: aead_ok_def)
  then show "decrypt_bytes env blob cfg = Inr plain" "length blob = length plain + NONCE_LEN + TAG_LEN"
    by (simp_all add: decrypt_bytes_def blob)
qed

lemma foldl_length: "(\<And>x. length (g x) = n) \<Longrightarrow> length (foldl (\<lambda>st r. g (h st r)) (g z) rs) = n"
  by (induction rs arbitrary: z) auto

lemma derive_key_length:
  assumes "kdf_ok env" and "derive_key env pw salt k = Inr key"
  shows "length key = KEY_LEN"
  using assms foldl_length [of "cr_sha256 env" KEY_LEN]
  by (auto simp: derive_key_def derive_key_argon2id_def derive_key_sha256_rounds_def kdf_ok_def Let_def
      split: kdf.splits if_splits option.splits)

text \<open>Every way to a configuration ends with a key the cipher accepts.\<close>

lemma config_key_length:
  assumes "kdf_ok env" and "config_from_env env var = Inr (Some cfg)"
  shows "length (ec_key cfg) = KEY_LEN \<and> ec_algorithm cfg = ALGORITHM"
proof -
  have "length (ec_key c) = KEY_LEN \<and> ec_algorithm c = ALGORITHM" if "from_passphrase_with_kdf env raw k = Inr c" for raw k c
    using that derive_key_length [OF assms(1)] by (auto simp: from_passphrase_with_kdf_def split: sum.splits)
  then show ?thesis
    using assms(2) by (auto simp: config_from_env_def key_from_base64_def split: option.splits sum.splits if_splits)
qed

text \<open>A raw key decides alone: with one set, neither the passphrase nor the choice of derivation is read.\<close>

lemma raw_key_wins:
  assumes "var ENV_KEY = Some raw" "raw \<noteq> []" "var' ENV_KEY = Some raw"
  shows "config_from_env env var = config_from_env env var'"
  using assms by (simp add: config_from_env_def nonempty_var_def)

end
