(* ===== verification/Snapshot_Vault.thy ===== *)
theory Snapshot_Vault
  imports Snapshot_Crypto Database
begin

text \<open>
  The store of encrypted snapshots: the side-car pair \<^verbatim>\<open>blob.enc\<close> and \<^verbatim>\<open>meta.json\<close> of an image and the
  functions that encrypt and restore one (\<^verbatim>\<open>linpodx-runtime/src/snapshot.rs\<close>). Podman is a process that sees
  and changes the file system; the text of \<^verbatim>\<open>meta.json\<close> and the temporary directory are parameters. Shown:
  encrypting a committed image seals the archive podman saved, and restoring hands podman that archive.
\<close>

section \<open>State and parameters\<close>

record encrypted_meta =
  em_algorithm :: string
  em_key_source :: string
  em_ciphertext_sha256 :: string
  em_original_image_ref :: string
  em_created_at :: timestamp
  em_plaintext_len :: nat
  em_kdf :: kdf
  em_rotated_from :: "int option"
  em_rotated_at :: "timestamp option"

record 'p vault =
  vt_files :: files
  vt_podman :: 'p
  vt_db :: db
  vt_rng :: nat

record 'p vault_env =
  ve_crypto :: crypto_env
  ve_podman :: "('p \<times> files) podman_env"
  ve_var :: "string \<Rightarrow> string option"
  ve_tempdir :: "files \<Rightarrow> string + string"
  ve_to_meta :: "encrypted_meta \<Rightarrow> string + string"
  ve_from_meta :: "string \<Rightarrow> string + encrypted_meta"
  ve_kdf_json :: "kdf \<Rightarrow> string + string"
  ve_unix :: "timestamp \<Rightarrow> int"

type_synonym ('p, 'a) vault_act = "('p vault, error, 'a) act"

definition on_fs :: "(string \<Rightarrow> string) \<Rightarrow> (files, string, 'a) act \<Rightarrow> ('p, 'a) vault_act" where
  "on_fs msg m = map_err (\<lambda>e. Runtime (msg e)) (zoom vt_files (\<lambda>f s. s\<lparr>vt_files := f\<rparr>) m)"

definition fs_read :: "(string \<Rightarrow> string) \<Rightarrow> string \<Rightarrow> ('p, string) vault_act" where
  "fs_read msg path = on_fs msg (\<lambda>f. (read_file f path, f))"

definition vault_now :: "('p, timestamp) vault_act" where
  "vault_now = zoom vt_db (\<lambda>d s. s\<lparr>vt_db := d\<rparr>) utc_now"

definition on_vault_db :: "'a dbact \<Rightarrow> ('p, 'a) vault_act" where
  "on_vault_db m = zoom vt_db (\<lambda>d s. s\<lparr>vt_db := d\<rparr>) m"

definition on_podman :: "('p \<times> files, error, 'a) act \<Rightarrow> ('p, 'a) vault_act" where
  "on_podman m = zoom (\<lambda>s. (vt_podman s, vt_files s)) (\<lambda>(p, f) s. s\<lparr>vt_podman := p, vt_files := f\<rparr>) m"

definition crypt :: "(crypto_error \<Rightarrow> string) \<Rightarrow> (nat, crypto_error, 'a) act \<Rightarrow> ('p, 'a) vault_act" where
  "crypt msg m = map_err (\<lambda>e. Runtime (msg e)) (zoom vt_rng (\<lambda>n s. s\<lparr>vt_rng := n\<rparr>) m)"

definition lift_result :: "('e \<Rightarrow> string) \<Rightarrow> 'e + 'a \<Rightarrow> ('p, 'a) vault_act" where
  "lift_result msg r = (case r of Inl e \<Rightarrow> throw (Runtime (msg e)) | Inr x \<Rightarrow> ret x)"

section \<open>The side-car\<close>

definition encrypted_store_root :: "(string \<Rightarrow> string option) \<Rightarrow> string" where
  "encrypted_store_root var =
     (case nonempty_var var ''LINPODX_ENCRYPTED_SNAPSHOT_ROOT'' of
        Some custom \<Rightarrow> custom
      | None \<Rightarrow>
          path_join
            (case nonempty_var var ''XDG_DATA_HOME'' of
               Some base \<Rightarrow> base
             | None \<Rightarrow> (case var ''HOME'' of Some h \<Rightarrow> path_join h ''.local/share'' | None \<Rightarrow> ''/tmp''))
            ''linpodx/encrypted-snapshots'')"

definition encrypted_image_dir :: "'p vault_env \<Rightarrow> string \<Rightarrow> string" where
  "encrypted_image_dir env image_ref =
     path_join (encrypted_store_root (ve_var env)) (take 16 (blob_sha256_hex (ve_crypto env) (as_bytes image_ref)))"

definition side_car :: "'p vault_env \<Rightarrow> string \<Rightarrow> string \<Rightarrow> string" where
  "side_car env image_ref name = path_join (encrypted_image_dir env image_ref) name"

definition read_encrypted_meta :: "'p vault_env \<Rightarrow> string \<Rightarrow> ('p, encrypted_meta option) vault_act" where
  "read_encrypted_meta env image_ref =
     (let path = side_car env image_ref ''meta.json'' in
      bindE (gets (\<lambda>s. exists_path (vt_files s) path)) (\<lambda>there.
        if \<not> there then ret None
        else
          bindE (fs_read (\<lambda>e. ''encrypted meta '' @ path @ '' read error: '' @ e) path) (\<lambda>bytes.
          bindE (lift_result (\<lambda>e. ''encrypted meta '' @ path @ '' parse error: '' @ e) (ve_from_meta env bytes)) (\<lambda>meta.
            ret (Some meta)))))"

definition is_image_encrypted :: "'p vault_env \<Rightarrow> string \<Rightarrow> files \<Rightarrow> bool" where
  "is_image_encrypted env image_ref f = is_file f (side_car env image_ref ''meta.json'')"

definition remove_encrypted_artifacts :: "'p vault_env \<Rightarrow> string \<Rightarrow> ('p, unit) vault_act" where
  "remove_encrypted_artifacts env image_ref =
     (let dir = encrypted_image_dir env image_ref in
      bindE (gets (\<lambda>s. exists_path (vt_files s) dir)) (\<lambda>there.
        if \<not> there then ret ()
        else on_fs (\<lambda>e. ''remove encrypted dir '' @ dir @ '': '' @ e) (remove_dir_all dir)))"

text \<open>A file is replaced by writing a temporary one beside it and renaming that.\<close>

definition put_file :: "string \<Rightarrow> string \<Rightarrow> string \<Rightarrow> string \<Rightarrow> ('p, unit) vault_act" where
  "put_file pfx dir name body =
     (let tmp = path_join dir (name @ ''.tmp''); path = path_join dir name in
      bindE (on_fs (\<lambda>e. pfx @ ''write '' @ tmp @ '': '' @ e) (write_file tmp body)) (\<lambda>_.
        on_fs (\<lambda>e. pfx @ ''rename '' @ tmp @ '' -> '' @ path @ '': '' @ e) (rename_file tmp path)))"

section \<open>Encrypting and restoring an image\<close>

definition save_image :: "('p \<times> files) podman_env \<Rightarrow> string \<Rightarrow> string \<Rightarrow> ('p \<times> files, error, unit) act" where
  "save_image env image_ref dest w =
     (case po_output env (base_command (po_config env) @ [''save'', image_ref, ''-o'', dest]) w of
        (NoSpawn e, w') \<Rightarrow> (Inl (Runtime (''podman save spawn failed: '' @ e)), w')
      | (Proc code out err, w') \<Rightarrow>
          if code \<noteq> Some 0 then (Inl (Runtime (''podman save failed: '' @ trim (lossy err))), w') else (Inr (), w'))"

definition snapshot_image_remove :: "'w podman_env \<Rightarrow> string \<Rightarrow> bool \<Rightarrow> ('w, error, unit) act" where
  "snapshot_image_remove env image_ref force =
     bindE (run_on env image_ref (''rmi'' # (if force then [''--force''] else []) @ [image_ref])) (\<lambda>_. ret ())"

text \<open>A temporary directory lives until the function returns; an error on its removal is ignored.\<close>

definition with_tempdir :: "'p vault_env \<Rightarrow> string \<Rightarrow> (string \<Rightarrow> ('p, 'a) vault_act) \<Rightarrow> ('p, 'a) vault_act" where
  "with_tempdir env msg m s =
     (case ve_tempdir env (vt_files s) of
        Inl e \<Rightarrow> (Inl (Runtime (msg @ e)), s)
      | Inr tmp \<Rightarrow>
          (case m tmp (s\<lparr>vt_files := (vt_files s)\<lparr>nodes := (nodes (vt_files s))(place (vt_files s) tmp \<mapsto> Dir)\<rparr>\<rparr>) of
             (r, s') \<Rightarrow> (r, s'\<lparr>vt_files := snd (remove_dir_all tmp (vt_files s'))\<rparr>)))"

definition seal_image :: "'p vault_env \<Rightarrow> string \<Rightarrow> encryption_config \<Rightarrow> string \<Rightarrow> string \<Rightarrow> ('p, encrypted_meta) vault_act" where
  "seal_image env image_ref cfg dir plain_path =
     bindE (fs_read (\<lambda>e. ''read plaintext tar '' @ plain_path @ '': '' @ e) plain_path) (\<lambda>plain.
     bindE (crypt (\<lambda>e. ''snapshot encrypt: '' @ crypto_error_display e) (encrypt_bytes (ve_crypto env) (as_bytes plain) cfg)) (\<lambda>blob.
     bindE vault_now (\<lambda>now.
     let meta = \<lparr>em_algorithm = ec_algorithm cfg, em_key_source = key_source_str (ec_key_source cfg),
                 em_ciphertext_sha256 = blob_sha256_hex (ve_crypto env) blob, em_original_image_ref = image_ref, em_created_at = now,
                 em_plaintext_len = length plain, em_kdf = ec_kdf cfg, em_rotated_from = None, em_rotated_at = None\<rparr> in
     bindE (put_file [] dir ''blob.enc'' (bytes_string blob)) (\<lambda>_.
     bindE (lift_result (\<lambda>e. ''serialise encrypted meta: '' @ e) (ve_to_meta env meta)) (\<lambda>bytes.
     bindE (put_file [] dir ''meta.json'' bytes) (\<lambda>_. ret meta))))))"

definition encrypt_in_tempdir ::
  "'p vault_env \<Rightarrow> string \<Rightarrow> encryption_config \<Rightarrow> bool \<Rightarrow> string \<Rightarrow> string \<Rightarrow> ('p, encrypted_meta) vault_act" where
  "encrypt_in_tempdir env image_ref cfg keep_local_image dir tmp =
     (let plain_path = path_join tmp ''image.tar'' in
      bindE (on_podman (save_image (ve_podman env) image_ref plain_path)) (\<lambda>_.
      bindE (seal_image env image_ref cfg dir plain_path) (\<lambda>meta.
      bindE (if keep_local_image then ret ()
             else bindE (attempt (on_podman (snapshot_image_remove (ve_podman env) image_ref True))) (\<lambda>_. ret ())) (\<lambda>_.
        ret meta))))"

definition encrypt_committed_image ::
  "'p vault_env \<Rightarrow> string \<Rightarrow> encryption_config \<Rightarrow> bool \<Rightarrow> ('p, encrypted_meta) vault_act" where
  "encrypt_committed_image env image_ref cfg keep_local_image =
     (let dir = encrypted_image_dir env image_ref in
      bindE (on_fs (\<lambda>e. ''create encrypted snapshot dir '' @ dir @ '': '' @ e) (create_dir_all dir)) (\<lambda>_.
        with_tempdir env ''encrypt tempdir: '' (encrypt_in_tempdir env image_ref cfg keep_local_image dir)))"

definition open_sealed :: "'p vault_env \<Rightarrow> string \<Rightarrow> encryption_config \<Rightarrow> ('p, encrypted_meta \<times> byte list) vault_act" where
  "open_sealed env image_ref cfg =
     (let meta_path = side_car env image_ref ''meta.json''; blob_path = side_car env image_ref ''blob.enc'' in
      bindE (fs_read (\<lambda>e. ''read encrypted meta '' @ meta_path @ '': '' @ e) meta_path) (\<lambda>meta_bytes.
      bindE (lift_result (\<lambda>e. ''parse encrypted meta: '' @ e) (ve_from_meta env meta_bytes)) (\<lambda>meta.
      bindE (fs_read (\<lambda>e. ''read encrypted blob '' @ blob_path @ '': '' @ e) blob_path) (\<lambda>body.
      let blob = as_bytes body; actual = blob_sha256_hex (ve_crypto env) blob in
      if actual \<noteq> em_ciphertext_sha256 meta then
        throw (Runtime (''ciphertext sha256 mismatch (expected '' @ em_ciphertext_sha256 meta @ '', got '' @ actual @ '')''))
      else
        bindE (lift_result (\<lambda>e. ''snapshot decrypt: '' @ crypto_error_display e) (decrypt_bytes (ve_crypto env) blob cfg)) (\<lambda>plain.
          ret (meta, plain))))))"

definition load_from_tempdir :: "'p vault_env \<Rightarrow> encrypted_meta \<Rightarrow> byte list \<Rightarrow> string \<Rightarrow> ('p, encrypted_meta) vault_act" where
  "load_from_tempdir env meta plain tmp =
     (let load_path = path_join tmp ''image.tar'' in
      bindE (on_fs (\<lambda>e. ''write decrypted tar '' @ load_path @ '': '' @ e) (write_file load_path (bytes_string plain))) (\<lambda>_.
      bindE (on_podman (run_capture (ve_podman env) [''load'', ''-i'', load_path])) (\<lambda>_. ret meta)))"

definition decrypt_and_load :: "'p vault_env \<Rightarrow> string \<Rightarrow> encryption_config \<Rightarrow> ('p, encrypted_meta) vault_act" where
  "decrypt_and_load env image_ref cfg =
     bindE (open_sealed env image_ref cfg) (\<lambda>(meta, plain).
       with_tempdir env ''decrypt tempdir: '' (load_from_tempdir env meta plain))"

section \<open>What a step leaves behind\<close>

lemma on_fs_Inr: "on_fs msg m s = (Inr x, s') \<longleftrightarrow> (\<exists>f. m (vt_files s) = (Inr x, f) \<and> s' = s\<lparr>vt_files := f\<rparr>)"
  by (cases "m (vt_files s)") (auto simp: on_fs_def map_err_Inr zoom_def)

lemma on_fs_Inl:
  "on_fs msg m s = (Inl e, s') \<Longrightarrow> \<exists>e' f. m (vt_files s) = (Inl e', f) \<and> s' = s\<lparr>vt_files := f\<rparr>"
  by (cases "m (vt_files s)") (auto simp: on_fs_def map_err_def zoom_def split: sum.splits)

lemma fs_read_run: "fs_read msg p s = (case read_file (vt_files s) p of Inl e \<Rightarrow> (Inl (Runtime (msg e)), s) | Inr b \<Rightarrow> (Inr b, s))"
  by (simp add: fs_read_def on_fs_def map_err_def zoom_apply split: sum.split)

lemma fs_read_Inr: "fs_read msg p s = (Inr b, s') \<longleftrightarrow> read_file (vt_files s) p = Inr b \<and> s' = s"
  by (auto simp: fs_read_run split: sum.splits)

lemma lift_result_run: "lift_result msg r s = (case r of Inl e \<Rightarrow> (Inl (Runtime (msg e)), s) | Inr x \<Rightarrow> (Inr x, s))"
  by (simp add: lift_result_def split: sum.split)

lemma lift_result_Inr: "lift_result msg r s = (Inr x, s') \<longleftrightarrow> r = Inr x \<and> s' = s"
  by (auto simp: lift_result_run split: sum.splits)

lemma crypt_Inr: "crypt msg m s = (Inr x, s') \<longleftrightarrow> (\<exists>n. m (vt_rng s) = (Inr x, n) \<and> s' = s\<lparr>vt_rng := n\<rparr>)"
  by (cases "m (vt_rng s)") (auto simp: crypt_def map_err_Inr zoom_def)

lemma vault_now_files: "vault_now s = (r, s') \<Longrightarrow> vt_files s' = vt_files s \<and> vt_podman s' = vt_podman s"
  by (auto simp: vault_now_def zoom_apply)

lemma on_vault_db_files: "on_vault_db m s = (r, s') \<Longrightarrow> vt_files s' = vt_files s \<and> vt_podman s' = vt_podman s"
  by (auto simp: on_vault_db_def zoom_apply)

lemma crypt_files: "crypt msg m s = (r, s') \<Longrightarrow> vt_files s' = vt_files s \<and> vt_podman s' = vt_podman s"
  by (auto simp: crypt_def map_err_def zoom_apply split: prod.splits sum.splits)

definition in_dir :: "files \<Rightarrow> string \<Rightarrow> string \<Rightarrow> string list" where
  "in_dir f dir name = place f dir @ [name]"

definition replaced :: "files \<Rightarrow> string \<Rightarrow> string \<Rightarrow> string \<Rightarrow> files" where
  "replaced f dir name body =
     f\<lparr>nodes := (nodes f)(in_dir f dir (name @ ''.tmp'') := None, in_dir f dir name := Some (RegFile body))\<rparr>"

lemma put_file_Inr:
  assumes "put_file pfx dir name body s = (Inr (), s')" and "plain_name name" "plain_name (name @ ''.tmp'')"
  shows "s' = s\<lparr>vt_files := replaced (vt_files s) dir name body\<rparr>"
proof -
  obtain f1 f2 where w: "write_file (path_join dir (name @ ''.tmp'')) body (vt_files s) = (Inr (), f1)"
    and r: "rename_file (path_join dir (name @ ''.tmp'')) (path_join dir name) f1 = (Inr (), f2)"
    and s': "s' = s\<lparr>vt_files := f2\<rparr>"
    using assms(1) by (auto simp: put_file_def Let_def on_fs_Inr elim!: bindE_Inr_E)
  show ?thesis
    using write_file_Inr [OF w] rename_file_Inr [OF r] assms(2,3)
    by (auto simp: s' replaced_def in_dir_def place_join)
qed

lemma put_file_run:
  assumes "plain_name name" "plain_name (name @ ''.tmp'')"
    and "write_err (vt_files s) (in_dir (vt_files s) dir (name @ ''.tmp'')) = None" "write_err (vt_files s) (in_dir (vt_files s) dir name) = None"
    and "nodes (vt_files s) (in_dir (vt_files s) dir name) \<noteq> Some Dir"
  shows "put_file pfx dir name body s = (Inr (), s\<lparr>vt_files := replaced (vt_files s) dir name body\<rparr>)"
  using assms
  by (auto simp: put_file_def Let_def bindE_apply on_fs_def map_err_def zoom_apply write_file_def rename_file_def place_join in_dir_def
      replaced_def split: option.split node.split)

text \<open>A replacement that fails changes at most the temporary file.\<close>

lemma put_file_Inl:
  assumes "put_file pfx dir name body s = (Inl e, s')" and "plain_name (name @ ''.tmp'')"
  shows "only_changes (\<lambda>q _. q = in_dir (vt_files s) dir (name @ ''.tmp'')) (vt_files s) (vt_files s')"
proof -
  let ?w = "write_file (path_join dir (name @ ''.tmp'')) body (vt_files s)"
  show ?thesis
  proof (cases ?w)
    case (Pair r f1)
    show ?thesis
    proof (cases r)
      case (Inl e')
      then have "f1 = vt_files s"
        using Pair file_op_Inl(1) by blast
      with Inl Pair assms(1) show ?thesis
        by (auto simp: put_file_def Let_def bindE_apply on_fs_def map_err_def zoom_apply only_changes_def)
    next
      case (Inr u)
      then have f1: "f1 = (vt_files s)\<lparr>nodes := (nodes (vt_files s))(in_dir (vt_files s) dir (name @ ''.tmp'') \<mapsto> RegFile body)\<rparr>"
        using write_file_Inr [of "path_join dir (name @ ''.tmp'')" body "vt_files s" f1] Pair assms(2)
        by (simp add: in_dir_def place_join)
      obtain e2 f2 where "rename_file (path_join dir (name @ ''.tmp'')) (path_join dir name) f1 = (Inl e2, f2)" "vt_files s' = f2"
        using assms(1) Pair Inr
        by (cases "rename_file (path_join dir (name @ ''.tmp'')) (path_join dir name) f1")
          (auto simp: put_file_def Let_def bindE_apply on_fs_def map_err_def zoom_apply split: sum.splits)
      with file_op_Inl(2) have "vt_files s' = f1"
        by blast
      then show ?thesis
        by (simp add: f1 only_changes_def)
    qed
  qed
qed

section \<open>What is in the store\<close>

text \<open>
  The abstract view of the store: an image is sealed with a content under a configuration when its pair is
  consistent and its blob decrypts to the content.
\<close>

definition sealed :: "'p vault_env \<Rightarrow> string \<Rightarrow> encryption_config \<Rightarrow> byte list \<Rightarrow> files \<Rightarrow> bool" where
  "sealed env image_ref cfg plain f \<longleftrightarrow>
     (\<exists>blob txt meta.
        nodes f (in_dir f (encrypted_image_dir env image_ref) ''blob.enc'') = Some (RegFile (bytes_string blob)) \<and>
        nodes f (in_dir f (encrypted_image_dir env image_ref) ''meta.json'') = Some (RegFile txt) \<and>
        ve_from_meta env txt = Inr meta \<and> em_ciphertext_sha256 meta = blob_sha256_hex (ve_crypto env) blob \<and>
        decrypt_bytes (ve_crypto env) blob cfg = Inr plain)"

definition meta_codec :: "'p vault_env \<Rightarrow> bool" where
  "meta_codec env \<longleftrightarrow> (\<forall>meta txt. ve_to_meta env meta = Inr txt \<longrightarrow> ve_from_meta env txt = Inr meta)"

lemma side_car_names [simp]:
  "plain_name ''blob.enc''" "plain_name ''blob.enc.tmp''" "plain_name ''meta.json''" "plain_name ''meta.json.tmp''"
  by (simp_all add: plain_name_def)

lemma place_side_car: "plain_name name \<Longrightarrow> place f (side_car env ref name) = in_dir f (encrypted_image_dir env ref) name"
  by (simp add: side_car_def in_dir_def place_join)

lemma in_dir_replaced [simp]: "in_dir (replaced f dir name body) d n = in_dir f d n"
  by (simp add: in_dir_def replaced_def)

lemma bytes_string_inject [simp]: "bytes_string b = bytes_string c \<longleftrightarrow> b = c"
  by (metis as_bytes_bytes_string)

lemma replaced_write_err: "write_err (replaced f dir name body) = write_err f"
  by (simp add: replaced_def)

lemma in_dir_inject [simp]: "in_dir f d n = in_dir f d m \<longleftrightarrow> n = m"
  by (simp add: in_dir_def)

lemma nodes_replaced:
  "nodes (replaced f dir name body) q =
     (if q = in_dir f dir name then Some (RegFile body) else if q = in_dir f dir (name @ ''.tmp'') then None else nodes f q)"
  by (simp add: replaced_def)

lemma read_side_car:
  "read_file f (side_car env ref name) = Inr b \<Longrightarrow> plain_name name \<Longrightarrow>
   nodes f (in_dir f (encrypted_image_dir env ref) name) = Some (RegFile b)"
  using read_file_node by (force simp: place_side_car)

text \<open>Writing a fresh pair seals the image.\<close>

lemma sealed_pair:
  assumes "meta_codec env" and "ve_to_meta env meta = Inr txt" and "em_ciphertext_sha256 meta = blob_sha256_hex (ve_crypto env) blob"
    and "decrypt_bytes (ve_crypto env) blob cfg = Inr plain"
    and "f' = replaced (replaced f (encrypted_image_dir env ref) ''blob.enc'' (bytes_string blob))
           (encrypted_image_dir env ref) ''meta.json'' txt"
  shows "sealed env ref cfg plain f'"
proof -
  have "nodes f' (in_dir f' (encrypted_image_dir env ref) ''blob.enc'') = Some (RegFile (bytes_string blob))"
    "nodes f' (in_dir f' (encrypted_image_dir env ref) ''meta.json'') = Some (RegFile txt)"
    by (simp_all add: assms(5) nodes_replaced)
  moreover have "ve_from_meta env txt = Inr meta"
    using assms(1,2) by (simp add: meta_codec_def)
  ultimately show ?thesis
    using assms(3,4) by (auto simp: sealed_def)
qed

lemma open_sealed_Inr:
  assumes "open_sealed env ref cfg s = (Inr (meta, plain), s')"
  shows "s' = s" "sealed env ref cfg plain (vt_files s)"
    "\<exists>txt. nodes (vt_files s) (in_dir (vt_files s) (encrypted_image_dir env ref) ''meta.json'') = Some (RegFile txt) \<and>
       ve_from_meta env txt = Inr meta"
proof -
  obtain mt body where r: "read_file (vt_files s) (side_car env ref ''meta.json'') = Inr mt" "ve_from_meta env mt = Inr meta"
      "read_file (vt_files s) (side_car env ref ''blob.enc'') = Inr body"
    and b: "blob_sha256_hex (ve_crypto env) (as_bytes body) = em_ciphertext_sha256 meta"
      "decrypt_bytes (ve_crypto env) (as_bytes body) cfg = Inr plain" and "s' = s"
    using assms by (auto simp: open_sealed_def Let_def fs_read_Inr lift_result_Inr elim!: bindE_Inr_E split: if_splits)
  note nodes = read_side_car [OF r(1)] read_side_car [OF r(3)]
  have "nodes (vt_files s) (in_dir (vt_files s) (encrypted_image_dir env ref) ''blob.enc'') = Some (RegFile (bytes_string (as_bytes body)))"
    using nodes(2) by simp
  then show "s' = s" "sealed env ref cfg plain (vt_files s)"
    "\<exists>txt. nodes (vt_files s) (in_dir (vt_files s) (encrypted_image_dir env ref) ''meta.json'') = Some (RegFile txt) \<and>
       ve_from_meta env txt = Inr meta"
    using nodes(1) r(2) b \<open>s' = s\<close> unfolding sealed_def by (metis side_car_names(3))+
qed

text \<open>A sealed image opens when its two files can be read.\<close>

lemma open_sealed_sealed:
  assumes "sealed env ref cfg plain (vt_files s)" and "read_err (vt_files s) = Map.empty"
  shows "\<exists>meta. open_sealed env ref cfg s = (Inr (meta, plain), s)"
  using assms
  by (auto simp: sealed_def open_sealed_def Let_def bindE_apply fs_read_run lift_result_run read_file_def place_side_car)

section \<open>Encrypt, then restore\<close>

text \<open>
  The documented behaviour of the two parameters: a temporary directory is fresh and has a name that starts
  with \<^verbatim>\<open>.tmp\<close>; \<^verbatim>\<open>podman save\<close> writes the archive of the image to the path it is given and nothing else,
  \<^verbatim>\<open>podman rmi\<close> leaves the files alone, and \<^verbatim>\<open>podman load\<close> takes in the archive at the path it is given.
\<close>

definition tempdir_ok :: "'p vault_env \<Rightarrow> bool" where
  "tempdir_ok env \<longleftrightarrow>
     (\<forall>f tmp. ve_tempdir env f = Inr tmp \<longrightarrow>
        (\<exists>d r. place f tmp = d @ [''.tmp'' @ r]) \<and> (\<forall>q. nodes f (place f tmp @ q) = None))"

definition podman_files_ok :: "'p vault_env \<Rightarrow> ('p \<Rightarrow> string \<Rightarrow> string) \<Rightarrow> (string \<Rightarrow> 'p \<Rightarrow> 'p) \<Rightarrow> bool" where
  "podman_files_ok env archive take_in \<longleftrightarrow>
     (let run = (\<lambda>args. po_output (ve_podman env) (base_command (po_config (ve_podman env)) @ args)) in
      (\<forall>ref dest p f out err p' f'. run [''save'', ref, ''-o'', dest] (p, f) = (Proc (Some 0) out err, p', f') \<longrightarrow>
         f' = f\<lparr>nodes := (nodes f)(place f dest \<mapsto> RegFile (archive p ref))\<rparr>) \<and>
      (\<forall>opts p f r p' f'. run (''rmi'' # opts) (p, f) = (r, p', f') \<longrightarrow> f' = f) \<and>
      (\<forall>path p f out err p' f'. run [''load'', ''-i'', path] (p, f) = (Proc (Some 0) out err, p', f') \<longrightarrow>
         f' = f \<and> (\<exists>b. nodes f (place f path) = Some (RegFile b) \<and> p' = take_in b p)))"

lemma sealed_cong:
  assumes "cwd f' = cwd f"
    and "\<And>n. n = ''blob.enc'' \<or> n = ''meta.json'' \<Longrightarrow>
      nodes f' (in_dir f (encrypted_image_dir env ref) n) = nodes f (in_dir f (encrypted_image_dir env ref) n)"
  shows "sealed env ref cfg plain f' = sealed env ref cfg plain f"
proof -
  have e: "in_dir f' d n = in_dir f d n" for d n
    by (simp add: in_dir_def place_cwd [OF assms(1)])
  have b: "nodes f' (in_dir f (encrypted_image_dir env ref) ''blob.enc'') = nodes f (in_dir f (encrypted_image_dir env ref) ''blob.enc'')"
    by (rule assms(2)) (rule disjI1, rule refl)
  have m: "nodes f' (in_dir f (encrypted_image_dir env ref) ''meta.json'') = nodes f (in_dir f (encrypted_image_dir env ref) ''meta.json'')"
    by (rule assms(2)) (rule disjI2, rule refl)
  show ?thesis
    unfolding sealed_def e b m by (rule refl)
qed

lemma remove_dir_all_keeps:
  "cwd (snd (remove_dir_all p f)) = cwd f"
  "take (length (place f p)) q \<noteq> place f p \<Longrightarrow> nodes (snd (remove_dir_all p f)) q = nodes f q"
  by (auto simp: remove_dir_all_def Let_def split: option.split)

lemma tempdir_apart:
  assumes "tempdir_ok env" and "ve_tempdir env f = Inr tmp"
    and "nodes f (place f dir) \<noteq> None \<or> nodes f (in_dir f dir n) \<noteq> None" and "n = ''blob.enc'' \<or> n = ''meta.json''"
  shows "take (length (place f tmp)) (in_dir f dir n) \<noteq> place f tmp"
proof
  assume "take (length (place f tmp)) (in_dir f dir n) = place f tmp"
  then obtain q where q: "place f dir @ [n] = place f tmp @ q"
    by (metis append_take_drop_id in_dir_def)
  obtain d r where name: "place f tmp = d @ [''.tmp'' @ r]" and fresh: "\<And>q. nodes f (place f tmp @ q) = None"
    using assms(1,2) unfolding tempdir_ok_def by blast
  show False
  proof (cases q rule: rev_cases)
    case Nil
    with q name assms(4) show False
      by auto
  next
    case (snoc q' x)
    with q have "place f dir = place f tmp @ q'"
      by simp
    with q fresh assms(3) show False
      by (auto simp: in_dir_def)
  qed
qed

lemma seal_image_run:
  assumes "read_file (vt_files s) p = Inr plain" and "encrypt_bytes (ve_crypto env) (as_bytes plain) cfg (vt_rng s) = (Inr blob, n)"
    and "write_err (vt_files s) = Map.empty" and "\<And>name. nodes (vt_files s) (in_dir (vt_files s) dir name) \<noteq> Some Dir"
    and meta: "meta = \<lparr>em_algorithm = ec_algorithm cfg, em_key_source = key_source_str (ec_key_source cfg),
                 em_ciphertext_sha256 = blob_sha256_hex (ve_crypto env) blob, em_original_image_ref = ref,
                 em_created_at = clock (vt_db s) (ticks (vt_db s)),
                 em_plaintext_len = length plain, em_kdf = ec_kdf cfg, em_rotated_from = None, em_rotated_at = None\<rparr>"
    and "ve_to_meta env meta = Inr mt"
  shows "seal_image env ref cfg dir p s =
    (Inr meta, s\<lparr>vt_files := replaced (replaced (vt_files s) dir ''blob.enc'' (bytes_string blob)) dir ''meta.json'' mt, vt_rng := n,
                vt_db := snd (utc_now (vt_db s) :: (error + timestamp) \<times> db)\<rparr>)"
proof -
  have crypt: "crypt m (encrypt_bytes (ve_crypto env) (as_bytes plain) cfg) s = (Inr blob, s\<lparr>vt_rng := n\<rparr>)" for m
    by (simp add: crypt_Inr assms(2))
  let ?s1 = "s\<lparr>vt_rng := n, vt_db := snd (utc_now (vt_db s) :: (error + timestamp) \<times> db)\<rparr>"
  have now: "vault_now (s\<lparr>vt_rng := n\<rparr>) = (Inr (clock (vt_db s) (ticks (vt_db s))), ?s1)"
    by (simp add: vault_now_def zoom_apply utc_now_def)
  let ?s2 = "?s1\<lparr>vt_files := replaced (vt_files s) dir ''blob.enc'' (bytes_string blob)\<rparr>"
  have blob: "put_file [] dir ''blob.enc'' (bytes_string blob) ?s1 = (Inr (), ?s2)"
    using assms(3,4) by (simp add: put_file_run)
  have mt: "put_file [] dir ''meta.json'' mt ?s2 = (Inr (), ?s2\<lparr>vt_files := replaced (vt_files ?s2) dir ''meta.json'' mt\<rparr>)"
    using assms(3,4) by (intro put_file_run) (simp_all add: replaced_write_err nodes_replaced)
  show ?thesis
    unfolding seal_image_def
    by (simp add: bindE_apply fs_read_run assms(1) crypt now blob mt Let_def meta [symmetric] lift_result_run assms(6))
qed

lemma seal_image_Inr:
  assumes "aead_ok (ve_crypto env)" "meta_codec env"
    and "seal_image env ref cfg (encrypted_image_dir env ref) p s = (Inr meta, s')"
  shows "\<exists>plain. read_file (vt_files s) p = Inr plain \<and> sealed env ref cfg (as_bytes plain) (vt_files s') \<and>
    cwd (vt_files s') = cwd (vt_files s)"
proof -
  obtain plain blob s1 s2 s3 s4 mt where r: "read_file (vt_files s) p = Inr plain"
    and e: "encrypt_bytes (ve_crypto env) (as_bytes plain) cfg (vt_rng s) = (Inr blob, s1)"
    and n: "vault_now (s\<lparr>vt_rng := s1\<rparr>) = (Inr s3, s2)"
    and b: "put_file [] (encrypted_image_dir env ref) ''blob.enc'' (bytes_string blob) s2 = (Inr (), s4)"
    and t: "ve_to_meta env meta = Inr mt" and sha: "em_ciphertext_sha256 meta = blob_sha256_hex (ve_crypto env) blob"
    and m: "put_file [] (encrypted_image_dir env ref) ''meta.json'' mt s4 = (Inr (), s')"
    using assms(3)
    by (auto simp: seal_image_def Let_def fs_read_Inr lift_result_Inr crypt_Inr elim!: bindE_Inr_E)
  have f2: "vt_files s2 = vt_files s"
    using vault_now_files [OF n] by simp
  have "vt_files s' = replaced (replaced (vt_files s) (encrypted_image_dir env ref) ''blob.enc'' (bytes_string blob))
          (encrypted_image_dir env ref) ''meta.json'' mt"
    using put_file_Inr [OF b] put_file_Inr [OF m] by (simp add: f2)
  then show ?thesis
    using sealed_pair [OF assms(2) t sha encrypt_decrypt(1) [OF assms(1) e]] r by (auto simp: replaced_def)
qed

lemma on_podman_Inr:
  "on_podman m s = (Inr x, s') \<longleftrightarrow>
     (\<exists>p f. m (vt_podman s, vt_files s) = (Inr x, p, f) \<and> s' = s\<lparr>vt_podman := p, vt_files := f\<rparr>)"
  by (cases "m (vt_podman s, vt_files s)") (auto simp: on_podman_def zoom_def)

lemma podman_files_okD:
  assumes "podman_files_ok env archive take_in"
  defines "run args \<equiv> po_output (ve_podman env) (base_command (po_config (ve_podman env)) @ args)"
  shows "run [''save'', ref, ''-o'', dest] (p, f) = (Proc (Some 0) out err, p', f') \<Longrightarrow>
      f' = f\<lparr>nodes := (nodes f)(place f dest \<mapsto> RegFile (archive p ref))\<rparr>"
    and "run (''rmi'' # opts) (p, f) = (r, p', f') \<Longrightarrow> f' = f"
    and "run [''load'', ''-i'', path] (p, f) = (Proc (Some 0) out err, p', f') \<Longrightarrow>
      f' = f \<and> (\<exists>b. nodes f (place f path) = Some (RegFile b) \<and> p' = take_in b p)"
proof -
  note ok = assms(1) [unfolded podman_files_ok_def Let_def, folded run_def]
  show "run [''save'', ref, ''-o'', dest] (p, f) = (Proc (Some 0) out err, p', f') \<Longrightarrow>
      f' = f\<lparr>nodes := (nodes f)(place f dest \<mapsto> RegFile (archive p ref))\<rparr>"
    by (rule ok [THEN conjunct1, rule_format])
  show "run (''rmi'' # opts) (p, f) = (r, p', f') \<Longrightarrow> f' = f"
    by (rule ok [THEN conjunct2, THEN conjunct1, rule_format])
  show "run [''load'', ''-i'', path] (p, f) = (Proc (Some 0) out err, p', f') \<Longrightarrow>
      f' = f \<and> (\<exists>b. nodes f (place f path) = Some (RegFile b) \<and> p' = take_in b p)"
    by (rule ok [THEN conjunct2, THEN conjunct2, rule_format])
qed

lemma save_image_Inr:
  assumes "podman_files_ok env archive take_in" and "save_image (ve_podman env) ref dest (p, f) = (Inr (), p', f')"
  shows "f' = f\<lparr>nodes := (nodes f)(place f dest \<mapsto> RegFile (archive p ref))\<rparr>"
proof -
  obtain out err where "po_output (ve_podman env) (base_command (po_config (ve_podman env)) @ [''save'', ref, ''-o'', dest]) (p, f)
      = (Proc (Some 0) out err, p', f')"
    using assms(2) by (auto simp: save_image_def split: prod.splits proc_result.splits if_splits)
  then show ?thesis
    by (rule podman_files_okD(1) [OF assms(1)])
qed

lemma load_image_Inr:
  assumes "podman_files_ok env archive take_in" and "run_capture (ve_podman env) [''load'', ''-i'', path] (p, f) = (Inr out, p', f')"
  shows "f' = f" "\<exists>b. nodes f (place f path) = Some (RegFile b) \<and> p' = take_in b p"
proof -
  obtain raw err where "po_output (ve_podman env) (base_command (po_config (ve_podman env)) @ [''load'', ''-i'', path]) (p, f)
      = (Proc (Some 0) raw err, p', f')"
    using assms(2) by (auto simp: run_capture_def split: prod.splits proc_result.splits if_splits sum.splits)
  from podman_files_okD(3) [OF assms(1) this]
  show "f' = f" "\<exists>b. nodes f (place f path) = Some (RegFile b) \<and> p' = take_in b p"
    by blast+
qed

lemma rmi_files:
  assumes "podman_files_ok env archive take_in"
    and "attempt (on_podman (snapshot_image_remove (ve_podman env) ref force)) s = (r, s')"
  shows "vt_files s' = vt_files s"
proof -
  let ?args = "''rmi'' # (if force then [''--force''] else []) @ [ref]"
  obtain res p' f' where run: "po_output (ve_podman env) (base_command (po_config (ve_podman env)) @ ?args) (vt_podman s, vt_files s)
      = (res, p', f')"
    by (metis prod_cases3)
  then have "f' = vt_files s"
    by (rule podman_files_okD(2) [OF assms(1)])
  moreover have "vt_files s' = f'"
    using assms(2) run
    by (auto simp: snapshot_image_remove_def run_on_def run_capture_def attempt_apply on_podman_def zoom_apply bindE_apply map_err_def
        split: prod.splits proc_result.splits if_splits sum.splits)
  ultimately show ?thesis
    by simp
qed

lemma with_tempdir_Inr:
  assumes "with_tempdir env msg m s = (Inr x, s')"
  obtains tmp s2 where "ve_tempdir env (vt_files s) = Inr tmp"
    "m tmp (s\<lparr>vt_files := (vt_files s)\<lparr>nodes := (nodes (vt_files s))(place (vt_files s) tmp \<mapsto> Dir)\<rparr>\<rparr>) = (Inr x, s2)"
    "s' = s2\<lparr>vt_files := snd (remove_dir_all tmp (vt_files s2))\<rparr>"
  using assms by (auto simp: with_tempdir_def split: sum.splits prod.splits)

lemma plain_tar [simp]: "plain_name ''image.tar''"
  by (simp add: plain_name_def)

lemma create_dir_all_is_dir: "create_dir_all dir f = (Inr (), f') \<Longrightarrow> cwd f' = cwd f \<and> nodes f' (place f dir) = Some Dir"
  by (auto simp: create_dir_all_def Let_def split: option.splits if_splits)

lemma sealed_after_cleanup:
  assumes "tempdir_ok env" and "ve_tempdir env f = Inr tmp" and "cwd f2 = cwd f"
    and "nodes f (place f (encrypted_image_dir env ref)) \<noteq> None \<or> sealed env ref cfg' plain' f"
    and "sealed env ref cfg plain f2"
  shows "sealed env ref cfg plain (snd (remove_dir_all tmp f2))"
proof -
  let ?e = "in_dir f2 (encrypted_image_dir env ref)"
  have e: "in_dir f2 d n = in_dir f d n" for d n
    by (simp add: in_dir_def place_cwd [OF assms(3)])
  have "nodes (snd (remove_dir_all tmp f2)) (?e n) = nodes f2 (?e n)" if "n = ''blob.enc'' \<or> n = ''meta.json''" for n
  proof (rule remove_dir_all_keeps(2))
    have "nodes f (place f (encrypted_image_dir env ref)) \<noteq> None \<or> nodes f (in_dir f (encrypted_image_dir env ref) n) \<noteq> None"
      using assms(4) that by (auto simp: sealed_def)
    from tempdir_apart [OF assms(1,2) this that]
    show "take (length (place f2 tmp)) (?e n) \<noteq> place f2 tmp"
      by (simp add: e place_cwd [OF assms(3)])
  qed
  with sealed_cong [OF remove_dir_all_keeps(1)] assms(5) show ?thesis
    by blast
qed

lemma encrypt_in_tempdir_seals:
  assumes "aead_ok (ve_crypto env)" "meta_codec env" and pok: "podman_files_ok env archive take_in"
    and "encrypt_in_tempdir env ref cfg keep (encrypted_image_dir env ref) tmp s = (Inr meta, s')"
  shows "sealed env ref cfg (as_bytes (archive (vt_podman s) ref)) (vt_files s')" "cwd (vt_files s') = cwd (vt_files s)"
proof -
  let ?tar = "path_join tmp ''image.tar''"
  obtain p f3 s4 where save: "save_image (ve_podman env) ref ?tar (vt_podman s, vt_files s) = (Inr (), p, f3)"
    and seal: "seal_image env ref cfg (encrypted_image_dir env ref) ?tar (s\<lparr>vt_podman := p, vt_files := f3\<rparr>) = (Inr meta, s4)"
    and rmi: "vt_files s' = vt_files s4"
    using assms(4)
    by (auto simp: encrypt_in_tempdir_def Let_def on_podman_Inr elim!: bindE_Inr_E split: if_splits dest!: rmi_files [OF pok])
  note f3 = save_image_Inr [OF pok save]
  obtain plain where plain: "read_file f3 ?tar = Inr plain"
    and s4: "sealed env ref cfg (as_bytes plain) (vt_files s4)" "cwd (vt_files s4) = cwd f3"
    using seal_image_Inr [OF assms(1,2) seal] by auto
  from read_file_node [OF plain] have "plain = archive (vt_podman s) ref"
    by (simp add: f3)
  with s4 show "sealed env ref cfg (as_bytes (archive (vt_podman s) ref)) (vt_files s')" "cwd (vt_files s') = cwd (vt_files s)"
    by (simp_all add: rmi f3)
qed

lemma encrypt_committed_image_seals:
  assumes "aead_ok (ve_crypto env)" "meta_codec env" and tok: "tempdir_ok env" and pok: "podman_files_ok env archive take_in"
    and "encrypt_committed_image env ref cfg keep s = (Inr meta, s')"
  shows "sealed env ref cfg (as_bytes (archive (vt_podman s) ref)) (vt_files s')"
proof -
  let ?dir = "encrypted_image_dir env ref"
  obtain f1 where dir: "create_dir_all ?dir (vt_files s) = (Inr (), f1)"
    and body: "with_tempdir env ''encrypt tempdir: '' (encrypt_in_tempdir env ref cfg keep ?dir) (s\<lparr>vt_files := f1\<rparr>) = (Inr meta, s')"
    using assms(5) by (auto simp: encrypt_committed_image_def Let_def on_fs_Inr elim!: bindE_Inr_E)
  obtain tmp s2 where tmp: "ve_tempdir env f1 = Inr tmp"
    and run: "encrypt_in_tempdir env ref cfg keep ?dir tmp (s\<lparr>vt_files := f1\<lparr>nodes := (nodes f1)(place f1 tmp \<mapsto> Dir)\<rparr>\<rparr>) = (Inr meta, s2)"
    and s': "s' = s2\<lparr>vt_files := snd (remove_dir_all tmp (vt_files s2))\<rparr>"
    using with_tempdir_Inr [OF body] by auto
  have "nodes f1 (place f1 ?dir) = Some Dir"
    using create_dir_all_is_dir [OF dir] place_cwd [of f1 "vt_files s"] by simp
  then show ?thesis
    using sealed_after_cleanup [OF tok tmp, of "vt_files s2" ref] encrypt_in_tempdir_seals [OF assms(1,2) pok run]
    by (simp add: s')
qed

lemma sealed_unique:
  assumes "sealed env ref cfg p f" "sealed env ref cfg q f"
  shows "p = q"
  using assms by (auto simp: sealed_def)

lemma decrypt_and_load_sealed:
  assumes tok: "tempdir_ok env" and pok: "podman_files_ok env archive take_in"
    and plain: "sealed env ref cfg plain (vt_files s)" and ok: "decrypt_and_load env ref cfg s = (Inr meta, s')"
  shows "vt_podman s' = take_in (bytes_string plain) (vt_podman s)" "sealed env ref cfg plain (vt_files s')"
proof -
  obtain m got where got: "open_sealed env ref cfg s = (Inr (m, got), s)"
    and body: "with_tempdir env ''decrypt tempdir: '' (load_from_tempdir env m got) s = (Inr meta, s')"
    using ok by (auto simp: decrypt_and_load_def elim!: bindE_Inr_E dest: open_sealed_Inr(1))
  have got_plain: "got = plain"
    using sealed_unique [OF _ plain] open_sealed_Inr(2) [OF got] by blast
  let ?f = "\<lambda>tmp. (vt_files s)\<lparr>nodes := (nodes (vt_files s))(place (vt_files s) tmp \<mapsto> Dir)\<rparr>"
  obtain tmp s2 where tmp: "ve_tempdir env (vt_files s) = Inr tmp"
    and run: "load_from_tempdir env m plain tmp (s\<lparr>vt_files := ?f tmp\<rparr>) = (Inr meta, s2)"
    and s': "s' = s2\<lparr>vt_files := snd (remove_dir_all tmp (vt_files s2))\<rparr>"
    using with_tempdir_Inr [OF body] got_plain by auto
  let ?tar = "path_join tmp ''image.tar''"
  obtain f3 out where w: "write_file ?tar (bytes_string plain) (?f tmp) = (Inr (), f3)"
    and l: "run_capture (ve_podman env) [''load'', ''-i'', ?tar] (vt_podman s, f3) = (Inr out, vt_podman s2, vt_files s2)"
    using run by (auto simp: load_from_tempdir_def Let_def on_fs_Inr on_podman_Inr elim!: bindE_Inr_E)
  note f3 = write_file_Inr [OF w]
  show "vt_podman s' = take_in (bytes_string plain) (vt_podman s)"
    using load_image_Inr(2) [OF pok l] by (auto simp: s' f3)
  have cwd: "cwd (vt_files s2) = cwd (vt_files s)"
    by (simp add: load_image_Inr(1) [OF pok l] f3)
  have "nodes (vt_files s2) (in_dir (vt_files s) (encrypted_image_dir env ref) n) = nodes (vt_files s) (in_dir (vt_files s) (encrypted_image_dir env ref) n)"
    if "n = ''blob.enc'' \<or> n = ''meta.json''" for n
    using tempdir_apart [OF tok tmp _ that, of "encrypted_image_dir env ref"] that plain
    by (auto simp: load_image_Inr(1) [OF pok l] f3 place_join sealed_def)
  with sealed_cong [OF cwd] plain have "sealed env ref cfg plain (vt_files s2)"
    by blast
  from sealed_after_cleanup [OF tok tmp cwd _ this] plain show "sealed env ref cfg plain (vt_files s')"
    by (auto simp: s')
qed


text \<open>A small vault: the tag is the start of the key, podman is the list of archives it took in.\<close>

definition demo_crypto :: crypto_env where
  "demo_crypto =
     \<lparr>cr_seal = (\<lambda>key nonce plain. Some (plain @ take 16 (key @ replicate 16 0))),
      cr_open = (\<lambda>key nonce ct.
        if 16 \<le> length ct \<and> drop (length ct - 16) ct = take 16 (key @ replicate 16 0) then Some (take (length ct - 16) ct) else None),
      cr_sha256 = (\<lambda>bs. take 32 (rev bs @ replicate 32 0)), cr_argon2_params = (\<lambda>_ _ _. True),
      cr_argon2 = (\<lambda>_ _ _ _ _. None), cr_b64_decode = (\<lambda>_. Inl []), cr_random = (\<lambda>n. replicate 12 (of_nat n))\<rparr>"

definition demo_podman :: "string list \<Rightarrow> string list \<times> files \<Rightarrow> proc_result \<times> string list \<times> files" where
  "demo_podman args w =
     (case (args, w) of
        ([_, ''save'', ref, ''-o'', dest], p, f) \<Rightarrow>
          (Proc (Some 0) [] [], p, f\<lparr>nodes := (nodes f)(place f dest \<mapsto> RegFile (ref @ ''.tar''))\<rparr>)
      | ([_, ''load'', ''-i'', path], p, f) \<Rightarrow>
          (case nodes f (place f path) of
             Some (RegFile b) \<Rightarrow> (Proc (Some 0) [] [], b # p, f)
           | _ \<Rightarrow> (Proc (Some 125) [] [], p, f))
      | _ \<Rightarrow> (Proc (Some 125) [] [], w))"

definition demo_tempdir :: "files \<Rightarrow> string + string" where
  "demo_tempdir f =
     (if \<forall>q. nodes f ([''tmp'', ''.tmpA''] @ q) = None then Inr ''/tmp/.tmpA'' else Inl ''File exists (os error 17)'')"

definition demo_vault_env ::
  "(files \<Rightarrow> string + string) \<Rightarrow> (encrypted_meta \<Rightarrow> string + string) \<Rightarrow> (string \<Rightarrow> string + encrypted_meta) \<Rightarrow> string list vault_env" where
  "demo_vault_env tempdir to_meta from_meta =
     \<lparr>ve_crypto = demo_crypto,
      ve_podman = \<lparr>po_config = \<lparr>cfg_binary = None, cfg_root = None, cfg_runroot = None\<rparr>, po_output = demo_podman,
        po_utf8_error = (\<lambda>_. []), po_fmt_f32 = (\<lambda>_. []), po_fmt_f64 = (\<lambda>_. [])\<rparr>,
      ve_var = [''XDG_DATA_HOME'' \<mapsto> ''/data''], ve_tempdir = tempdir, ve_to_meta = to_meta, ve_from_meta = from_meta,
      ve_kdf_json = (\<lambda>_. Inr ''{}''), ve_unix = (\<lambda>t. t)\<rparr>"

lemma demo_aead: "aead_ok demo_crypto"
proof -
  have "min (length key) 16 + (16 - length key) = 16" for key :: "byte list"
    by simp
  then show ?thesis
    by (simp add: aead_ok_def demo_crypto_def TAG_LEN_def NONCE_LEN_def)
qed

lemma demo_tempdir_ok: "tempdir_ok (demo_vault_env demo_tempdir to_meta from_meta)"
proof -
  have "place f ''/tmp/.tmpA'' = [''tmp''] @ [''.tmp'' @ ''A'']" for f
    by (simp add: place_def is_absolute_def components_def)
  then show ?thesis
    unfolding tempdir_ok_def by (auto simp: demo_vault_env_def demo_tempdir_def split: if_splits)
qed

lemma demo_podman_ok: "podman_files_ok (demo_vault_env td to_meta from_meta) (\<lambda>p ref. ref @ ''.tar'') (#)"
  by (auto simp: podman_files_ok_def demo_vault_env_def demo_podman_def base_command_def podman_binary_def
      split: option.splits node.splits)

definition demo_config :: "byte \<Rightarrow> encryption_config" where
  "demo_config k = \<lparr>ec_key = replicate 32 k, ec_algorithm = ALGORITHM, ec_key_source = KeyExplicit, ec_kdf = sha256_legacy\<rparr>"

definition demo_blob :: "byte \<Rightarrow> nat \<Rightarrow> byte list" where
  "demo_blob k n = replicate 12 (of_nat n) @ as_bytes ''img.tar'' @ replicate 16 k"

definition demo_meta :: encrypted_meta where
  "demo_meta =
     \<lparr>em_algorithm = ALGORITHM, em_key_source = ''explicit'', em_ciphertext_sha256 = blob_sha256_hex demo_crypto (demo_blob 7 0),
      em_original_image_ref = ''img'', em_created_at = 0, em_plaintext_len = 7, em_kdf = sha256_legacy,
      em_rotated_from = None, em_rotated_at = None\<rparr>"

definition demo_to_meta :: "encrypted_meta \<Rightarrow> string + string" where
  "demo_to_meta m = (if m = demo_meta then Inr ''1'' else Inl ''out of memory'')"

definition demo_from_meta :: "string \<Rightarrow> string + encrypted_meta" where
  "demo_from_meta t = (if t = ''1'' then Inr demo_meta else Inl ''EOF'')"

definition demo_vault :: "string list vault" where
  "demo_vault =
     \<lparr>vt_files = \<lparr>cwd = [], nodes = Map.empty, read_err = Map.empty, write_err = Map.empty\<rparr>, vt_podman = [],
      vt_db = fresh_db Map.empty (\<lambda>n. int n), vt_rng = 0\<rparr>"

lemma demo_name: "take 16 (blob_sha256_hex demo_crypto (as_bytes ''img'')) = ''676d690000000000''"
  by code_simp

lemma demo_encrypt: "encrypt_bytes demo_crypto (as_bytes ''img.tar'') (demo_config 7) 0 = (Inr (demo_blob 7 0), 1)"
  by code_simp

lemma demo_decrypt: "decrypt_bytes demo_crypto (demo_blob 7 0) (demo_config 7) = Inr (as_bytes ''img.tar'')"
  by code_simp

lemma demo_dir:
  "encrypted_image_dir (demo_vault_env td to_meta from_meta) ''img'' = ''/data/linpodx/encrypted-snapshots/676d690000000000''"
  by (simp add: encrypted_image_dir_def encrypted_store_root_def nonempty_var_def demo_vault_env_def demo_name path_join_def is_absolute_def)

lemma demo_save:
  "save_image (ve_podman (demo_vault_env td to_meta from_meta)) ref dest (p, f) =
     (Inr (), p, f\<lparr>nodes := (nodes f)(place f dest \<mapsto> RegFile (ref @ ''.tar''))\<rparr>)"
  by (simp add: save_image_def demo_vault_env_def demo_podman_def base_command_def podman_binary_def)

lemma demo_load:
  "nodes f (place f path) = Some (RegFile b) \<Longrightarrow>
   run_capture (ve_podman (demo_vault_env td to_meta from_meta)) [''load'', ''-i'', path] (p, f) = (Inr [], b # p, f)"
  by (simp add: run_capture_def demo_vault_env_def demo_podman_def base_command_def podman_binary_def from_utf8_def from_utf8_lossy.simps bytes_string_def)

abbreviation demo_env_1 :: "string list vault_env" where
  "demo_env_1 \<equiv> demo_vault_env demo_tempdir demo_to_meta demo_from_meta"

lemma demo_places:
  "place f ''/tmp/.tmpA'' = [''tmp'', ''.tmpA'']" "place f ''/tmp/.tmpA/image.tar'' = [''tmp'', ''.tmpA'', ''image.tar'']"
  "place f ''/data/linpodx/encrypted-snapshots/676d690000000000'' = [''data'', ''linpodx'', ''encrypted-snapshots'', ''676d690000000000'']"
  "path_join ''/tmp/.tmpA'' ''image.tar'' = ''/tmp/.tmpA/image.tar''"
  by (simp_all add: place_def is_absolute_def components_def path_join_def)

lemma demo_vault_create:
  "create_dir_all ''/data/linpodx/encrypted-snapshots/676d690000000000'' (vt_files demo_vault) =
     (Inr (), (vt_files demo_vault)\<lparr>nodes := (\<lambda>q. if take (length q) [''data'', ''linpodx'', ''encrypted-snapshots'', ''676d690000000000''] = q
        then Some Dir else None)\<rparr>)"
  by (simp add: create_dir_all_def demo_places Let_def demo_vault_def cong: if_cong)

lemma demo_encrypt_run:
  "\<exists>s'. encrypt_committed_image demo_env_1 ''img'' (demo_config 7) True demo_vault = (Inr demo_meta, s') \<and>
     demo_tempdir (vt_files s') = Inr ''/tmp/.tmpA'' \<and> read_err (vt_files s') = Map.empty \<and> write_err (vt_files s') = Map.empty \<and>
     vt_podman s' = []"
proof -
  let ?dir = "''/data/linpodx/encrypted-snapshots/676d690000000000''"
  let ?nds = "\<lambda>q. if take (length q) [''data'', ''linpodx'', ''encrypted-snapshots'', ''676d690000000000''] = q then Some Dir else None"
  let ?f = "(vt_files demo_vault)\<lparr>nodes := ?nds([''tmp'', ''.tmpA''] \<mapsto> Dir, [''tmp'', ''.tmpA'', ''image.tar''] \<mapsto> RegFile ''img.tar'')\<rparr>"
  have tmp: "demo_tempdir ((vt_files demo_vault)\<lparr>nodes := ?nds\<rparr>) = Inr ''/tmp/.tmpA''"
    by (simp add: demo_tempdir_def)
  have "seal_image demo_env_1 ''img'' (demo_config 7) ?dir ''/tmp/.tmpA/image.tar'' (demo_vault\<lparr>vt_files := ?f\<rparr>) =
    (Inr demo_meta, demo_vault\<lparr>vt_files := replaced (replaced ?f ?dir ''blob.enc'' (bytes_string (demo_blob 7 0))) ?dir ''meta.json'' ''1'',
       vt_rng := 1, vt_db := snd (utc_now (vt_db demo_vault) :: (error + timestamp) \<times> db)\<rparr>)"
  proof (subst seal_image_run [where plain = "''img.tar''" and blob = "demo_blob 7 0" and n = 1 and meta = demo_meta and mt = "''1''"])
    show "read_file (vt_files (demo_vault\<lparr>vt_files := ?f\<rparr>)) ''/tmp/.tmpA/image.tar'' = Inr ''img.tar''"
      by (simp add: read_file_def demo_places demo_vault_def)
    show "encrypt_bytes (ve_crypto demo_env_1) (as_bytes ''img.tar'') (demo_config 7) (vt_rng (demo_vault\<lparr>vt_files := ?f\<rparr>)) = (Inr (demo_blob 7 0), 1)"
      using demo_encrypt by (simp add: demo_vault_env_def demo_vault_def)
    show "nodes (vt_files (demo_vault\<lparr>vt_files := ?f\<rparr>)) (in_dir (vt_files (demo_vault\<lparr>vt_files := ?f\<rparr>)) ?dir name) \<noteq> Some Dir" for name
      by (simp add: in_dir_def demo_places)
  qed (simp_all add: demo_vault_env_def demo_vault_def demo_meta_def demo_config_def demo_to_meta_def fresh_db_def)
  then obtain s2 where s2: "seal_image demo_env_1 ''img'' (demo_config 7) ?dir ''/tmp/.tmpA/image.tar'' (demo_vault\<lparr>vt_files := ?f\<rparr>) = (Inr demo_meta, s2)"
      "vt_podman s2 = []" "read_err (vt_files s2) = Map.empty" "write_err (vt_files s2) = Map.empty" "nodes (vt_files s2) [''tmp'', ''.tmpA''] \<noteq> None"
      "cwd (vt_files s2) = []"
    by (rule that) (simp_all add: replaced_def demo_vault_def in_dir_def demo_places)
  have gone: "demo_tempdir (snd (remove_dir_all ''/tmp/.tmpA'' (vt_files s2))) = Inr ''/tmp/.tmpA''"
      "read_err (snd (remove_dir_all ''/tmp/.tmpA'' (vt_files s2))) = Map.empty"
      "write_err (snd (remove_dir_all ''/tmp/.tmpA'' (vt_files s2))) = Map.empty"
    using s2 by (auto simp: remove_dir_all_def demo_places demo_tempdir_def)
  have vt: "ve_tempdir demo_env_1 = demo_tempdir"
    by (simp add: demo_vault_env_def)
  show ?thesis
    using s2(1,2) tmp gone
    by (simp add: encrypt_committed_image_def Let_def bindE_apply on_fs_def map_err_def zoom_apply demo_dir demo_vault_create with_tempdir_def vt
       encrypt_in_tempdir_def demo_places on_podman_def demo_save)
qed

lemma demo_restore_run:
  assumes "sealed demo_env_1 ''img'' (demo_config 7) plain (vt_files s)" and "demo_tempdir (vt_files s) = Inr ''/tmp/.tmpA''"
    and "read_err (vt_files s) = Map.empty" "write_err (vt_files s) = Map.empty"
  shows "\<exists>meta s'. decrypt_and_load demo_env_1 ''img'' (demo_config 7) s = (Inr meta, s')"
proof -
  obtain meta where "open_sealed demo_env_1 ''img'' (demo_config 7) s = (Inr (meta, plain), s)"
    using open_sealed_sealed [OF assms(1,3)] by blast
  moreover have "ve_tempdir demo_env_1 = demo_tempdir"
    by (simp add: demo_vault_env_def)
  ultimately show ?thesis
    using assms(2,4)
    by (simp add: decrypt_and_load_def bindE_apply with_tempdir_def load_from_tempdir_def Let_def demo_places on_fs_def map_err_def zoom_apply
        write_file_def on_podman_def demo_load)
qed


end
