(* ===== verification/Key_Rotation.thy ===== *)
theory Key_Rotation
  imports Snapshot_Vault
begin

text \<open>
  Rotating the key of encrypted snapshots (\<^verbatim>\<open>linpodx-runtime/src/snapshot_key_rotation.rs\<close>): one snapshot, and
  the bulk run that counts what it re-encrypted, skipped and failed on. Shown: a rotation that succeeds
  changes the key and not the content and touches no other image; whatever fails on the way, every blob
  still opens under one of the two keys; and a failure between the two files of a pair leaves an image
  that neither restoring nor another rotation accepts.
\<close>

section \<open>Key rotation (snapshot\_key\_rotation.rs)\<close>

datatype new_key_source = NewPassphrase string kdf | NewExplicit string | NewEnv string

definition into_config :: "'p vault_env \<Rightarrow> new_key_source \<Rightarrow> error + encryption_config" where
  "into_config env src =
     (let direct = (\<lambda>ks msg raw.
            case key_from_base64 (ve_crypto env) raw of
              Inl e \<Rightarrow> Inl (Runtime (msg @ crypto_error_display e))
            | Inr key \<Rightarrow> Inr \<lparr>ec_key = key, ec_algorithm = ALGORITHM, ec_key_source = ks, ec_kdf = argon2id_default\<rparr>) in
      case src of
        NewPassphrase passphrase k \<Rightarrow>
          (case derive_key (ve_crypto env) (as_bytes passphrase) KDF_SALT_DEFAULT k of
             Inl e \<Rightarrow> Inl (Runtime (''rotate: derive new key: '' @ crypto_error_display e))
           | Inr key \<Rightarrow> Inr \<lparr>ec_key = key, ec_algorithm = ALGORITHM, ec_key_source = KeyPassphrase, ec_kdf = k\<rparr>)
      | NewExplicit key_b64 \<Rightarrow> direct KeyExplicit ''rotate: decode explicit key: '' key_b64
      | NewEnv var \<Rightarrow>
          (case ve_var env var of
             None \<Rightarrow> Inl (Runtime (''rotate: env var '' @ var @ '' is not set''))
           | Some raw \<Rightarrow> direct KeyEnv (''rotate: decode env key from '' @ var @ '': '') raw))"

text \<open>Step 5 of a rotation: the two files are replaced one after the other.\<close>

definition rewrite_pair :: "'p vault_env \<Rightarrow> string \<Rightarrow> byte list \<Rightarrow> encrypted_meta \<Rightarrow> ('p, unit) vault_act" where
  "rewrite_pair env dir new_blob new_meta =
     bindE (put_file ''rotate: '' dir ''blob.enc'' (bytes_string new_blob)) (\<lambda>_.
     bindE (lift_result (\<lambda>e. ''rotate: serialise meta.json: '' @ e) (ve_to_meta env new_meta)) (\<lambda>bytes.
       put_file ''rotate: '' dir ''meta.json'' bytes))"

definition rotate_open :: "'p vault_env \<Rightarrow> string \<Rightarrow> encryption_config \<Rightarrow> ('p, encrypted_meta \<times> byte list) vault_act" where
  "rotate_open env image_ref old_cfg =
     (let meta_path = side_car env image_ref ''meta.json''; blob_path = side_car env image_ref ''blob.enc'' in
      bindE (fs_read (\<lambda>e. ''rotate: read '' @ meta_path @ '': '' @ e) meta_path) (\<lambda>meta_bytes.
      bindE (lift_result (\<lambda>e. ''rotate: parse meta.json: '' @ e) (ve_from_meta env meta_bytes)) (\<lambda>old_meta.
      bindE (fs_read (\<lambda>e. ''rotate: read '' @ blob_path @ '': '' @ e) blob_path) (\<lambda>body.
      let blob = as_bytes body; actual = blob_sha256_hex (ve_crypto env) blob in
      if actual \<noteq> em_ciphertext_sha256 old_meta then
        throw (Runtime (''rotate: ciphertext sha mismatch (meta='' @ em_ciphertext_sha256 old_meta @ '' disk='' @ actual @ '')''))
      else
        bindE (lift_result (\<lambda>e. ''rotate: decrypt under old key: '' @ crypto_error_display e)
                 (decrypt_bytes (ve_crypto env) blob old_cfg)) (\<lambda>plain. ret (old_meta, plain))))))"

definition rekey ::
  "'p vault_env \<Rightarrow> string \<Rightarrow> int \<Rightarrow> encrypted_meta \<Rightarrow> byte list \<Rightarrow> encryption_config \<Rightarrow> ('p, encrypted_meta \<times> timestamp) vault_act" where
  "rekey env image_ref snapshot_id old_meta plain new_cfg =
     bindE (crypt (\<lambda>e. ''rotate: encrypt under new key: '' @ crypto_error_display e)
              (encrypt_bytes (ve_crypto env) plain new_cfg)) (\<lambda>new_blob.
     bindE vault_now (\<lambda>rotated_at.
     let new_meta = \<lparr>em_algorithm = ec_algorithm new_cfg, em_key_source = key_source_str (ec_key_source new_cfg),
                     em_ciphertext_sha256 = blob_sha256_hex (ve_crypto env) new_blob, em_original_image_ref = image_ref,
                     em_created_at = em_created_at old_meta, em_plaintext_len = em_plaintext_len old_meta,
                     em_kdf = ec_kdf new_cfg, em_rotated_from = Some snapshot_id, em_rotated_at = Some rotated_at\<rparr> in
     bindE (rewrite_pair env (encrypted_image_dir env image_ref) new_blob new_meta) (\<lambda>_.
       ret (new_meta, rotated_at))))"

definition rotate_on_disk ::
  "'p vault_env \<Rightarrow> string \<Rightarrow> int \<Rightarrow> encryption_config \<Rightarrow> encryption_config \<Rightarrow> ('p, encrypted_meta \<times> timestamp) vault_act" where
  "rotate_on_disk env image_ref snapshot_id old_cfg new_cfg =
     bindE (rotate_open env image_ref old_cfg) (\<lambda>(old_meta, plain).
       rekey env image_ref snapshot_id old_meta plain new_cfg)"

record rotate_outcome =
  ro_snapshot_id :: int
  ro_image_ref :: string
  ro_algorithm :: string
  ro_kdf :: string
  ro_ciphertext_sha256 :: string
  ro_rotated_at :: timestamp

definition update_rotation :: "int \<Rightarrow> encrypted_meta \<Rightarrow> string \<Rightarrow> int \<Rightarrow> unit dbact" where
  "update_rotation sid meta kdf_params at =
     sql (modify (\<lambda>d. d\<lparr>snapshots := (snapshots d)\<lparr>rows := map (\<lambda>r.
       if sn_id r = sid
       then r\<lparr>sn_algorithm := Some (em_algorithm meta), sn_ciphertext_sha256 := Some (em_ciphertext_sha256 meta),
              sn_key_source := Some (em_key_source meta), sn_kdf_algorithm := Some (kdf_str (em_kdf meta)),
              sn_kdf_params := Some kdf_params, sn_rotated_from := Some sid, sn_rotated_at := Some at\<rparr>
       else r) (rows (snapshots d))\<rparr>\<rparr>))"

definition rotate_snapshot_key ::
  "'p vault_env \<Rightarrow> int \<Rightarrow> encryption_config \<Rightarrow> encryption_config \<Rightarrow> ('p, rotate_outcome) vault_act" where
  "rotate_snapshot_key env snapshot_id old_cfg new_cfg =
     bindE (on_vault_db (sql (gets (\<lambda>d. map_option sn_image_ref (find (\<lambda>r. sn_id r = snapshot_id) (rows (snapshots d))))))) (\<lambda>row.
     case row of
       None \<Rightarrow> throw (NotFound (''snapshot id '' @ show_int snapshot_id))
     | Some image_ref \<Rightarrow>
         bindE (gets (\<lambda>s. is_image_encrypted env image_ref (vt_files s))) (\<lambda>enc.
         if \<not> enc then
           throw (Runtime (''snapshot '' @ show_int snapshot_id @ '' ('' @ image_ref @ '') is not encrypted '' @
             [CHR 0xE2, CHR 0x80, CHR 0x94] @ '' nothing to rotate''))
         else
           bindE (rotate_on_disk env image_ref snapshot_id old_cfg new_cfg) (\<lambda>(new_meta, rotated_at).
           bindE (lift_result (\<lambda>e. ''serialise kdf params: '' @ e) (ve_kdf_json env (em_kdf new_meta))) (\<lambda>kdf_params.
           bindE (on_vault_db (update_rotation snapshot_id new_meta kdf_params (ve_unix env rotated_at))) (\<lambda>_.
             ret \<lparr>ro_snapshot_id = snapshot_id, ro_image_ref = image_ref, ro_algorithm = em_algorithm new_meta,
                  ro_kdf = kdf_str (em_kdf new_meta), ro_ciphertext_sha256 = em_ciphertext_sha256 new_meta,
                  ro_rotated_at = rotated_at\<rparr>)))))"

record re_encrypt_outcome =
  re_total_seen :: u32
  re_encrypted :: u32
  re_skipped :: u32
  re_failed :: u32

fun re_encrypt_loop ::
  "'p vault_env \<Rightarrow> encryption_config \<Rightarrow> encryption_config \<Rightarrow> int list \<Rightarrow> re_encrypt_outcome \<Rightarrow> ('p, re_encrypt_outcome) vault_act" where
  "re_encrypt_loop env old_cfg new_cfg [] outcome = ret outcome"
| "re_encrypt_loop env old_cfg new_cfg (i # ids) outcome =
     (let seen = outcome\<lparr>re_total_seen := re_total_seen outcome + 1\<rparr> in
      bindE (attempt (rotate_snapshot_key env i old_cfg new_cfg)) (\<lambda>r.
        re_encrypt_loop env old_cfg new_cfg ids
          (case r of
             Inr _ \<Rightarrow> seen\<lparr>re_encrypted := re_encrypted seen + 1\<rparr>
           | Inl e \<Rightarrow>
               (if (case e of Runtime message \<Rightarrow> contains_str message ''is not encrypted'' | _ \<Rightarrow> False)
                then seen\<lparr>re_skipped := re_skipped seen + 1\<rparr>
                else seen\<lparr>re_failed := re_failed seen + 1\<rparr>))))"

definition re_encrypt_all ::
  "'p vault_env \<Rightarrow> encryption_config \<Rightarrow> encryption_config \<Rightarrow> ('p, re_encrypt_outcome) vault_act" where
  "re_encrypt_all env old_cfg new_cfg =
     bindE (on_vault_db (sql (gets (\<lambda>d. sort (map sn_id (rows (snapshots d))))))) (\<lambda>ids.
       re_encrypt_loop env old_cfg new_cfg ids \<lparr>re_total_seen = 0, re_encrypted = 0, re_skipped = 0, re_failed = 0\<rparr>)"

definition meta_indicates_rotation :: "encrypted_meta \<Rightarrow> bool" where
  "meta_indicates_rotation meta \<longleftrightarrow> em_rotated_at meta \<noteq> None \<or> em_rotated_from meta \<noteq> None"

section \<open>What a rotation does\<close>

text \<open>What the blob alone holds, whatever \<^verbatim>\<open>meta.json\<close> says.\<close>

definition blob_holds :: "'p vault_env \<Rightarrow> string \<Rightarrow> encryption_config \<Rightarrow> byte list \<Rightarrow> files \<Rightarrow> bool" where
  "blob_holds env image_ref cfg plain f \<longleftrightarrow>
     (\<exists>blob. nodes f (in_dir f (encrypted_image_dir env image_ref) ''blob.enc'') = Some (RegFile (bytes_string blob)) \<and>
        decrypt_bytes (ve_crypto env) blob cfg = Inr plain)"

lemma sealed_blob_holds: "sealed env ref cfg plain f \<Longrightarrow> blob_holds env ref cfg plain f"
  by (auto simp: sealed_def blob_holds_def)

text \<open>The outcomes of rewriting a pair: the old blob is in place, or the new one is.\<close>

lemma put_file_entry:
  assumes "put_file pfx dir name body s = (r, s')" and "plain_name name" "plain_name (name @ ''.tmp'')"
  shows "only_changes (\<lambda>q _. q \<in> {in_dir (vt_files s) dir name, in_dir (vt_files s) dir (name @ ''.tmp'')}) (vt_files s) (vt_files s')"
    and "nodes (vt_files s') (in_dir (vt_files s) dir name) = nodes (vt_files s) (in_dir (vt_files s) dir name) \<or>
         nodes (vt_files s') (in_dir (vt_files s) dir name) = Some (RegFile body)"
proof -
  have "name \<noteq> name @ ''.tmp''"
    by simp
  then have "only_changes (\<lambda>q _. q \<in> {in_dir (vt_files s) dir name, in_dir (vt_files s) dir (name @ ''.tmp'')}) (vt_files s) (vt_files s') \<and>
    (nodes (vt_files s') (in_dir (vt_files s) dir name) = nodes (vt_files s) (in_dir (vt_files s) dir name) \<or>
     nodes (vt_files s') (in_dir (vt_files s) dir name) = Some (RegFile body))"
  proof (cases r)
    case (Inl e)
    with assms put_file_Inl have "only_changes (\<lambda>q _. q = in_dir (vt_files s) dir (name @ ''.tmp'')) (vt_files s) (vt_files s')"
      by blast
    then show ?thesis
      by (auto simp: only_changes_def)
  next
    case (Inr u)
    with assms put_file_Inr have "s' = s\<lparr>vt_files := replaced (vt_files s) dir name body\<rparr>"
      by (metis (full_types) old.unit.exhaust)
    then show ?thesis
      by (simp add: only_changes_def nodes_replaced) (simp add: replaced_def)
  qed
  then show "only_changes (\<lambda>q _. q \<in> {in_dir (vt_files s) dir name, in_dir (vt_files s) dir (name @ ''.tmp'')}) (vt_files s) (vt_files s')"
    "nodes (vt_files s') (in_dir (vt_files s) dir name) = nodes (vt_files s) (in_dir (vt_files s) dir name) \<or>
     nodes (vt_files s') (in_dir (vt_files s) dir name) = Some (RegFile body)"
    by blast+
qed

lemma rewrite_pair_outcome:
  assumes "rewrite_pair env dir blob meta s = (r, s')"
  defines "e \<equiv> in_dir (vt_files s) dir"
  shows "only_changes (\<lambda>q _. q \<in> e ` {''blob.enc'', ''blob.enc.tmp'', ''meta.json'', ''meta.json.tmp''}) (vt_files s) (vt_files s')"
    and "nodes (vt_files s') (e ''blob.enc'') = nodes (vt_files s) (e ''blob.enc'') \<or>
         nodes (vt_files s') (e ''blob.enc'') = Some (RegFile (bytes_string blob))"
proof -
  obtain r1 s1 where b: "put_file ''rotate: '' dir ''blob.enc'' (bytes_string blob) s = (r1, s1)"
    by (metis surj_pair)
  have m: "s' = s1 \<or> (\<exists>mt r2. put_file ''rotate: '' dir ''meta.json'' mt s1 = (r2, s'))"
    using assms(1) b by (auto simp: rewrite_pair_def bindE_apply lift_result_run split: sum.splits)
  note b' = put_file_entry [OF b, simplified, folded e_def]
  have e1: "in_dir (vt_files s1) dir = e"
    using b'(1) place_cwd [of "vt_files s1" "vt_files s"] by (auto simp: only_changes_def in_dir_def e_def)
  have m': "only_changes (\<lambda>q _. q \<in> {e ''meta.json'', e ''meta.json.tmp''}) (vt_files s1) (vt_files s')"
  proof (cases "s' = s1")
    case False
    with m put_file_entry(1) [of "''rotate: ''" dir "''meta.json''" _ s1 _ s'] show ?thesis
      by (auto simp: e1)
  qed (simp add: only_changes_def)
  show "only_changes (\<lambda>q _. q \<in> e ` {''blob.enc'', ''blob.enc.tmp'', ''meta.json'', ''meta.json.tmp''}) (vt_files s) (vt_files s')"
    using b'(1) m' by (simp add: only_changes_def) metis
  have "nodes (vt_files s') (e ''blob.enc'') = nodes (vt_files s1) (e ''blob.enc'')"
    using m' by (auto simp: only_changes_def e_def)
  with b'(2) show "nodes (vt_files s') (e ''blob.enc'') = nodes (vt_files s) (e ''blob.enc'') \<or>
         nodes (vt_files s') (e ''blob.enc'') = Some (RegFile (bytes_string blob))"
    by simp
qed

lemma rewrite_pair_Inr:
  assumes "rewrite_pair env dir blob meta s = (Inr (), s')"
  obtains mt where "ve_to_meta env meta = Inr mt"
    "s' = s\<lparr>vt_files := replaced (replaced (vt_files s) dir ''blob.enc'' (bytes_string blob)) dir ''meta.json'' mt\<rparr>"
  using assms
  by (auto simp: rewrite_pair_def lift_result_Inr elim!: bindE_Inr_E dest!: put_file_Inr)

lemma rotate_open_files: "rotate_open env ref cfg s = (r, s') \<Longrightarrow> s' = s"
  by (auto simp: rotate_open_def Let_def bindE_apply fs_read_run lift_result_run split: sum.splits if_splits)

lemma rotate_open_Inr:
  assumes "rotate_open env ref cfg s = (Inr (meta, plain), s')"
  shows "sealed env ref cfg plain (vt_files s)"
proof -
  have "fst (open_sealed env ref cfg s) = Inr (meta, plain)"
    using assms by (auto simp: rotate_open_def open_sealed_def Let_def bindE_apply fs_read_run lift_result_run split: sum.splits if_splits)
  then show ?thesis
    using open_sealed_Inr(2) by (metis prod.collapse)
qed

lemma rekey_cases:
  assumes "rekey env ref sid old_meta plain new s = (r, s')"
  obtains e where "vt_files s' = vt_files s" "r = Inl e"
  | blob n meta at s2 r2 where "encrypt_bytes (ve_crypto env) plain new (vt_rng s) = (Inr blob, n)" "vt_files s2 = vt_files s"
    "em_ciphertext_sha256 meta = blob_sha256_hex (ve_crypto env) blob"
    "rewrite_pair env (encrypted_image_dir env ref) blob meta s2 = (r2, s')"
    "r = (case r2 of Inl e \<Rightarrow> Inl e | Inr _ \<Rightarrow> Inr (meta, at))"
  using assms unfolding rekey_def Let_def
proof (elim bindE_E, goal_cases)
  case (1 e)
  with crypt_files show ?case
    by blast
next
  case (2 blob s1 e)
  with crypt_files vault_now_files show ?case
    by metis
next
  case (3 blob s1 at s2 e)
  then have "vt_files s2 = vt_files s"
    using crypt_files vault_now_files by metis
  moreover obtain n where "encrypt_bytes (ve_crypto env) plain new (vt_rng s) = (Inr blob, n)"
    using 3(3) by (auto simp: crypt_Inr)
  ultimately show ?case
    by (intro 3(2) [OF _ _ _ 3(5)]) (auto simp: 3(6))
next
  case (4 blob s1 at s2 u s3)
  then have "vt_files s2 = vt_files s"
    using crypt_files vault_now_files by metis
  moreover obtain n where "encrypt_bytes (ve_crypto env) plain new (vt_rng s) = (Inr blob, n)"
    using 4(3) by (auto simp: crypt_Inr)
  moreover have "s3 = s'"
    using 4(6) by simp
  ultimately show ?case
    by (intro 4(2) [OF _ _ _ 4(5) [unfolded \<open>s3 = s'\<close>]]) (use 4(6) in auto)
qed

lemma rotate_on_disk_cases:
  assumes "rotate_on_disk env ref sid old new s = (r, s')"
  obtains e where "vt_files s' = vt_files s" "r = Inl e"
  | plain blob n meta at s2 r2 where "sealed env ref old plain (vt_files s)"
    "encrypt_bytes (ve_crypto env) plain new (vt_rng s) = (Inr blob, n)" "vt_files s2 = vt_files s"
    "em_ciphertext_sha256 meta = blob_sha256_hex (ve_crypto env) blob"
    "rewrite_pair env (encrypted_image_dir env ref) blob meta s2 = (r2, s')"
    "r = (case r2 of Inl e \<Rightarrow> Inl e | Inr _ \<Rightarrow> Inr (meta, at))"
  using assms unfolding rotate_on_disk_def
proof (rule bindE_E)
  fix x s1
  assume o: "rotate_open env ref old s = (Inr x, s1)"
    and k: "(case x of (old_meta, plain) \<Rightarrow> rekey env ref sid old_meta plain new) s1 = (r, s')"
  obtain old_meta plain where x: "x = (old_meta, plain)"
    by (cases x)
  note sealed = rotate_open_Inr [OF o [unfolded x]]
  have "s1 = s"
    using rotate_open_files [OF o] .
  with k x have "rekey env ref sid old_meta plain new s = (r, s')"
    by simp
  then show thesis
    by (rule rekey_cases) (fact that(1), rule that(2) [OF sealed])
next
  fix e
  assume "rotate_open env ref old s = (Inl e, s')" and "r = Inl e"
  with that(1) rotate_open_files show thesis
    by metis
qed

lemma update_rotation_Inr:
  assumes "on_vault_db (update_rotation sid meta kp at) s = (Inr (), s')"
  shows "\<forall>row \<in> set (rows (snapshots (vt_db s'))). sn_id row = sid \<longrightarrow> sn_ciphertext_sha256 row = Some (em_ciphertext_sha256 meta)"
proof -
  let ?g = "\<lambda>r. if sn_id r = sid
       then r\<lparr>sn_algorithm := Some (em_algorithm meta), sn_ciphertext_sha256 := Some (em_ciphertext_sha256 meta),
              sn_key_source := Some (em_key_source meta), sn_kdf_algorithm := Some (kdf_str (em_kdf meta)),
              sn_kdf_params := Some kp, sn_rotated_from := Some sid, sn_rotated_at := Some at\<rparr> else r"
  have "rows (snapshots (vt_db s')) = map ?g (rows (snapshots (vt_db s)))"
    using assms by (auto simp: on_vault_db_def zoom_apply update_rotation_def sql_def Let_def split: option.splits)
  moreover have "sn_id (?g r) = sid \<longrightarrow> sn_ciphertext_sha256 (?g r) = Some (em_ciphertext_sha256 meta)" for r
    by simp
  ultimately show ?thesis
    unfolding set_map by (metis (no_types, lifting) imageE list.set_map)
qed

lemma rotate_snapshot_key_cases:
  assumes "rotate_snapshot_key env sid old new s = (r, s')"
  obtains e where "vt_files s' = vt_files s" "r = Inl e"
  | ref s1 r1 s2 where "vt_files s1 = vt_files s" "rotate_on_disk env ref sid old new s1 = (r1, s2)" "vt_files s' = vt_files s2"
    "\<And>out. r = Inr out \<Longrightarrow>
       ro_image_ref out = ref \<and>
       (\<exists>meta at. r1 = Inr (meta, at) \<and> ro_ciphertext_sha256 out = em_ciphertext_sha256 meta) \<and>
       (\<forall>row \<in> set (rows (snapshots (vt_db s'))). sn_id row = sid \<longrightarrow> sn_ciphertext_sha256 row = Some (ro_ciphertext_sha256 out))"
  using assms unfolding rotate_snapshot_key_def
proof (rule bindE_E, goal_cases)
  case (1 e)
  with on_vault_db_files show ?case
    by metis
next
  case (2 row s1)
  note f1 = on_vault_db_files [OF 2(3), THEN conjunct1]
  show ?case
  proof (cases row)
    case None
    with 2 f1 show ?thesis
      by auto
  next
    case (Some ref)
    note k = 2(4) [unfolded Some option.case]
    show ?thesis
    proof (cases "is_image_encrypted env ref (vt_files s1)")
      case False
      with k f1 2(1) show ?thesis
        by (auto simp: bindE_apply)
    next
      case True
      obtain r1 s2 where d: "rotate_on_disk env ref sid old new s1 = (r1, s2)"
        by (metis surj_pair)
      show ?thesis
      proof (rule 2(2) [OF f1 d])
        show "vt_files s' = vt_files s2"
          using k True d
          by (auto simp: bindE_apply lift_result_run on_vault_db_def zoom_apply split: sum.splits prod.splits if_splits)
      next
        fix out
        assume "r = Inr out"
        with k True obtain meta at s3 kp where m: "rotate_on_disk env ref sid old new s1 = (Inr (meta, at), s3)"
          and u: "on_vault_db (update_rotation sid meta kp (ve_unix env at)) s3 = (Inr (), s')"
          and "ro_image_ref out = ref" "ro_ciphertext_sha256 out = em_ciphertext_sha256 meta"
          by (auto simp: lift_result_Inr elim!: bindE_Inr_E)
        then show "ro_image_ref out = ref \<and>
            (\<exists>meta at. r1 = Inr (meta, at) \<and> ro_ciphertext_sha256 out = em_ciphertext_sha256 meta) \<and>
            (\<forall>row \<in> set (rows (snapshots (vt_db s'))). sn_id row = sid \<longrightarrow> sn_ciphertext_sha256 row = Some (ro_ciphertext_sha256 out))"
          using d update_rotation_Inr [OF u] by auto
      qed
    qed
  qed
qed

lemma rotate_on_disk_sealed:
  assumes "aead_ok (ve_crypto env)" "meta_codec env" and "rotate_on_disk env ref sid old new s = (Inr (meta, at), s')"
  shows "\<exists>plain. sealed env ref old plain (vt_files s) \<and> sealed env ref new plain (vt_files s')"
  using assms(3)
proof (cases rule: rotate_on_disk_cases)
  case (2 plain blob n meta' at' s2 r2)
  then have "rewrite_pair env (encrypted_image_dir env ref) blob meta' s2 = (Inr (), s')"
    by (cases r2) auto
  then obtain mt where "ve_to_meta env meta' = Inr mt"
    "s' = s2\<lparr>vt_files := replaced (replaced (vt_files s2) (encrypted_image_dir env ref) ''blob.enc'' (bytes_string blob))
       (encrypted_image_dir env ref) ''meta.json'' mt\<rparr>"
    by (rule rewrite_pair_Inr)
  with sealed_pair [OF assms(2) _ 2(4) encrypt_decrypt(1) [OF assms(1) 2(2)]] 2(1) show ?thesis
    by auto
qed auto

lemma rotate_on_disk_elsewhere:
  assumes "rotate_on_disk env ref sid old new s = (r, s')"
  shows "only_changes (\<lambda>q _. q \<in> in_dir (vt_files s) (encrypted_image_dir env ref) `
    {''blob.enc'', ''blob.enc.tmp'', ''meta.json'', ''meta.json.tmp''}) (vt_files s) (vt_files s')"
  using assms
proof (cases rule: rotate_on_disk_cases)
  case (2 plain blob n meta' at' s2 r2)
  then show ?thesis
    using rewrite_pair_outcome(1) [OF 2(5)] by simp
qed (simp add: only_changes_def)

text \<open>Whatever happens during a rotation, the blob of every image still opens under one of the two keys.\<close>

definition holds_either where
  "holds_either env ref old new plain f \<longleftrightarrow> blob_holds env ref old plain f \<or> blob_holds env ref new plain f"

definition keys_agree :: "'p vault_env \<Rightarrow> encryption_config \<Rightarrow> encryption_config \<Rightarrow> bool" where
  "keys_agree env old new \<longleftrightarrow>
     (\<forall>blob p q. decrypt_bytes (ve_crypto env) blob old = Inr p \<longrightarrow> decrypt_bytes (ve_crypto env) blob new = Inr q \<longrightarrow> p = q)"

lemma rotate_on_disk_holds:
  assumes "aead_ok (ve_crypto env)" "keys_agree env old new" and rot: "rotate_on_disk env ref sid old new s = (r, s')"
    and "holds_either env any old new plain (vt_files s)"
  shows "holds_either env any old new plain (vt_files s')"
  using rot
proof (cases rule: rotate_on_disk_cases)
  case (1 e)
  with assms(4) show ?thesis
    by simp
next
  case (2 content blob n meta at s2 r2)
  let ?f = "vt_files s" and ?dir = "encrypted_image_dir env any"
  have cwd: "cwd (vt_files s') = cwd ?f" and frame: "\<And>q. q \<notin> in_dir ?f (encrypted_image_dir env ref) `
      {''blob.enc'', ''blob.enc.tmp'', ''meta.json'', ''meta.json.tmp''} \<Longrightarrow> nodes (vt_files s') q = nodes ?f q"
    using rotate_on_disk_elsewhere [OF rot] unfolding only_changes_def by blast+
  have e: "in_dir (vt_files s') d n = in_dir ?f d n" for d n
    by (simp add: in_dir_def place_cwd [OF cwd])
  show ?thesis
  proof (cases "place ?f ?dir = place ?f (encrypted_image_dir env ref)")
    case False
    then have "nodes (vt_files s') (in_dir ?f ?dir ''blob.enc'') = nodes ?f (in_dir ?f ?dir ''blob.enc'')"
      by (intro frame) (auto simp: in_dir_def)
    with assms(4) show ?thesis
      by (simp add: holds_either_def blob_holds_def e)
  next
    case True
    then have same: "in_dir ?f ?dir = in_dir ?f (encrypted_image_dir env ref)"
      by (simp add: in_dir_def fun_eq_iff)
    obtain b where b: "nodes ?f (in_dir ?f ?dir ''blob.enc'') = Some (RegFile (bytes_string b))"
      and "decrypt_bytes (ve_crypto env) b old = Inr plain \<or> decrypt_bytes (ve_crypto env) b new = Inr plain"
      using assms(4) by (auto simp: holds_either_def blob_holds_def)
    moreover have "decrypt_bytes (ve_crypto env) b old = Inr content"
      using 2(1) b by (auto simp: sealed_def same)
    ultimately have "content = plain"
      using assms(2) by (auto simp: keys_agree_def)
    then have "decrypt_bytes (ve_crypto env) blob new = Inr plain"
      using encrypt_decrypt(1) [OF assms(1) 2(2)] by simp
    with rewrite_pair_outcome(2) [OF 2(5)] 2(3) assms(4) show ?thesis
      by (auto simp: holds_either_def blob_holds_def e same)
  qed
qed

lemma preserves_files: "(\<And>s. vt_files (snd (m s)) = vt_files s) \<Longrightarrow> preserves (\<lambda>s. P (vt_files s)) m"
  by (simp add: preserves_def)

lemma rotate_snapshot_key_holds:
  assumes "aead_ok (ve_crypto env)" "keys_agree env old new"
  shows "preserves (\<lambda>s. holds_either env any old new plain (vt_files s)) (rotate_snapshot_key env sid old new)"
proof -
  have "holds_either env any old new plain (vt_files s')"
    if "rotate_snapshot_key env sid old new s = (r, s')" "holds_either env any old new plain (vt_files s)" for s r s'
    using that(1)
  proof (cases rule: rotate_snapshot_key_cases)
    case 1
    with that(2) show ?thesis
      by simp
  next
    case (2 ref s1 r1 s2)
    with rotate_on_disk_holds [OF assms 2(2), of any plain] that(2) show ?thesis
      by simp
  qed
  then show ?thesis
    unfolding preserves_def by (metis prod.collapse)
qed

lemma re_encrypt_loop_holds:
  assumes "aead_ok (ve_crypto env)" "keys_agree env old new"
  shows "preserves (\<lambda>s. holds_either env any old new plain (vt_files s)) (re_encrypt_loop env old new ids out)"
  by (induction ids arbitrary: out)
    (auto simp: Let_def intro!: preserves_intros rotate_snapshot_key_holds [OF assms])

lemma re_encrypt_all_holds:
  assumes "aead_ok (ve_crypto env)" "keys_agree env old new"
  shows "preserves (\<lambda>s. holds_either env any old new plain (vt_files s)) (re_encrypt_all env old new)"
  unfolding re_encrypt_all_def
  by (intro preserves_bindE re_encrypt_loop_holds assms preserves_files) (metis on_vault_db_files prod.collapse)

text \<open>Every snapshot is counted once.\<close>

lemma re_encrypt_loop_counts:
  "re_encrypt_loop env old new ids out s = (Inr res, s') \<Longrightarrow>
   re_total_seen res = re_total_seen out + of_nat (length ids) \<and>
   re_encrypted res + re_skipped res + re_failed res = re_encrypted out + re_skipped out + re_failed out + of_nat (length ids)"
proof (induction ids arbitrary: out s)
  case (Cons i ids)
  then obtain out' s1 where loop: "re_encrypt_loop env old new ids out' s1 = (Inr res, s')"
    and "re_total_seen out' = re_total_seen out + 1"
    and "re_encrypted out' + re_skipped out' + re_failed out' = re_encrypted out + re_skipped out + re_failed out + 1"
    by (auto simp: Let_def elim!: bindE_Inr_E split: sum.splits if_splits)
  with Cons.IH [OF loop] show ?case
    by (simp add: add.assoc)
qed simp

text \<open>
  A rotation replaces \<^verbatim>\<open>blob.enc\<close> and then \<^verbatim>\<open>meta.json\<close>. When the second replacement fails the pair is torn:
  the blob is the new one and its hash is still the old one's.
\<close>

definition torn :: "'p vault_env \<Rightarrow> string \<Rightarrow> files \<Rightarrow> bool" where
  "torn env ref f \<longleftrightarrow>
     (\<exists>blob mt meta.
        nodes f (in_dir f (encrypted_image_dir env ref) ''blob.enc'') = Some (RegFile (bytes_string blob)) \<and>
        nodes f (in_dir f (encrypted_image_dir env ref) ''meta.json'') = Some (RegFile mt) \<and>
        ve_from_meta env mt = Inr meta \<and> em_ciphertext_sha256 meta \<noteq> blob_sha256_hex (ve_crypto env) blob)"

lemma torn_opens_under_no_key:
  assumes "torn env ref (vt_files s)"
  shows "\<exists>e. open_sealed env ref cfg s = (Inl e, s)" "\<exists>e. rotate_open env ref cfg s = (Inl e, s)"
  using assms
  by (auto simp: torn_def open_sealed_def rotate_open_def Let_def bindE_apply fs_read_run lift_result_run read_file_def place_side_car
      split: option.split)

lemma put_file_blocked:
  assumes "plain_name (name @ ''.tmp'')" and "write_err (vt_files s) (in_dir (vt_files s) dir (name @ ''.tmp'')) = Some e"
  shows "\<exists>e. put_file pfx dir name body s = (Inl e, s)"
  using assms by (simp add: put_file_def Let_def bindE_apply on_fs_def map_err_def zoom_apply write_file_def place_join in_dir_def)

lemma rewrite_pair_torn:
  assumes "\<exists>mt. ve_to_meta env m = Inr mt"
    and "write_err (vt_files s) (in_dir (vt_files s) dir ''meta.json.tmp'') = Some msg"
    and "write_err (vt_files s) (in_dir (vt_files s) dir ''blob.enc.tmp'') = None"
      "write_err (vt_files s) (in_dir (vt_files s) dir ''blob.enc'') = None"
    and "nodes (vt_files s) (in_dir (vt_files s) dir ''blob.enc'') \<noteq> Some Dir"
  shows "\<exists>e. rewrite_pair env dir blob m s = (Inl e, s\<lparr>vt_files := replaced (vt_files s) dir ''blob.enc'' (bytes_string blob)\<rparr>)"
proof -
  let ?s1 = "s\<lparr>vt_files := replaced (vt_files s) dir ''blob.enc'' (bytes_string blob)\<rparr>"
  obtain mt where "ve_to_meta env m = Inr mt"
    using assms(1) by blast
  moreover have "put_file pfx dir ''blob.enc'' (bytes_string blob) s = (Inr (), ?s1)" for pfx
    using assms by (intro put_file_run) simp_all
  moreover obtain e where "put_file ''rotate: '' dir ''meta.json'' mt ?s1 = (Inl e, ?s1)"
    using put_file_blocked [of "''meta.json''" ?s1 dir msg "''rotate: ''" mt] assms(2) by (auto simp: replaced_write_err)
  ultimately show ?thesis
    by (simp add: rewrite_pair_def bindE_apply lift_result_run)
qed

lemma failed_meta_write_tears:
  assumes sealed: "sealed env ref old plain (vt_files s)" and "read_err (vt_files s) = (\<lambda>_. None)"
    and enc: "encrypt_bytes (ve_crypto env) plain new (vt_rng s) = (Inr blob, n)"
    and ser: "\<And>m. \<exists>mt. ve_to_meta env m = Inr mt"
    and err: "write_err (vt_files s) (in_dir (vt_files s) (encrypted_image_dir env ref) ''meta.json.tmp'') = Some msg"
    and ok: "write_err (vt_files s) (in_dir (vt_files s) (encrypted_image_dir env ref) ''blob.enc.tmp'') = None"
      "write_err (vt_files s) (in_dir (vt_files s) (encrypted_image_dir env ref) ''blob.enc'') = None"
    and fresh: "\<And>b. nodes (vt_files s) (in_dir (vt_files s) (encrypted_image_dir env ref) ''blob.enc'') = Some (RegFile (bytes_string b)) \<Longrightarrow>
      blob_sha256_hex (ve_crypto env) blob \<noteq> blob_sha256_hex (ve_crypto env) b"
  shows "\<exists>e s'. rotate_on_disk env ref sid old new s = (Inl e, s') \<and> torn env ref (vt_files s')"
proof -
  let ?dir = "encrypted_image_dir env ref"
  have old_blob: "nodes (vt_files s) (in_dir (vt_files s) ?dir ''blob.enc'') \<noteq> Some Dir"
    using sealed by (auto simp: sealed_def)
  obtain meta where "rotate_open env ref old s = (Inr (meta, plain), s)"
    using sealed assms(2)
    by (auto simp: sealed_def rotate_open_def Let_def bindE_apply fs_read_run lift_result_run read_file_def place_side_car)
  moreover have "\<exists>e s'. rekey env ref sid meta plain new s = (Inl e, s') \<and>
      vt_files s' = replaced (vt_files s) ?dir ''blob.enc'' (bytes_string blob)"
  proof -
    obtain at s1 where now: "vault_now (s\<lparr>vt_rng := n\<rparr>) = (Inr at, s1)" and f1: "vt_files s1 = vt_files s"
      by (simp add: vault_now_def zoom_apply utc_now_def)
    have crypt: "crypt m (encrypt_bytes (ve_crypto env) plain new) s = (Inr blob, s\<lparr>vt_rng := n\<rparr>)" for m
      by (simp add: crypt_Inr enc)
    obtain e where "rewrite_pair env ?dir blob m s1 = (Inl (e m), s1\<lparr>vt_files := replaced (vt_files s1) ?dir ''blob.enc'' (bytes_string blob)\<rparr>)" for m
      using rewrite_pair_torn [OF ser, of s1 ?dir] f1 ok err old_blob by simp metis
    with crypt now f1 show ?thesis
      by (simp add: rekey_def Let_def bindE_apply split: prod.split)
  qed
  ultimately obtain e s' where "rotate_on_disk env ref sid old new s = (Inl e, s')"
      "vt_files s' = replaced (vt_files s) ?dir ''blob.enc'' (bytes_string blob)"
    by (auto simp: rotate_on_disk_def bindE_apply)
  moreover have "torn env ref (replaced (vt_files s) ?dir ''blob.enc'' (bytes_string blob))"
    using sealed fresh by (auto simp: torn_def sealed_def nodes_replaced)
  ultimately show ?thesis
    by metis
qed

section \<open>A small instance\<close>

definition demo_rotated_meta :: encrypted_meta where
  "demo_rotated_meta = demo_meta\<lparr>em_ciphertext_sha256 := blob_sha256_hex demo_crypto (demo_blob 9 1),
     em_rotated_from := Some 1, em_rotated_at := Some 0\<rparr>"

definition demo_rotation_env :: "string list vault_env" where
  "demo_rotation_env = demo_vault_env (\<lambda>_. Inl [])
     (\<lambda>m. if m = demo_meta then Inr ''1'' else if m = demo_rotated_meta then Inr ''2'' else Inl ''out of memory'')
     (\<lambda>t. if t = ''1'' then Inr demo_meta else if t = ''2'' then Inr demo_rotated_meta else Inl ''EOF'')"

definition demo_full_disk_env :: "string list vault_env" where
  "demo_full_disk_env = demo_vault_env (\<lambda>_. Inl []) (\<lambda>_. Inr ''2'') (\<lambda>_. Inr demo_meta)"

definition demo_place :: "string \<Rightarrow> string list" where
  "demo_place name = [''data'', ''linpodx'', ''encrypted-snapshots'', ''676d690000000000'', name]"

definition demo_store :: "(string list \<Rightarrow> string option) \<Rightarrow> string list vault" where
  "demo_store werr = demo_vault\<lparr>
     vt_files := \<lparr>cwd = [], nodes = [demo_place ''blob.enc'' \<mapsto> RegFile (bytes_string (demo_blob 7 0)), demo_place ''meta.json'' \<mapsto> RegFile ''1''],
       read_err = (\<lambda>_. None), write_err = werr\<rparr>,
     vt_db := (vt_db demo_vault)\<lparr>snapshots := \<lparr>rows = [\<lparr>sn_id = 1, sn_container_id = ''c'', sn_label = None, sn_image_ref = ''img'',
       sn_parent_id = None, sn_created_at = ''t'', sn_size_bytes = None, sn_backend = ''podman-commit'', sn_encrypted = 1, sn_algorithm = None,
       sn_key_source = None, sn_ciphertext_sha256 = None, sn_kdf_algorithm = None, sn_kdf_params = None, sn_rotated_from = None,
       sn_rotated_at = None\<rparr>], autoinc = 1\<rparr>\<rparr>,
     vt_rng := 1\<rparr>"

lemma demo_entry: "in_dir f (encrypted_image_dir (demo_vault_env td to_meta from_meta) ''img'') name = demo_place name"
  by (simp add: in_dir_def demo_dir demo_places demo_place_def)

lemma demo_sealed:
  assumes "from_meta ''1'' = Inr demo_meta"
  shows "sealed (demo_vault_env td to_meta from_meta) ''img'' (demo_config 7) (as_bytes ''img.tar'') (vt_files (demo_store werr))"
proof -
  have "decrypt_bytes (ve_crypto (demo_vault_env td to_meta from_meta)) (demo_blob 7 0) (demo_config 7) = Inr (as_bytes ''img.tar'')"
    using demo_decrypt by (simp add: demo_vault_env_def)
  then show ?thesis
    unfolding sealed_def demo_entry
    by (intro exI [of _ "demo_blob 7 0"] exI [of _ "''1''"] exI [of _ demo_meta])
      (simp add: demo_store_def demo_place_def demo_vault_env_def assms demo_meta_def)
qed

lemma demo_rotation_run:
  "case fst (rotate_snapshot_key demo_rotation_env 1 (demo_config 7) (demo_config 9) (demo_store (\<lambda>_. None))) of
     Inr out \<Rightarrow> ro_image_ref out = ''img'' | Inl _ \<Rightarrow> False"
  by code_simp





text \<open>
  C39. The two files of a pair are not replaced as one. When the write of the new \<^verbatim>\<open>meta.json\<close> fails after
  the new \<^verbatim>\<open>blob.enc\<close> is in place, the rotation reports an error and leaves a pair whose hashes disagree:
  from then on no configuration opens the image, neither for restoring it nor for rotating it again.
\<close>

theorem failed_rotation_locks_image:
  assumes "sealed env image_ref old_cfg plain (vt_files s)" and "read_err (vt_files s) = (\<lambda>_. None)"
    and "encrypt_bytes (ve_crypto env) plain new_cfg (vt_rng s) = (Inr blob, n)"
    and "\<And>m. \<exists>mt. ve_to_meta env m = Inr mt"
    and "write_err (vt_files s) (in_dir (vt_files s) (encrypted_image_dir env image_ref) ''meta.json.tmp'') = Some msg"
    and "write_err (vt_files s) (in_dir (vt_files s) (encrypted_image_dir env image_ref) ''blob.enc.tmp'') = None"
      "write_err (vt_files s) (in_dir (vt_files s) (encrypted_image_dir env image_ref) ''blob.enc'') = None"
    and "\<And>b. nodes (vt_files s) (in_dir (vt_files s) (encrypted_image_dir env image_ref) ''blob.enc'') = Some (RegFile (bytes_string b)) \<Longrightarrow>
      blob_sha256_hex (ve_crypto env) blob \<noteq> blob_sha256_hex (ve_crypto env) b"
  shows "\<exists>e s'. rotate_on_disk env image_ref snapshot_id old_cfg new_cfg s = (Inl e, s') \<and>
    (\<forall>cfg. isl (fst (open_sealed env image_ref cfg s')) \<and> isl (fst (rotate_open env image_ref cfg s')))"
proof -
  obtain e s' where rot: "rotate_on_disk env image_ref snapshot_id old_cfg new_cfg s = (Inl e, s')" and "torn env image_ref (vt_files s')"
    using failed_meta_write_tears [OF assms(1-7)] assms(8) by blast
  have "isl (fst (open_sealed env image_ref cfg s'))" "isl (fst (rotate_open env image_ref cfg s'))" for cfg
    using torn_opens_under_no_key [OF \<open>torn env image_ref (vt_files s')\<close>, of cfg] by auto
  with rot show ?thesis
    by blast
qed

theorem failed_rotation_locks_image_witness:
  "\<exists>e s'. rotate_on_disk demo_full_disk_env ''img'' 1 (demo_config 7) (demo_config 9)
       (demo_store [demo_place ''meta.json.tmp'' \<mapsto> ''No space left on device (os error 28)'']) = (Inl e, s') \<and>
     isl (fst (open_sealed demo_full_disk_env ''img'' (demo_config 9) s'))"
proof -
  let ?s = "demo_store [demo_place ''meta.json.tmp'' \<mapsto> ''No space left on device (os error 28)'']"
  have sealed: "sealed demo_full_disk_env ''img'' (demo_config 7) (as_bytes ''img.tar'') (vt_files ?s)"
    unfolding demo_full_disk_env_def by (rule demo_sealed) simp
  have enc: "encrypt_bytes (ve_crypto demo_full_disk_env) (as_bytes ''img.tar'') (demo_config 9) (vt_rng ?s) = (Inr (demo_blob 9 1), 2)"
    by code_simp
  have sha: "blob_sha256_hex demo_crypto (demo_blob 9 1) \<noteq> blob_sha256_hex demo_crypto (demo_blob 7 0)"
    by code_simp
  have e: "in_dir (vt_files ?s) (encrypted_image_dir demo_full_disk_env ''img'') name = demo_place name" for name
    unfolding demo_full_disk_env_def by (rule demo_entry)
  have store: "nodes (vt_files ?s) (demo_place ''blob.enc'') = Some (RegFile (bytes_string (demo_blob 7 0)))"
      "write_err (vt_files ?s) (demo_place ''meta.json.tmp'') = Some ''No space left on device (os error 28)''"
      "write_err (vt_files ?s) (demo_place ''blob.enc.tmp'') = None" "write_err (vt_files ?s) (demo_place ''blob.enc'') = None"
      "read_err (vt_files ?s) = (\<lambda>_. None)"
    by (simp_all add: demo_store_def demo_place_def)
  have env: "ve_crypto demo_full_disk_env = demo_crypto" "ve_to_meta demo_full_disk_env = (\<lambda>_. Inr ''2'')"
    by (simp_all add: demo_full_disk_env_def demo_vault_env_def)
  have "\<exists>e s'. rotate_on_disk demo_full_disk_env ''img'' 1 (demo_config 7) (demo_config 9) ?s = (Inl e, s') \<and>
    (\<forall>cfg. isl (fst (open_sealed demo_full_disk_env ''img'' cfg s')) \<and> isl (fst (rotate_open demo_full_disk_env ''img'' cfg s')))"
    using sha by (intro failed_rotation_locks_image [OF sealed _ enc]) (simp_all add: e store env)
  then show ?thesis
    by blast
qed

end
