(* ===== verification/Pin_Store.thy ===== *)
theory Pin_Store
  imports Audit_Sink_Contract
begin

text \<open>
  Pinned client certificates and trust on first use (\<^verbatim>\<open>linpodx-daemon/src/pin_store.rs\<close>, the handlers of
  \<^verbatim>\<open>dispatch/pin_clients.rs\<close>). SHA-256 and PEM decoding are parameters; a lock is never poisoned, as no
  code that holds it panics. Shown: when the enrolment window is open, and that expiry and admission exclude
  each other.
\<close>

section \<open>Trust on first use\<close>

record tofu_mode =
  tm_enabled :: bool
  tm_max_enrollments :: "u32 option"
  tm_current_count :: u32
  tm_enabled_at :: "int option"
  tm_max_age_secs :: "u64 option"

definition tofu_disabled :: tofu_mode where
  "tofu_disabled =
     \<lparr>tm_enabled = False, tm_max_enrollments = None, tm_current_count = 0, tm_enabled_at = None, tm_max_age_secs = None\<rparr>"

definition should_enroll :: "tofu_mode \<Rightarrow> bool" where
  "should_enroll m =
     (if \<not> tm_enabled m then False
      else case tm_max_enrollments m of Some mx \<Rightarrow> tm_current_count m < mx | None \<Rightarrow> True)"

text \<open>\<^verbatim>\<open>i64::saturating_sub\<close>.\<close>

definition saturating_sub_i64 :: "int \<Rightarrow> int \<Rightarrow> int" where
  "saturating_sub_i64 a b = max (- (2 ^ 63)) (min (2 ^ 63 - 1) (a - b))"

definition should_enroll_at :: "tofu_mode \<Rightarrow> int \<Rightarrow> bool" where
  "should_enroll_at m now_secs =
     (if \<not> should_enroll m then False
      else case tm_max_age_secs m of
        None \<Rightarrow> True
      | Some max_age \<Rightarrow>
          (case tm_enabled_at m of
             None \<Rightarrow> False
           | Some enabled_at \<Rightarrow>
               (let elapsed = saturating_sub_i64 now_secs enabled_at in
                if elapsed < 0 then True else (word_of_int elapsed :: u64) \<le> max_age)))"

definition is_expired_at :: "tofu_mode \<Rightarrow> int \<Rightarrow> bool" where
  "is_expired_at m now_secs =
     (if \<not> tm_enabled m then False
      else case tm_max_age_secs m of
        None \<Rightarrow> False
      | Some max_age \<Rightarrow>
          (case tm_enabled_at m of
             None \<Rightarrow> True
           | Some enabled_at \<Rightarrow>
               (let elapsed = saturating_sub_i64 now_secs enabled_at in
                if elapsed < 0 then False else (word_of_int elapsed :: u64) > max_age)))"

text \<open>\<^verbatim>\<open>u32::saturating_add\<close>: the largest value is \<open>- 1\<close>.\<close>

definition record_enrollment :: "tofu_mode \<Rightarrow> tofu_mode" where
  "record_enrollment m =
     m\<lparr>tm_current_count := (if tm_current_count m = - 1 then - 1 else tm_current_count m + 1)\<rparr>"

definition record_expiry :: "tofu_mode \<Rightarrow> int option \<times> tofu_mode" where
  "record_expiry m =
     (tm_enabled_at m,
      m\<lparr>tm_enabled := False, tm_max_age_secs := None, tm_enabled_at := None, tm_current_count := 0\<rparr>)"

section \<open>The store\<close>

definition fingerprint_der :: "(byte list \<Rightarrow> byte list) \<Rightarrow> byte list \<Rightarrow> string" where
  "fingerprint_der sha der = hex_encode (sha der)"

definition fingerprint_from_pem ::
  "(byte list \<Rightarrow> byte list) \<Rightarrow> (byte list \<Rightarrow> (string + byte list) list) \<Rightarrow> byte list \<Rightarrow> error + string" where
  "fingerprint_from_pem sha certs pem =
     (case List.map_filter (\<lambda>r. case r of Inr der \<Rightarrow> Some der | Inl _ \<Rightarrow> None) (certs pem) of
        leaf # _ \<Rightarrow> Inr (fingerprint_der sha leaf)
      | [] \<Rightarrow> Inl (InvalidArgument ''no PEM-encoded certificate found''))"

definition pin_insert :: "audit_env \<Rightarrow> string \<Rightarrow> string \<Rightarrow> bool dbact" where
  "pin_insert env fingerprint label =
     sql (bindE utc_now (\<lambda>ts d.
       if fingerprint \<in> pc_fingerprint ` set (pinned_clients d) then (Inr False, d)
       else (Inr True,
             d\<lparr>pinned_clients := pinned_clients d @
                 [\<lparr>pc_fingerprint = fingerprint, pc_label = label, pc_enrolled_at = fmt_ms env ts, pc_tofu_expires_at = None\<rparr>]\<rparr>)))"

definition pin_remove :: "string \<Rightarrow> bool dbact" where
  "pin_remove fingerprint =
     sql (\<lambda>d. let keep = filter (\<lambda>r. pc_fingerprint r \<noteq> fingerprint) (pinned_clients d) in
       (Inr (length keep < length (pinned_clients d)), d\<lparr>pinned_clients := keep\<rparr>))"

fun pin_summaries :: "audit_env \<Rightarrow> pinned_row list \<Rightarrow> (string \<times> string \<times> timestamp) list dbact" where
  "pin_summaries env [] = ret []"
| "pin_summaries env (r # rs) =
     bindE (case parse_from_rfc3339 env (pc_enrolled_at r) of Inr ts \<Rightarrow> ret ts | Inl _ \<Rightarrow> utc_now) (\<lambda>ts.
     bindE (pin_summaries env rs) (\<lambda>out. ret ((pc_fingerprint r, pc_label r, ts) # out)))"

definition pin_list :: "audit_env \<Rightarrow> (string \<times> string \<times> timestamp) list dbact" where
  "pin_list env = bindE (sql (gets (\<lambda>d. sort_key pc_enrolled_at (pinned_clients d)))) (pin_summaries env)"

definition pin_contains :: "string \<Rightarrow> (db, 'e, bool) act" where
  "pin_contains fingerprint =
     bindE (attempt (sql (gets (\<lambda>d. fingerprint \<in> pc_fingerprint ` set (pinned_clients d))))) (\<lambda>r.
       ret (case r of Inr there \<Rightarrow> there | Inl _ \<Rightarrow> False))"

definition add_from_pem ::
  "audit_env \<Rightarrow> (byte list \<Rightarrow> byte list) \<Rightarrow> (byte list \<Rightarrow> (string + byte list) list) \<Rightarrow> byte list \<Rightarrow> string \<Rightarrow> (string \<times> bool) dbact" where
  "add_from_pem env sha certs pem label =
     (case fingerprint_from_pem sha certs pem of
        Inl e \<Rightarrow> throw e
      | Inr fp \<Rightarrow> bindE (pin_insert env fp label) (\<lambda>inserted. ret (fp, inserted)))"

section \<open>The handlers (dispatch/pin\_clients.rs)\<close>

definition tofu_enable :: "bool \<Rightarrow> u32 option \<Rightarrow> int \<Rightarrow> tofu_mode \<Rightarrow> tofu_mode" where
  "tofu_enable enable max_enrollments now m =
     (let was_enabled = tm_enabled m; m1 = m\<lparr>tm_enabled := enable, tm_max_enrollments := max_enrollments\<rparr> in
      if enable then
        (if \<not> was_enabled then m1\<lparr>tm_enabled_at := Some now, tm_current_count := 0\<rparr> else m1)
      else m1\<lparr>tm_current_count := 0, tm_enabled_at := None, tm_max_age_secs := None\<rparr>)"

definition tofu_expiry_set :: "u64 option \<Rightarrow> int \<Rightarrow> tofu_mode \<Rightarrow> error + tofu_mode" where
  "tofu_expiry_set max_age_secs now m =
     (if \<not> tm_enabled m then
        Inl (InvalidArgument
          ''tofu mode is currently disabled; enable it first via daemon pin-client tofu --enable'')
      else Inr (m\<lparr>tm_enabled_at := (case tm_enabled_at m of None \<Rightarrow> Some now | Some t \<Rightarrow> Some t),
                  tm_max_age_secs := max_age_secs\<rparr>))"

section \<open>The window\<close>

text \<open>Expiry and admission exclude each other, and cover an enabled mode whose budget is left.\<close>

lemma expired_not_enrolled: "is_expired_at m now \<Longrightarrow> \<not> should_enroll_at m now"
  by (auto simp: is_expired_at_def should_enroll_at_def Let_def should_enroll_def split: if_splits option.splits)

lemma open_or_expired: "should_enroll m \<Longrightarrow> should_enroll_at m now \<or> is_expired_at m now"
  by (auto simp: is_expired_at_def should_enroll_at_def Let_def should_enroll_def split: if_splits option.splits)

text \<open>
  With both times in range the window is the documented one: open up to and including the last second of
  the age, also when the clock went backwards.
\<close>

lemma window_in_seconds:
  assumes "should_enroll m" "tm_enabled_at m = Some t0" "tm_max_age_secs m = Some age" "0 \<le> t0" "now < 2 ^ 63"
  shows "should_enroll_at m now \<longleftrightarrow> now - t0 \<le> int (unat age)"
proof -
  have word: "(word_of_int e :: u64) \<le> age \<longleftrightarrow> e \<le> int (unat age)" if "0 \<le> e" "e < 2 ^ 63" for e
    using that by (simp add: word_le_def uint_word_of_int take_bit_int_eq_self)
  show ?thesis
  proof (cases "now < t0")
    case True
    then have "saturating_sub_i64 now t0 < 0" "now - t0 \<le> int (unat age)"
      by (auto simp: saturating_sub_i64_def intro: order_trans [of _ 0])
    with assms(1-3) show ?thesis
      by (simp add: should_enroll_at_def)
  next
    case False
    with assms(4,5) have "saturating_sub_i64 now t0 = now - t0"
      by (simp add: saturating_sub_i64_def)
    moreover have "(word_of_int (now - t0) :: u64) \<le> age \<longleftrightarrow> now - t0 \<le> int (unat age)"
      using assms(4,5) False by (intro word) auto
    ultimately show ?thesis
      using assms(1-3) False by (simp add: should_enroll_at_def)
  qed
qed

end
