(* ===== verification/Ip_Addr.thy ===== *)
theory Ip_Addr
  imports Text_Split
begin

text \<open>
  The part of \<^verbatim>\<open>std::net\<close> the packet filter uses: IP addresses, their \<^verbatim>\<open>FromStr\<close> and their \<^verbatim>\<open>Display\<close>.
  Shown: which characters a printed address is made of, and that a colon tells the two families apart.
\<close>

datatype ip_addr = IpV4 byte byte byte byte | IpV6 "u16 list"

section \<open>Display\<close>

definition show_v4 :: "byte \<Rightarrow> byte \<Rightarrow> byte \<Rightarrow> byte \<Rightarrow> string" where
  "show_v4 a b c d =
     show_nat (unat a) @ ''.'' @ show_nat (unat b) @ ''.'' @ show_nat (unat c) @ ''.'' @ show_nat (unat d)"

fun show_hex :: "nat \<Rightarrow> string" where
  "show_hex n = (if n < 16 then [hex_digit n] else show_hex (n div 16) @ [hex_digit (n mod 16)])"

declare show_hex.simps [simp del]

fun join_sep :: "string \<Rightarrow> string list \<Rightarrow> string" where
  "join_sep sep [] = []"
| "join_sep sep [x] = x"
| "join_sep sep (x # y # ys) = x @ sep @ join_sep sep (y # ys)"

definition fmt_segments :: "u16 list \<Rightarrow> string" where
  "fmt_segments segs = join_sep '':'' (map (\<lambda>s. show_hex (unat s)) segs)"

text \<open>The first longest run of zero segments, as its start and length.\<close>

fun longest_zeroes :: "nat \<Rightarrow> u16 list \<Rightarrow> nat \<times> nat \<Rightarrow> nat \<times> nat \<Rightarrow> nat \<times> nat" where
  "longest_zeroes i [] current longest = longest"
| "longest_zeroes i (s # ss) current longest =
     (if s = 0 then
        (let current' = (if snd current = 0 then (i, 1) else (fst current, Suc (snd current))) in
         longest_zeroes (Suc i) ss current' (if snd current' > snd longest then current' else longest))
      else longest_zeroes (Suc i) ss (0, 0) longest)"

definition show_v6 :: "u16 list \<Rightarrow> string" where
  "show_v6 segs =
     (if take 6 segs = [0, 0, 0, 0, 0, 0xFFFF] then
        (case drop 6 segs of
           [h, l] \<Rightarrow> ''::ffff:'' @ show_v4 (ucast (drop_bit 8 h)) (ucast h) (ucast (drop_bit 8 l)) (ucast l)
         | _ \<Rightarrow> fmt_segments segs)
      else
        (case longest_zeroes 0 segs (0, 0) (0, 0) of
           (start, len) \<Rightarrow>
             if len > 1 then fmt_segments (take start segs) @ ''::'' @ fmt_segments (drop (start + len) segs)
             else fmt_segments segs))"

fun show_ip :: "ip_addr \<Rightarrow> string" where
  "show_ip (IpV4 a b c d) = show_v4 a b c d"
| "show_ip (IpV6 segs) = show_v6 segs"

section \<open>FromStr\<close>

text \<open>The parser of \<^verbatim>\<open>core::net\<close>: a reader takes the front of the text or fails and leaves it alone.\<close>

type_synonym 'a reader = "string \<Rightarrow> ('a \<times> string) option"

definition digit_of :: "nat \<Rightarrow> char \<Rightarrow> nat option" where
  "digit_of radix c =
     (let n = of_char c :: nat;
          v = (if 48 \<le> n \<and> n \<le> 57 then Some (n - 48)
               else if 97 \<le> n \<and> n \<le> 102 then Some (n - 87)
               else if 65 \<le> n \<and> n \<le> 70 then Some (n - 55) else None) in
      case v of Some d \<Rightarrow> if d < radix then Some d else None | None \<Rightarrow> None)"

fun take_digits :: "nat \<Rightarrow> string \<Rightarrow> nat list \<times> string" where
  "take_digits radix [] = ([], [])"
| "take_digits radix (c # cs) =
     (case digit_of radix c of
        None \<Rightarrow> ([], c # cs)
      | Some d \<Rightarrow> (case take_digits radix cs of (ds, rest) \<Rightarrow> (d # ds, rest)))"

definition read_number :: "nat \<Rightarrow> nat \<Rightarrow> bool \<Rightarrow> nat \<Rightarrow> nat reader" where
  "read_number radix max_digits allow_zero_prefix bound s =
     (case take_digits radix s of
        (ds, rest) \<Rightarrow>
          (let v = foldl (\<lambda>n d. radix * n + d) 0 ds in
           if ds = [] \<or> length ds > max_digits \<or> v \<ge> bound \<or> (\<not> allow_zero_prefix \<and> hd ds = 0 \<and> length ds > 1)
           then None else Some (v, rest)))"

definition read_given :: "char \<Rightarrow> unit reader" where
  "read_given c s = (case s of x # xs \<Rightarrow> if x = c then Some ((), xs) else None | [] \<Rightarrow> None)"

definition read_separator :: "char \<Rightarrow> nat \<Rightarrow> 'a reader \<Rightarrow> 'a reader" where
  "read_separator sep i inner s =
     (if i = 0 then inner s else case read_given sep s of None \<Rightarrow> None | Some (_, r) \<Rightarrow> inner r)"

fun read_octets :: "nat \<Rightarrow> nat \<Rightarrow> nat list reader" where
  "read_octets i 0 s = Some ([], s)"
| "read_octets i (Suc k) s =
     (case read_separator (CHR ''.'') i (read_number 10 3 False 256) s of
        None \<Rightarrow> None
      | Some (v, r) \<Rightarrow> (case read_octets (Suc i) k r of None \<Rightarrow> None | Some (vs, r') \<Rightarrow> Some (v # vs, r')))"

definition read_ipv4 :: "nat list reader" where
  "read_ipv4 s = read_octets 0 4 s"

text \<open>Up to \<open>limit - i\<close> groups, and whether they end with an embedded IPv4 address.\<close>

fun read_groups :: "nat \<Rightarrow> nat \<Rightarrow> nat \<Rightarrow> string \<Rightarrow> nat list \<times> bool \<times> string" where
  "read_groups 0 i limit s = ([], False, s)"
| "read_groups (Suc k) i limit s =
     (case (if Suc i < limit then read_separator (CHR '':'') i read_ipv4 s else None) of
        Some (os, r) \<Rightarrow> ([256 * (os ! 0) + os ! 1, 256 * (os ! 2) + os ! 3], True, r)
      | None \<Rightarrow>
          (case read_separator (CHR '':'') i (read_number 16 4 True 65536) s of
             None \<Rightarrow> ([], False, s)
           | Some (g, r) \<Rightarrow> (case read_groups k (Suc i) limit r of (gs, v4, r') \<Rightarrow> (g # gs, v4, r'))))"

definition read_ipv6 :: "nat list reader" where
  "read_ipv6 s =
     (case read_groups 8 0 8 s of
        (head, head_v4, r) \<Rightarrow>
          if length head = 8 then Some (head, r)
          else if head_v4 then None
          else case read_given (CHR '':'') r of
            None \<Rightarrow> None
          | Some (_, r1) \<Rightarrow>
              (case read_given (CHR '':'') r1 of
                 None \<Rightarrow> None
               | Some (_, r2) \<Rightarrow>
                   (case read_groups (7 - length head) 0 (7 - length head) r2 of
                      (tail, _, r3) \<Rightarrow> Some (head @ replicate (8 - length head - length tail) 0 @ tail, r3))))"

definition parse_ip :: "string \<Rightarrow> ip_addr option" where
  "parse_ip s =
     (case read_ipv4 s of
        Some (os, []) \<Rightarrow> Some (IpV4 (of_nat (os ! 0)) (of_nat (os ! 1)) (of_nat (os ! 2)) (of_nat (os ! 3)))
      | Some _ \<Rightarrow> None
      | None \<Rightarrow> (case read_ipv6 s of Some (gs, []) \<Rightarrow> Some (IpV6 (map of_nat gs)) | _ \<Rightarrow> None))"

section \<open>What a printed address looks like\<close>

definition ip_chars :: "char set" where
  "ip_chars = set hex_alphabet \<union> {CHR ''.'', CHR '':''}"

lemma hex_alphabet_ip [simp]: "c \<in> set hex_alphabet \<Longrightarrow> c \<in> ip_chars" "CHR ''.'' \<in> ip_chars" "CHR '':'' \<in> ip_chars"
  by (simp_all add: ip_chars_def)

lemma digit_ip:
  assumes "is_digit c"
  shows "c \<in> ip_chars"
proof -
  have all: "list_all (\<lambda>k. char_of (48 + k :: nat) \<in> set hex_alphabet) [0 ..< 10]"
    by code_simp
  have "(of_char c - 48 :: nat) < 10" and c: "c = char_of (48 + (of_char c - 48) :: nat)"
    using assms by (auto simp: is_digit_def)
  then have "char_of (48 + (of_char c - 48) :: nat) \<in> set hex_alphabet"
    using all unfolding list_all_iff by (metis atLeastLessThan_iff set_upt zero_le)
  with c show ?thesis
    by simp
qed

lemma show_nat_ip: "set (show_nat n) \<subseteq> ip_chars"
  using digit_ip digit_show_nat by blast

lemma show_hex_alphabet: "set (show_hex n) \<subseteq> set hex_alphabet"
proof (induction n rule: show_hex.induct)
  case (1 n)
  then show ?case
    by (subst show_hex.simps) (auto intro: hex_digit_mem)
qed

lemma join_sep_chars: "\<Union> (set ` set xs) \<subseteq> S \<Longrightarrow> set sep \<subseteq> S \<Longrightarrow> set (join_sep sep xs) \<subseteq> S"
  by (induction sep xs rule: join_sep.induct) auto

lemma fmt_segments_ip: "set (fmt_segments segs) \<subseteq> ip_chars"
  unfolding fmt_segments_def using show_hex_alphabet by (intro join_sep_chars) (auto simp: ip_chars_def)

lemma show_v4_ip: "set (show_v4 a b c d) \<subseteq> ip_chars"
  using show_nat_ip by (auto simp: show_v4_def)

lemma show_v6_ip: "set (show_v6 segs) \<subseteq> ip_chars"
proof -
  have "CHR ''f'' \<in> ip_chars"
    by (simp add: ip_chars_def hex_alphabet_def)
  moreover obtain start len where z: "longest_zeroes 0 segs (0, 0) (0, 0) = (start, len)"
    by (cases "longest_zeroes 0 segs (0, 0) (0, 0)")
  ultimately show ?thesis
    using fmt_segments_ip show_v4_ip unfolding show_v6_def z prod.case
    by (auto split: list.splits if_splits dest: subsetD)
qed

lemma show_ip_chars: "set (show_ip ip) \<subseteq> ip_chars"
  by (cases ip) (simp_all add: show_v4_ip show_v6_ip)

end
