(* ===== verification/Text_Lines.thy ===== *)
theory Text_Lines
  imports Text_Split
begin

text \<open>
  Splitting a text at every occurrence of a character: the equations of \<^verbatim>\<open>str::split\<close> on joined parts, and the
  labels of a suffix.
\<close>

lemma split_once_Some:
  assumes "split_once c s = Some (a, b)"
  shows "s = a @ c # b \<and> c \<notin> set a"
proof -
  have "c \<in> set s"
    using assms split_once_none [of c s] by (cases "c \<in> set s") auto
  then obtain x y where "s = x @ c # y" "c \<notin> set x"
    by (metis split_list_first)
  with assms show ?thesis
    by simp
qed

lemma splitn_stable:
  "length (filter (\<lambda>x. x = c) s) < n \<Longrightarrow> length (filter (\<lambda>x. x = c) s) < m \<Longrightarrow> splitn n c s = splitn m c s"
proof (induction n arbitrary: m s)
  case (Suc n)
  obtain m' where m: "m = Suc m'"
    using Suc.prems(2) by (cases m) auto
  show ?case
  proof (cases "split_once c s")
    case None
    then show ?thesis
      by (simp add: m)
  next
    case (Some ab)
    then obtain a b where ab: "split_once c s = Some (a, b)"
      by (cases ab) simp
    with split_once_Some have "s = a @ c # b" "c \<notin> set a"
      by blast+
    moreover from this have "filter (\<lambda>x. x = c) a = []"
      by (auto simp: filter_empty_conv)
    ultimately have "filter (\<lambda>x. x = c) s = c # filter (\<lambda>x. x = c) b"
      by simp
    with Suc.prems m have "splitn n c b = splitn m' c b" "n \<noteq> 0" "m' \<noteq> 0"
      by (auto intro!: Suc.IH)
    with ab m show ?thesis
      by simp
  qed
qed simp

lemma split_char_plain [simp]: "c \<notin> set s \<Longrightarrow> split_char c s = [s]"
  by (simp add: split_char_def)

lemma split_char_append [simp]:
  assumes "c \<notin> set a"
  shows "split_char c (a @ c # b) = a # split_char c b"
proof -
  have "length (filter (\<lambda>x. x = c) b) \<le> length b"
    by (rule length_filter_le)
  then have "splitn (Suc (length a + length b)) c b = splitn (Suc (length b)) c b"
    by (intro splitn_stable) linarith+
  with assms show ?thesis
    by (simp add: split_char_def)
qed

lemma split_char_cons [simp]: "split_char c (c # b) = [] # split_char c b"
  using split_char_append [of c "[]" b] by simp

lemma split_char_lines:
  assumes "\<forall>l \<in> set ls. c \<notin> set l"
  shows "split_char c (concat (map (\<lambda>l. l @ [c]) ls) @ s) = ls @ split_char c s"
  using assms by (induction ls) auto

lemma split_char_nonempty [simp]: "split_char c s \<noteq> []"
  by (simp add: split_char_def split: option.split)

lemma split_char_join: "split_char c (a @ c # b) = split_char c a @ split_char c b"
proof (induction "length a" arbitrary: a rule: less_induct)
  case less
  show ?case
  proof (cases "c \<in> set a")
    case True
    then obtain x y where a: "a = x @ c # y" and x: "c \<notin> set x"
      by (metis split_list_first)
    with less [of y] show ?thesis
      by simp
  qed simp
qed

lemma split_char_parts: "\<forall>p \<in> set (split_char c s). c \<notin> set p"
proof (induction "length s" arbitrary: s rule: less_induct)
  case less
  show ?case
  proof (cases "c \<in> set s")
    case True
    then obtain x y where s: "s = x @ c # y" and x: "c \<notin> set x"
      by (metis split_list_first)
    with less [of y] show ?thesis
      by simp
  qed simp
qed

end
