(* ===== verification/Nft_Rules.thy ===== *)
theory Nft_Rules
  imports Ip_Addr Text_Lines Podman
begin

text \<open>
  The privileged packet-filter helper (\<^verbatim>\<open>linpodx-netfilter\<close>: \<^verbatim>\<open>resolver.rs\<close>, \<^verbatim>\<open>applier.rs\<close>, \<^verbatim>\<open>wire.rs\<close>,
  \<^verbatim>\<open>bin/helper.rs\<close>): resolving the addresses of an allowlist, the script it feeds to \<^verbatim>\<open>nft\<close>, and the
  connection handler. DNS, the \<^verbatim>\<open>nsenter\<close> process and serde are parameters. Shown: the lines of the script,
  that no allowlisted name can add to them, that an address with a slash can, and who is answered.
\<close>

section \<open>Errors and messages\<close>

datatype netfilter_error =
  NotImplementedNf string
| IoNf string
| JsonNf string
| HelperUnavailable string
| PermissionDeniedNf u32
| NftInvocation string
| Namespace string
| DnsResolution string string
| HelperRejected string
| MalformedResponse string

fun netfilter_error_display :: "netfilter_error \<Rightarrow> string" where
  "netfilter_error_display (NotImplementedNf s) = ''not yet implemented (Stage 2-A): '' @ s"
| "netfilter_error_display (IoNf s) = ''io error: '' @ s"
| "netfilter_error_display (JsonNf s) = ''json error: '' @ s"
| "netfilter_error_display (HelperUnavailable s) = ''helper unavailable: '' @ s"
| "netfilter_error_display (PermissionDeniedNf uid) = ''permission denied: helper rejected peer (uid '' @ show_u32 uid @ '')''"
| "netfilter_error_display (NftInvocation s) = ''nft invocation failed: '' @ s"
| "netfilter_error_display (Namespace s) = ''namespace error: '' @ s"
| "netfilter_error_display (DnsResolution a s) = ''dns resolution failed for '' @ a @ '': '' @ s"
| "netfilter_error_display (HelperRejected s) = ''helper returned error: '' @ s"
| "netfilter_error_display (MalformedResponse s) = ''malformed helper response: '' @ s"

datatype helper_request = ApplyReq u32 "egress_rule list" | ClearReq u32 | StatusReq | PingReq

datatype helper_response = HelperOk nat | HelperErr string

definition HELPER_PROTOCOL_VERSION :: nat where
  "HELPER_PROTOCOL_VERSION = 1"

section \<open>Parameters\<close>

text \<open>The end of the \<^verbatim>\<open>nsenter\<close> process: how far it got, and its exit status as printed with its stderr.\<close>

datatype nft_end = NftNoSpawn string | NftNoWrite string | NftNoWait string | NftExit bool string "byte list"

record 'n nf_env =
  nf_lookup :: "string \<Rightarrow> 'n \<Rightarrow> (string + ip_addr list) \<times> 'n"
  nf_nft :: "string list \<Rightarrow> string \<Rightarrow> 'n \<Rightarrow> nft_end \<times> 'n"
  nf_parse_request :: "string \<Rightarrow> string + helper_request"
  nf_print_response :: "helper_response \<Rightarrow> string + string"

section \<open>Resolving addresses (resolver.rs)\<close>

datatype resolved_addr = Cidr string | Ips "ip_addr list"

datatype addr_family = V4 | V6

fun as_nft_strings :: "resolved_addr \<Rightarrow> string list" where
  "as_nft_strings (Cidr s) = [s]"
| "as_nft_strings (Ips ips) = map show_ip ips"

fun first_family :: "resolved_addr \<Rightarrow> addr_family" where
  "first_family (Cidr s) = (if CHR '':'' \<in> set s then V6 else V4)"
| "first_family (Ips ips) = (case ips of IpV6 _ # _ \<Rightarrow> V6 | _ \<Rightarrow> V4)"

definition resolve_addr :: "'n nf_env \<Rightarrow> string \<Rightarrow> ('n, netfilter_error, resolved_addr) act" where
  "resolve_addr env addr n =
     (let trimmed = trim addr in
      if trimmed = [] then (Inl (DnsResolution addr ''empty addr''), n)
      else if CHR ''/'' \<in> set trimmed then (Inr (Cidr trimmed), n)
      else case parse_ip trimmed of
        Some ip \<Rightarrow> (Inr (Ips [ip]), n)
      | None \<Rightarrow>
          (case nf_lookup env trimmed n of
             (Inl e, n') \<Rightarrow> (Inl (DnsResolution addr e), n')
           | (Inr ips, n') \<Rightarrow>
               if ips = [] then (Inl (DnsResolution addr ''no A/AAAA records returned''), n') else (Inr (Ips ips), n')))"

section \<open>The script (applier.rs)\<close>

definition TABLE_NAME :: string where
  "TABLE_NAME = ''linpodx_egress''"

record resolved_rule =
  rr_proto :: egress_proto
  rr_addr :: resolved_addr
  rr_port :: "u16 option"

definition from_parts :: "egress_rule \<Rightarrow> resolved_addr \<Rightarrow> resolved_rule" where
  "from_parts rule addr = \<lparr>rr_proto = er_proto rule, rr_addr = addr, rr_port = er_port rule\<rparr>"

definition daddr_keyword :: "resolved_addr \<Rightarrow> string" where
  "daddr_keyword addr = (case first_family addr of V4 \<Rightarrow> ''ip daddr'' | V6 \<Rightarrow> ''ip6 daddr'')"

definition port_clause :: "string \<Rightarrow> u16 \<Rightarrow> string" where
  "port_clause proto port = '' '' @ proto @ '' dport '' @ show_nat (unat port)"

definition match_clauses :: "egress_proto \<Rightarrow> u16 option \<Rightarrow> string list" where
  "match_clauses proto port =
     (case (proto, port) of
        (ProtoAny, None) \<Rightarrow> [[]]
      | (ProtoAny, Some p) \<Rightarrow> [port_clause ''tcp'' p, port_clause ''udp'' p]
      | (ProtoTcp, None) \<Rightarrow> ['' tcp'']
      | (ProtoTcp, Some p) \<Rightarrow> [port_clause ''tcp'' p]
      | (ProtoUdp, None) \<Rightarrow> ['' udp'']
      | (ProtoUdp, Some p) \<Rightarrow> [port_clause ''udp'' p])"

definition render_rule_lines :: "resolved_rule \<Rightarrow> string list" where
  "render_rule_lines rule =
     concat (map (\<lambda>addr. map (\<lambda>m. daddr_keyword (rr_addr rule) @ '' '' @ addr @ m @ '' accept'')
       (match_clauses (rr_proto rule) (rr_port rule))) (as_nft_strings (rr_addr rule)))"

definition NL :: string where "NL = [CHR 0x0A]"
definition TAB :: string where "TAB = [CHR 0x09]"

definition ruleset_head :: "string list" where
  "ruleset_head =
     [''table inet '' @ TABLE_NAME @ '' {}'', ''delete table inet '' @ TABLE_NAME, ''table inet '' @ TABLE_NAME @ '' {'',
      TAB @ ''chain output {'', TAB @ TAB @ ''type filter hook output priority 0; policy drop;'',
      TAB @ TAB @ ''meta oif '' @ [CHR 0x22] @ ''lo'' @ [CHR 0x22] @ '' accept'', TAB @ TAB @ ''ct state established,related accept'']"

definition ruleset_foot :: "string list" where
  "ruleset_foot =
     [TAB @ ''}'', TAB @ ''chain forward {'', TAB @ TAB @ ''type filter hook forward priority 0; policy drop;'', TAB @ ''}'', ''}'']"

definition build_ruleset :: "resolved_rule list \<Rightarrow> string" where
  "build_ruleset rules =
     concat (map (\<lambda>l. l @ NL) ruleset_head) @
     concat (map (\<lambda>rule. concat (map (\<lambda>line. TAB @ TAB @ line @ NL) (render_rule_lines rule))) rules) @
     concat (map (\<lambda>l. l @ NL) ruleset_foot)"

definition apply_in_namespace :: "'n nf_env \<Rightarrow> u32 \<Rightarrow> string \<Rightarrow> ('n, netfilter_error, unit) act" where
  "apply_in_namespace env pid ruleset n =
     (case nf_nft env [''nsenter'', ''-t'', show_u32 pid, ''-n'', ''nft'', ''-f'', ''-''] ruleset n of
        (NftNoSpawn e, n') \<Rightarrow> (Inl (NftInvocation (''spawn nsenter/nft: '' @ e)), n')
      | (NftNoWrite e, n') \<Rightarrow> (Inl (NftInvocation (''write ruleset: '' @ e)), n')
      | (NftNoWait e, n') \<Rightarrow> (Inl (NftInvocation (''wait nsenter/nft: '' @ e)), n')
      | (NftExit ok status stderr, n') \<Rightarrow>
          if \<not> ok then (Inl (NftInvocation (''nft exited with status '' @ status @ '': '' @ lossy stderr)), n') else (Inr (), n'))"

definition clear_in_namespace :: "'n nf_env \<Rightarrow> u32 \<Rightarrow> ('n, netfilter_error, unit) act" where
  "clear_in_namespace env pid =
     apply_in_namespace env pid (''table inet '' @ TABLE_NAME @ '' {}'' @ NL @ ''delete table inet '' @ TABLE_NAME @ NL)"

section \<open>The helper (bin/helper.rs)\<close>

fun resolve_rules :: "'n nf_env \<Rightarrow> egress_rule list \<Rightarrow> 'n \<Rightarrow> (resolved_rule list \<times> nat) \<times> 'n" where
  "resolve_rules env [] n = (([], 0), n)"
| "resolve_rules env (rule # rules) n =
     (case resolve_addr env (er_addr rule) n of
        (Inl _, n') \<Rightarrow> (case resolve_rules env rules n' of ((rs, skipped), n'') \<Rightarrow> ((rs, Suc skipped), n''))
      | (Inr addr, n') \<Rightarrow>
          (case resolve_rules env rules n' of
             ((rs, skipped), n'') \<Rightarrow>
               if addr = Ips [] then ((rs, Suc skipped), n'') else ((from_parts rule addr # rs, skipped), n'')))"

definition helper_apply :: "'n nf_env \<Rightarrow> u32 \<Rightarrow> egress_rule list \<Rightarrow> ('n, netfilter_error, nat) act" where
  "helper_apply env container_pid rules n =
     (case resolve_rules env rules n of
        ((resolved, skipped), n') \<Rightarrow>
          bindE (apply_in_namespace env container_pid (build_ruleset resolved)) (\<lambda>_. ret (length resolved)) n')"

fun dispatch_helper :: "'n nf_env \<Rightarrow> helper_request \<Rightarrow> 'n \<Rightarrow> helper_response \<times> 'n" where
  "dispatch_helper env PingReq n = (HelperOk 0, n)"
| "dispatch_helper env StatusReq n = (HelperOk HELPER_PROTOCOL_VERSION, n)"
| "dispatch_helper env (ClearReq pid) n =
     (case clear_in_namespace env pid n of
        (Inr _, n') \<Rightarrow> (HelperOk 0, n')
      | (Inl e, n') \<Rightarrow> (HelperErr (''clear failed: '' @ netfilter_error_display e), n'))"
| "dispatch_helper env (ApplyReq pid rules) n =
     (case helper_apply env pid rules n of
        (Inr applied, n') \<Rightarrow> (HelperOk applied, n')
      | (Inl e, n') \<Rightarrow> (HelperErr (''apply failed: '' @ netfilter_error_display e), n'))"

text \<open>A connection: the peer's credentials, the lines that arrive, and the fate of each write.\<close>

record connection =
  cn_peer_uid :: "string + u32"
  cn_lines :: "(string + string) list"
  cn_write_err :: "string list \<Rightarrow> string option"

fun serve_lines ::
  "'n nf_env \<Rightarrow> (string list \<Rightarrow> string option) \<Rightarrow> (string + string) list \<Rightarrow> string list \<Rightarrow> ('n, netfilter_error, string list) act" where
  "serve_lines env werr [] written n = (Inr written, n)"
| "serve_lines env werr (Inl e # ls) written n = (Inl (IoNf e), n)"
| "serve_lines env werr (Inr line # ls) written n =
     (if trim line = [] then serve_lines env werr ls written n
      else
        case (case nf_parse_request env line of
                Inr req \<Rightarrow> dispatch_helper env req n
              | Inl e \<Rightarrow> (HelperErr (''malformed request: '' @ e), n)) of
          (response, n') \<Rightarrow>
            (case nf_print_response env response of
               Inl e \<Rightarrow> (Inl (JsonNf e), n')
             | Inr payload \<Rightarrow>
                 (case werr written of
                    Some e \<Rightarrow> (Inl (IoNf e), n')
                  | None \<Rightarrow> serve_lines env werr ls (written @ [payload @ NL]) n')))"

definition handle_connection :: "'n nf_env \<Rightarrow> u32 \<Rightarrow> connection \<Rightarrow> ('n, netfilter_error, string list) act" where
  "handle_connection env allowed_uid conn n =
     (case cn_peer_uid conn of
        Inl e \<Rightarrow> (Inl (IoNf e), n)
      | Inr uid \<Rightarrow>
          if uid \<noteq> allowed_uid then (Inl (PermissionDeniedNf uid), n)
          else serve_lines env (cn_write_err conn) (cn_lines conn) [] n)"

section \<open>The lines of the script\<close>

text \<open>An address that stays on its line: a printed address always does, a range only by its own text.\<close>

fun one_line :: "resolved_addr \<Rightarrow> bool" where
  "one_line (Cidr s) = (CHR 0x0A \<notin> set s)"
| "one_line (Ips ips) = True"

lemma newline_not_ip: "CHR 0x0A \<notin> set (show_ip ip)"
proof -
  have "CHR 0x0A \<notin> ip_chars"
    by (simp add: ip_chars_def hex_alphabet_def)
  then show ?thesis
    using show_ip_chars by blast
qed

lemma match_clauses_one_line: "m \<in> set (match_clauses proto port) \<Longrightarrow> CHR 0x0A \<notin> set m"
proof -
  have "CHR 0x0A \<notin> set (show_nat n)" for n
    by (rule nondigit_show_nat) (simp add: is_digit_def)
  then show "m \<in> set (match_clauses proto port) \<Longrightarrow> CHR 0x0A \<notin> set m"
    by (cases proto; cases port) (auto simp: match_clauses_def port_clause_def)
qed

lemma render_one_line:
  assumes "one_line (rr_addr rule)" and "l \<in> set (render_rule_lines rule)"
  shows "CHR 0x0A \<notin> set l"
proof -
  have "CHR 0x0A \<notin> set a" if "a \<in> set (as_nft_strings (rr_addr rule))" for a
    using assms(1) that newline_not_ip by (cases "rr_addr rule") auto
  moreover have "CHR 0x0A \<notin> set (daddr_keyword (rr_addr rule))"
    by (simp add: daddr_keyword_def split: addr_family.split)
  ultimately show ?thesis
    using assms(2) match_clauses_one_line by (auto simp: render_rule_lines_def)
qed

definition rule_lines :: "resolved_rule list \<Rightarrow> string list" where
  "rule_lines rules = concat (map render_rule_lines rules)"

lemma build_ruleset_concat:
  "build_ruleset rules =
     concat (map (\<lambda>l. l @ [CHR 0x0A]) (ruleset_head @ map (\<lambda>l. TAB @ TAB @ l) (rule_lines rules) @ ruleset_foot))"
proof -
  have "concat (map (\<lambda>rule. concat (map (\<lambda>line. TAB @ TAB @ line @ NL) (render_rule_lines rule))) rules) =
      concat (map (\<lambda>l. l @ [CHR 0x0A]) (map (\<lambda>l. TAB @ TAB @ l) (rule_lines rules)))"
    by (induction rules) (simp_all add: rule_lines_def NL_def o_def)
  then show ?thesis
    by (simp add: build_ruleset_def NL_def o_def)
qed

lemma ruleset_lines:
  assumes "list_all (\<lambda>rule. one_line (rr_addr rule)) rules"
  shows "split_char (CHR 0x0A) (build_ruleset rules) =
    ruleset_head @ map (\<lambda>l. TAB @ TAB @ l) (rule_lines rules) @ ruleset_foot @ [[]]"
proof -
  have "\<forall>l \<in> set (ruleset_head @ map (\<lambda>l. TAB @ TAB @ l) (rule_lines rules) @ ruleset_foot). CHR 0x0A \<notin> set l"
    using assms render_one_line
    by (auto simp: ruleset_head_def ruleset_foot_def TAB_def TABLE_NAME_def rule_lines_def list_all_iff)
  from split_char_lines [OF this, of "[]"] show ?thesis
    by (simp add: build_ruleset_concat)
qed

text \<open>Every rule is kept or counted, and what is kept is the rule with its own port and protocol.\<close>

lemma resolve_rules_sound:
  "case resolve_rules env rules n of
     ((rs, skipped), n') \<Rightarrow>
       length rs + skipped = length rules \<and>
       (\<forall>r \<in> set rs. \<exists>rule \<in> set rules. \<exists>addr m m'. resolve_addr env (er_addr rule) m = (Inr addr, m') \<and> r = from_parts rule addr)"
proof (induction rules arbitrary: n)
  case (Cons rule rules)
  obtain a n1 where a: "resolve_addr env (er_addr rule) n = (a, n1)"
    by (cases "resolve_addr env (er_addr rule) n")
  obtain rs skipped n2 where rest: "resolve_rules env rules n1 = ((rs, skipped), n2)"
    by (metis surj_pair)
  have IH: "length rs + skipped = length rules"
    "\<forall>r \<in> set rs. \<exists>rule \<in> set rules. \<exists>addr m m'. resolve_addr env (er_addr rule) m = (Inr addr, m') \<and> r = from_parts rule addr"
    using Cons.IH [of n1] by (simp_all add: rest)
  show ?case
  proof (cases a)
    case (Inl e)
    with IH show ?thesis
      by (simp add: a rest)
  next
    case (Inr addr)
    with IH a show ?thesis
      by (auto simp: rest)
  qed
qed simp

lemma set_strip_tokens: "set (strip_tokens toks s) \<subseteq> set s"
proof (induction toks s rule: strip_tokens.induct)
  case (1 toks s)
  then show ?case
    by (subst strip_tokens.simps) (auto split: option.split dest: in_set_dropD)
qed

lemma set_trim: "set (trim s) \<subseteq> set s"
proof -
  have "set (trim_end t) \<subseteq> set t" for t
    using set_strip_tokens [of "map rev ws_chars" "rev t"] by (simp add: trim_end_def)
  then show ?thesis
    using set_strip_tokens [of ws_chars s] unfolding trim_def trim_start_def by blast
qed

lemma strip_tokens_id: "(\<And>w. w \<in> set toks \<Longrightarrow> w \<noteq> [] \<Longrightarrow> take (length w) s \<noteq> w) \<Longrightarrow> strip_tokens toks s = s"
  by (subst strip_tokens.simps) (auto split: option.split simp: find_Some_iff)

lemma trim_id:
  assumes "s = c # t" "s = u @ [d]" and "c \<notin> set (map hd ws_chars)" "d \<notin> set (map last ws_chars)"
  shows "trim s = s"
proof -
  have front: "strip_tokens ws_chars s = s"
  proof (rule strip_tokens_id)
    fix w
    assume w: "w \<in> set ws_chars" "w \<noteq> []"
    then have "hd w \<in> set (map hd ws_chars)"
      by simp
    with assms(1,3) w(2) show "take (length w) s \<noteq> w"
      by (cases w) auto
  qed
  have "strip_tokens (map rev ws_chars) (rev s) = rev s"
  proof (rule strip_tokens_id)
    fix w
    assume w: "w \<in> set (map rev ws_chars)" "w \<noteq> []"
    then have "hd w \<in> set (map last ws_chars)"
      by (auto simp: hd_rev)
    with assms(2,4) w(2) show "take (length w) (rev s) \<noteq> w"
      by (cases w) auto
  qed
  with front show ?thesis
    by (simp add: trim_def trim_start_def trim_end_def)
qed

lemma resolve_one_line:
  assumes "resolve_addr env addr m = (Inr a, m')" and "CHR ''/'' \<in> set addr \<Longrightarrow> CHR 0x0A \<notin> set addr"
  shows "one_line a"
  using assms subsetD [OF set_trim [of addr]]
  by (auto simp: resolve_addr_def Let_def split: if_splits option.splits prod.splits sum.splits)


definition demo_nf_env :: "string list nf_env" where
  "demo_nf_env =
     \<lparr>nf_lookup = (\<lambda>name n. (Inr [IpV4 1 1 1 1, IpV6 [0x2606, 0x4700, 0, 0, 0, 0, 0, 0x1111]], n)),
      nf_nft = (\<lambda>args script n. (NftExit True ''exit status: 0'' [], n @ [script])),
      nf_parse_request = (\<lambda>_. Inl ''EOF''), nf_print_response = (\<lambda>_. Inr [])\<rparr>"

definition demo_rule :: "string \<Rightarrow> egress_rule" where
  "demo_rule addr = \<lparr>er_proto = ProtoTcp, er_addr = addr, er_port = Some 443, er_note = None\<rparr>"


lemma range_text_in_script: "\<exists>a b. build_ruleset [from_parts rule (Cidr addr)] = a @ addr @ b"
proof -
  obtain m ms where "match_clauses (er_proto rule) (er_port rule) = m # ms"
    by (cases "er_proto rule"; cases "er_port rule") (auto simp: match_clauses_def)
  then obtain ls where "render_rule_lines (from_parts rule (Cidr addr)) = (daddr_keyword (Cidr addr) @ '' '' @ addr @ m @ '' accept'') # ls"
    by (simp add: render_rule_lines_def from_parts_def)
  then have "build_ruleset [from_parts rule (Cidr addr)] =
      (concat (map (\<lambda>l. l @ NL) ruleset_head) @ TAB @ TAB @ daddr_keyword (Cidr addr) @ '' '') @ addr @
      (m @ '' accept'' @ NL @ concat (map (\<lambda>line. TAB @ TAB @ line @ NL) ls) @ concat (map (\<lambda>l. l @ NL) ruleset_foot))"
    by (simp add: build_ruleset_def)
  then show ?thesis
    by blast
qed

text \<open>
  C40. An address with a slash is copied into the script unchecked. For every text of one line there is an
  address that the resolver takes for a range and that makes this text a line of the script of its own.
\<close>

theorem range_text_injects_lines:
  assumes "CHR 0x0A \<notin> set line"
  shows "\<exists>addr. resolve_addr env addr n = (Inr (Cidr addr), n) \<and>
    line \<in> set (split_char (CHR 0x0A) (build_ruleset [from_parts (rule\<lparr>er_addr := addr\<rparr>) (Cidr addr)]))"
proof -
  let ?addr = "''0/0 accept'' @ CHR 0x0A # line @ CHR 0x0A # ''#''"
  have "trim ?addr = ?addr"
    by (rule trim_id [where c = "CHR ''0''" and d = "CHR ''#''"]) (auto simp: ws_chars_def)
  then have "resolve_addr env ?addr n = (Inr (Cidr ?addr), n)"
    by (simp add: resolve_addr_def Let_def)
  moreover have "line \<in> set (split_char (CHR 0x0A) (a @ ?addr @ b))" for a b
    using assms split_char_join [of "CHR 0x0A" "a @ ''0/0 accept''" "line @ CHR 0x0A # ''#'' @ b"] by simp
  moreover have "\<exists>a b. build_ruleset [from_parts (rule\<lparr>er_addr := ?addr\<rparr>) (Cidr ?addr)] = a @ ?addr @ b"
    by (rule range_text_in_script)
  ultimately show ?thesis
    by metis
qed

theorem range_text_injects_lines_witness:
  "\<exists>addr. ''flush ruleset'' \<in> set (split_char (CHR 0x0A) (build_ruleset [from_parts (demo_rule addr) (Cidr addr)]))"
proof -
  have "CHR 0x0A \<notin> set ''flush ruleset''"
    by simp
  from range_text_injects_lines [OF this, of demo_nf_env "[]" "demo_rule []"] show ?thesis
    by (auto simp: demo_rule_def)
qed

text \<open>
  A name with addresses of both families gets the keyword of its first address on every line, which \<^verbatim>\<open>nft\<close>
  refuses.
\<close>

lemma mixed_families_share_keyword:
  "render_rule_lines \<lparr>rr_proto = ProtoTcp, rr_addr = Ips [IpV4 a b c d, IpV6 segs], rr_port = Some p\<rparr> =
     [''ip daddr '' @ show_v4 a b c d @ port_clause ''tcp'' p @ '' accept'',
      ''ip daddr '' @ show_v6 segs @ port_clause ''tcp'' p @ '' accept'']"
  by (simp add: render_rule_lines_def match_clauses_def daddr_keyword_def)

text \<open>Only the daemon's user is served: from any other peer nothing is read.\<close>

lemma other_users_not_served:
  "cn_peer_uid conn \<noteq> Inr allowed_uid \<Longrightarrow> \<exists>e. handle_connection env allowed_uid conn n = (Inl e, n)"
  by (auto simp: handle_connection_def split: sum.splits)

end
