(* ===== verification/Egress.thy ===== *)
theory Egress
  imports Nft_Rules Audit_Sink_Contract "HOL-Library.Sublist"
begin

text \<open>
  Egress control of the daemon: the DNS filter (\<^verbatim>\<open>linpodx-runtime/src/network_filter.rs\<close>) and the client of the
  packet-filter helper (\<^verbatim>\<open>egress_enforcer.rs\<close>). The resolver, the socket and serde are parameters; the plugin
  registry is the one the audit sink uses. Shown: the allowlist matches whole labels, a query is answered
  only past the plugins and the allowlist, and a rule a plugin denies does not reach the packet filter.
\<close>

section \<open>The DNS filter (network\_filter.rs)\<close>

definition host_matches_allow :: "string \<Rightarrow> string \<Rightarrow> bool" where
  "host_matches_allow host allow =
     (if host = allow then True
      else if \<not> ends_with host allow then False
      else let cut = length host - length allow in cut > 0 \<and> host ! (cut - 1) = CHR ''.'')"

definition normal_host :: "string \<Rightarrow> string" where
  "normal_host s = to_ascii_lowercase (trim_end_matches (CHR ''.'') s)"

fun is_allowed :: "string \<Rightarrow> string list \<Rightarrow> bool" where
  "is_allowed host [] = False"
| "is_allowed host (raw # allowlist) =
     (let a = normal_host raw in
      if a = [] then is_allowed host allowlist
      else if host_matches_allow (normal_host host) a then True
      else is_allowed host allowlist)"

fun network_decision_debug :: "network_decision \<Rightarrow> string" where
  "network_decision_debug NAllow = ''Allow''"
| "network_decision_debug NAuditOnly = ''AuditOnly''"
| "network_decision_debug NDeny = ''Deny''"

text \<open>
  \<open>wired\<close>: whether the filter was given the plugin registry. \<open>join_ok\<close>: whether the blocking task joins.
\<close>

definition run_network_trace_chain ::
  "'w wasm_engine \<Rightarrow> bool \<Rightarrow> bool \<Rightarrow> string \<Rightarrow> string \<Rightarrow> u16 option \<Rightarrow> ('w sink_world, panic, network_decision) act" where
  "run_network_trace_chain eng wired join_ok kind host port s =
     (case (if wired then sw_plugins s else None) of
        None \<Rightarrow> (Inr NAllow, s)
      | Some reg \<Rightarrow>
          if \<not> join_ok then (Inr NAllow, s)
          else (case evaluate_network_trace eng \<lparr>nt_kind = kind, nt_host = host, nt_port = port\<rparr> reg of
             (d, reg') \<Rightarrow> (Inr d, s\<lparr>sw_plugins := Some reg'\<rparr>)))"

type_synonym 'w recorder =
  "audit_sink_kind \<Rightarrow> string option \<Rightarrow> string option \<Rightarrow> json \<Rightarrow> ('w sink_world, panic, unit) act"

definition record_opt :: "'w recorder option \<Rightarrow> 'w recorder" where
  "record_opt audit kind pn ci payload = (case audit of Some rec \<Rightarrow> rec kind pn ci payload | None \<Rightarrow> ret ())"

datatype response_code = NoError | NXDomain | ServFail | NotImp | FormErr

record 'r dns_message =
  dm_code :: response_code
  dm_answers :: "'r list"

record dns_request =
  dr_is_query :: bool
  dr_info :: "string + string"

record ('w, 'r) filter_handler =
  fh_allowlist :: "string list"
  fh_upstream :: "(string \<Rightarrow> string + 'r list) option"
  fh_wired :: bool
  fh_audit :: "'w recorder option"

definition no_records :: "response_code \<Rightarrow> 'r dns_message" where
  "no_records code = \<lparr>dm_code = code, dm_answers = []\<rparr>"

definition answer_query :: "('w, 'r) filter_handler \<Rightarrow> string \<Rightarrow> network_decision \<Rightarrow> 'r dns_message" where
  "answer_query fh host dec =
     (if dec = NDeny then no_records NXDomain
      else if \<not> is_allowed host (fh_allowlist fh) then no_records NXDomain
      else case fh_upstream fh of
        None \<Rightarrow> no_records ServFail
      | Some lookup \<Rightarrow>
          (case lookup host of Inl _ \<Rightarrow> no_records ServFail | Inr answers \<Rightarrow> \<lparr>dm_code = NoError, dm_answers = answers\<rparr>))"

definition handle_request ::
  "'w wasm_engine \<Rightarrow> bool \<Rightarrow> ('w, 'r) filter_handler \<Rightarrow> dns_request \<Rightarrow> ('w sink_world, panic, 'r dns_message) act" where
  "handle_request eng join_ok fh req =
     (if \<not> dr_is_query req then ret (no_records NotImp)
      else case dr_info req of
        Inl _ \<Rightarrow> ret (no_records FormErr)
      | Inr host \<Rightarrow>
          bindE (run_network_trace_chain eng (fh_wired fh) join_ok ''dns_query'' host None) (\<lambda>decision.
          bindE (record_opt (fh_audit fh) audit_sink_kind.PluginNetworkTraceCalled None None
                   (JObject [(''kind'', JString ''dns_query''), (''host'', JString host),
                             (''decision'', JString (network_decision_debug decision))])) (\<lambda>_.
            ret (answer_query fh host decision))))"

section \<open>The client of the helper (egress\_enforcer.rs)\<close>

fun rule_kind :: "egress_proto \<Rightarrow> string" where
  "rule_kind ProtoTcp = ''tcp_connect''"
| "rule_kind ProtoUdp = ''udp_send''"
| "rule_kind ProtoAny = ''any_connect''"

definition rule_payload :: "egress_rule \<Rightarrow> (string \<times> json) list" where
  "rule_payload rule =
     [(''kind'', JString (rule_kind (er_proto rule))), (''host'', JString (er_addr rule)),
      (''port'', json_opt (\<lambda>p. JInt (int (unat p))) (er_port rule))]"

fun apply_chain_decisions ::
  "nat \<Rightarrow> egress_rule list \<Rightarrow> network_decision list \<Rightarrow> u32 \<Rightarrow> 'w recorder option \<Rightarrow> ('w sink_world, panic, egress_rule list) act" where
  "apply_chain_decisions idx (rule # rules) (dec # decs) pid audit =
     bindE (record_opt audit audit_sink_kind.PluginNetworkTraceCalled None (Some (''pid:'' @ show_u32 pid))
              (JObject (rule_payload rule @ [(''decision'', JString (network_decision_debug dec))]))) (\<lambda>_.
     if dec = NDeny then
       bindE (record_opt audit audit_sink_kind.EgressDenyEnforced None (Some (''pid:'' @ show_u32 pid))
                (JObject (rule_payload rule @ [(''original_index'', JInt (int idx))]))) (\<lambda>_.
         apply_chain_decisions (Suc idx) rules decs pid audit)
     else
       bindE (apply_chain_decisions (Suc idx) rules decs pid audit) (\<lambda>kept. ret (rule # kept)))"
| "apply_chain_decisions idx _ _ pid audit = ret []"

fun chain_decisions ::
  "'w wasm_engine \<Rightarrow> (nat \<Rightarrow> bool) \<Rightarrow> nat \<Rightarrow> egress_rule list \<Rightarrow> ('w sink_world, panic, network_decision list) act" where
  "chain_decisions eng join_ok idx [] = ret []"
| "chain_decisions eng join_ok idx (rule # rules) =
     bindE (run_network_trace_chain eng True (join_ok idx) (rule_kind (er_proto rule)) (er_addr rule) (er_port rule)) (\<lambda>d.
     bindE (chain_decisions eng join_ok (Suc idx) rules) (\<lambda>ds. ret (d # ds)))"

definition filter_with_plugins ::
  "'w wasm_engine \<Rightarrow> (nat \<Rightarrow> bool) \<Rightarrow> bool \<Rightarrow> 'w recorder option \<Rightarrow> u32 \<Rightarrow> egress_rule list
     \<Rightarrow> ('w sink_world, panic, egress_rule list) act" where
  "filter_with_plugins eng join_ok wired audit pid rules =
     bindE (gets sw_plugins) (\<lambda>reg.
     if \<not> wired \<or> reg = None then ret rules
     else bindE (chain_decisions eng join_ok 0 rules) (\<lambda>decisions. apply_chain_decisions 0 rules decisions pid audit))"

datatype connect_end = Connected | NoConnect string | ConnectTimeout

datatype exchange_end = WriteFailed string | Closed | ReadFailed string | ResponseTimeout | Replied string

record 'n enforcer_env =
  ee_socket :: string
  ee_connect :: "'n \<Rightarrow> connect_end \<times> 'n"
  ee_exchange :: "string \<Rightarrow> 'n \<Rightarrow> exchange_end \<times> 'n"
  ee_print_request :: "helper_request \<Rightarrow> string + string"
  ee_parse_response :: "string \<Rightarrow> string + helper_response"

definition round_trip :: "'n enforcer_env \<Rightarrow> helper_request \<Rightarrow> ('n, netfilter_error, helper_response) act" where
  "round_trip ee req n =
     (case ee_connect ee n of
        (NoConnect e, n') \<Rightarrow> (Inl (HelperUnavailable (''connect '' @ ee_socket ee @ '': '' @ e)), n')
      | (ConnectTimeout, n') \<Rightarrow> (Inl (HelperUnavailable (''connect '' @ ee_socket ee @ '' timed out'')), n')
      | (Connected, n') \<Rightarrow>
          (case ee_print_request ee req of
             Inl e \<Rightarrow> (Inl (JsonNf e), n')
           | Inr payload \<Rightarrow>
               (case ee_exchange ee (payload @ NL) n' of
                  (WriteFailed e, n'') \<Rightarrow> (Inl (IoNf e), n'')
                | (Closed, n'') \<Rightarrow> (Inl (MalformedResponse ''helper closed connection before responding''), n'')
                | (ReadFailed e, n'') \<Rightarrow> (Inl (IoNf e), n'')
                | (ResponseTimeout, n'') \<Rightarrow> (Inl (HelperUnavailable ''response timed out''), n'')
                | (Replied line, n'') \<Rightarrow>
                    (case ee_parse_response ee line of
                       Inl e \<Rightarrow> (Inl (MalformedResponse (e @ '': '' @ line)), n'')
                     | Inr resp \<Rightarrow> (Inr resp, n'')))))"

record ('w, 'n) egress_world =
  ew_sink :: "'w sink_world"
  ew_net :: 'n

text \<open>A panic of an audit record ends the task; otherwise the outcome is a result of the netfilter crate.\<close>

definition enforcer_apply ::
  "'w wasm_engine \<Rightarrow> (nat \<Rightarrow> bool) \<Rightarrow> bool \<Rightarrow> 'w recorder option \<Rightarrow> 'n enforcer_env \<Rightarrow> u32 \<Rightarrow> egress_rule list
     \<Rightarrow> (('w, 'n) egress_world, panic, netfilter_error + bool \<times> nat) act" where
  "enforcer_apply eng join_ok wired audit ee pid rules =
     bindE (zoom ew_sink (\<lambda>x s. s\<lparr>ew_sink := x\<rparr>) (filter_with_plugins eng join_ok wired audit pid rules)) (\<lambda>kept.
     bindE (attempt (zoom ew_net (\<lambda>x s. s\<lparr>ew_net := x\<rparr>) (round_trip ee (ApplyReq pid kept)))) (\<lambda>r.
       ret (case r of
              Inr (HelperOk applied) \<Rightarrow> Inr (True, applied)
            | Inr (HelperErr message) \<Rightarrow> Inl (HelperRejected message)
            | Inl (HelperUnavailable _) \<Rightarrow> Inr (False, 0)
            | Inl e \<Rightarrow> Inl e)))"

definition enforcer_clear :: "'n enforcer_env \<Rightarrow> u32 \<Rightarrow> ('n, netfilter_error, bool) act" where
  "enforcer_clear ee pid n =
     (case round_trip ee (ClearReq pid) n of
        (Inr (HelperOk _), n') \<Rightarrow> (Inr True, n')
      | (Inr (HelperErr message), n') \<Rightarrow> (Inl (HelperRejected message), n')
      | (Inl (HelperUnavailable _), n') \<Rightarrow> (Inr False, n')
      | (Inl e, n') \<Rightarrow> (Inl e, n'))"

definition is_helper_available :: "'n enforcer_env \<Rightarrow> 'n \<Rightarrow> bool \<times> 'n" where
  "is_helper_available ee n =
     (case round_trip ee PingReq n of (Inr (HelperOk _), n') \<Rightarrow> (True, n') | (_, n') \<Rightarrow> (False, n'))"

section \<open>The allowlist matches whole labels\<close>

lemma join_sep_append: "xs \<noteq> [] \<Longrightarrow> ys \<noteq> [] \<Longrightarrow> join_sep sep (xs @ ys) = join_sep sep xs @ sep @ join_sep sep ys"
proof (induction sep xs rule: join_sep.induct)
  case (2 sep x)
  then show ?case
    by (cases ys) auto
qed auto

lemma join_split [simp]: "join_sep [c] (split_char c s) = s"
proof (induction "length s" arbitrary: s rule: less_induct)
  case less
  show ?case
  proof (cases "c \<in> set s")
    case True
    then obtain x y where s: "s = x @ c # y" and x: "c \<notin> set x"
      by (metis split_list_first)
    then have "join_sep [c] (split_char c s) = x @ [c] @ join_sep [c] (split_char c y)"
      using join_sep_append [of "[x]" "split_char c y" "[c]"] by simp
    with less [of y] s show ?thesis
      by simp
  qed simp
qed

lemma host_matches_iff: "host_matches_allow host allow \<longleftrightarrow> host = allow \<or> (\<exists>p. host = p @ CHR ''.'' # allow)"
proof -
  have "(\<exists>p. host = p @ CHR ''.'' # allow)"
    if "ends_with host allow" "length host - length allow > 0" "host ! (length host - length allow - 1) = CHR ''.''"
  proof -
    let ?k = "length host - length allow"
    have "host = take (?k - 1) host @ host ! (?k - 1) # drop ?k host"
      using that(2) id_take_nth_drop [of "?k - 1" host] by (simp add: Suc_diff_Suc)
    with that show ?thesis
      by (metis ends_with_def)
  qed
  moreover have "ends_with (p @ CHR ''.'' # allow) allow" for p
    by (simp add: ends_with_def)
  ultimately show ?thesis
    by (auto simp: host_matches_allow_def Let_def nth_append)
qed

lemma host_matches_labels:
  "host_matches_allow host allow \<longleftrightarrow> suffix (split_char (CHR ''.'') allow) (split_char (CHR ''.'') host)"
proof
  assume "host_matches_allow host allow"
  then show "suffix (split_char (CHR ''.'') allow) (split_char (CHR ''.'') host)"
    by (auto simp: host_matches_iff split_char_join suffix_def)
next
  assume "suffix (split_char (CHR ''.'') allow) (split_char (CHR ''.'') host)"
  then obtain xs where xs: "split_char (CHR ''.'') host = xs @ split_char (CHR ''.'') allow"
    by (auto simp: suffix_def)
  then have "host = join_sep ''.'' (xs @ split_char (CHR ''.'') allow)"
    by (metis join_split)
  then show "host_matches_allow host allow"
    using join_sep_append [of xs "split_char (CHR ''.'') allow" "''.''"] by (cases "xs = []") (auto simp: host_matches_iff)
qed

text \<open>
  C36. The allowlist is dot-aware: a host is allowed exactly when the labels of some non-empty entry are the
  last labels of the host, both without trailing dots and in lower case.
\<close>

theorem allowlist_matches_labels:
  "is_allowed host allowlist \<longleftrightarrow>
     list_ex (\<lambda>entry. normal_host entry \<noteq> [] \<and>
       suffix (split_char (CHR ''.'') (normal_host entry)) (split_char (CHR ''.'') (normal_host host))) allowlist"
  by (induction allowlist) (simp_all add: Let_def host_matches_labels)

section \<open>Plugins decide first\<close>

lemma network_deny_wins:
  assumes "p \<in> set reg" and "network_vote eng ev p = NDeny"
  shows "fst (evaluate_network_trace eng ev reg) = NDeny"
proof -
  have deny: "fold (\<lambda>p. max (network_vote eng ev p)) reg NDeny = NDeny"
    by (induction reg) simp_all
  have "fold (\<lambda>p. max (network_vote eng ev p)) reg d = NDeny" for d
    using assms
  proof (induction reg arbitrary: d)
    case (Cons q reg)
    have "fold (\<lambda>p. max (network_vote eng ev p)) reg NDeny = NDeny"
      by (induction reg) simp_all
    with Cons show ?case
      by auto
  qed simp
  then show ?thesis
    by (simp add: evaluate_network_trace_def network_trace_loop_max)
qed

lemma trace_chain_votes:
  assumes "run_network_trace_chain eng wired join_ok kind host port s = (Inr d, s')" and "d \<noteq> NDeny"
    and "wired" "join_ok" "sw_plugins s = Some reg" "p \<in> set reg"
  shows "network_vote eng \<lparr>nt_kind = kind, nt_host = host, nt_port = port\<rparr> p \<noteq> NDeny"
  using assms network_deny_wins [OF assms(6), of eng "\<lparr>nt_kind = kind, nt_host = host, nt_port = port\<rparr>"]
  by (auto simp: run_network_trace_chain_def split: prod.splits)

text \<open>
  C23. A DNS query is answered with records only when it is an ordinary query whose host the allowlist
  matches, no registered plugin denies it, and the records are those of the upstream resolver for that host.
\<close>

theorem answers_pass_plugins_and_allowlist:
  assumes "handle_request eng join_ok fh req s = (Inr m, s')" and "dm_answers m \<noteq> []"
  shows "dr_is_query req \<and>
    (\<exists>host lookup. dr_info req = Inr host \<and> is_allowed host (fh_allowlist fh) \<and> fh_upstream fh = Some lookup \<and>
       lookup host = Inr (dm_answers m) \<and>
       (fh_wired fh \<and> join_ok \<longrightarrow>
          (\<forall>reg p. sw_plugins s = Some reg \<and> p \<in> set reg \<longrightarrow>
             network_vote eng \<lparr>nt_kind = ''dns_query'', nt_host = host, nt_port = None\<rparr> p \<noteq> NDeny)))"
proof -
  obtain host where host: "dr_is_query req" "dr_info req = Inr host"
    using assms by (auto simp: handle_request_def no_records_def split: if_splits sum.splits)
  with assms(1) obtain d s1 where d: "run_network_trace_chain eng (fh_wired fh) join_ok ''dns_query'' host None s = (Inr d, s1)"
    and m: "m = answer_query fh host d"
    by (auto simp: handle_request_def elim!: bindE_Inr_E)
  have "d \<noteq> NDeny" "is_allowed host (fh_allowlist fh)" "\<exists>lookup. fh_upstream fh = Some lookup \<and> lookup host = Inr (dm_answers m)"
    using assms(2) unfolding m by (auto simp: answer_query_def no_records_def split: if_splits option.splits sum.splits)
  then show ?thesis
    using host trace_chain_votes [OF d] by blast
qed

definition demo_filter :: "(unit, nat) filter_handler" where
  "demo_filter = \<lparr>fh_allowlist = [''Example.com.''], fh_upstream = Some (\<lambda>_. Inr [1]), fh_wired = True, fh_audit = None\<rparr>"

theorem answers_pass_plugins_and_allowlist_witness:
  "fst (handle_request demo_engine True demo_filter \<lparr>dr_is_query = True, dr_info = Inr ''api.example.com.''\<rparr> demo_world) =
     Inr \<lparr>dm_code = NoError, dm_answers = [1]\<rparr> \<and> is_allowed ''api.example.com.'' [''Example.com.'']"
proof -
  have "is_allowed ''api.example.com.'' [''Example.com.'']"
    by code_simp
  then have run: "handle_request demo_engine True demo_filter \<lparr>dr_is_query = True, dr_info = Inr ''api.example.com.''\<rparr> demo_world =
      (Inr \<lparr>dm_code = NoError, dm_answers = [1]\<rparr>, demo_world)"
    by (simp add: handle_request_def demo_filter_def bindE_apply run_network_trace_chain_def demo_world_def record_opt_def answer_query_def
        del: is_allowed.simps)
  from answers_pass_plugins_and_allowlist [OF this] have "is_allowed ''api.example.com.'' (fh_allowlist demo_filter)"
    by simp
  then show ?thesis
    unfolding run by (simp add: demo_filter_def del: is_allowed.simps)
qed

section \<open>What reaches the packet filter\<close>

definition kept_rules :: "egress_rule list \<Rightarrow> network_decision list \<Rightarrow> egress_rule list" where
  "kept_rules rules ds = map fst (filter (\<lambda>(r, d). d \<noteq> NDeny) (zip rules ds))"

lemma apply_chain_decisions_kept:
  "apply_chain_decisions idx rules ds pid audit s = (Inr kept, s') \<Longrightarrow> kept = kept_rules rules ds"
  by (induction idx rules ds pid audit arbitrary: s kept rule: apply_chain_decisions.induct)
    (auto simp: kept_rules_def elim!: bindE_Inr_E split: if_splits)

lemma run_trace_returns: "\<exists>d s'. run_network_trace_chain eng wired join_ok kind host port s = (Inr d, s')"
  by (simp add: run_network_trace_chain_def split: option.split prod.split)

lemma chain_decisions_run:
  obtains ds s' where "chain_decisions eng join_ok idx rules s = (Inr ds, s')" "length ds = length rules"
proof -
  have "\<exists>ds s'. chain_decisions eng join_ok idx rules s = (Inr ds, s') \<and> length ds = length rules"
  proof (induction rules arbitrary: idx s)
    case (Cons rule rules)
    obtain d s1 where d: "run_network_trace_chain eng True (join_ok idx) (rule_kind (er_proto rule)) (er_addr rule) (er_port rule) s = (Inr d, s1)"
      using run_trace_returns by blast
    obtain ds s2 where "chain_decisions eng join_ok (Suc idx) rules s1 = (Inr ds, s2)" "length ds = length rules"
      using Cons.IH by blast
    with d show ?case
      by (simp add: bindE_apply)
  qed simp
  with that show ?thesis
    by blast
qed

lemma filter_with_plugins_kept:
  assumes "filter_with_plugins eng join_ok wired audit pid rules s = (Inr kept, s')"
  shows "kept = (if wired \<and> sw_plugins s \<noteq> None
    then kept_rules rules (projr (fst (chain_decisions eng join_ok 0 rules s))) else rules)"
proof (cases "wired \<and> sw_plugins s \<noteq> None")
  case True
  obtain ds s1 where ds: "chain_decisions eng join_ok 0 rules s = (Inr ds, s1)"
    by (rule chain_decisions_run)
  with True assms have "apply_chain_decisions 0 rules ds pid audit s1 = (Inr kept, s')"
    by (auto simp: filter_with_plugins_def bindE_apply)
  with apply_chain_decisions_kept ds True show ?thesis
    by auto
next
  case False
  with assms show ?thesis
    by (auto simp: filter_with_plugins_def bindE_apply)
qed

text \<open>
  The helper at the other end of the socket: connecting changes nothing, and the reply to a request is what
  the helper's dispatch answers it, printed and parsed back.
\<close>

definition served_by :: "'n enforcer_env \<Rightarrow> 'n nf_env \<Rightarrow> bool" where
  "served_by ee nf \<longleftrightarrow>
     (\<forall>n. snd (ee_connect ee n) = n) \<and>
     (\<forall>req payload n line n'. ee_print_request ee req = Inr payload \<longrightarrow> ee_exchange ee (payload @ NL) n = (Replied line, n') \<longrightarrow>
        (\<exists>resp. dispatch_helper nf req n = (resp, n') \<and> ee_parse_response ee line = Inr resp))"

lemma round_trip_served:
  assumes "served_by ee nf" and "round_trip ee req n = (Inr resp, n')"
  shows "dispatch_helper nf req n = (resp, n')"
proof -
  obtain payload line where p: "ee_print_request ee req = Inr payload"
    and x: "ee_exchange ee (payload @ NL) (snd (ee_connect ee n)) = (Replied line, n')" and r: "ee_parse_response ee line = Inr resp"
    using assms(2) by (auto simp: round_trip_def split: prod.splits connect_end.splits sum.splits exchange_end.splits)
  have "snd (ee_connect ee n) = n"
    using assms(1) by (simp add: served_by_def)
  with x have "ee_exchange ee (payload @ NL) n = (Replied line, n')"
    by simp
  with assms(1) p have "\<exists>resp. dispatch_helper nf req n = (resp, n') \<and> ee_parse_response ee line = Inr resp"
    unfolding served_by_def by blast
  with r show ?thesis
    by simp
qed

lemma helper_apply_ok:
  assumes "dispatch_helper nf (ApplyReq pid rules) n = (HelperOk k, n')"
  obtains resolved skipped m where "resolve_rules nf rules n = ((resolved, skipped), m)" "k = length resolved"
    "apply_in_namespace nf pid (build_ruleset resolved) m = (Inr (), n')"
  using assms by (auto simp: helper_apply_def bindE_apply split: prod.splits sum.splits)

text \<open>
  The audit log as the egress code uses it: a sink whose invariant does not look at the plugins, since
  running them is all the code does to the sink's state besides recording.
\<close>

locale plugin_audit_sink = audit_sink record_entry inv
  for record_entry :: "'w recorder" and inv :: "'w sink_world \<Rightarrow> bool" +
  assumes inv_plugins: "inv s \<Longrightarrow> inv (s\<lparr>sw_plugins := reg\<rparr>)"
begin

lemma trace_chain_inv: "preserves inv (run_network_trace_chain eng wired join_ok kind host port)"
  by (rule preservesI) (auto simp: run_network_trace_chain_def inv_plugins split: option.split prod.split)

lemma record_opt_inv: "audit = None \<or> audit = Some record_entry \<Longrightarrow> preserves inv (record_opt audit kind pn ci payload)"
  unfolding record_opt_def [abs_def] by (auto intro: record_inv)

lemma handle_request_inv:
  "fh_audit fh = None \<or> fh_audit fh = Some record_entry \<Longrightarrow> preserves inv (handle_request eng join_ok fh req)"
  unfolding handle_request_def
  by (intro preserves_if preserves_case_sum preserves_bindE preserves_ret trace_chain_inv record_opt_inv)

lemma chain_decisions_inv: "preserves inv (chain_decisions eng join_ok idx rules)"
  by (induction rules arbitrary: idx) (auto intro!: preserves_bindE trace_chain_inv)

lemma apply_chain_decisions_inv:
  "audit = None \<or> audit = Some record_entry \<Longrightarrow> preserves inv (apply_chain_decisions idx rules ds pid audit)"
  by (induction idx rules ds pid audit rule: apply_chain_decisions.induct) (auto intro!: preserves_bindE record_opt_inv)

lemma filter_with_plugins_inv:
  "audit = None \<or> audit = Some record_entry \<Longrightarrow> preserves inv (filter_with_plugins eng join_ok wired audit pid rules)"
  unfolding filter_with_plugins_def
  by (intro preserves_bindE preserves_gets preserves_if preserves_ret chain_decisions_inv apply_chain_decisions_inv)

end

interpretation egress_sink: plugin_audit_sink "sandbox_record env eng j" "sink_inv env" for env eng j
  by unfold_locales (simp add: sink_inv_def)


definition demo_apply_request :: helper_request where
  "demo_apply_request = ApplyReq 7 [demo_rule ''1.1.1.1'']"

definition demo_enforcer :: "string list enforcer_env" where
  "demo_enforcer =
     \<lparr>ee_socket = ''/run/linpodx/netfilter.sock'', ee_connect = (\<lambda>n. (Connected, n)),
      ee_exchange = (\<lambda>_ n. (Replied ''ok'', snd (dispatch_helper demo_nf_env demo_apply_request n))),
      ee_print_request = (\<lambda>req. if req = demo_apply_request then Inr ''apply'' else Inl ''unsupported''),
      ee_parse_response = (\<lambda>_. Inr (HelperOk 1))\<rparr>"

lemma demo_helper_resolve: "resolve_addr demo_nf_env ''1.1.1.1'' n = (Inr (Ips [IpV4 1 1 1 1]), n)"
proof -
  have "trim ''1.1.1.1'' = ''1.1.1.1''" "parse_ip ''1.1.1.1'' = Some (IpV4 1 1 1 1)"
    by code_simp+
  then show ?thesis
    by (simp add: resolve_addr_def)
qed

lemma demo_dispatch: "\<exists>script. dispatch_helper demo_nf_env demo_apply_request n = (HelperOk 1, n @ [script])"
  by (simp add: demo_apply_request_def demo_rule_def helper_apply_def demo_helper_resolve bindE_apply apply_in_namespace_def)
    (simp add: demo_nf_env_def)

lemma demo_served: "served_by demo_enforcer demo_nf_env"
proof -
  have "dispatch_helper demo_nf_env demo_apply_request n = (HelperOk 1, snd (dispatch_helper demo_nf_env demo_apply_request n))" for n
    using demo_dispatch [of n] by auto
  then show ?thesis
    by (auto simp: served_by_def demo_enforcer_def split: if_splits)
qed


text \<open>Filtering egress, by name or by packet, leaves an audit log that verifies.\<close>

lemma egress_keeps_audit_chain:
  assumes "sink_inv env s"
  shows "sink_inv env (snd (handle_request eng' join_ok (fh\<lparr>fh_audit := Some (sandbox_record env eng j)\<rparr>) req s))"
    and "sink_inv env (snd (filter_with_plugins eng' joins wired (Some (sandbox_record env eng j)) pid rules s))"
  using assms by (auto intro: preserves_snd [OF egress_sink.handle_request_inv] preserves_snd [OF egress_sink.filter_with_plugins_inv])

end
