(* ===== verification/Remote_Access.thy ===== *)
theory Remote_Access
  imports Pin_Store Egress
begin

text \<open>
  The remote listener (\<^verbatim>\<open>linpodx-daemon/src/remote.rs\<close>): the two upgrade handlers, client-certificate pinning
  with trust on first use, the token handshake and the request loop. The TLS and WebSocket libraries, the
  dispatcher and serde are parameters. Shown: nothing is dispatched for a peer that did not present the
  token; with pinning the peer's certificate was pinned or the enrolment window was open; upgrades served
  one after the other keep to the enrolment cap; and three ways in which the code falls short of its comments.
\<close>

section \<open>Tokens\<close>

definition constant_eq :: "string \<Rightarrow> string \<Rightarrow> bool" where
  "constant_eq a b =
     (let ab = as_bytes a; bb = as_bytes b in
      if length ab \<noteq> length bb then False
      else foldl (\<lambda>diff i. diff OR (ab ! i XOR bb ! i)) 0 [0 ..< length ab] = 0)"

fun bearer_entry :: "string list \<Rightarrow> (string \<times> string) option" where
  "bearer_entry [] = None"
| "bearer_entry (entry # rest) =
     (let trimmed = trim entry in
      case strip_prefix ''Bearer.'' trimmed of
        Some tok \<Rightarrow> if tok \<noteq> [] then Some (trimmed, tok) else bearer_entry rest
      | None \<Rightarrow>
          (case strip_prefix ''Bearer '' trimmed of
             Some r \<Rightarrow> (let tok = trim_start r in if tok \<noteq> [] then Some (trimmed, tok) else bearer_entry rest)
           | None \<Rightarrow> bearer_entry rest))"

text \<open>A header value that is not visible ASCII has no text (\<open>None\<close>).\<close>

fun parse_bearer_subprotocol :: "string option list \<Rightarrow> (string \<times> string) option" where
  "parse_bearer_subprotocol [] = None"
| "parse_bearer_subprotocol (None # values) = parse_bearer_subprotocol values"
| "parse_bearer_subprotocol (Some raw # values) =
     (case bearer_entry (split_char (CHR '','') raw) of Some x \<Rightarrow> Some x | None \<Rightarrow> parse_bearer_subprotocol values)"

definition is_legacy_auth_frame :: "audit_env \<Rightarrow> string \<Rightarrow> bool" where
  "is_legacy_auth_frame env raw =
     (case json_from_str env raw of
        Inr (JObject kvs) \<Rightarrow>
          (case map_of kvs ''auth'' of Some (JString _) \<Rightarrow> True | _ \<Rightarrow> False) \<and>
          ''jsonrpc'' \<notin> fst ` set kvs \<and> ''method'' \<notin> fst ` set kvs
      | _ \<Rightarrow> False)"

section \<open>State\<close>

record mtls_peer_info =
  mp_cn :: "string option"
  mp_fingerprint :: "string option"

record remote_config =
  rc_token :: string
  rc_tls :: bool
  rc_mtls :: bool
  rc_pin_clients :: bool

record 'w remote_state =
  re_sink :: "'w sink_world"
  re_tofu :: tofu_mode
  re_peers :: "string \<rightharpoonup> mtls_peer_info"
  re_sessions :: u64
  re_pty :: "string set"

record 'w remote_env =
  rv_audit :: audit_env
  rv_record :: "'w recorder"
  rv_unix :: "timestamp \<Rightarrow> int"

type_synonym ('w, 'a) remote_act = "('w remote_state, panic, 'a) act"

definition remote_record :: "'w remote_env \<Rightarrow> audit_sink_kind \<Rightarrow> (string \<times> json) list \<Rightarrow> ('w, unit) remote_act" where
  "remote_record env kind kvs = zoom re_sink (\<lambda>x s. s\<lparr>re_sink := x\<rparr>) (rv_record env kind None None (JObject kvs))"

definition on_remote_db :: "(db, panic, 'a) act \<Rightarrow> ('w, 'a) remote_act" where
  "on_remote_db m = zoom (\<lambda>s. sw_db (re_sink s)) (\<lambda>d s. s\<lparr>re_sink := (re_sink s)\<lparr>sw_db := d\<rparr>\<rparr>) m"

definition remote_now :: "('w, timestamp) remote_act" where
  "remote_now = on_remote_db utc_now"

definition audit_failure_pin :: "'w remote_env \<Rightarrow> string \<Rightarrow> string option \<Rightarrow> ('w, unit) remote_act" where
  "audit_failure_pin env peer fingerprint =
     remote_record env audit_sink_kind.RemoteAuthFailed
       [(''peer'', JString peer), (''reason'', JString ''pin_mismatch''), (''fingerprint'', json_opt JString fingerprint)]"

definition audit_failure :: "'w remote_env \<Rightarrow> string \<Rightarrow> string \<Rightarrow> ('w, unit) remote_act" where
  "audit_failure env peer why =
     remote_record env audit_sink_kind.RemoteAuthFailed [(''peer'', JString peer), (''reason'', JString why)]"

section \<open>The upgrade\<close>

text \<open>The section under the lock of the mode: an elapsed window is closed, otherwise it is consulted.\<close>

definition tofu_decide :: "int \<Rightarrow> tofu_mode \<Rightarrow> (bool \<times> int option) \<times> tofu_mode" where
  "tofu_decide now m =
     (if is_expired_at m now then (case record_expiry m of (prior, m') \<Rightarrow> ((False, prior), m'))
      else ((should_enroll_at m now, None), m))"

definition tofu_check :: "int \<Rightarrow> ('w, bool \<times> int option) remote_act" where
  "tofu_check now s = (case tofu_decide now (re_tofu s) of (r, m) \<Rightarrow> (Inr r, s\<lparr>re_tofu := m\<rparr>))"

definition tofu_enroll :: "'w remote_env \<Rightarrow> string \<Rightarrow> string \<Rightarrow> ('w, unit) remote_act" where
  "tofu_enroll env peer fp =
     bindE (on_remote_db (attempt (pin_insert (rv_audit env) fp ''tofu-auto''))) (\<lambda>r.
     if r = Inr True then
       bindE (modify (\<lambda>s. s\<lparr>re_tofu := record_enrollment (re_tofu s)\<rparr>)) (\<lambda>_.
         remote_record env audit_sink_kind.WsClientCertTofuEnrolled [(''peer'', JString peer), (''fingerprint'', JString fp)])
     else ret ())"

text \<open>Whether the pin check lets the upgrade go on.\<close>

definition tofu_path :: "'w remote_env \<Rightarrow> string \<Rightarrow> string \<Rightarrow> ('w, bool) remote_act" where
  "tofu_path env peer fp =
     bindE remote_now (\<lambda>now.
     bindE (tofu_check (rv_unix env now)) (\<lambda>(should_try_enroll, expired_anchor).
     bindE (case expired_anchor of
              Some anchor \<Rightarrow>
                remote_record env audit_sink_kind.TofuExpired
                  [(''peer'', JString peer), (''fingerprint'', JString fp), (''enabled_at'', JInt anchor),
                   (''expired_at'', JInt (rv_unix env now))]
            | None \<Rightarrow> ret ()) (\<lambda>_.
     if should_try_enroll then bindE (tofu_enroll env peer fp) (\<lambda>_. ret True)
     else bindE (audit_failure_pin env peer (Some fp)) (\<lambda>_. ret False))))"

definition check_pin :: "'w remote_env \<Rightarrow> string \<Rightarrow> ('w, bool) remote_act" where
  "check_pin env peer =
     bindE (gets (\<lambda>s. Option.bind (re_peers s peer) mp_fingerprint)) (\<lambda>fingerprint.
     case fingerprint of
       None \<Rightarrow> bindE (audit_failure_pin env peer None) (\<lambda>_. ret False)
     | Some fp \<Rightarrow>
         bindE (on_remote_db (pin_contains fp)) (\<lambda>pin_ok.
         if pin_ok then
           bindE (remote_record env audit_sink_kind.WsClientCertPinned
                    [(''peer'', JString peer), (''fingerprint'', JString fp)]) (\<lambda>_. ret True)
         else tofu_path env peer fp))"

datatype upgrade = Forbidden string | Unauthorized string | NotFoundResp string | Upgrade "string option" bool

definition header_token_ok :: "remote_config \<Rightarrow> string option list \<Rightarrow> bool" where
  "header_token_ok cfg headers =
     (case parse_bearer_subprotocol headers of Some (_, token) \<Rightarrow> constant_eq token (rc_token cfg) | None \<Rightarrow> False)"

definition echoed_protocol :: "remote_config \<Rightarrow> string option list \<Rightarrow> string option" where
  "echoed_protocol cfg headers =
     (if header_token_ok cfg headers then map_option fst (parse_bearer_subprotocol headers) else None)"

definition ws_handler :: "'w remote_env \<Rightarrow> remote_config \<Rightarrow> string \<Rightarrow> string option list \<Rightarrow> ('w, upgrade) remote_act" where
  "ws_handler env cfg peer headers =
     bindE (if rc_pin_clients cfg then check_pin env peer else ret True) (\<lambda>pass.
       ret (if \<not> pass then Forbidden ''client certificate is not pinned''
            else Upgrade (echoed_protocol cfg headers) (header_token_ok cfg headers)))"

definition query_token_ok :: "remote_config \<Rightarrow> string option \<Rightarrow> bool" where
  "query_token_ok cfg q = (case q of Some t \<Rightarrow> constant_eq t (rc_token cfg) | None \<Rightarrow> False)"

definition pty_ws_handler ::
  "'w remote_env \<Rightarrow> remote_config \<Rightarrow> string \<Rightarrow> string option list \<Rightarrow> string option \<Rightarrow> ('w, upgrade) remote_act" where
  "pty_ws_handler env cfg bridge_id headers q =
     (if \<not> header_token_ok cfg headers \<and> \<not> query_token_ok cfg q then ret (Unauthorized ''auth required'')
      else
        bindE (if header_token_ok cfg headers
               then remote_record env audit_sink_kind.WsAuthSubprotocol [(''bridge_id'', JString bridge_id)] else ret ()) (\<lambda>_.
        bindE (gets (\<lambda>s. bridge_id \<in> re_pty s)) (\<lambda>there.
          ret (if \<not> there then NotFoundResp ''no such bridge''
               else Upgrade (echoed_protocol cfg headers) (header_token_ok cfg headers)))))"

section \<open>The session\<close>

datatype frame = TextFrame string | BinaryFrame | CloseFrame | ControlFrame | ErrFrame | ShutdownSignal

text \<open>
  The dispatcher and the texts the session sends. \<open>rp_send_ok\<close> tells from the frames sent so far whether the
  next one can be sent.
\<close>

record ('w, 'q, 'r) rpc_env =
  rp_parse :: "string \<Rightarrow> string + 'q"
  rp_dispatch :: "'q \<Rightarrow> ('w, 'r) remote_act"
  rp_parse_error :: "string \<Rightarrow> 'r"
  rp_print :: "'r \<Rightarrow> string + string"
  rp_ack :: "timestamp \<Rightarrow> string"
  rp_auth_failed :: string
  rp_send_ok :: "string list \<Rightarrow> bool"

datatype outcome = NoSession "string list" | Session u64 "string list"

definition presented_token :: "audit_env \<Rightarrow> string \<Rightarrow> string option" where
  "presented_token env raw =
     (case json_from_str env raw of Inr v \<Rightarrow> Option.bind (json_get v ''auth'') as_str | Inl _ \<Rightarrow> None)"

text \<open>The frames left after a successful handshake, or the frames sent on a failed one.\<close>

definition authenticate ::
  "'w remote_env \<Rightarrow> remote_config \<Rightarrow> ('w, 'q, 'r) rpc_env \<Rightarrow> string \<Rightarrow> bool \<Rightarrow> frame list \<Rightarrow> ('w, string list + frame list) remote_act" where
  "authenticate env cfg rp peer pre_ok frames =
     (if pre_ok then ret (Inr frames)
      else case frames of
        TextFrame auth_msg # rest \<Rightarrow>
          (if query_token_ok cfg (presented_token (rv_audit env) auth_msg) then ret (Inr rest)
           else bindE (audit_failure env peer ''token mismatch'') (\<lambda>_. ret (Inl [rp_auth_failed rp])))
      | _ \<Rightarrow> bindE (audit_failure env peer ''no auth frame'') (\<lambda>_. ret (Inl [])))"

definition answer_text ::
  "('w, 'q, 'r) rpc_env \<Rightarrow> string \<Rightarrow> ('w, string + string) remote_act" where
  "answer_text rp raw =
     bindE (case rp_parse rp raw of Inr req \<Rightarrow> rp_dispatch rp req | Inl e \<Rightarrow> ret (rp_parse_error rp e)) (\<lambda>resp.
       ret (rp_print rp resp))"

fun session_loop ::
  "audit_env \<Rightarrow> ('w, 'q, 'r) rpc_env \<Rightarrow> bool \<Rightarrow> frame list \<Rightarrow> string list \<Rightarrow> ('w, string list) remote_act" where
  "session_loop env rp may_drain [] sent = ret sent"
| "session_loop env rp may_drain (TextFrame raw # fs) sent =
     (if may_drain \<and> is_legacy_auth_frame env raw then session_loop env rp False fs sent
      else
        bindE (answer_text rp raw) (\<lambda>printed.
        case printed of
          Inl _ \<Rightarrow> session_loop env rp False fs sent
        | Inr payload \<Rightarrow>
            if rp_send_ok rp sent then session_loop env rp False fs (sent @ [payload]) else ret sent))"
| "session_loop env rp may_drain (BinaryFrame # fs) sent = session_loop env rp may_drain fs sent"
| "session_loop env rp may_drain (ControlFrame # fs) sent = session_loop env rp may_drain fs sent"
| "session_loop env rp may_drain (CloseFrame # fs) sent = ret sent"
| "session_loop env rp may_drain (ErrFrame # fs) sent = ret sent"
| "session_loop env rp may_drain (ShutdownSignal # fs) sent = ret sent"

definition drain_mtls_peer :: "'w remote_env \<Rightarrow> remote_config \<Rightarrow> string \<Rightarrow> ('w, mtls_peer_info option) remote_act" where
  "drain_mtls_peer env cfg peer =
     (if \<not> rc_mtls cfg then ret None
      else
        bindE (gets (\<lambda>s. re_peers s peer)) (\<lambda>info.
        bindE (modify (\<lambda>s. s\<lparr>re_peers := (re_peers s)(peer := None)\<rparr>)) (\<lambda>_.
        bindE (case info of
                 Some i \<Rightarrow> remote_record env audit_sink_kind.RemoteMtlsAccepted
                             [(''peer'', JString peer), (''cn'', json_opt JString (mp_cn i))]
               | None \<Rightarrow> ret ()) (\<lambda>_. ret info))))"

definition open_session ::
  "'w remote_env \<Rightarrow> remote_config \<Rightarrow> ('w, 'q, 'r) rpc_env \<Rightarrow> string \<Rightarrow> mtls_peer_info option \<Rightarrow> bool \<Rightarrow> frame list
     \<Rightarrow> ('w, outcome) remote_act" where
  "open_session env cfg rp peer mtls_peer pre_ok frames =
     bindE (modify (\<lambda>s. s\<lparr>re_sessions := re_sessions s + 1\<rparr>)) (\<lambda>_.
     bindE (gets re_sessions) (\<lambda>session_seq.
     bindE (remote_record env audit_sink_kind.RemoteSessionStarted
              [(''peer'', JString peer), (''session_seq'', JInt (uint session_seq)), (''tls'', JBool (rc_tls cfg)),
               (''mtls_cn'', json_opt JString (Option.bind mtls_peer mp_cn))]) (\<lambda>_.
     bindE remote_now (\<lambda>now.
     if \<not> rp_send_ok rp [] then ret (Session session_seq [])
     else
       bindE (session_loop (rv_audit env) rp pre_ok frames [rp_ack rp now]) (\<lambda>sent. ret (Session session_seq sent))))))"

definition handle_socket ::
  "'w remote_env \<Rightarrow> remote_config \<Rightarrow> ('w, 'q, 'r) rpc_env \<Rightarrow> string \<Rightarrow> string option \<Rightarrow> bool \<Rightarrow> frame list
     \<Rightarrow> ('w, outcome) remote_act" where
  "handle_socket env cfg rp peer query_token header_ok frames =
     bindE (drain_mtls_peer env cfg peer) (\<lambda>mtls_peer.
     bindE (if header_ok then remote_record env audit_sink_kind.WsAuthSubprotocol [(''peer'', JString peer)] else ret ()) (\<lambda>_.
     let pre_ok = header_ok \<or> query_token_ok cfg query_token in
     bindE (authenticate env cfg rp peer pre_ok frames) (\<lambda>r.
     case r of
       Inl sent \<Rightarrow> ret (NoSession sent)
     | Inr rest \<Rightarrow> open_session env cfg rp peer mtls_peer pre_ok rest)))"

text \<open>A connection to the main route: the upgrade and, when it goes through, the session.\<close>

definition serve_connection ::
  "'w remote_env \<Rightarrow> remote_config \<Rightarrow> ('w, 'q, 'r) rpc_env \<Rightarrow> string \<Rightarrow> string option list \<Rightarrow> string option \<Rightarrow> frame list
     \<Rightarrow> ('w, outcome) remote_act" where
  "serve_connection env cfg rp peer headers query_token frames =
     bindE (ws_handler env cfg peer headers) (\<lambda>u.
     case u of
       Upgrade _ header_ok \<Rightarrow> handle_socket env cfg rp peer query_token header_ok frames
     | _ \<Rightarrow> ret (NoSession []))"

section \<open>Only the token opens a session\<close>

lemma or_zero_iff: "x OR y = (0 :: byte) \<longleftrightarrow> x = 0 \<and> y = 0"
  by (auto simp: bit_eq_iff bit_or_iff)

lemma xor_zero_iff: "x XOR y = (0 :: byte) \<longleftrightarrow> x = y"
  by (auto simp: bit_eq_iff bit_xor_iff)

lemma or_fold_zero:
  "foldl (\<lambda>diff i. diff OR f i) d ns = (0 :: byte) \<longleftrightarrow> d = 0 \<and> (\<forall>i \<in> set ns. f i = 0)"
  by (induction ns arbitrary: d) (auto simp: or_zero_iff)

lemma constant_eq_iff [simp]: "constant_eq a b \<longleftrightarrow> a = b"
proof -
  have "constant_eq a b \<longleftrightarrow> as_bytes a = as_bytes b"
    unfolding constant_eq_def Let_def or_fold_zero xor_zero_iff list_eq_iff_nth_eq by auto
  then show ?thesis
    by simp
qed

text \<open>The peer's certificate is pinned, or the enrolment window is open at the time of the upgrade.\<close>

definition remote_pins :: "'w remote_state \<Rightarrow> string set" where
  "remote_pins s = pc_fingerprint ` set (pinned_clients (sw_db (re_sink s)))"

definition upgrade_time :: "'w remote_env \<Rightarrow> 'w remote_state \<Rightarrow> int" where
  "upgrade_time env s = (let d = sw_db (re_sink s) in rv_unix env (clock d (ticks d)))"

definition admitted :: "'w remote_env \<Rightarrow> 'w remote_state \<Rightarrow> string \<Rightarrow> bool" where
  "admitted env s peer =
     (case Option.bind (re_peers s peer) mp_fingerprint of
        None \<Rightarrow> False
      | Some fp \<Rightarrow> fp \<in> remote_pins s \<or> should_enroll_at (re_tofu s) (upgrade_time env s))"

text \<open>The token came in the header, in the query or in the first frame.\<close>

definition presents :: "audit_env \<Rightarrow> string \<Rightarrow> string option list \<Rightarrow> string option \<Rightarrow> frame list \<Rightarrow> bool" where
  "presents env token headers query_token frames \<longleftrightarrow>
     map_option snd (parse_bearer_subprotocol headers) = Some token \<or> query_token = Some token \<or>
     (\<exists>raw rest. frames = TextFrame raw # rest \<and> presented_token env raw = Some token)"

lemma header_token_ok_iff: "header_token_ok cfg headers \<longleftrightarrow> map_option snd (parse_bearer_subprotocol headers) = Some (rc_token cfg)"
  by (auto simp: header_token_ok_def split: option.split)

lemma query_token_ok_iff: "query_token_ok cfg q \<longleftrightarrow> q = Some (rc_token cfg)"
  by (auto simp: query_token_ok_def split: option.split)

lemma pin_contains_run:
  "\<exists>b. pin_contains fp d = (Inr b, d\<lparr>ops := Suc (ops d)\<rparr>) \<and> (b \<longrightarrow> fp \<in> pc_fingerprint ` set (pinned_clients d))"
  by (auto simp: pin_contains_def bindE_apply attempt_apply sql_def Let_def gets_def split: option.split)

lemma tofu_path_pass:
  assumes "tofu_path env peer fp s = (Inr True, s')"
  shows "should_enroll_at (re_tofu s) (upgrade_time env s)"
proof (rule ccontr)
  assume no: "\<not> ?thesis"
  have "fst (tofu_path env peer fp s) \<noteq> Inr True"
    using no
    by (auto simp: tofu_path_def bindE_apply remote_now_def on_remote_db_def zoom_apply utc_now_def upgrade_time_def Let_def
        tofu_check_def tofu_decide_def expired_not_enrolled split: prod.splits sum.splits if_splits option.splits)
  with assms show False
    by simp
qed

lemma check_pin_pass:
  assumes "check_pin env peer s = (Inr True, s')"
  shows "admitted env s peer"
proof (cases "Option.bind (re_peers s peer) mp_fingerprint")
  case None
  with assms show ?thesis
    by (auto simp: check_pin_def bindE_apply split: prod.splits sum.splits)
next
  case (Some fp)
  obtain b where b: "pin_contains fp (sw_db (re_sink s)) = (Inr b :: panic + bool, (sw_db (re_sink s))\<lparr>ops := Suc (ops (sw_db (re_sink s)))\<rparr>)"
      "b \<longrightarrow> fp \<in> remote_pins s"
    using pin_contains_run [of fp "sw_db (re_sink s)"] by (auto simp: remote_pins_def)
  let ?s = "s\<lparr>re_sink := (re_sink s)\<lparr>sw_db := (sw_db (re_sink s))\<lparr>ops := Suc (ops (sw_db (re_sink s)))\<rparr>\<rparr>\<rparr>"
  show ?thesis
  proof (cases b)
    case True
    with b(2) Some show ?thesis
      by (simp add: admitted_def)
  next
    case False
    then have "tofu_path env peer fp ?s = (Inr True, s')"
      using assms Some b(1) by (simp add: check_pin_def bindE_apply on_remote_db_def zoom_apply)
    then have "should_enroll_at (re_tofu ?s) (upgrade_time env ?s)"
      by (rule tofu_path_pass)
    then show ?thesis
      using Some by (simp add: admitted_def upgrade_time_def Let_def)
  qed
qed

lemma ws_handler_upgrades:
  assumes "ws_handler env cfg peer headers s = (Inr u, s')"
  obtains "rc_pin_clients cfg \<longrightarrow> admitted env s peer" "u = Upgrade (echoed_protocol cfg headers) (header_token_ok cfg headers)"
  | why where "u = Forbidden why"
  using assms
  by (auto simp: ws_handler_def bindE_apply split: if_splits prod.splits sum.splits dest: check_pin_pass)

text \<open>What the handshake leaves alone: the number of sessions.\<close>

lemma keeps_sessions [preserves_intros]:
  "preserves (\<lambda>s. re_sessions s = n) (remote_record env kind kvs)"
  "preserves (\<lambda>s. re_sessions s = n) (on_remote_db m)"
  "preserves (\<lambda>s. re_sessions s = n) (tofu_check now)"
  by (auto simp: preserves_def remote_record_def on_remote_db_def tofu_check_def zoom_apply split: prod.splits)

lemma handshake_keeps_sessions:
  "preserves (\<lambda>s. re_sessions s = n) (ws_handler env cfg peer headers)"
  "preserves (\<lambda>s. re_sessions s = n) (drain_mtls_peer env cfg peer)"
  unfolding ws_handler_def check_pin_def tofu_path_def tofu_enroll_def audit_failure_pin_def remote_now_def drain_mtls_peer_def
  by (intro preserves_intros; simp)+

lemma handle_socket_no_token:
  assumes "\<not> presents (rv_audit env) (rc_token cfg) headers q frames"
  shows "\<exists>why msgs. \<forall>d. handle_socket env cfg (rp\<lparr>rp_dispatch := d\<rparr>) peer q (header_token_ok cfg headers) frames =
       bindE (drain_mtls_peer env cfg peer) (\<lambda>_. bindE (audit_failure env peer why) (\<lambda>_. ret (NoSession msgs)))"
proof -
  have pre: "\<not> header_token_ok cfg headers" "\<not> query_token_ok cfg q"
    using assms by (auto simp: presents_def header_token_ok_iff query_token_ok_iff)
  have first: "\<not> query_token_ok cfg (presented_token (rv_audit env) raw)" if "frames = TextFrame raw # rest" for raw rest
    using assms that by (auto simp: presents_def query_token_ok_iff)
  have "\<exists>msgs why. \<forall>d. authenticate env cfg (rp\<lparr>rp_dispatch := d\<rparr>) peer False frames =
      bindE (audit_failure env peer why) (\<lambda>_. ret (Inl msgs))"
  proof (cases "\<exists>raw rest. frames = TextFrame raw # rest")
    case True
    with first have "authenticate env cfg (rp\<lparr>rp_dispatch := d\<rparr>) peer False frames =
        bindE (audit_failure env peer ''token mismatch'') (\<lambda>_. ret (Inl [rp_auth_failed rp]))" for d
      by (auto simp: authenticate_def)
    then show ?thesis
      by blast
  next
    case False
    then have "authenticate env cfg (rp\<lparr>rp_dispatch := d\<rparr>) peer False frames =
        bindE (audit_failure env peer ''no auth frame'') (\<lambda>_. ret (Inl []))" for d
      by (auto simp: authenticate_def split: list.split frame.split)
    then show ?thesis
      by blast
  qed
  then obtain msgs why where "\<And>d. authenticate env cfg (rp\<lparr>rp_dispatch := d\<rparr>) peer False frames =
      bindE (audit_failure env peer why) (\<lambda>_. ret (Inl msgs))"
    by blast
  with pre show ?thesis
    by (intro exI [of _ why] exI [of _ msgs] allI, simp add: handle_socket_def bindE_assoc, simp add: ret_def [abs_def])
qed

text \<open>
  C5. Without the token (in the header, the query or the first frame), or with pinning on and a peer whose
  certificate is neither pinned nor inside an open enrolment window, a connection never reaches the dispatcher:
  replacing the dispatcher by any other changes nothing. No session is opened and none is counted.
\<close>

theorem no_dispatch_without_token:
  assumes "\<not> presents (rv_audit env) (rc_token cfg) headers q frames \<or> (rc_pin_clients cfg \<and> \<not> admitted env s peer)"
  shows "serve_connection env cfg (rp\<lparr>rp_dispatch := d\<rparr>) peer headers q frames s =
      serve_connection env cfg rp peer headers q frames s \<and>
    (\<forall>seq sent. fst (serve_connection env cfg rp peer headers q frames s) \<noteq> Inr (Session seq sent)) \<and>
    re_sessions (snd (serve_connection env cfg rp peer headers q frames s)) = re_sessions s"
proof -
  obtain r s1 where up: "ws_handler env cfg peer headers s = (r, s1)"
    by (cases "ws_handler env cfg peer headers s")
  have n: "re_sessions s1 = re_sessions s"
    using preserves_snd [OF handshake_keeps_sessions(1), of s "re_sessions s" env cfg peer headers] up by simp
  consider (err) e where "r = Inl e" | (forbidden) why where "r = Inr (Forbidden why)"
    | (upgrade) "r = Inr (Upgrade (echoed_protocol cfg headers) (header_token_ok cfg headers))"
      "rc_pin_clients cfg \<longrightarrow> admitted env s peer"
    using up by (cases r) (auto elim: ws_handler_upgrades)
  then show ?thesis
  proof cases
    case upgrade
    with assms have "\<not> presents (rv_audit env) (rc_token cfg) headers q frames"
      by blast
    then obtain msgs why where run: "\<And>d. handle_socket env cfg (rp\<lparr>rp_dispatch := d\<rparr>) peer q (header_token_ok cfg headers) frames =
        bindE (drain_mtls_peer env cfg peer) (\<lambda>_. bindE (audit_failure env peer why) (\<lambda>_. ret (NoSession msgs)))"
      using handle_socket_no_token by blast
    let ?m = "bindE (drain_mtls_peer env cfg peer) (\<lambda>_. bindE (audit_failure env peer why) (\<lambda>_. ret (NoSession msgs)))"
    have self: "handle_socket env cfg rp peer q (header_token_ok cfg headers) frames = ?m"
      using run [of "rp_dispatch rp"] by simp
    have "preserves (\<lambda>s. re_sessions s = re_sessions s1) ?m"
      unfolding audit_failure_def by (intro preserves_intros handshake_keeps_sessions)
    then have "re_sessions (snd (?m s1)) = re_sessions s1"
      by (rule preserves_snd) simp
    moreover have "fst (?m s1) \<noteq> Inr (Session seq sent)" for seq sent
      by (auto simp: bindE_apply split: prod.splits sum.splits)
    ultimately show ?thesis
      using up upgrade(1) n by (simp add: serve_connection_def bindE_apply run self)
  qed (use up n in \<open>simp_all add: serve_connection_def bindE_apply\<close>)
qed

definition demo_remote_env :: "unit remote_env" where
  "demo_remote_env = \<lparr>rv_audit = demo_env, rv_record = sandbox_record demo_env demo_engine True, rv_unix = (\<lambda>t. t)\<rparr>"

definition demo_remote_config :: remote_config where
  "demo_remote_config = \<lparr>rc_token = ''s3cret'', rc_tls = True, rc_mtls = True, rc_pin_clients = True\<rparr>"

definition demo_rpc :: "(unit, string, string) rpc_env" where
  "demo_rpc =
     \<lparr>rp_parse = Inr, rp_dispatch = (\<lambda>q s. (Inr q, s\<lparr>re_sessions := 0\<rparr>)), rp_parse_error = (\<lambda>e. e), rp_print = Inr,
      rp_ack = (\<lambda>_. ''ok''), rp_auth_failed = ''auth failed'', rp_send_ok = (\<lambda>_. True)\<rparr>"

definition demo_remote :: "tofu_mode \<Rightarrow> unit remote_state" where
  "demo_remote m =
     \<lparr>re_sink = demo_world, re_tofu = m,
      re_peers = [''10.0.0.7:4000'' \<mapsto> \<lparr>mp_cn = Some ''lap'', mp_fingerprint = Some ''ab12''\<rparr>], re_sessions = 4, re_pty = {}\<rparr>"

theorem no_dispatch_without_token_witness:
  "re_sessions (snd (serve_connection demo_remote_env demo_remote_config demo_rpc ''10.0.0.7:4000'' [Some ''Bearer.s3cret'']
     None [TextFrame ''ping''] (demo_remote tofu_disabled))) = 4"
proof -
  have "\<not> admitted demo_remote_env (demo_remote tofu_disabled) ''10.0.0.7:4000''"
    by (simp add: admitted_def demo_remote_def remote_pins_def demo_world_def demo_db_def fresh_db_def tofu_disabled_def
        should_enroll_at_def should_enroll_def)
  then show ?thesis
    using no_dispatch_without_token [of demo_remote_env demo_remote_config "[Some ''Bearer.s3cret'']" None "[TextFrame ''ping'']"
        "demo_remote tofu_disabled" "''10.0.0.7:4000''" "rp_dispatch demo_rpc" demo_rpc]
    by (simp add: demo_remote_config_def demo_remote_def)
qed

section \<open>The enrolment cap\<close>

definition remote_rows :: "'w remote_state \<Rightarrow> pinned_row list" where
  "remote_rows s = pinned_clients (sw_db (re_sink s))"

definition budget :: "tofu_mode \<Rightarrow> nat" where
  "budget m = (case tm_max_enrollments m of Some mx \<Rightarrow> unat mx - unat (tm_current_count m) | None \<Rightarrow> 0)"

text \<open>
  Between upgrades the rows and what is left of the budget stay within \<open>n\<close>. A closed window has no budget
  to spend, whatever its counter says.
\<close>

definition within :: "u32 \<Rightarrow> nat \<Rightarrow> 'w remote_state \<Rightarrow> bool" where
  "within mx n s \<longleftrightarrow>
     tm_max_enrollments (re_tofu s) = Some mx \<and> length (remote_rows s) \<le> n \<and>
     (tm_enabled (re_tofu s) \<longrightarrow> length (remote_rows s) + budget (re_tofu s) \<le> n)"

text \<open>The audit sink an upgrade relies on: it leaves the table of pins alone.\<close>

locale pin_keeping_sink =
  fixes env :: "'w remote_env"
  assumes record_keeps_pins: "preserves (\<lambda>w. pinned_clients (sw_db w) = ps) (rv_record env kind pn ci payload)"
begin

lemma remote_record_within: "preserves (within mx n) (remote_record env kind kvs)"
proof (rule preservesI)
  fix s :: "'w remote_state"
  assume "within mx n s"
  moreover have "pinned_clients (sw_db (snd (rv_record env kind None None (JObject kvs) (re_sink s)))) = pinned_clients (sw_db (re_sink s))"
    by (rule preserves_snd [OF record_keeps_pins]) simp
  ultimately show "within mx n (snd (remote_record env kind kvs s))"
    by (simp add: within_def remote_record_def zoom_apply remote_rows_def)
qed

lemma db_read_within:
  assumes "\<And>d. pinned_clients (snd (m d)) = pinned_clients d"
  shows "preserves (within mx n) (on_remote_db m)"
  by (rule preservesI) (simp add: within_def on_remote_db_def zoom_apply remote_rows_def assms)

lemma tofu_check_within:
  assumes "within mx n s"
  shows "\<exists>b anchor s'. tofu_check now s = (Inr (b, anchor), s') \<and> within mx n s' \<and>
    (b \<longrightarrow> should_enroll (re_tofu s'))"
  using assms
  by (auto simp: tofu_check_def tofu_decide_def record_expiry_def within_def remote_rows_def budget_def
      should_enroll_at_def should_enroll_def split: if_splits)

lemma tofu_enroll_within:
  assumes "within mx n s" "should_enroll (re_tofu s)"
  shows "within mx n (snd (tofu_enroll env peer fp s))"
proof -
  let ?r = "pin_insert (rv_audit env) fp ''tofu-auto'' (sw_db (re_sink s))"
  let ?s = "s\<lparr>re_sink := (re_sink s)\<lparr>sw_db := snd ?r\<rparr>\<rparr>"
  let ?e = "?s\<lparr>re_tofu := record_enrollment (re_tofu s)\<rparr>"
  have rows: "length (remote_rows ?s) = (if fst ?r = Inr True then Suc (length (remote_rows s)) else length (remote_rows s))"
    by (auto simp: remote_rows_def pin_insert_def sql_def Let_def bindE_apply utc_now_def split: option.split)
  have left: "tm_current_count (re_tofu s) < mx"
    using assms by (simp add: within_def should_enroll_def split: if_splits)
  then have top: "tm_current_count (re_tofu s) \<noteq> - 1"
    using word_n1_ge [of mx] by auto
  then have "1 + tm_current_count (re_tofu s) \<noteq> 0"
    by (metis add.commute add_eq_0_iff minus_minus)
  then have "unat (tm_current_count (re_tofu s) + 1) = Suc (unat (tm_current_count (re_tofu s)))"
    using unatSuc by (metis add.commute)
  moreover have "unat (tm_current_count (re_tofu s)) < unat mx"
    using left by (simp add: word_less_nat_alt)
  moreover note top
  ultimately have "within mx n ?e" if "fst ?r = Inr True"
    using assms that rows by (auto simp: within_def record_enrollment_def budget_def should_enroll_def remote_rows_def split: if_splits)
  moreover have "within mx n ?s" if "fst ?r \<noteq> Inr True"
    using assms that rows by (auto simp: within_def)
  ultimately show ?thesis
    by (auto simp: tofu_enroll_def bindE_apply on_remote_db_def zoom_apply attempt_apply
        intro: preserves_snd [OF remote_record_within])
qed

end
context pin_keeping_sink
begin

lemma tofu_path_within: "preserves (within mx n) (tofu_path env peer fp)"
proof (rule preservesI)
  fix s :: "'w remote_state"
  assume "within mx n s"
  define s1 where "s1 = snd ((remote_now :: ('w, timestamp) remote_act) s)"
  obtain now where now: "remote_now s = (Inr now :: panic + timestamp, s1)"
    by (simp add: s1_def remote_now_def on_remote_db_def zoom_apply utc_now_def)
  have "within mx n s1"
    using \<open>within mx n s\<close> by (simp add: s1_def remote_now_def on_remote_db_def zoom_apply utc_now_def within_def remote_rows_def)
  then obtain b anchor s2 where check: "tofu_check (rv_unix env now) s1 = (Inr (b, anchor), s2)" "within mx n s2"
      "b \<longrightarrow> should_enroll (re_tofu s2)"
    using tofu_check_within by blast
  define note_expiry where "note_expiry = (case anchor of
      Some a \<Rightarrow> remote_record env audit_sink_kind.TofuExpired
        [(''peer'', JString peer), (''fingerprint'', JString fp), (''enabled_at'', JInt a), (''expired_at'', JInt (rv_unix env now))]
    | None \<Rightarrow> ret ())"
  obtain r s3 where log: "note_expiry s2 = (r, s3)"
    by (cases "note_expiry s2")
  have "preserves (within mx n) note_expiry"
    unfolding note_expiry_def by (intro preserves_case_option preserves_ret remote_record_within)
  then have s3: "within mx n s3"
    using check(2) log by (rule preservesD)
  have same: "re_tofu s3 = re_tofu s2"
    using log by (auto simp: note_expiry_def remote_record_def zoom_apply split: option.splits)
  have run: "tofu_path env peer fp s = bindE note_expiry (\<lambda>_.
      if b then bindE (tofu_enroll env peer fp) (\<lambda>_. ret True) else bindE (audit_failure_pin env peer (Some fp)) (\<lambda>_. ret False)) s2"
    unfolding tofu_path_def note_expiry_def by (simp add: bindE_apply [of remote_now] bindE_apply [of "tofu_check now'" for now'] now check(1))
  show "within mx n (snd (tofu_path env peer fp s))"
  proof (cases b)
    case True
    with check(3) same have "within mx n (snd (tofu_enroll env peer fp s3))"
      by (intro tofu_enroll_within s3) simp
    with True s3 log show ?thesis
      unfolding run by (auto simp: bindE_apply split: sum.split prod.split)
  next
    case False
    moreover have "preserves (within mx n) (bindE (audit_failure_pin env peer (Some fp)) (\<lambda>_. ret False))"
      unfolding audit_failure_pin_def by (intro preserves_bindE preserves_ret remote_record_within)
    from preserves_snd [OF this s3] have "within mx n (snd (bindE (audit_failure_pin env peer (Some fp)) (\<lambda>_. ret False) s3))" .
    ultimately show ?thesis
      using s3 log unfolding run by (simp add: bindE_apply [of note_expiry] split: sum.split)
  qed
qed

lemma check_pin_within: "preserves (within mx n) (check_pin env peer)"
  unfolding check_pin_def audit_failure_pin_def
  by (intro preserves_bindE preserves_gets preserves_case_option preserves_if preserves_ret remote_record_within
      tofu_path_within db_read_within)
    (auto simp: pin_contains_def bindE_apply attempt_apply sql_def Let_def split: option.split)

lemma ws_handler_within: "preserves (within mx n) (ws_handler env cfg peer headers)"
  unfolding ws_handler_def by (intro preserves_bindE preserves_if preserves_ret check_pin_within)

end

text \<open>The sandbox sink is such a sink: it writes to the log only.\<close>

lemma sandbox_record_keeps_pins:
  fixes eng :: "'a wasm_engine"
  shows "preserves (\<lambda>w. pinned_clients (sw_db w) = ps) (sandbox_record aenv eng j kind pn ci payload)"
proof (rule preservesI)
  fix w :: "'a sink_world"
  assume "pinned_clients (sw_db w) = ps"
  then show "pinned_clients (sw_db (snd (sandbox_record aenv eng j kind pn ci payload w))) = ps"
    using sandbox_record_log_only [of w aenv eng j kind pn ci payload] by (auto simp: log_only_def)
qed

definition sandboxed :: "audit_env \<Rightarrow> 'w wasm_engine \<Rightarrow> bool \<Rightarrow> (timestamp \<Rightarrow> int) \<Rightarrow> 'w remote_env" where
  "sandboxed aenv eng j unix = \<lparr>rv_audit = aenv, rv_record = sandbox_record aenv eng j, rv_unix = unix\<rparr>"

interpretation sandboxed_upgrade: pin_keeping_sink "sandboxed aenv eng j unix" for aenv eng j unix
  by unfold_locales (simp add: sandboxed_def sandbox_record_keeps_pins)

definition upgrades :: "'w remote_env \<Rightarrow> remote_config \<Rightarrow> (string \<times> string option list) list \<Rightarrow> ('w, unit) remote_act" where
  "upgrades env cfg conns = for_each (\<lambda>(peer, headers). bindE (ws_handler env cfg peer headers) (\<lambda>_. ret ())) conns"

text \<open>
  C24. Upgrades that are served one after the other enrol no more certificates than the budget that was left
  when they started, whoever the peers are, however often the window expires meanwhile and whichever
  database statements fail.
\<close>

theorem enrolments_within_cap:
  assumes "tm_max_enrollments (re_tofu s) = Some mx"
  shows "length (remote_rows (snd (upgrades (sandboxed aenv eng j unix) cfg conns s))) \<le>
    length (remote_rows s) + (unat mx - unat (tm_current_count (re_tofu s)))"
proof -
  let ?n = "length (remote_rows s) + (unat mx - unat (tm_current_count (re_tofu s)))"
  have "within mx ?n s"
    using assms by (simp add: within_def budget_def)
  moreover have "preserves (within mx ?n) (upgrades (sandboxed aenv eng j unix) cfg conns)"
    unfolding upgrades_def
    by (intro preserves_for_each preserves_case_prod preserves_bindE preserves_ret sandboxed_upgrade.ws_handler_within)
  ultimately have "within mx ?n (snd (upgrades (sandboxed aenv eng j unix) cfg conns s))"
    by (rule preserves_snd [rotated])
  then show ?thesis
    by (simp add: within_def)
qed

definition demo_tofu :: tofu_mode where
  "demo_tofu = tofu_disabled\<lparr>tm_enabled := True, tm_max_enrollments := Some 1\<rparr>"

theorem enrolments_within_cap_witness:
  "length (remote_rows (snd (upgrades (sandboxed demo_env demo_engine True (\<lambda>t. t)) demo_remote_config
     [(''10.0.0.7:4000'', []), (''10.0.0.8:4000'', [])] (demo_remote demo_tofu)))) \<le> 1"
  using enrolments_within_cap [of "demo_remote demo_tofu" 1 demo_env demo_engine True "\<lambda>t. t" demo_remote_config
      "[(''10.0.0.7:4000'', []), (''10.0.0.8:4000'', [])]"]
  by (simp add: demo_remote_def demo_tofu_def tofu_disabled_def remote_rows_def demo_world_def demo_db_def fresh_db_def)

section \<open>Where the code falls short\<close>

text \<open>
  Two upgrades that consult the mode before either has counted its enrolment are both let in: the lock is
  released between the decision and the increment, so concurrent upgrades go past the cap.
\<close>

lemma interleaved_upgrades_pass_cap:
  assumes "should_enroll_at m now" "tm_max_enrollments m = Some (tm_current_count m + 1)" "tm_current_count m < - 2"
  shows "\<exists>m1 m2. tofu_decide now m = ((True, None), m1) \<and> tofu_decide now m1 = ((True, None), m2) \<and>
    tm_current_count (record_enrollment (record_enrollment m2)) > tm_current_count m + 1"
proof -
  have nat: "unat (tm_current_count m) < 2 ^ 32 - 2"
    using assms(3) by (simp add: word_less_nat_alt)
  have "\<not> is_expired_at m now"
    using assms(1) expired_not_enrolled by blast
  then have dec: "tofu_decide now m = ((True, None), m)"
    using assms(1) by (simp add: tofu_decide_def)
  have "tm_current_count m \<noteq> - 1" "tm_current_count m \<noteq> - 2"
    using assms(3) by auto
  then have next_values: "tm_current_count m \<noteq> - 1" "tm_current_count m + 1 \<noteq> - 1"
    by (auto simp: eq_diff_eq [symmetric])
  have "tm_current_count (record_enrollment (record_enrollment m)) = tm_current_count m + 2"
    using next_values by (simp add: record_enrollment_def)
  moreover have "tm_current_count m + 2 > tm_current_count m + 1"
    using nat by (simp add: word_less_nat_alt unat_plus_simple unat_word_ariths)
  ultimately show ?thesis
    using dec by auto
qed

text \<open>
  An upgrade inside the window goes through also when its certificate could not be stored: the failed
  insert is read as a row that was already there. The peer is let in, but it is neither pinned nor counted.
\<close>

theorem failed_enrolment_admits:
  assumes "Option.bind (re_peers s peer) mp_fingerprint = Some fp" "fp \<notin> remote_pins s"
    and "should_enroll_at (re_tofu s) (upgrade_time env s)"
    and "fault (sw_db (re_sink s)) (Suc (ops (sw_db (re_sink s)))) = Some e"
  shows "\<exists>s'. ws_handler env cfg peer headers s = (Inr (Upgrade (echoed_protocol cfg headers) (header_token_ok cfg headers)), s') \<and>
    remote_pins s' = remote_pins s \<and> re_tofu s' = re_tofu s"
proof (cases "rc_pin_clients cfg")
  case True
  let ?d = "sw_db (re_sink s)"
  let ?at = "\<lambda>d. s\<lparr>re_sink := (re_sink s)\<lparr>sw_db := d\<rparr>\<rparr>"
  let ?d1 = "?d\<lparr>ops := Suc (ops ?d)\<rparr>"
  let ?d2 = "?d1\<lparr>ticks := Suc (ticks ?d)\<rparr>"
  let ?d3 = "?d2\<lparr>ops := Suc (Suc (ops ?d))\<rparr>"
  have contains: "on_remote_db (pin_contains fp) s = (Inr False :: panic + bool, ?at ?d1)"
    using assms(2) by (auto simp: on_remote_db_def zoom_apply pin_contains_def bindE_apply attempt_apply sql_def Let_def remote_pins_def
        split: option.split)
  have now: "remote_now (?at ?d1) = (Inr (clock ?d (ticks ?d)) :: panic + timestamp, ?at ?d2)"
    by (simp add: remote_now_def on_remote_db_def zoom_apply utc_now_def)
  have check: "tofu_check (rv_unix env (clock ?d (ticks ?d))) (?at ?d2) = (Inr (True, None), ?at ?d2)"
    using assms(3) expired_not_enrolled by (auto simp: tofu_check_def tofu_decide_def upgrade_time_def Let_def)
  have enroll: "tofu_enroll env peer fp (?at ?d2) = (Inr (), ?at ?d3)"
    using assms(4) by (simp add: tofu_enroll_def bindE_apply on_remote_db_def zoom_apply attempt_apply pin_insert_def sql_def)
  have "tofu_path env peer fp (?at ?d1) = (Inr True, ?at ?d3)"
    unfolding tofu_path_def by (simp add: bindE_apply now check enroll del: fun_upd_apply)
  then have "check_pin env peer s = (Inr True, ?at ?d3)"
    unfolding check_pin_def using assms(1) by (simp add: bindE_apply contains)
  then show ?thesis
    using True by (simp add: ws_handler_def bindE_apply remote_pins_def)
next
  case False
  then show ?thesis
    by (simp add: ws_handler_def)
qed

definition failing_insert :: "unit remote_state" where
  "failing_insert = (demo_remote demo_tofu)\<lparr>re_sink := demo_world\<lparr>sw_db := demo_db\<lparr>fault := [1 \<mapsto> ''disk I/O error'']\<rparr>\<rparr>\<rparr>"

theorem failed_enrolment_admits_witness:
  "\<exists>s'. ws_handler demo_remote_env demo_remote_config ''10.0.0.7:4000'' [] failing_insert = (Inr (Upgrade None False), s') \<and>
     remote_pins s' = {} \<and> re_tofu s' = demo_tofu"
proof -
  have none: "header_token_ok demo_remote_config [] = False" "echoed_protocol demo_remote_config [] = None"
    by (simp_all add: header_token_ok_def echoed_protocol_def)
  have "remote_pins failing_insert = {}" "re_tofu failing_insert = demo_tofu"
    by (simp_all add: failing_insert_def remote_pins_def demo_db_def fresh_db_def demo_remote_def)
  moreover have "should_enroll_at demo_tofu now" for now
    by (simp add: demo_tofu_def tofu_disabled_def should_enroll_at_def should_enroll_def)
  moreover have "Option.bind (re_peers failing_insert ''10.0.0.7:4000'') mp_fingerprint = Some ''ab12''"
    "fault (sw_db (re_sink failing_insert)) (Suc (ops (sw_db (re_sink failing_insert)))) = Some ''disk I/O error''"
    by (simp_all add: failing_insert_def demo_remote_def demo_world_def demo_db_def fresh_db_def)
  ultimately show ?thesis
    using failed_enrolment_admits [of failing_insert "''10.0.0.7:4000''" "''ab12''" demo_remote_env "''disk I/O error''"
        demo_remote_config "[]"]
    by (simp add: none)
qed

text \<open>The terminal route never looks at the certificate: the token alone opens it, pinning on or off.\<close>

lemma tokens_ignore_pinning [simp]:
  "header_token_ok (cfg\<lparr>rc_pin_clients := b\<rparr>) headers = header_token_ok cfg headers"
  "echoed_protocol (cfg\<lparr>rc_pin_clients := b\<rparr>) headers = echoed_protocol cfg headers"
  "query_token_ok (cfg\<lparr>rc_pin_clients := b\<rparr>) q = query_token_ok cfg q"
  by (simp_all add: header_token_ok_iff query_token_ok_iff echoed_protocol_def)

lemma terminal_route_ignores_pinning:
  "pty_ws_handler env (cfg\<lparr>rc_pin_clients := b\<rparr>) bridge headers q = pty_ws_handler env cfg bridge headers q"
  unfolding pty_ws_handler_def tokens_ignore_pinning ..

end
