(* ===== verification/Spec2Isabelle.thy ===== *)
theory Spec2Isabelle
  imports Mount_Args Mcp_Bridge_Safety Approval_Gateways Sec_Profile Key_Rotation Remote_Access
begin

text \<open>
  A verification library for linpodx, a daemon that runs containers through podman under sandbox
  profiles, with an audit log, plugins, an MCP bridge, egress filters, a remote listener and encrypted
  snapshots. All paths below are under
  \<^verbatim>\<open>src/crates/\<close>.

  \<^bold>\<open>The program.\<close> A client asks the daemon to create a container under a named profile. The sandbox
  manager looks the profile up, asks the policy engine, asks an approval gateway about everything the
  policy wants approved, compiles the profile's seccomp, AppArmor and SELinux parts, and hands the
  options to the podman adapter. Every decision is appended to a hash-chained audit log through a sink
  that plugins may filter. Plugins are WebAssembly modules installed after a signature check against a
  registry of publisher keys that can be revoked. An MCP bridge pumps JSON-RPC lines between a host
  process and a container and decides every line by a policy table. Egress is filtered twice: a DNS server
  answers only for hosts of an allowlist, and a privileged helper loads a packet filter into the container's
  network namespace. Remote clients connect over TLS with a token and, if so configured, a pinned
  certificate. Snapshots are images that can be encrypted at rest and re-encrypted under a new key.

  \<^bold>\<open>How code is modelled.\<close> A Rust function that changes state is a function from a state to a result and
  a new state (type \<^verbatim>\<open>act\<close> of theory \<^verbatim>\<open>Prelude\<close>), \<^verbatim>\<open>?\<close> is \<^verbatim>\<open>bindE\<close>, \<^verbatim>\<open>map_err\<close> is \<^verbatim>\<open>map_err\<close>, and a result that
  is only logged is \<^verbatim>\<open>attempt\<close>. Errors are values of the code's own enums. Strings are their UTF-8 bytes,
  machine integers are words, the keys of SQLite rows are integers with the limit written out. The
  database fails at the statements a fault plan names, so every theorem covers every pattern of database
  errors; the file system fails at the places its error maps name. Concurrent components are step
  relations, and what holds in every reachable state is proved once in the locale \<^verbatim>\<open>state_machine\<close> and its
  interpretations.

  \<^bold>\<open>Theories, bottom up.\<close>
  \<^item> \<^verbatim>\<open>Prelude\<close>, \<^verbatim>\<open>Text_Split\<close>, \<^verbatim>\<open>Files\<close>: effects, reachability, codecs, bytes, hex, decimal numbers, the parts of
    \<^verbatim>\<open>std::str\<close>, \<^verbatim>\<open>std::path\<close> and \<^verbatim>\<open>std::fs\<close> the code uses.
  \<^item> \<^verbatim>\<open>Common\<close>, \<^verbatim>\<open>Mount_Args\<close>, \<^verbatim>\<open>Database\<close>: \<^verbatim>\<open>linpodx-common\<close> types and codecs, the \<^verbatim>\<open>--publish\<close> and \<^verbatim>\<open>--volume\<close>
    forms with their round trips, tables and transactions.
  \<^item> \<^verbatim>\<open>Audit_Kind\<close>, \<^verbatim>\<open>Audit_Sink_Kind\<close>, \<^verbatim>\<open>Audit_Log\<close>, \<^verbatim>\<open>Audit_Chain\<close>: \<^verbatim>\<open>linpodx-sandbox/src/audit.rs\<close>. A log that was only
    appended to verifies, the hash input is unambiguous, the head hash commits to the whole log up to a
    SHA-256 collision, and verification reports the first broken link.
  \<^item> \<^verbatim>\<open>Audit_Sink\<close>, \<^verbatim>\<open>Audit_Sink_Contract\<close>: \<^verbatim>\<open>mcp_audit.rs\<close>, \<^verbatim>\<open>audit_sink.rs\<close>; the locale \<^verbatim>\<open>audit_sink\<close> is the contract of a sink,
    interpreted for the sandbox sink, the no-op sink and the frame that only the log changes.
  \<^item> \<^verbatim>\<open>Plugin_Host\<close>, \<^verbatim>\<open>Plugin_Registry\<close>, \<^verbatim>\<open>Plugin_Chains\<close>: \<^verbatim>\<open>linpodx-plugin\<close> host functions, loader and chains. Guest memory
    is accessed in bounds only, the chains compute their specification, injected options pass the filter.
  \<^item> \<^verbatim>\<open>Key_Registry\<close>, \<^verbatim>\<open>Plugin_Install\<close>, \<^verbatim>\<open>Plugin_Store\<close>: keys, revocation, manifests, signatures and the store. Lookups
    stay in the key directories, a revocation is final and converges, what is installed was verified.
  \<^item> \<^verbatim>\<open>Policy\<close>, \<^verbatim>\<open>Profile\<close>, \<^verbatim>\<open>Manager\<close>, \<^verbatim>\<open>Manager_Safety\<close>: \<^verbatim>\<open>schema.rs\<close>, \<^verbatim>\<open>policy.rs\<close>, \<^verbatim>\<open>profile.rs\<close>, \<^verbatim>\<open>manager.rs\<close>. Denials, gates and
    enforced options are characterised, a create succeeds only with every grant, the log stays whole.
  \<^item> \<^verbatim>\<open>Sec_Profile\<close>: \<^verbatim>\<open>secprofile.rs\<close>. The compiler stays in its cache directory and hands out the current
    allowlist.
  \<^item> \<^verbatim>\<open>Approval\<close>, \<^verbatim>\<open>Approval_Gateways\<close>: \<^verbatim>\<open>linpodx-daemon/src/approval.rs\<close> as interleaved steps. A grant comes from a
    listener, every request ends, and the plugin gateway takes the strictest vote. The locale
    \<^verbatim>\<open>approval_gateway\<close> is the trait of the same name.
  \<^item> \<^verbatim>\<open>Mcp_Protocol\<close>, \<^verbatim>\<open>Mcp_Store\<close>, \<^verbatim>\<open>Mcp_Bridge\<close>, \<^verbatim>\<open>Mcp_Bridge_Safety\<close>: \<^verbatim>\<open>linpodx-mcp\<close> and the policy table. The policy is a
    gate for every line it is consulted on, and every line is recorded as what was done with it.
  \<^item> \<^verbatim>\<open>Podman\<close>: \<^verbatim>\<open>linpodx-runtime/src/podman.rs\<close> and \<^verbatim>\<open>passthrough.rs\<close>: argument vectors and process results.
  \<^item> \<^verbatim>\<open>Snapshot_Crypto\<close>, \<^verbatim>\<open>Snapshot_Vault\<close>, \<^verbatim>\<open>Key_Rotation\<close>: \<^verbatim>\<open>snapshot_crypto.rs\<close>, the side-car part of
    \<^verbatim>\<open>snapshot.rs\<close> and \<^verbatim>\<open>snapshot_key_rotation.rs\<close>. What was sealed restores, a rotation keeps the content,
    rotating all keys loses no blob, and a rotation that fails between its two files locks the image.
  \<^item> \<^verbatim>\<open>Ip_Addr\<close>, \<^verbatim>\<open>Text_Lines\<close>, \<^verbatim>\<open>Nft_Rules\<close>: \<^verbatim>\<open>std::net\<close> addresses, lines of a text, and \<^verbatim>\<open>linpodx-netfilter\<close>, the
    privileged helper. The script it loads drops by default and accepts the requested rules only, unless
    an address smuggles in lines of its own, which one with a slash can.
  \<^item> \<^verbatim>\<open>Egress\<close>: \<^verbatim>\<open>network_filter.rs\<close> and \<^verbatim>\<open>egress_enforcer.rs\<close>. The allowlist matches whole labels, answers pass the
    plugins and the allowlist, and an applied ruleset is the script of the rules no plugin denied. The locale
    \<^verbatim>\<open>plugin_audit_sink\<close> extends the sink's contract.
  \<^item> \<^verbatim>\<open>Pin_Store\<close>, \<^verbatim>\<open>Remote_Access\<close>: \<^verbatim>\<open>pin_store.rs\<close>, \<^verbatim>\<open>dispatch/pin_clients.rs\<close> and \<^verbatim>\<open>remote.rs\<close>. No connection reaches
    the dispatcher without the token and, with pinning, an admitted certificate; upgrades in sequence keep
    to the enrolment cap. The locale \<^verbatim>\<open>pin_keeping_sink\<close> is what an upgrade needs of the audit sink.

  \<^bold>\<open>Parameters and hypotheses.\<close> Code outside the repository is an argument: SHA-256, ed25519, AES-GCM,
  Argon2, base64, serde (JSON, YAML, TOML), the wasm engine, chrono's formats, podman, nft, DNS resolvers,
  the TLS and WebSocket libraries and the SELinux and AppArmor tools. A theorem that relies on one names what it relies on: that opening undoes sealing,
  that a decoder reads what its encoder wrote, that a tool writes only the files it is told to, that two
  given texts do not collide. Each such theorem has a witness at a concrete instance.

  \<^bold>\<open>Termination and bounds.\<close> All model functions are total; no fuel is used. Loops are structural
  recursion or have a measure (the UTF-8 decoder and the trimming functions). Waiting is a step relation,
  and that a request ends is proved with a measure on its remaining steps.

  \<^bold>\<open>Not modelled.\<close> The command line, desktop and web clients (rendering and one call per command); start-up
  and the binding of sockets; TLS configuration and the acceptor (calls into rustls) and the pumping of
  terminal bytes; the dispatch table apart from the handlers named above; cluster consensus (openraft) and
  gossip; distribution templates; session and snapshot rows around one backend call each; decoding of
  podman's JSON; live statistics. Logging calls have no effect in the model, symbolic links are not part of
  the file system, and the memory model of the asynchronous runtime is sequentially consistent steps.
\<close>

end
